(* ===== verification/Prelude.thy ===== *)
theory Prelude
  imports Main "HOL-Library.Word" "HOL-Library.List_Lexorder" "HOL-Library.Char_ord"
begin

text \<open>
  Vocabulary shared by every component of the Tinkerbell development: Go strings as byte
  lists with the parts of package \<open>strings\<close> the sources use, Go errors as values with the
  text they print, time and 64-bit durations, and first-match search in a slice.

  A Go string is a sequence of bytes, so it is modelled by \<open>string\<close> (a list of
  8-bit characters) and \<open>length\<close> counts bytes, as \<open>len\<close> does.
\<close>

named_theorems go_split \<open>case rules for the results of fallible calls\<close>
named_theorems go_text \<open>equations that print errors and numbers\<close>
named_theorems step_simps \<open>unfolding rules for the handlers of a component\<close>

declare if_splits [go_split] option.splits [go_split] sum.splits [go_split] prod.splits [go_split]


section \<open>Strings\<close>

definition has_prefix :: "string \<Rightarrow> string \<Rightarrow> bool" where
  "has_prefix p s \<longleftrightarrow> take (length p) s = p"

definition has_suffix :: "string \<Rightarrow> string \<Rightarrow> bool" where
  "has_suffix p s \<longleftrightarrow> has_prefix (rev p) (rev s)"

fun contains_str :: "string \<Rightarrow> string \<Rightarrow> bool" where
  "contains_str p [] = (p = [])"
| "contains_str p (c # s) = (has_prefix p (c # s) \<or> contains_str p s)"

text \<open>\<open>strings.Cut\<close> at a one-byte separator: the parts before and after its first occurrence,
  and whether it occurs.\<close>

fun cut_char :: "char \<Rightarrow> string \<Rightarrow> string \<times> string \<times> bool" where
  "cut_char sep [] = ([], [], False)"
| "cut_char sep (c # s) =
     (if c = sep then ([], s, True)
      else case cut_char sep s of (a, b, f) \<Rightarrow> (c # a, b, f))"

fun join_str :: "string \<Rightarrow> string list \<Rightarrow> string" where
  "join_str sep [] = []"
| "join_str sep [s] = s"
| "join_str sep (s # t # ss) = s @ sep @ join_str sep (t # ss)"

definition is_lower :: "char \<Rightarrow> bool" where
  "is_lower c \<longleftrightarrow> CHR ''a'' \<le> c \<and> c \<le> CHR ''z''"

definition is_upper :: "char \<Rightarrow> bool" where
  "is_upper c \<longleftrightarrow> CHR ''A'' \<le> c \<and> c \<le> CHR ''Z''"

definition is_digit :: "char \<Rightarrow> bool" where
  "is_digit c \<longleftrightarrow> CHR ''0'' \<le> c \<and> c \<le> CHR ''9''"

definition lower_char :: "char \<Rightarrow> char" where
  "lower_char c = (if is_upper c then char_of (of_char c + (32 :: nat)) else c)"

definition to_lower :: "string \<Rightarrow> string" where
  "to_lower s = map lower_char s"

fun string_of_nat :: "nat \<Rightarrow> string" where
  "string_of_nat n =
     (if n < 10 then [char_of (n + 48)]
      else string_of_nat (n div 10) @ [char_of (n mod 10 + 48)])"

declare string_of_nat.simps [simp del]

definition string_of_int :: "int \<Rightarrow> string" where
  "string_of_int i = (if i < 0 then CHR ''-'' # string_of_nat (nat (- i)) else string_of_nat (nat i))"

definition string_of_bool :: "bool \<Rightarrow> string" where
  "string_of_bool b = (if b then ''true'' else ''false'')"

lemma has_prefix_iff: "has_prefix p s \<longleftrightarrow> (\<exists>t. s = p @ t)"
  unfolding has_prefix_def by (metis append_eq_conv_conj append_take_drop_id)

lemma has_suffix_iff: "has_suffix p s \<longleftrightarrow> (\<exists>t. s = t @ p)"
  unfolding has_suffix_def has_prefix_iff
  by (metis rev_append rev_rev_ident)

lemma contains_str_iff: "contains_str p s \<longleftrightarrow> (\<exists>a b. s = a @ p @ b)"
proof (induction s)
  case Nil
  show ?case by simp
next
  case (Cons c s)
  show ?case
  proof
    assume "contains_str p (c # s)"
    then consider "has_prefix p (c # s)" | "contains_str p s" by auto
    then show "\<exists>a b. c # s = a @ p @ b"
    proof cases
      case 1
      then show ?thesis by (metis append_Nil has_prefix_iff)
    next
      case 2
      with Cons.IH obtain a b where "s = a @ p @ b" by blast
      then have "c # s = (c # a) @ p @ b" by simp
      then show ?thesis by blast
    qed
  next
    assume "\<exists>a b. c # s = a @ p @ b"
    then obtain a b where ab: "c # s = a @ p @ b" by blast
    show "contains_str p (c # s)"
    proof (cases a)
      case Nil
      with ab have "has_prefix p (c # s)" by (auto simp: has_prefix_iff)
      then show ?thesis by simp
    next
      case (Cons d a')
      with ab have "s = a' @ p @ b" by simp
      with Cons.IH show ?thesis by auto
    qed
  qed
qed

lemma cut_char_found: "sep \<notin> set a \<Longrightarrow> cut_char sep (a @ sep # b) = (a, b, True)"
  by (induction a) auto

lemma cut_char_missing: "sep \<notin> set s \<Longrightarrow> cut_char sep s = (s, [], False)"
  by (induction s) auto

lemma string_of_nat_nonempty [simp]: "string_of_nat n \<noteq> []"
  by (subst string_of_nat.simps) simp

lemma digit_chars [go_text]:
  "char_of (48 :: nat) = CHR ''0''" "char_of (49 :: nat) = CHR ''1''" "char_of (50 :: nat) = CHR ''2''"
  "char_of (51 :: nat) = CHR ''3''" "char_of (52 :: nat) = CHR ''4''" "char_of (53 :: nat) = CHR ''5''"
  "char_of (54 :: nat) = CHR ''6''" "char_of (55 :: nat) = CHR ''7''" "char_of (56 :: nat) = CHR ''8''"
  "char_of (57 :: nat) = CHR ''9''"
  by code_simp+

lemma length_to_lower [simp]: "length (to_lower s) = length s"
  by (simp add: to_lower_def)


section \<open>Errors\<close>

text \<open>
  A Go error is a value. The constructors are the ways the sources make one: an API-server
  status with its reason, \<open>errors.New\<close> or a \<open>fmt.Errorf\<close> without \<open>%w\<close>, a
  \<open>fmt.Errorf\<close> that wraps an error between two pieces of text, \<open>errors.Join\<close>, a gRPC
  status, and the hardware lookup errors of the backends, which carry the methods
  \<open>NotFound()\<close> and \<open>MultipleFound()\<close>; the not-found error of the Kubernetes backend is also
  an API status. \<open>Wrap2Error\<close> is a \<open>fmt.Errorf\<close> that wraps two errors. \<open>PanicError\<close> is not an error of Go: it
  stands for a run-time panic that leaves the function. The two context errors, the agent's
  errors for a missing workflow or action, \<open>backoff.Permanent\<close> and the aggregates of the
  Kubernetes utilities complete the list.
\<close>

datatype api_reason = ReasonNotFound | ReasonConflict | ReasonAlreadyExists | ReasonOther

datatype grpc_code =
    CodeUnknown | CodeUnavailable | CodeInvalidArgument | CodeNotFound | CodeFailedPrecondition | CodeInternal

datatype gerr =
    ApiError api_reason string
  | NewError string
  | WrapError string gerr string
  | JoinError "gerr list"
  | StatusError grpc_code string
  | HardwareNotFoundError string
  | KubeHardwareNotFoundError string
  | MultipleHardwareError string
  | PanicError string
  | ContextCanceled
  | DeadlineExceeded
  | NoWorkflowError
  | NoActionsError string gerr
  | PermanentError gerr
  | AggregateError "gerr list"
  | Wrap2Error gerr string gerr

fun code_text :: "grpc_code \<Rightarrow> string" where
  "code_text CodeUnknown = ''Unknown''"
| "code_text CodeUnavailable = ''Unavailable''"
| "code_text CodeInvalidArgument = ''InvalidArgument''"
| "code_text CodeNotFound = ''NotFound''"
| "code_text CodeFailedPrecondition = ''FailedPrecondition''"
| "code_text CodeInternal = ''Internal''"

text \<open>An aggregate prints every message once, in brackets if there is more than one.\<close>

definition aggregate_text :: "string list \<Rightarrow> string" where
  "aggregate_text ms =
     (let us = rev (remdups (rev ms)) in
      case us of [m] \<Rightarrow> m | _ \<Rightarrow> ''['' @ join_str '', '' us @ '']'')"

text \<open>\<open>Error()\<close>: the text an error prints.\<close>

fun err_text :: "gerr \<Rightarrow> string" where
  "err_text (ApiError r t) = t"
| "err_text (NewError t) = t"
| "err_text (WrapError a e b) = a @ err_text e @ b"
| "err_text (JoinError es) = join_str [char_of (10 :: nat)] (map err_text es)"
| "err_text (StatusError c t) = ''rpc error: code = '' @ code_text c @ '' desc = '' @ t"
| "err_text (HardwareNotFoundError t) = t"
| "err_text (KubeHardwareNotFoundError t) = t"
| "err_text (MultipleHardwareError t) = t"
| "err_text (PanicError t) = t"
| "err_text ContextCanceled = ''context canceled''"
| "err_text DeadlineExceeded = ''context deadline exceeded''"
| "err_text NoWorkflowError = ''No workflow found''"
| "err_text (NoActionsError t e) = t @ '': '' @ err_text e"
| "err_text (PermanentError e) = err_text e"
| "err_text (AggregateError es) = aggregate_text (map err_text es)"
| "err_text (Wrap2Error e t f) = err_text e @ t @ err_text f"

text \<open>
  \<open>errors.As\<close> walks the tree of wrapped errors in pre-order and stops at the first match.
  The API helpers \<open>IsNotFound\<close>, \<open>IsConflict\<close> and \<open>IsAlreadyExists\<close> look at the reason of
  the first API status found.
\<close>

fun api_reason_of :: "gerr \<Rightarrow> api_reason option" and api_reason_of_list :: "gerr list \<Rightarrow> api_reason option" where
  "api_reason_of (ApiError r t) = Some r"
| "api_reason_of (NewError t) = None"
| "api_reason_of (WrapError a e b) = api_reason_of e"
| "api_reason_of (JoinError es) = api_reason_of_list es"
| "api_reason_of (StatusError c t) = None"
| "api_reason_of (HardwareNotFoundError t) = None"
| "api_reason_of (KubeHardwareNotFoundError t) = Some ReasonNotFound"
| "api_reason_of (MultipleHardwareError t) = None"
| "api_reason_of (PanicError t) = None"
| "api_reason_of ContextCanceled = None"
| "api_reason_of DeadlineExceeded = None"
| "api_reason_of NoWorkflowError = None"
| "api_reason_of (NoActionsError t e) = api_reason_of e"
| "api_reason_of (PermanentError e) = api_reason_of e"
| "api_reason_of (AggregateError es) = None"
| "api_reason_of (Wrap2Error e t f) = (case api_reason_of e of Some r \<Rightarrow> Some r | None \<Rightarrow> api_reason_of f)"
| "api_reason_of_list [] = None"
| "api_reason_of_list (e # es) = (case api_reason_of e of Some r \<Rightarrow> Some r | None \<Rightarrow> api_reason_of_list es)"

definition IsNotFound :: "gerr \<Rightarrow> bool" where
  "IsNotFound e \<longleftrightarrow> api_reason_of e = Some ReasonNotFound"

definition IsConflict :: "gerr \<Rightarrow> bool" where
  "IsConflict e \<longleftrightarrow> api_reason_of e = Some ReasonConflict"

definition IsAlreadyExists :: "gerr \<Rightarrow> bool" where
  "IsAlreadyExists e \<longleftrightarrow> api_reason_of e = Some ReasonAlreadyExists"

text \<open>\<open>errors.As\<close> with a target that has the method \<open>NotFound\<close> or \<open>MultipleFound\<close>.\<close>

fun has_not_found :: "gerr \<Rightarrow> bool" where
  "has_not_found (HardwareNotFoundError t) = True"
| "has_not_found (KubeHardwareNotFoundError t) = True"
| "has_not_found (Wrap2Error e t f) = (has_not_found e \<or> has_not_found f)"
| "has_not_found (WrapError a e b) = has_not_found e"
| "has_not_found (JoinError es) = list_ex has_not_found es"
| "has_not_found (NoActionsError t e) = has_not_found e"
| "has_not_found (PermanentError e) = has_not_found e"
| "has_not_found e = False"

fun has_multiple_found :: "gerr \<Rightarrow> bool" where
  "has_multiple_found (MultipleHardwareError t) = True"
| "has_multiple_found (Wrap2Error e t f) = (has_multiple_found e \<or> has_multiple_found f)"
| "has_multiple_found (WrapError a e b) = has_multiple_found e"
| "has_multiple_found (JoinError es) = list_ex has_multiple_found es"
| "has_multiple_found (NoActionsError t e) = has_multiple_found e"
| "has_multiple_found (PermanentError e) = has_multiple_found e"
| "has_multiple_found e = False"

text \<open>\<open>errors.Is\<close> with one of the two context errors.\<close>

fun errors_Is :: "gerr \<Rightarrow> gerr \<Rightarrow> bool" where
  "errors_Is target (WrapError a e b) = (target = WrapError a e b \<or> errors_Is target e)"
| "errors_Is target (JoinError es) = (target = JoinError es \<or> list_ex (errors_Is target) es)"
| "errors_Is target (NoActionsError t e) = (target = NoActionsError t e \<or> errors_Is target e)"
| "errors_Is target (PermanentError e) = (target = PermanentError e \<or> errors_Is target e)"
| "errors_Is target (AggregateError es) = (target = AggregateError es \<or> list_ex (errors_Is target) es)"
| "errors_Is target (Wrap2Error e t f) = (target = Wrap2Error e t f \<or> errors_Is target e \<or> errors_Is target f)"
| "errors_Is target e = (target = e)"

text \<open>\<open>status.Code\<close>: the code of the first gRPC status in the error, \<open>Unknown\<close> if there is none.\<close>

fun grpc_status_of :: "gerr \<Rightarrow> grpc_code option" and grpc_status_of_list :: "gerr list \<Rightarrow> grpc_code option" where
  "grpc_status_of (StatusError c t) = Some c"
| "grpc_status_of (WrapError a e b) = grpc_status_of e"
| "grpc_status_of (JoinError es) = grpc_status_of_list es"
| "grpc_status_of (NoActionsError t e) = grpc_status_of e"
| "grpc_status_of (PermanentError e) = grpc_status_of e"
| "grpc_status_of (Wrap2Error e t f) = (case grpc_status_of e of Some c \<Rightarrow> Some c | None \<Rightarrow> grpc_status_of f)"
| "grpc_status_of e = None"
| "grpc_status_of_list [] = None"
| "grpc_status_of_list (e # es) = (case grpc_status_of e of Some c \<Rightarrow> Some c | None \<Rightarrow> grpc_status_of_list es)"

definition status_code :: "gerr \<Rightarrow> grpc_code" where
  "status_code e = (case grpc_status_of e of Some c \<Rightarrow> c | None \<Rightarrow> CodeUnknown)"

text \<open>A panic leaves every function on the way up.\<close>

fun is_panic :: "gerr \<Rightarrow> bool" where
  "is_panic (PanicError t) = True"
| "is_panic e = False"

text \<open>\<open>errors.Join\<close> of two possibly nil errors; \<open>fmt.Errorf\<close> with a trailing \<open>%w\<close>.\<close>

definition errors_join :: "gerr option \<Rightarrow> gerr option \<Rightarrow> gerr option" where
  "errors_join a b =
     (case (a, b) of
        (None, None) \<Rightarrow> None
      | (Some x, None) \<Rightarrow> Some (JoinError [x])
      | (None, Some y) \<Rightarrow> Some (JoinError [y])
      | (Some x, Some y) \<Rightarrow> Some (JoinError [x, y]))"

definition errorf :: "string \<Rightarrow> gerr \<Rightarrow> gerr" where
  "errorf t e = WrapError t e []"

lemma errors_join_None_iff [simp]: "errors_join a b = None \<longleftrightarrow> a = None \<and> b = None"
  by (auto simp: errors_join_def split: option.splits)

lemma errorf_reason [simp]:
  "IsNotFound (errorf t e) = IsNotFound e"
  "IsConflict (errorf t e) = IsConflict e"
  "IsAlreadyExists (errorf t e) = IsAlreadyExists e"
  by (simp_all add: errorf_def IsNotFound_def IsConflict_def IsAlreadyExists_def)

lemma err_text_errorf [simp, go_text]: "err_text (errorf t e) = t @ err_text e"
  by (simp add: errorf_def)


section \<open>Time\<close>

text \<open>
  An instant is the number of nanoseconds since the epoch and a \<open>time.Duration\<close> a signed
  64-bit number of nanoseconds. \<open>i64\<close> is the wrap-around of 64-bit arithmetic;
  \<open>Time.Sub\<close> saturates instead.
\<close>

type_synonym time = int
type_synonym duration = int

definition i64 :: "int \<Rightarrow> int" where
  "i64 x = (x + 2 ^ 63) mod 2 ^ 64 - 2 ^ 63"

definition sat64 :: "int \<Rightarrow> int" where
  "sat64 x = max (- (2 ^ 63)) (min (2 ^ 63 - 1) x)"

text \<open>Go division truncates towards zero.\<close>

definition go_quot :: "int \<Rightarrow> int \<Rightarrow> int" where
  "go_quot a b = sgn a * sgn b * (\<bar>a\<bar> div \<bar>b\<bar>)"

definition go_rem :: "int \<Rightarrow> int \<Rightarrow> int" where
  "go_rem a b = a - b * go_quot a b"

text \<open>The zero value of \<open>time.Time\<close>, January 1 of year 1, and \<open>IsZero\<close> of an optional time.\<close>

definition zero_time :: time where
  "zero_time = - 62135596800000000000"

definition meta_IsZero :: "time option \<Rightarrow> bool" where
  "meta_IsZero t \<longleftrightarrow> t = None \<or> t = Some zero_time"

abbreviation second :: duration where
  "second \<equiv> 1000000000"

abbreviation minute :: duration where
  "minute \<equiv> 60000000000"

lemma i64_id: "- (2 ^ 63) \<le> x \<Longrightarrow> x < 2 ^ 63 \<Longrightarrow> i64 x = x"
  by (simp add: i64_def)

lemma i64_range: "- (2 ^ 63) \<le> i64 x \<and> i64 x < 2 ^ 63"
proof -
  have "0 \<le> (x + 2 ^ 63) mod 2 ^ 64" and "(x + 2 ^ 63) mod 2 ^ 64 < (2 ^ 64 :: int)"
    by simp_all
  then show ?thesis by (simp add: i64_def)
qed

lemma i64_mod: "i64 x mod 2 ^ 64 = x mod 2 ^ 64"
  by (simp add: i64_def mod_diff_left_eq)

lemma sat64_id: "- (2 ^ 63) \<le> x \<Longrightarrow> x < 2 ^ 63 \<Longrightarrow> sat64 x = x"
  by (simp add: sat64_def)

lemma sat64_nonneg: "0 \<le> x \<Longrightarrow> 0 \<le> sat64 x"
  by (simp add: sat64_def)


section \<open>Searching a slice\<close>

text \<open>
  The sources search slices with a loop that stops at the first match. \<open>find_index\<close> is the
  index such a loop leaves behind, \<open>None\<close> for the \<open>-1\<close> of the sources.
\<close>

fun find_index :: "('a \<Rightarrow> bool) \<Rightarrow> 'a list \<Rightarrow> nat option" where
  "find_index p [] = None"
| "find_index p (x # xs) = (if p x then Some 0 else map_option Suc (find_index p xs))"

lemma find_index_Some_iff:
  "find_index p xs = Some i \<longleftrightarrow> i < length xs \<and> p (xs ! i) \<and> (\<forall>j < i. \<not> p (xs ! j))"
proof (induction xs arbitrary: i)
  case Nil
  then show ?case by simp
next
  case (Cons x xs)
  show ?case
  proof (cases i)
    case 0
    then show ?thesis by auto
  next
    case (Suc k)
    then show ?thesis using Cons.IH [of k] by (auto simp: less_Suc_eq_0_disj)
  qed
qed

lemma find_index_None_iff: "find_index p xs = None \<longleftrightarrow> (\<forall>x \<in> set xs. \<not> p x)"
  by (induction xs) auto

lemma find_index_append:
  "find_index p (xs @ ys) =
     (case find_index p xs of Some i \<Rightarrow> Some i
      | None \<Rightarrow> map_option (\<lambda>i. length xs + i) (find_index p ys))"
  by (induction xs; cases "find_index p ys") (auto split: option.splits)

lemma find_index_cong:
  "(\<And>i. i < length xs \<Longrightarrow> p (xs ! i) = q (ys ! i)) \<Longrightarrow> length xs = length ys \<Longrightarrow>
   find_index p xs = find_index q ys"
proof (induction xs arbitrary: ys)
  case Nil
  then show ?case by simp
next
  case (Cons x xs)
  then obtain y zs where ys: "ys = y # zs" and len: "length xs = length zs"
    by (cases ys) auto
  have hd: "p x = q y" using Cons.prems(1) [of 0] ys by simp
  have tl: "find_index p xs = find_index q zs"
    using Cons.prems(1) [of "Suc _"] ys len by (intro Cons.IH) auto
  show ?case using hd tl ys by simp
qed

lemma find_index_update_same:
  assumes "p (xs ! i) = p y"
  shows "find_index p (xs[i := y]) = find_index p xs"
proof (rule find_index_cong)
  fix j
  assume "j < length (xs[i := y])"
  with assms show "p (xs[i := y] ! j) = p (xs ! j)"
    by (cases "i = j") auto
qed simp

lemma map_list_update_same: "f (xs ! i) = f y \<Longrightarrow> map f (xs[i := y]) = map f xs"
  by (cases "i < length xs") (simp_all add: map_update list_update_same_conv list_update_beyond)

lemma find_index_nth:
  assumes "find_index p xs = Some i"
  obtains "i < length xs" and "p (xs ! i)"
  using assms by (auto simp: find_index_Some_iff)

lemma find_index_key: "find_index (\<lambda>c. f c = k) xs = Some i \<Longrightarrow> f (xs ! i) = k"
  by (simp add: find_index_Some_iff)

end
