(* ===== verification/Net.thy ===== *)
theory Net
  imports Prelude
begin

unbundle bit_operations_syntax

text \<open>
  The parts of the Go packages \<open>net\<close> and \<open>net/netip\<close> the sources call: parsing of IP
  addresses, CIDR prefixes and MAC addresses, masks, and the textual forms. Addresses are
  byte slices (\<open>8 word list\<close>). A parse error is \<open>None\<close>.
\<close>

type_synonym bytes = "8 word list"


section \<open>Splitting and digits\<close>

fun split_on :: "char \<Rightarrow> string \<Rightarrow> string list" where
  "split_on c [] = [[]]"
| "split_on c (x # xs) =
     (if x = c then [] # split_on c xs
      else case split_on c xs of [] \<Rightarrow> [[x]] | y # ys \<Rightarrow> (x # y) # ys)"

fun all_some :: "'a option list \<Rightarrow> 'a list option" where
  "all_some [] = Some []"
| "all_some (None # xs) = None"
| "all_some (Some x # xs) = map_option (Cons x) (all_some xs)"

definition digit_value :: "char \<Rightarrow> nat" where
  "digit_value c = of_char c - 48"

definition dec_value :: "string \<Rightarrow> nat" where
  "dec_value s = foldl (\<lambda>v c. v * 10 + digit_value c) 0 s"

definition is_hex :: "char \<Rightarrow> bool" where
  "is_hex c \<longleftrightarrow> is_digit c \<or> (CHR ''a'' \<le> c \<and> c \<le> CHR ''f'') \<or> (CHR ''A'' \<le> c \<and> c \<le> CHR ''F'')"

definition hex_digit_value :: "char \<Rightarrow> nat" where
  "hex_digit_value c =
     (if is_digit c then of_char c - 48
      else if CHR ''a'' \<le> c then of_char c - 87
      else of_char c - 55)"

definition hex_value :: "string \<Rightarrow> nat" where
  "hex_value s = foldl (\<lambda>v c. v * 16 + hex_digit_value c) 0 s"

lemma split_on_nonempty [simp]: "split_on c s \<noteq> []"
  by (induction s) (auto split: list.splits)

lemma split_on_none: "c \<notin> set s \<Longrightarrow> split_on c s = [s]"
  by (induction s) auto

lemma split_on_sep: "c \<notin> set a \<Longrightarrow> split_on c (a @ c # b) = a # split_on c b"
  by (induction a) auto

lemma split_on_append: "split_on c (a @ c # b) = split_on c a @ split_on c b"
proof (induction a)
  case (Cons x a)
  then show ?case by (cases "split_on c a") (auto split: list.splits)
qed simp

lemma split_on_join:
  "ps \<noteq> [] \<Longrightarrow> \<forall>p \<in> set ps. c \<notin> set p \<Longrightarrow> split_on c (join_str [c] ps) = ps"
proof (induction ps)
  case Nil
  then show ?case by simp
next
  case (Cons p ps)
  then show ?case by (cases ps) (simp_all add: split_on_none split_on_sep)
qed

lemma join_split_on: "join_str [c] (split_on c s) = s"
proof (induction s)
  case (Cons x s)
  then show ?case by (cases "split_on c s"; cases "tl (split_on c s)") auto
qed simp

lemma split_on_parts: "p \<in> set (split_on c s) \<Longrightarrow> c \<notin> set p"
proof (induction s arbitrary: p)
  case (Cons x s)
  then show ?case by (cases "split_on c s") (auto split: if_splits)
qed simp

lemma join_str_append:
  "xs \<noteq> [] \<Longrightarrow> ys \<noteq> [] \<Longrightarrow> join_str s (xs @ ys) = join_str s xs @ s @ join_str s ys"
proof (induction xs)
  case (Cons x xs)
  then show ?case by (cases xs; cases ys) auto
qed simp

lemma all_some_map: "(\<And>x. x \<in> set xs \<Longrightarrow> f (g x) = Some x) \<Longrightarrow> all_some (map f (map g xs)) = Some xs"
  by (induction xs) auto


section \<open>Decimal numbers\<close>

lemma of_char_digit: "n < 10 \<Longrightarrow> of_char (char_of (n + 48 :: nat)) = n + 48"
  by simp

lemma is_digit_char_of [simp]: "n < 10 \<Longrightarrow> is_digit (char_of (n + 48 :: nat))"
  unfolding is_digit_def less_eq_char_def by simp

lemma digit_value_char_of [simp]: "n < 10 \<Longrightarrow> digit_value (char_of (n + 48 :: nat)) = n"
  by (simp add: digit_value_def)

lemma dec_value_snoc: "dec_value (s @ [c]) = dec_value s * 10 + digit_value c"
  by (simp add: dec_value_def)

lemma dec_value_string_of_nat [simp]: "dec_value (string_of_nat n) = n"
proof (induction n rule: string_of_nat.induct)
  case (1 n)
  show ?case
  proof (cases "n < 10")
    case True
    then show ?thesis by (subst string_of_nat.simps) (simp add: dec_value_def)
  next
    case False
    with 1 show ?thesis by (subst string_of_nat.simps) (simp add: dec_value_snoc)
  qed
qed

lemma digits_string_of_nat: "list_all is_digit (string_of_nat n)"
proof (induction n rule: string_of_nat.induct)
  case (1 n)
  then show ?case by (subst string_of_nat.simps) (cases "n < 10"; simp)
qed

lemma hd_string_of_nat: "10 \<le> n \<Longrightarrow> hd (string_of_nat n) \<noteq> CHR ''0''"
proof (induction n rule: string_of_nat.induct)
  case (1 n)
  show ?case
  proof (cases "n div 10 < 10")
    case True
    have nz: "n div 10 \<noteq> 0" using 1 by simp
    have "hd (string_of_nat n) = char_of (n div 10 + 48)"
      using 1 True by (subst string_of_nat.simps, subst string_of_nat.simps) simp
    moreover have "char_of (n div 10 + 48) \<noteq> CHR ''0''"
    proof
      assume "char_of (n div 10 + 48) = CHR ''0''"
      then have "of_char (char_of (n div 10 + 48) :: char) = (of_char (CHR ''0'') :: nat)" by (rule arg_cong)
      with True nz show False by simp
    qed
    ultimately show ?thesis by simp
  next
    case False
    with 1 show ?thesis by (subst string_of_nat.simps) simp
  qed
qed

lemma inj_string_of_nat: "string_of_nat m = string_of_nat n \<longleftrightarrow> m = n"
  by (metis dec_value_string_of_nat)

lemma length_string_of_nat_1: "n < 10 \<Longrightarrow> length (string_of_nat n) = 1"
  by (subst string_of_nat.simps) simp


section \<open>IP addresses\<close>

definition dec_octet :: "string \<Rightarrow> 8 word option" where
  "dec_octet s =
     (if s \<noteq> [] \<and> list_all is_digit s \<and> (length s = 1 \<or> hd s \<noteq> CHR ''0'') \<and> dec_value s \<le> 255
      then Some (of_nat (dec_value s)) else None)"

definition parse_ipv4 :: "string \<Rightarrow> bytes option" where
  "parse_ipv4 s =
     (case all_some (map dec_octet (split_on CHR ''.'' s)) of
        Some b \<Rightarrow> if length b = 4 then Some b else None
      | None \<Rightarrow> None)"

function v6_loop :: "string \<Rightarrow> bytes \<Rightarrow> nat option \<Rightarrow> (bytes \<times> nat option \<times> string) option" where
  "v6_loop s ip ell =
     (if 16 \<le> length ip then Some (ip, ell, s)
      else
        let h = takeWhile is_hex s; rest = dropWhile is_hex s in
        if 4 < length h \<or> h = [] then None
        else if rest \<noteq> [] \<and> hd rest = CHR ''.'' then
          (if ell = None \<and> length ip \<noteq> 12 then None
           else if 16 < length ip + 4 then None
           else map_option (\<lambda>b. (ip @ b, ell, [])) (parse_ipv4 s))
        else
          let ip' = ip @ [of_nat (hex_value h div 256), of_nat (hex_value h mod 256)] in
          case rest of
            [] \<Rightarrow> Some (ip', ell, [])
          | c # r \<Rightarrow>
              if c \<noteq> CHR '':'' \<or> r = [] then None
              else if hd r = CHR '':'' then
                (if ell \<noteq> None then None
                 else if tl r = [] then Some (ip', Some (length ip'), [])
                 else v6_loop (tl r) ip' (Some (length ip')))
              else v6_loop r ip' ell)"
  by pat_completeness auto

termination
  by (relation "measure (\<lambda>(s, ip, ell). 16 - length ip)") auto

declare v6_loop.simps [simp del]

definition v6_finish :: "bytes \<times> nat option \<times> string \<Rightarrow> bytes option" where
  "v6_finish r =
     (case r of (ip, ell, s) \<Rightarrow>
        if s \<noteq> [] then None
        else if length ip < 16 then
          map_option (\<lambda>e. take e ip @ replicate (16 - length ip) 0 @ drop e ip) ell
        else if ell \<noteq> None then None
        else Some ip)"

definition parse_ipv6 :: "string \<Rightarrow> (bytes \<times> string) option" where
  "parse_ipv6 t =
     (case cut_char CHR ''%'' t of (s, zone, has_zone) \<Rightarrow>
        if has_zone \<and> zone = [] then None
        else if has_prefix ''::'' s then
          (if length s = 2 then Some (replicate 16 0, zone)
           else (case v6_loop (drop 2 s) [] (Some 0) of
             None \<Rightarrow> None | Some r \<Rightarrow> map_option (\<lambda>b. (b, zone)) (v6_finish r)))
        else (case v6_loop s [] None of
             None \<Rightarrow> None | Some r \<Rightarrow> map_option (\<lambda>b. (b, zone)) (v6_finish r)))"

text \<open>\<open>netip.Addr\<close>: four bytes, or sixteen bytes with a zone.\<close>

datatype Addr = Addr4 bytes | Addr6 bytes string

definition ParseAddr :: "string \<Rightarrow> Addr option" where
  "ParseAddr s =
     (case find (\<lambda>c. c = CHR ''.'' \<or> c = CHR '':'' \<or> c = CHR ''%'') s of
        None \<Rightarrow> None
      | Some c \<Rightarrow>
          if c = CHR ''.'' then map_option Addr4 (parse_ipv4 s)
          else if c = CHR '':'' then map_option (\<lambda>(b, z). Addr6 b z) (parse_ipv6 s)
          else None)"

definition v4InV6Prefix :: bytes where
  "v4InV6Prefix = replicate 10 0 @ [255, 255]"

fun As16 :: "Addr \<Rightarrow> bytes" where
  "As16 (Addr4 b) = v4InV6Prefix @ b"
| "As16 (Addr6 b z) = b"

fun Zone :: "Addr \<Rightarrow> string" where
  "Zone (Addr4 b) = []"
| "Zone (Addr6 b z) = z"

fun BitLen :: "Addr \<Rightarrow> nat" where
  "BitLen (Addr4 b) = 32"
| "BitLen (Addr6 b z) = 128"

definition ParseIP :: "string \<Rightarrow> bytes option" where
  "ParseIP s = (case ParseAddr s of
     None \<Rightarrow> None | Some a \<Rightarrow> if Zone a \<noteq> [] then None else Some (As16 a))"

definition To4 :: "bytes \<Rightarrow> bytes option" where
  "To4 ip =
     (if length ip = 4 then Some ip
      else if length ip = 16 \<and> take 12 ip = v4InV6Prefix then Some (drop 12 ip)
      else None)"

definition octet_string :: "8 word \<Rightarrow> string" where
  "octet_string b = string_of_nat (unat b)"

definition ipv4_string :: "bytes \<Rightarrow> string" where
  "ipv4_string b = join_str ''.'' (map octet_string b)"

lemma dec_octet_string [simp]: "dec_octet (octet_string b) = Some b"
proof -
  have "unat b < 2 ^ LENGTH(8)" by (rule unsigned_less)
  then have lt: "unat b \<le> 255" by simp
  have "length (string_of_nat (unat b)) = 1 \<or> hd (string_of_nat (unat b)) \<noteq> CHR ''0''"
    using hd_string_of_nat [of "unat b"] length_string_of_nat_1 [of "unat b"] by linarith
  with lt show ?thesis
    by (simp add: dec_octet_def octet_string_def digits_string_of_nat)
qed

lemma dot_notin_octet: "CHR ''.'' \<notin> set (octet_string b)"
proof
  assume "CHR ''.'' \<in> set (octet_string b)"
  then have "is_digit CHR ''.''"
    using digits_string_of_nat [of "unat b"] by (simp add: octet_string_def list_all_iff)
  then show False by (simp add: is_digit_def less_eq_char_def)
qed

lemma parse_ipv4_string: "length b = 4 \<Longrightarrow> parse_ipv4 (ipv4_string b) = Some b"
proof -
  assume len: "length b = 4"
  have "split_on CHR ''.'' (ipv4_string b) = map octet_string b"
    unfolding ipv4_string_def using len dot_notin_octet by (intro split_on_join) auto
  moreover have "all_some (map dec_octet (map octet_string b)) = Some b"
    by (rule all_some_map) simp
  ultimately show ?thesis using len by (simp add: parse_ipv4_def del: map_map)
qed

lemma find_dot_ipv4:
  assumes "length b = 4"
  shows "find (\<lambda>c. c = CHR ''.'' \<or> c = CHR '':'' \<or> c = CHR ''%'') (ipv4_string b) = Some CHR ''.''"
proof -
  obtain x y bs where b: "b = x # y # bs" using assms by (cases b; cases "tl b") auto
  have digits: "\<And>c. c \<in> set (octet_string x) \<Longrightarrow> is_digit c"
    using digits_string_of_nat [of "unat x"] by (simp add: octet_string_def list_all_iff)
  have no: "\<And>c. is_digit c \<Longrightarrow> \<not> (c = CHR ''.'' \<or> c = CHR '':'' \<or> c = CHR ''%'')"
    by (auto simp: is_digit_def less_eq_char_def)
  have skip: "\<And>s t. (\<And>c. c \<in> set s \<Longrightarrow> is_digit c) \<Longrightarrow>
      find (\<lambda>c. c = CHR ''.'' \<or> c = CHR '':'' \<or> c = CHR ''%'') (s @ CHR ''.'' # t) = Some CHR ''.''"
    subgoal for s t using no by (induction s) auto done
  have "ipv4_string b = octet_string x @ CHR ''.'' # join_str ''.'' (map octet_string (y # bs))"
    by (simp add: ipv4_string_def b)
  then show ?thesis using skip digits by simp
qed

lemma ParseIP_ipv4_string:
  "length b = 4 \<Longrightarrow> ParseIP (ipv4_string b) = Some (v4InV6Prefix @ b)"
  by (simp add: ParseIP_def ParseAddr_def find_dot_ipv4 parse_ipv4_string)

lemma To4_As16 [simp]: "length b = 4 \<Longrightarrow> To4 (v4InV6Prefix @ b) = Some b"
  by (simp add: To4_def v4InV6Prefix_def)


section \<open>Masks and prefixes\<close>

text \<open>\<open>simpleMaskLength\<close>: the number of leading ones, or \<open>None\<close> when a one follows a zero.\<close>

fun leading_ones :: "nat \<Rightarrow> 8 word \<Rightarrow> nat \<times> 8 word" where
  "leading_ones 0 v = (0, v)"
| "leading_ones (Suc k) v =
     (if v AND 0x80 \<noteq> 0 then case leading_ones k (push_bit 1 v) of (n, v') \<Rightarrow> (Suc n, v') else (0, v))"

fun simpleMaskLength :: "bytes \<Rightarrow> nat option" where
  "simpleMaskLength [] = Some 0"
| "simpleMaskLength (v # vs) =
     (if v = 0xff then map_option (\<lambda>n. 8 + n) (simpleMaskLength vs)
      else case leading_ones 8 v of (n, v') \<Rightarrow>
        if v' \<noteq> 0 then None
        else if list_ex (\<lambda>x. x \<noteq> 0) vs then None
        else Some n)"

definition IPMask_Size :: "bytes \<Rightarrow> nat \<times> nat" where
  "IPMask_Size m = (case simpleMaskLength m of None \<Rightarrow> (0, 0) | Some n \<Rightarrow> (n, 8 * length m))"

text \<open>\<open>CIDRMask\<close>, byte by byte.\<close>

fun CIDRMask :: "nat \<Rightarrow> nat \<Rightarrow> bytes" where
  "CIDRMask n 0 = []"
| "CIDRMask n (Suc k) =
     (if 8 \<le> n then 0xff # CIDRMask (n - 8) k
      else NOT (drop_bit n (0xff :: 8 word)) # CIDRMask 0 k)"

definition dtoi :: "string \<Rightarrow> nat option" where
  "dtoi s = (if s \<noteq> [] \<and> list_all is_digit s \<and> dec_value s < 0xFFFFFF then Some (dec_value s) else None)"

record IPNet =
  net_IP :: bytes
  net_Mask :: bytes

definition IP_Mask :: "bytes \<Rightarrow> bytes \<Rightarrow> bytes option" where
  "IP_Mask ip mk =
     (let mk = (if length mk = 16 \<and> length ip = 4 \<and> list_all (\<lambda>b. b = 0xff) (take 12 mk) then drop 12 mk else mk);
          ip = (if length mk = 4 \<and> length ip = 16 \<and> take 12 ip = v4InV6Prefix then drop 12 ip else ip)
      in if length ip \<noteq> length mk then None else Some (map2 (AND) ip mk))"

definition ParseCIDR :: "string \<Rightarrow> (bytes \<times> IPNet) option" where
  "ParseCIDR s =
     (let (addr, mk, found) = cut_char CHR ''/'' s in
      if \<not> found then None
      else
        (case (ParseAddr addr, dtoi mk) of
           (Some a, Some n) \<Rightarrow>
             (if Zone a \<noteq> [] \<or> BitLen a < n then None
              else
                (let m = CIDRMask n (BitLen a div 8) in
                 Some (As16 a, \<lparr>net_IP = the (IP_Mask (As16 a) m), net_Mask = m\<rparr>)))
         | _ \<Rightarrow> None))"

definition IPNet_Contains :: "IPNet \<Rightarrow> bytes \<Rightarrow> bool" where
  "IPNet_Contains n ip0 =
     (let nn = (case To4 (net_IP n) of Some x \<Rightarrow> x | None \<Rightarrow> net_IP n);
          m = (if length (net_Mask n) = 16 \<and> length nn = 4 then drop 12 (net_Mask n) else net_Mask n);
          ip = (case To4 ip0 of Some x \<Rightarrow> x | None \<Rightarrow> ip0)
      in length m = length nn \<and> length ip = length nn \<and> map2 (AND) nn m = map2 (AND) ip m)"


section \<open>MAC addresses\<close>

definition xtoi2 :: "string \<Rightarrow> 8 word option" where
  "xtoi2 s = (if length s = 2 \<and> list_all is_hex s then Some (of_nat (hex_value s)) else None)"

fun pairs_of :: "string \<Rightarrow> string list" where
  "pairs_of (a # b # s) = [a, b] # pairs_of s"
| "pairs_of s = (if s = [] then [] else [s])"

definition ParseMAC :: "string \<Rightarrow> bytes option" where
  "ParseMAC s =
     (let ok = (\<lambda>n. n = 6 \<or> n = 8 \<or> n = (20 :: nat)) in
      if length s < 14 then None
      else if s ! 2 = CHR '':'' \<or> s ! 2 = CHR ''-'' then
        (case all_some (map xtoi2 (split_on (s ! 2) s)) of
           Some b \<Rightarrow> if ok (length b) then Some b else None | None \<Rightarrow> None)
      else if s ! 4 = CHR ''.'' then
        (if list_all (\<lambda>g. length g = 4) (split_on CHR ''.'' s) then
           case all_some (map xtoi2 (concat (map pairs_of (split_on CHR ''.'' s)))) of
             Some b \<Rightarrow> if ok (length b) then Some b else None | None \<Rightarrow> None
         else None)
      else None)"

definition hex_char :: "nat \<Rightarrow> char" where
  "hex_char n = (if n < 10 then char_of (n + 48) else char_of (n + 87))"

definition hex_byte :: "8 word \<Rightarrow> string" where
  "hex_byte b = [hex_char (unat b div 16), hex_char (unat b mod 16)]"

definition HardwareAddr_String :: "bytes \<Rightarrow> string" where
  "HardwareAddr_String b = join_str '':'' (map hex_byte b)"

end
