(* ===== verification/Kube_Meta.thy ===== *)
theory Kube_Meta
  imports Prelude
begin

text \<open>
  The parts of the Kubernetes object model the sources use: the metadata every API object
  embeds, and the result a reconciler hands back to its work queue. Go embeds
  \<open>metav1.TypeMeta\<close> and \<open>metav1.ObjectMeta\<close> in its objects; the records of the API types
  extend \<open>Object\<close> in the same way. A nil and an empty Go map or slice are the same value
  here; the sources only tell them apart to allocate a map before writing to it.
\<close>

record OwnerReference =
  owner_APIVersion :: string
  owner_Kind :: string
  owner_Name :: string
  owner_UID :: string
  owner_Controller :: "bool option"

record Object =
  APIVersion :: string
  Kind :: string
  Name :: string
  Namespace :: string
  UID :: string
  DeletionTimestamp :: "time option"
  Labels :: "string \<rightharpoonup> string"
  Annotations :: "string \<rightharpoonup> string"
  OwnerReferences :: "OwnerReference list"

text \<open>\<open>GetControllerOf\<close>: the owner reference marked as the managing controller.\<close>

definition GetControllerOf :: "'a Object_scheme \<Rightarrow> OwnerReference option" where
  "GetControllerOf ob = find (\<lambda>r. owner_Controller r = Some True) (OwnerReferences ob)"

text \<open>
  \<open>reconcile.Result\<close>: ask for an immediate or a delayed requeue. The zero value asks for
  nothing.
\<close>

record Result =
  Requeue :: bool
  RequeueAfter :: duration

definition NoRequeue :: Result where
  "NoRequeue = \<lparr>Requeue = False, RequeueAfter = 0\<rparr>"

definition RequeueNow :: Result where
  "RequeueNow = \<lparr>Requeue = True, RequeueAfter = 0\<rparr>"

definition RequeueIn :: "duration \<Rightarrow> Result" where
  "RequeueIn d = \<lparr>Requeue = False, RequeueAfter = d\<rparr>"

definition Result_IsZero :: "Result \<Rightarrow> bool" where
  "Result_IsZero r \<longleftrightarrow> r = NoRequeue"

lemma result_distinct [simp]:
  "NoRequeue \<noteq> RequeueNow" "RequeueNow \<noteq> NoRequeue"
  "Requeue NoRequeue = False" "Requeue RequeueNow = True" "Requeue (RequeueIn d) = False"
  "RequeueAfter NoRequeue = 0" "RequeueAfter RequeueNow = 0" "RequeueAfter (RequeueIn d) = d"
  by (simp_all add: NoRequeue_def RequeueNow_def RequeueIn_def)

lemma RequeueIn_zero_iff [simp]: "RequeueIn d = NoRequeue \<longleftrightarrow> d = 0"
  by (simp add: NoRequeue_def RequeueIn_def)

type_synonym outcome = "Result \<times> gerr option"

end
