(* ===== verification/Conditions.thy ===== *)
theory Conditions
  imports Prelude
begin

text \<open>
  Status conditions. Workflows, BMC jobs, BMC tasks and BMC machines each carry a slice of
  conditions with at most one entry per condition type, read by a \<open>HasCondition\<close> and written
  by a \<open>SetCondition\<close> method. This theory states that interface once: what a setter promises
  about the slice, and what follows for a later \<open>HasCondition\<close>. The theories of the
  components interpret it on their own methods.
\<close>

text \<open>
  The laws. An object \<open>'o\<close> has a slice of conditions \<open>'c\<close>. The reader returns whether the first
  entry of a type has a status. The setter \<open>upd a\<close> writes type \<open>ty a\<close> with status \<open>st a\<close>: it
  overwrites the first entry of that type in place, or appends one entry at the end.
\<close>

locale condition_list =
  fixes conds :: "'o \<Rightarrow> 'c list"
    and ctype :: "'c \<Rightarrow> 't"
    and cstatus :: "'c \<Rightarrow> 's"
    and has :: "'o \<Rightarrow> 't \<Rightarrow> 's \<Rightarrow> bool"
    and upd :: "'a \<Rightarrow> 'o \<Rightarrow> 'o"
    and ty :: "'a \<Rightarrow> 't"
    and st :: "'a \<Rightarrow> 's"
  assumes has_reads:
    "has ob t s \<longleftrightarrow> (case find_index (\<lambda>c. ctype c = t) (conds ob) of
       None \<Rightarrow> False | Some i \<Rightarrow> cstatus (conds ob ! i) = s)"
    and upd_hit: "find_index (\<lambda>c. ctype c = ty a) (conds ob) = Some i \<Longrightarrow>
      \<exists>c'. conds (upd a ob) = (conds ob)[i := c'] \<and> ctype c' = ty a \<and> cstatus c' = st a"
    and upd_miss: "find_index (\<lambda>c. ctype c = ty a) (conds ob) = None \<Longrightarrow>
      \<exists>c'. conds (upd a ob) = conds ob @ [c'] \<and> ctype c' = ty a \<and> cstatus c' = st a"
begin

lemma upd_cases:
  obtains (hit) i c' where "find_index (\<lambda>c. ctype c = ty a) (conds ob) = Some i"
      "conds (upd a ob) = (conds ob)[i := c']" "ctype c' = ty a" "cstatus c' = st a"
  | (miss) c' where "find_index (\<lambda>c. ctype c = ty a) (conds ob) = None"
      "conds (upd a ob) = conds ob @ [c']" "ctype c' = ty a" "cstatus c' = st a"
  using upd_hit [of a ob] upd_miss [of a ob]
  by (cases "find_index (\<lambda>c. ctype c = ty a) (conds ob)") blast+

lemma find_upd_same:
  "\<exists>i. find_index (\<lambda>c. ctype c = ty a) (conds (upd a ob)) = Some i \<and>
       ctype (conds (upd a ob) ! i) = ty a \<and> cstatus (conds (upd a ob) ! i) = st a"
proof (cases rule: upd_cases [of a ob])
  case (hit i c')
  then have i: "i < length (conds ob)" and p: "ctype (conds ob ! i) = ty a"
    by (auto simp: find_index_Some_iff)
  have "find_index (\<lambda>c. ctype c = ty a) ((conds ob)[i := c']) = Some i"
    using hit p by (simp add: find_index_update_same)
  then show ?thesis using hit i by simp
next
  case (miss c')
  then show ?thesis by (simp add: find_index_append)
qed

lemma find_upd_other:
  assumes "t \<noteq> ty a"
  shows "find_index (\<lambda>c. ctype c = t) (conds (upd a ob)) = find_index (\<lambda>c. ctype c = t) (conds ob)"
proof (cases rule: upd_cases [of a ob])
  case (hit i c')
  then have "ctype (conds ob ! i) = ty a" by (auto simp: find_index_Some_iff)
  then show ?thesis using hit assms by (simp add: find_index_update_same)
next
  case (miss c')
  then show ?thesis using assms by (simp add: find_index_append split: option.split)
qed

lemma has_upd_same [simp]: "has (upd a ob) (ty a) s \<longleftrightarrow> s = st a"
  using find_upd_same [of a ob] by (auto simp: has_reads)

lemma has_upd_other:
  assumes "t \<noteq> ty a"
  shows "has (upd a ob) t s = has ob t s"
proof (cases "find_index (\<lambda>c. ctype c = t) (conds ob)")
  case None
  then show ?thesis using find_upd_other [OF assms] by (simp add: has_reads)
next
  case (Some j)
  then have j: "j < length (conds ob)" and pj: "ctype (conds ob ! j) = t"
    by (auto simp: find_index_Some_iff)
  have "conds (upd a ob) ! j = conds ob ! j"
  proof (cases rule: upd_cases [of a ob])
    case (hit i c')
    then have "ctype (conds ob ! i) = ty a" by (auto simp: find_index_Some_iff)
    then have "i \<noteq> j" using pj assms by auto
    then show ?thesis using hit by simp
  next
    case (miss c')
    then show ?thesis using j by (simp add: nth_append)
  qed
  then show ?thesis using Some find_upd_other [OF assms] by (simp add: has_reads)
qed

lemma types_hit:
  assumes "find_index (\<lambda>c. ctype c = ty a) (conds ob) = Some i"
  shows "map ctype (conds (upd a ob)) = map ctype (conds ob)" and "ty a \<in> ctype ` set (conds ob)"
proof -
  from assms have i: "i < length (conds ob)" and t: "ctype (conds ob ! i) = ty a"
    by (auto simp: find_index_Some_iff)
  show "map ctype (conds (upd a ob)) = map ctype (conds ob)"
    using upd_hit [OF assms] t by (auto simp: map_list_update_same)
  show "ty a \<in> ctype ` set (conds ob)"
    using i t by (metis image_eqI nth_mem)
qed

lemma types_upd: "ctype ` set (conds (upd a ob)) = insert (ty a) (ctype ` set (conds ob))"
proof (cases rule: upd_cases [of a ob])
  case (hit i c')
  from types_hit [OF hit(1)] show ?thesis by (metis insert_absorb list.set_map)
next
  case (miss c')
  then show ?thesis by auto
qed

text \<open>At most one entry per type is an invariant of every setter.\<close>

lemma distinct_types_upd:
  assumes "distinct (map ctype (conds ob))"
  shows "distinct (map ctype (conds (upd a ob)))"
proof (cases rule: upd_cases [of a ob])
  case (hit i c')
  then show ?thesis using assms types_hit(1) [OF hit(1)] by simp
next
  case (miss c')
  then show ?thesis using assms by (auto simp: find_index_None_iff)
qed

end

end
