(* ===== verification/Api_Bmc.thy ===== *)
theory Api_Bmc
  imports Kube_Meta Conditions
begin

text \<open>
  The \<open>bmc.tinkerbell.org\<close> API, \<open>src/api/v1alpha1/bmc\<close>: actions, jobs, tasks and machines,
  with the condition methods of the last three. Each of them is interpreted as a
  \<open>condition_list\<close>.
\<close>


section \<open>Actions\<close>

datatype PowerAction = PowerOn | PowerHardOff | PowerSoftOff | PowerCycle | PowerReset | PowerStatus

fun PowerAction_String :: "PowerAction \<Rightarrow> string" where
  "PowerAction_String PowerOn = ''on''"
| "PowerAction_String PowerHardOff = ''off''"
| "PowerAction_String PowerSoftOff = ''soft''"
| "PowerAction_String PowerCycle = ''cycle''"
| "PowerAction_String PowerReset = ''reset''"
| "PowerAction_String PowerStatus = ''status''"

type_synonym BootDevice = string

definition PXE :: BootDevice where "PXE = ''pxe''"
definition CDROM :: BootDevice where "CDROM = ''cdrom''"

type_synonym VirtualMediaKind = string

definition VirtualMediaCD :: VirtualMediaKind where "VirtualMediaCD = ''CD''"

record OneTimeBootDeviceAction =
  otbd_Devices :: "BootDevice list"
  otbd_EFIBoot :: bool

record VirtualMediaAction =
  vm_MediaURL :: string
  vm_Kind :: VirtualMediaKind

record BootDeviceConfig =
  bd_Device :: BootDevice
  bd_Persistent :: bool
  bd_EFIBoot :: bool

record bmc_Action =
  act_PowerAction :: "PowerAction option"
  act_OneTimeBootDevice :: "OneTimeBootDeviceAction option"
  act_BootDevice :: "BootDeviceConfig option"
  act_VirtualMedia :: "VirtualMediaAction option"

definition empty_action :: bmc_Action where
  "empty_action = \<lparr>act_PowerAction = None, act_OneTimeBootDevice = None, act_BootDevice = None,
     act_VirtualMedia = None\<rparr>"


section \<open>Connections\<close>

record RedfishOptions =
  redfish_Port :: int
  redfish_UseBasicAuth :: bool
  redfish_SystemName :: string

record IPMITOOLOptions =
  ipmi_Port :: int
  ipmi_CipherSuite :: string

record IntelAMTOptions =
  amt_Port :: int
  amt_HostScheme :: string

record SecretReference =
  sref_Name :: string
  sref_Namespace :: string

text \<open>
  A Go map that is only ranged over is an association list: its order stands for the
  unspecified iteration order of the map.
\<close>

type_synonym HMACSecrets = "(string \<times> SecretReference list) list"

record RequestOpts =
  req_HTTPContentType :: string
  req_HTTPMethod :: string
  req_StaticHeaders :: "(string \<times> string list) list"
  req_TimestampFormat :: string
  req_TimestampHeader :: string

record SignatureOpts =
  sig_HeaderName :: string
  sig_AppendAlgoToHeaderDisabled :: bool
  sig_IncludedPayloadHeaders :: "string list"

record HMACOpts =
  hmac_PrefixSigDisabled :: bool
  hmac_Secrets :: HMACSecrets

record ExperimentalOpts =
  exp_CustomRequestPayload :: string
  exp_DotPath :: string

record RPCOptions =
  rpc_ConsumerURL :: string
  rpc_LogNotificationsDisabled :: bool
  rpc_Request :: "RequestOpts option"
  rpc_Signature :: "SignatureOpts option"
  rpc_HMAC :: "HMACOpts option"
  rpc_Experimental :: "ExperimentalOpts option"

record HomeAssistantOptions =
  ha_SwitchEntityID :: string
  ha_PowerOperationDelaySeconds :: "32 word"

record ProviderOptions =
  po_PreferredOrder :: "string list"
  po_IntelAMT :: "IntelAMTOptions option"
  po_IPMITOOL :: "IPMITOOLOptions option"
  po_Redfish :: "RedfishOptions option"
  po_RPC :: "RPCOptions option"
  po_HomeAssistant :: "HomeAssistantOptions option"

record Connection =
  conn_Host :: string
  conn_Port :: int
  conn_AuthSecretRef :: SecretReference
  conn_InsecureTLS :: bool
  conn_ProviderOptions :: "ProviderOptions option"

datatype ConditionStatus = ConditionTrue | ConditionFalse


section \<open>Jobs\<close>

datatype JobConditionType = JobCompleted | JobFailed | JobRunning

record JobCondition =
  jc_Type :: JobConditionType
  jc_Status :: ConditionStatus
  jc_Message :: string

record MachineRef =
  mref_Name :: string
  mref_Namespace :: string

record JobSpec =
  js_MachineRef :: MachineRef
  js_Tasks :: "bmc_Action list"

record bmc_JobStatus =
  js_Conditions :: "JobCondition list"
  js_StartTime :: "time option"
  js_CompletionTime :: "time option"

record Job = Object +
  Job_Spec :: JobSpec
  Job_Status :: bmc_JobStatus

definition WithJobConditionMessage :: "string \<Rightarrow> JobCondition \<Rightarrow> JobCondition" where
  "WithJobConditionMessage m c = c\<lparr>jc_Message := m\<rparr>"

text \<open>A fresh entry has the zero status and message; the status is written right away.\<close>

definition Job_SetCondition ::
  "JobConditionType \<Rightarrow> ConditionStatus \<Rightarrow> (JobCondition \<Rightarrow> JobCondition) list \<Rightarrow> Job \<Rightarrow> Job" where
  "Job_SetCondition cType status opts j =
     (let cs = js_Conditions (Job_Status j);
          write = (\<lambda>c. fold (\<lambda>opt c. opt c) opts (c\<lparr>jc_Status := status\<rparr>));
          cs' = (case find_index (\<lambda>c. jc_Type c = cType) cs of
              Some i \<Rightarrow> cs[i := write (cs ! i)]
            | None \<Rightarrow> cs @ [write \<lparr>jc_Type = cType, jc_Status = status, jc_Message = []\<rparr>])
      in j\<lparr>Job_Status := (Job_Status j)\<lparr>js_Conditions := cs'\<rparr>\<rparr>)"

fun job_conditions_have :: "JobCondition list \<Rightarrow> JobConditionType \<Rightarrow> ConditionStatus \<Rightarrow> bool" where
  "job_conditions_have [] t s = False"
| "job_conditions_have (c # cs) t s = (if jc_Type c = t then jc_Status c = s else job_conditions_have cs t s)"

definition Job_HasCondition :: "Job \<Rightarrow> JobConditionType \<Rightarrow> ConditionStatus \<Rightarrow> bool" where
  "Job_HasCondition j cType cStatus = job_conditions_have (js_Conditions (Job_Status j)) cType cStatus"

definition FormatTaskName :: "Job \<Rightarrow> nat \<Rightarrow> string" where
  "FormatTaskName job n = Name job @ ''-task-'' @ string_of_nat n"

lemma fold_job_messages [simp]:
  "jc_Type (fold (\<lambda>opt c. opt c) (map WithJobConditionMessage ms) c) = jc_Type c"
  "jc_Status (fold (\<lambda>opt c. opt c) (map WithJobConditionMessage ms) c) = jc_Status c"
  by (induction ms arbitrary: c) (simp_all add: WithJobConditionMessage_def)

lemma job_conditions_have_find:
  "job_conditions_have cs t s \<longleftrightarrow> (case find_index (\<lambda>c. jc_Type c = t) cs of
     None \<Rightarrow> False | Some i \<Rightarrow> jc_Status (cs ! i) = s)"
  by (induction cs) (auto split: option.splits)

interpretation job_conditions: condition_list
  "\<lambda>j. js_Conditions (Job_Status j)" jc_Type jc_Status Job_HasCondition
  "\<lambda>(t, s, ms). Job_SetCondition t s (map WithJobConditionMessage ms)" fst "\<lambda>a. fst (snd a)"
  by unfold_locales
    (auto simp: Job_HasCondition_def job_conditions_have_find Job_SetCondition_def Let_def find_index_key)

text \<open>The two shapes in which the controllers call the setter.\<close>

lemma Job_HasCondition_set [simp]:
  "Job_HasCondition (Job_SetCondition t s [] j) t' s' \<longleftrightarrow>
     (if t' = t then s' = s else Job_HasCondition j t' s')"
  "Job_HasCondition (Job_SetCondition t s [WithJobConditionMessage m] j) t' s' \<longleftrightarrow>
     (if t' = t then s' = s else Job_HasCondition j t' s')"
  using job_conditions.has_upd_same [of "(t, s, [])" j s'] job_conditions.has_upd_same [of "(t, s, [m])" j s']
    job_conditions.has_upd_other [of t' "(t, s, [])" j s'] job_conditions.has_upd_other [of t' "(t, s, [m])" j s']
  by auto

lemma Job_SetCondition_frame [simp]:
  "Name (Job_SetCondition t s opts j) = Name j"
  "Namespace (Job_SetCondition t s opts j) = Namespace j"
  "UID (Job_SetCondition t s opts j) = UID j"
  "Job_Spec (Job_SetCondition t s opts j) = Job_Spec j"
  "DeletionTimestamp (Job_SetCondition t s opts j) = DeletionTimestamp j"
  by (simp_all add: Job_SetCondition_def Let_def)


section \<open>Tasks\<close>

datatype TaskConditionType = TaskCompleted | TaskFailed

record TaskCondition =
  tc_Type :: TaskConditionType
  tc_Status :: ConditionStatus
  tc_Message :: string

record TaskSpec =
  ts_Task :: bmc_Action
  ts_Connection :: Connection

record bmc_TaskStatus =
  ts_Conditions :: "TaskCondition list"
  ts_StartTime :: "time option"
  ts_CompletionTime :: "time option"

record bmc_Task = Object +
  Task_Spec :: TaskSpec
  Task_Status :: bmc_TaskStatus

definition WithTaskConditionMessage :: "string \<Rightarrow> TaskCondition \<Rightarrow> TaskCondition" where
  "WithTaskConditionMessage m c = c\<lparr>tc_Message := m\<rparr>"

definition Task_SetCondition ::
  "TaskConditionType \<Rightarrow> ConditionStatus \<Rightarrow> (TaskCondition \<Rightarrow> TaskCondition) list \<Rightarrow> bmc_Task \<Rightarrow> bmc_Task" where
  "Task_SetCondition cType status opts t =
     (let cs = ts_Conditions (Task_Status t);
          write = (\<lambda>c. fold (\<lambda>opt c. opt c) opts (c\<lparr>tc_Status := status\<rparr>));
          cs' = (case find_index (\<lambda>c. tc_Type c = cType) cs of
              Some i \<Rightarrow> cs[i := write (cs ! i)]
            | None \<Rightarrow> cs @ [write \<lparr>tc_Type = cType, tc_Status = status, tc_Message = []\<rparr>])
      in t\<lparr>Task_Status := (Task_Status t)\<lparr>ts_Conditions := cs'\<rparr>\<rparr>)"

fun task_conditions_have :: "TaskCondition list \<Rightarrow> TaskConditionType \<Rightarrow> ConditionStatus \<Rightarrow> bool" where
  "task_conditions_have [] t s = False"
| "task_conditions_have (c # cs) t s = (if tc_Type c = t then tc_Status c = s else task_conditions_have cs t s)"

definition Task_HasCondition :: "bmc_Task \<Rightarrow> TaskConditionType \<Rightarrow> ConditionStatus \<Rightarrow> bool" where
  "Task_HasCondition t cType cStatus = task_conditions_have (ts_Conditions (Task_Status t)) cType cStatus"

lemma fold_task_messages [simp]:
  "tc_Type (fold (\<lambda>opt c. opt c) (map WithTaskConditionMessage ms) c) = tc_Type c"
  "tc_Status (fold (\<lambda>opt c. opt c) (map WithTaskConditionMessage ms) c) = tc_Status c"
  by (induction ms arbitrary: c) (simp_all add: WithTaskConditionMessage_def)

lemma task_conditions_have_find:
  "task_conditions_have cs t s \<longleftrightarrow> (case find_index (\<lambda>c. tc_Type c = t) cs of
     None \<Rightarrow> False | Some i \<Rightarrow> tc_Status (cs ! i) = s)"
  by (induction cs) (auto split: option.splits)

interpretation task_conditions: condition_list
  "\<lambda>t. ts_Conditions (Task_Status t)" tc_Type tc_Status Task_HasCondition
  "\<lambda>(t, s, ms). Task_SetCondition t s (map WithTaskConditionMessage ms)" fst "\<lambda>a. fst (snd a)"
  by unfold_locales
    (auto simp: Task_HasCondition_def task_conditions_have_find Task_SetCondition_def Let_def find_index_key)

lemma Task_HasCondition_set [simp]:
  "Task_HasCondition (Task_SetCondition t s [] k) t' s' \<longleftrightarrow>
     (if t' = t then s' = s else Task_HasCondition k t' s')"
  "Task_HasCondition (Task_SetCondition t s [WithTaskConditionMessage m] k) t' s' \<longleftrightarrow>
     (if t' = t then s' = s else Task_HasCondition k t' s')"
  using task_conditions.has_upd_same [of "(t, s, [])" k s'] task_conditions.has_upd_same [of "(t, s, [m])" k s']
    task_conditions.has_upd_other [of t' "(t, s, [])" k s'] task_conditions.has_upd_other [of t' "(t, s, [m])" k s']
  by auto

lemma Task_SetCondition_frame [simp]:
  "Name (Task_SetCondition t s opts k) = Name k"
  "Namespace (Task_SetCondition t s opts k) = Namespace k"
  "Task_Spec (Task_SetCondition t s opts k) = Task_Spec k"
  "ts_StartTime (Task_Status (Task_SetCondition t s opts k)) = ts_StartTime (Task_Status k)"
  "ts_CompletionTime (Task_Status (Task_SetCondition t s opts k)) = ts_CompletionTime (Task_Status k)"
  by (simp_all add: Task_SetCondition_def Let_def)


section \<open>Machines\<close>

datatype PowerState = On | Off | PowerUnknown

datatype MachineConditionType = Contactable

record MachineCondition =
  mc_Type :: MachineConditionType
  mc_Status :: ConditionStatus
  mc_LastUpdateTime :: time
  mc_Message :: string

record MachineStatus =
  ms_Power :: PowerState
  ms_Conditions :: "MachineCondition list"

record Machine = Object +
  Machine_Connection :: Connection
  Machine_Status :: MachineStatus

definition WithMachineConditionMessage :: "string \<Rightarrow> MachineCondition \<Rightarrow> MachineCondition" where
  "WithMachineConditionMessage m c = c\<lparr>mc_Message := m\<rparr>"

text \<open>
  The time stamp moves only when the status changes. A fresh entry starts with the zero
  status, which differs from both values, so it is stamped.
\<close>

definition Machine_SetCondition ::
  "time \<Rightarrow> MachineConditionType \<Rightarrow> ConditionStatus \<Rightarrow> (MachineCondition \<Rightarrow> MachineCondition) list \<Rightarrow>
   Machine \<Rightarrow> Machine" where
  "Machine_SetCondition now cType status opts m =
     (let cs = ms_Conditions (Machine_Status m);
          stamp = (\<lambda>c. if mc_Status c \<noteq> status then c\<lparr>mc_Status := status, mc_LastUpdateTime := now\<rparr> else c);
          run = fold (\<lambda>opt c. opt c) opts;
          cs' = (case find_index (\<lambda>c. mc_Type c = cType) cs of
              Some i \<Rightarrow> cs[i := run (stamp (cs ! i))]
            | None \<Rightarrow> cs @ [run \<lparr>mc_Type = cType, mc_Status = status, mc_LastUpdateTime = now, mc_Message = []\<rparr>])
      in m\<lparr>Machine_Status := (Machine_Status m)\<lparr>ms_Conditions := cs'\<rparr>\<rparr>)"

text \<open>The sources have no reader for machine conditions; this one is for the statements.\<close>

definition machine_condition :: "Machine \<Rightarrow> MachineConditionType \<Rightarrow> ConditionStatus \<Rightarrow> bool" where
  "machine_condition m t s \<longleftrightarrow> (case find_index (\<lambda>c. mc_Type c = t) (ms_Conditions (Machine_Status m)) of
     None \<Rightarrow> False | Some i \<Rightarrow> mc_Status (ms_Conditions (Machine_Status m) ! i) = s)"

lemma fold_machine_messages [simp]:
  "mc_Type (fold (\<lambda>opt c. opt c) (map WithMachineConditionMessage ms) c) = mc_Type c"
  "mc_Status (fold (\<lambda>opt c. opt c) (map WithMachineConditionMessage ms) c) = mc_Status c"
  "mc_LastUpdateTime (fold (\<lambda>opt c. opt c) (map WithMachineConditionMessage ms) c) = mc_LastUpdateTime c"
  by (induction ms arbitrary: c) (simp_all add: WithMachineConditionMessage_def)

interpretation machine_conditions: condition_list
  "\<lambda>m. ms_Conditions (Machine_Status m)" mc_Type mc_Status machine_condition
  "\<lambda>(now, t, s, ms). Machine_SetCondition now t s (map WithMachineConditionMessage ms)"
  "\<lambda>a. fst (snd a)" "\<lambda>a. fst (snd (snd a))"
  by unfold_locales
    (auto simp: machine_condition_def Machine_SetCondition_def Let_def find_index_key)

lemma machine_condition_set [simp]:
  "machine_condition (Machine_SetCondition now t s [WithMachineConditionMessage msg] m) t s' \<longleftrightarrow> s' = s"
  using machine_conditions.has_upd_same [of "(now, t, s, [msg])" m s'] by auto

lemma Machine_SetCondition_frame [simp]:
  "Name (Machine_SetCondition now t s opts m) = Name m"
  "Namespace (Machine_SetCondition now t s opts m) = Namespace m"
  "Machine_Connection (Machine_SetCondition now t s opts m) = Machine_Connection m"
  "ms_Power (Machine_Status (Machine_SetCondition now t s opts m)) = ms_Power (Machine_Status m)"
  by (simp_all add: Machine_SetCondition_def Let_def)

end
