(* ===== verification/Api_Hardware.thy ===== *)
theory Api_Hardware
  imports Kube_Meta
begin

text \<open>
  The Hardware API, \<open>src/api/v1alpha1/tinkerbell/hardware.go\<close>: interfaces with their netboot
  and DHCP settings, the metadata served to instances, and the attributes collected from a
  BMC. A Go pointer is an option, a 64-bit integer an \<open>int\<close>, a \<open>uint32\<close> a 32-bit word.
  Quantities of package \<open>resource\<close> are kept as the strings they serialise to.
\<close>


section \<open>Network interfaces\<close>

record PXELINUX =
  pxelinux_Config :: string

record RPI =
  rpi_ConfigTxt :: string
  rpi_FirmwarePath :: string
  rpi_SerialNum :: string

record IPXE =
  ipxe_URL :: string
  ipxe_Contents :: string
  ipxe_Binary :: string

record OSIE =
  osie_BaseURL :: string
  osie_Kernel :: string
  osie_Initrd :: string
  osie_KernelParams :: "string list"

record Netboot =
  nb_AllowPXE :: "bool option"
  nb_AllowWorkflow :: "bool option"
  nb_IPXE :: "IPXE option"
  nb_OSIE :: "OSIE option"
  nb_PXELINUX :: "PXELINUX option"
  nb_RPI :: "RPI option"

record Isoboot =
  iso_SourceISO :: string

record IP =
  ip_Address :: string
  ip_Netmask :: string
  ip_Gateway :: string
  ip_Family :: int

record ClasslessStaticRoute =
  csr_DestinationDescriptor :: string
  csr_Router :: string

record DHCP =
  dhcp_MAC :: string
  dhcp_Hostname :: string
  dhcp_DomainName :: string
  dhcp_LeaseTime :: int
  dhcp_NameServers :: "string list"
  dhcp_TimeServers :: "string list"
  dhcp_Arch :: string
  dhcp_UEFI :: bool
  dhcp_IfaceName :: string
  dhcp_IP :: "IP option"
  dhcp_VLANID :: string
  dhcp_ClasslessStaticRoutes :: "ClasslessStaticRoute list"
  dhcp_TFTPServerName :: string
  dhcp_BootFileName :: string

record Interface =
  if_Netboot :: "Netboot option"
  if_Isoboot :: "Isoboot option"
  if_DHCP :: "DHCP option"
  if_DisableDHCP :: bool


section \<open>Instance metadata\<close>

record MetadataManufacturer =
  mm_ID :: string
  mm_Slug :: string

record MetadataInstanceOperatingSystem =
  os_Slug :: string
  os_Distro :: string
  os_Version :: string
  os_ImageTag :: string
  os_OsSlug :: string

record MetadataInstanceIP =
  mip_Address :: string
  mip_Netmask :: string
  mip_Gateway :: string
  mip_Family :: int
  mip_Public :: bool
  mip_Management :: bool

record MetadataInstanceStorageDiskPartition =
  part_Label :: string
  part_Number :: int
  part_Size :: int
  part_Start :: int
  part_TypeGUID :: string

record MetadataInstanceStorageDisk =
  sd_Device :: string
  sd_WipeTable :: bool
  sd_Partitions :: "MetadataInstanceStorageDiskPartition option list"

record MetadataInstanceStorageRAID =
  raid_Name :: string
  raid_Level :: string
  raid_Devices :: "string list"
  raid_Spare :: int

record MetadataInstanceStorageFile =
  file_Path :: string
  file_Contents :: string
  file_Mode :: int
  file_UID :: int
  file_GID :: int

record MetadataInstanceStorageMountFilesystemOptions =
  mfo_Force :: bool
  mfo_Options :: "string list"

record MetadataInstanceStorageMount =
  mnt_Device :: string
  mnt_Format :: string
  mnt_Files :: "MetadataInstanceStorageFile option list"
  mnt_Create :: "MetadataInstanceStorageMountFilesystemOptions option"
  mnt_Point :: string

record MetadataInstanceStorageFilesystem =
  fs_Mount :: "MetadataInstanceStorageMount option"

record MetadataInstanceStorage =
  st_Disks :: "MetadataInstanceStorageDisk option list"
  st_Raid :: "MetadataInstanceStorageRAID option list"
  st_Filesystems :: "MetadataInstanceStorageFilesystem option list"

record MetadataInstance =
  mi_ID :: string
  mi_State :: string
  mi_Hostname :: string
  mi_AllowPxe :: bool
  mi_Rescue :: bool
  mi_OperatingSystem :: "MetadataInstanceOperatingSystem option"
  mi_AlwaysPxe :: bool
  mi_IpxeScriptURL :: string
  mi_Ips :: "MetadataInstanceIP option list"
  mi_Userdata :: string
  mi_CryptedRootPassword :: string
  mi_Tags :: "string list"
  mi_Storage :: "MetadataInstanceStorage option"
  mi_SSHKeys :: "string list"
  mi_NetworkReady :: bool

record MetadataCustom =
  mcu_PreinstalledOperatingSystemVersion :: "MetadataInstanceOperatingSystem option"
  mcu_PrivateSubnets :: "string list"

record MetadataFacility =
  mf_PlanSlug :: string
  mf_PlanVersionSlug :: string
  mf_FacilityCode :: string

record HardwareMetadata =
  md_State :: string
  md_BondingMode :: int
  md_Manufacturer :: "MetadataManufacturer option"
  md_Instance :: "MetadataInstance option"
  md_Custom :: "MetadataCustom option"
  md_Facility :: "MetadataFacility option"


section \<open>Collected attributes\<close>

record ComponentStatus =
  cs_Health :: string
  cs_State :: string
  cs_PostCode :: "int option"
  cs_PostCodeStatus :: string

record CPUSocket =
  sock_Slot :: string
  sock_Vendor :: string
  sock_Model :: string
  sock_Cores :: "32 word"
  sock_Threads :: "32 word"
  sock_ClockSpeedMHz :: "32 word"
  sock_SerialNumber :: string
  sock_Capabilities :: "string list"
  sock_FirmwareVersion :: string

record CPU =
  cpu_TotalCores :: "32 word"
  cpu_TotalThreads :: "32 word"
  cpu_Sockets :: "CPUSocket list"

record MemoryModule =
  mem_Slot :: string
  mem_Vendor :: string
  mem_Model :: string
  mem_SerialNumber :: string
  mem_PartNumber :: string
  mem_SizeBytes :: int
  mem_SpeedMHz :: "32 word"
  mem_FormFactor :: string
  mem_FirmwareVersion :: string

record Memory =
  memory_TotalBytes :: int
  memory_UsableBytes :: int
  memory_Modules :: "MemoryModule list"

record BlockDevice =
  blk_Name :: string
  blk_ControllerType :: string
  blk_DriveType :: string
  blk_Vendor :: string
  blk_Model :: string
  blk_SerialNumber :: string
  blk_WWN :: string
  blk_SizeBytes :: int
  blk_PhysicalBlockSizeBytes :: int
  blk_SmartStatus :: string
  blk_FirmwareVersion :: string
  blk_Status :: "ComponentStatus option"

record NetworkPort =
  port_PortID :: string
  port_MAC :: string
  port_SpeedMbps :: "32 word"
  port_MTU :: "32 word"
  port_LinkStatus :: string
  port_EnabledCapabilities :: "string list"

record NetworkInterface =
  nif_Name :: string
  nif_Vendor :: string
  nif_Model :: string
  nif_SerialNumber :: string
  nif_FirmwareVersion :: string
  nif_Ports :: "NetworkPort list"

record GPUDevice =
  gpu_Vendor :: string
  gpu_Model :: string
  gpu_SerialNumber :: string
  gpu_Description :: string
  gpu_Class :: string
  gpu_Driver :: string
  gpu_FirmwareVersion :: string
  gpu_Status :: "ComponentStatus option"

record PCIDevice =
  pci_Vendor :: string
  pci_Model :: string
  pci_Class :: string
  pci_Driver :: string

record Chassis =
  chassis_Vendor :: string
  chassis_Model :: string
  chassis_SerialNumber :: string

record Baseboard =
  bb_Vendor :: string
  bb_Model :: string
  bb_SerialNumber :: string
  bb_Description :: string
  bb_FirmwareVersion :: string
  bb_Status :: "ComponentStatus option"

record BIOS =
  bios_Vendor :: string
  bios_Model :: string
  bios_SerialNumber :: string
  bios_FirmwareVersion :: string
  bios_ReleaseDate :: string
  bios_Status :: "ComponentStatus option"

record Product =
  prod_Name :: string
  prod_Vendor :: string
  prod_Model :: string
  prod_SerialNumber :: string
  prod_Status :: "ComponentStatus option"

record BMC =
  bmc_Vendor :: string
  bmc_Model :: string
  bmc_SerialNumber :: string
  bmc_FirmwareVersion :: string
  bmc_NIC :: "NetworkInterface option"
  bmc_Status :: "ComponentStatus option"

record PSU =
  psu_Vendor :: string
  psu_Model :: string
  psu_SerialNumber :: string
  psu_Description :: string
  psu_FirmwareVersion :: string
  psu_PowerCapacityWatts :: int
  psu_Status :: "ComponentStatus option"

record TPM =
  tpm_Vendor :: string
  tpm_Model :: string
  tpm_SerialNumber :: string
  tpm_InterfaceType :: string
  tpm_FirmwareVersion :: string
  tpm_Status :: "ComponentStatus option"

record StorageController =
  sc_Vendor :: string
  sc_Model :: string
  sc_SerialNumber :: string
  sc_Description :: string
  sc_FirmwareVersion :: string
  sc_Status :: "ComponentStatus option"

record Attributes =
  at_LastUpdated :: "time option"
  at_CollectionMethod :: string
  at_CPU :: "CPU option"
  at_Memory :: "Memory option"
  at_BlockDevices :: "BlockDevice list"
  at_NetworkInterfaces :: "NetworkInterface list"
  at_GPUDevices :: "GPUDevice list"
  at_PCIDevices :: "PCIDevice list"
  at_Chassis :: "Chassis option"
  at_Baseboard :: "Baseboard option"
  at_BIOS :: "BIOS option"
  at_Product :: "Product option"
  at_BMC :: "BMC option"
  at_PSUs :: "PSU list"
  at_TPMs :: "TPM list"
  at_StorageControllers :: "StorageController list"

record HardwareAttributes =
  ha_OutOfBand :: "Attributes option"


section \<open>The Hardware object\<close>

record TypedLocalObjectReference =
  tlo_APIGroup :: "string option"
  tlo_Kind :: string
  tlo_Name :: string

record Reference =
  ref_Namespace :: string
  ref_Name :: string
  ref_Group :: string
  ref_Version :: string
  ref_Resource :: string

record HardwareSpec =
  hw_AgentID :: string
  hw_EnrollmentEnabled :: bool
  hw_BMCRef :: "TypedLocalObjectReference option"
  hw_Interfaces :: "Interface list"
  hw_References :: "(string \<times> Reference) list"
  hw_Metadata :: "HardwareMetadata option"
  hw_TinkVersion :: int
  hw_Disks :: "string list"
  hw_Resources :: "string \<rightharpoonup> string"
  hw_UserData :: "string option"
  hw_VendorData :: "string option"

record HardwareStatus =
  hws_State :: string
  hws_Attributes :: "HardwareAttributes option"

record Hardware = Object +
  Hardware_Spec :: HardwareSpec
  Hardware_Status :: HardwareStatus

text \<open>Zero values of the types, as Go allocates them.\<close>

definition empty_Netboot :: Netboot where
  "empty_Netboot = \<lparr>nb_AllowPXE = None, nb_AllowWorkflow = None, nb_IPXE = None, nb_OSIE = None,
     nb_PXELINUX = None, nb_RPI = None\<rparr>"

definition empty_HardwareSpec :: HardwareSpec where
  "empty_HardwareSpec = \<lparr>hw_AgentID = [], hw_EnrollmentEnabled = False, hw_BMCRef = None,
     hw_Interfaces = [], hw_References = [], hw_Metadata = None, hw_TinkVersion = 0, hw_Disks = [],
     hw_Resources = Map.empty, hw_UserData = None, hw_VendorData = None\<rparr>"

definition empty_HardwareStatus :: HardwareStatus where
  "empty_HardwareStatus = \<lparr>hws_State = [], hws_Attributes = None\<rparr>"

definition empty_Hardware :: Hardware where
  "empty_Hardware = \<lparr>APIVersion = [], Kind = [], Name = [], Namespace = [], UID = [],
     DeletionTimestamp = None, Labels = Map.empty, Annotations = Map.empty, OwnerReferences = [],
     Hardware_Spec = empty_HardwareSpec, Hardware_Status = empty_HardwareStatus\<rparr>"

definition empty_Attributes :: Attributes where
  "empty_Attributes = \<lparr>at_LastUpdated = None, at_CollectionMethod = [], at_CPU = None,
     at_Memory = None, at_BlockDevices = [], at_NetworkInterfaces = [], at_GPUDevices = [],
     at_PCIDevices = [], at_Chassis = None, at_Baseboard = None, at_BIOS = None, at_Product = None,
     at_BMC = None, at_PSUs = [], at_TPMs = [], at_StorageControllers = []\<rparr>"

end
