(* ===== verification/Api_Workflow.thy ===== *)
theory Api_Workflow
  imports Api_Bmc Api_Hardware
begin

text \<open>
  The Workflow, Template and WorkflowRuleSet APIs, \<open>src/api/v1alpha1/tinkerbell\<close>: states,
  the task and action lists the agent works through, and the condition methods, which are
  interpreted as a \<open>condition_list\<close>.
\<close>


section \<open>States and conditions\<close>

text \<open>
  A workflow state is a string in the API. The constructors are the constants of the sources
  and the empty string; every other string is \<open>WSOther\<close>.
\<close>

datatype WorkflowState =
    WSEmpty
  | WSPreparing
  | WSPending
  | WSRunning
  | WSPost
  | WSSuccess
  | WSFailed
  | WSTimeout
  | WSOther string

definition WorkflowState_of :: "string \<Rightarrow> WorkflowState" where
  "WorkflowState_of s =
     (if s = [] then WSEmpty
      else if s = ''PREPARING'' then WSPreparing
      else if s = ''PENDING'' then WSPending
      else if s = ''RUNNING'' then WSRunning
      else if s = ''POST'' then WSPost
      else if s = ''SUCCESS'' then WSSuccess
      else if s = ''FAILED'' then WSFailed
      else if s = ''TIMEOUT'' then WSTimeout
      else WSOther s)"

fun WorkflowState_text :: "WorkflowState \<Rightarrow> string" where
  "WorkflowState_text WSEmpty = ''''"
| "WorkflowState_text WSPreparing = ''PREPARING''"
| "WorkflowState_text WSPending = ''PENDING''"
| "WorkflowState_text WSRunning = ''RUNNING''"
| "WorkflowState_text WSPost = ''POST''"
| "WorkflowState_text WSSuccess = ''SUCCESS''"
| "WorkflowState_text WSFailed = ''FAILED''"
| "WorkflowState_text WSTimeout = ''TIMEOUT''"
| "WorkflowState_text (WSOther s) = s"

datatype WorkflowConditionType =
    BootJobFailed
  | BootJobComplete
  | BootJobRunning
  | BootJobSetupFailed
  | BootJobSetupComplete
  | ToggleAllowNetbootTrue
  | ToggleAllowNetbootFalse
  | TemplateRenderedSuccess

datatype TemplateRendering = TemplateRenderingUnset | TemplateRenderingSuccessful | TemplateRenderingFailed

datatype BootMode = BootModeUnset | BootModeNetboot | BootModeISO | BootModeIsoboot | BootModeCustomboot | BootModeOther string

datatype MetaStatus = MetaTrue | MetaFalse | MetaUnknown

record WorkflowCondition =
  wc_Type :: WorkflowConditionType
  wc_Status :: MetaStatus
  wc_Reason :: string
  wc_Message :: string
  wc_Time :: "time option"


section \<open>Specification\<close>

record CustombootConfig =
  cb_PreparingActions :: "bmc_Action list"
  cb_PostActions :: "bmc_Action list"

record BootOptions =
  bo_ToggleAllowNetboot :: bool
  bo_ISOURL :: string
  bo_BootMode :: BootMode
  bo_CustombootConfig :: CustombootConfig

record WorkflowSpec =
  ws_Disabled :: "bool option"
  ws_TemplateRef :: string
  ws_HardwareRef :: string
  ws_HardwareMap :: "(string \<times> string) list"
  ws_BootOptions :: BootOptions

definition CustombootConfig_IsZero :: "CustombootConfig \<Rightarrow> bool" where
  "CustombootConfig_IsZero c \<longleftrightarrow> cb_PreparingActions c = [] \<and> cb_PostActions c = []"

definition BootOptions_IsZero :: "BootOptions \<Rightarrow> bool" where
  "BootOptions_IsZero b \<longleftrightarrow> bo_ISOURL b = [] \<and> \<not> bo_ToggleAllowNetboot b \<and> bo_BootMode b = BootModeUnset"


section \<open>Status\<close>

record AllowNetbootStatus =
  an_ToggledTrue :: bool
  an_ToggledFalse :: bool

record JobStatus =
  jst_UID :: string
  jst_Complete :: bool
  jst_ExistingJobDeleted :: bool

record BootOptionsStatus =
  bos_AllowNetboot :: AllowNetbootStatus
  bos_Jobs :: "string \<rightharpoonup> JobStatus"

record CurrentState =
  cur_AgentID :: string
  cur_TaskID :: string
  cur_ActionID :: string
  cur_State :: WorkflowState
  cur_ActionName :: string
  cur_TaskName :: string

record ActionNamespaces =
  ns_Network :: string
  ns_PID :: string

record Action =
  a_ID :: string
  a_Name :: string
  a_Image :: string
  a_Timeout :: int
  a_Command :: "string list"
  a_Volumes :: "string list"
  a_Pid :: string
  a_Namespaces :: "ActionNamespaces option"
  a_Environment :: "(string \<times> string) list"
  a_State :: WorkflowState
  a_ExecutionStart :: "time option"
  a_ExecutionStop :: "time option"
  a_ExecutionDuration :: string
  a_Message :: string

record Task =
  t_ID :: string
  t_Name :: string
  t_AgentID :: string
  t_Actions :: "Action list"
  t_Volumes :: "string list"
  t_Environment :: "(string \<times> string) list"

record WorkflowStatus =
  st_AgentID :: string
  st_State :: WorkflowState
  st_BootOptions :: BootOptionsStatus
  st_TemplateRendering :: TemplateRendering
  st_GlobalTimeout :: int
  st_GlobalExecutionStop :: "time option"
  st_CurrentState :: "CurrentState option"
  st_Tasks :: "Task list"
  st_Conditions :: "WorkflowCondition list"

record Workflow = Object +
  Workflow_Spec :: WorkflowSpec
  Workflow_Status :: WorkflowStatus

definition empty_WorkflowStatus :: WorkflowStatus where
  "empty_WorkflowStatus = \<lparr>st_AgentID = [], st_State = WSEmpty,
     st_BootOptions = \<lparr>bos_AllowNetboot = \<lparr>an_ToggledTrue = False, an_ToggledFalse = False\<rparr>, bos_Jobs = Map.empty\<rparr>,
     st_TemplateRendering = TemplateRenderingUnset, st_GlobalTimeout = 0, st_GlobalExecutionStop = None,
     st_CurrentState = None, st_Tasks = [], st_Conditions = []\<rparr>"

text \<open>Writing to the status, and its state.\<close>

definition on_status :: "(WorkflowStatus \<Rightarrow> WorkflowStatus) \<Rightarrow> Workflow \<Rightarrow> Workflow" where
  "on_status f wfl = wfl\<lparr>Workflow_Status := f (Workflow_Status wfl)\<rparr>"

definition set_state :: "WorkflowState \<Rightarrow> Workflow \<Rightarrow> Workflow" where
  "set_state s = on_status (\<lambda>st. st\<lparr>st_State := s\<rparr>)"

abbreviation wf_state :: "Workflow \<Rightarrow> WorkflowState" where
  "wf_state wfl \<equiv> st_State (Workflow_Status wfl)"

record Template = Object +
  Template_Data :: "string option"

record TemplateConfig =
  tcfg_AgentValue :: string
  tcfg_KVs :: "(string \<times> string) list"
  tcfg_Ref :: string

record WorkflowRuleSetWorkflow =
  wrw_Disabled :: "bool option"
  wrw_Namespace :: string
  wrw_AddAttributes :: bool
  wrw_Template :: TemplateConfig

record WorkflowRuleSet = Object +
  wrs_Rules :: "string list"
  wrs_Workflow :: WorkflowRuleSetWorkflow


section \<open>Condition methods\<close>

fun workflow_conditions_have :: "WorkflowCondition list \<Rightarrow> WorkflowConditionType \<Rightarrow> MetaStatus \<Rightarrow> bool" where
  "workflow_conditions_have [] t s = False"
| "workflow_conditions_have (c # cs) t s =
     (if wc_Type c = t then wc_Status c = s else workflow_conditions_have cs t s)"

definition HasCondition :: "WorkflowStatus \<Rightarrow> WorkflowConditionType \<Rightarrow> MetaStatus \<Rightarrow> bool" where
  "HasCondition w wct cs = workflow_conditions_have (st_Conditions w) wct cs"

definition SetCondition :: "WorkflowCondition \<Rightarrow> WorkflowStatus \<Rightarrow> WorkflowStatus" where
  "SetCondition wc w =
     (case find_index (\<lambda>c. wc_Type c = wc_Type wc) (st_Conditions w) of
        Some i \<Rightarrow> w\<lparr>st_Conditions := (st_Conditions w)[i := wc]\<rparr>
      | None \<Rightarrow> w\<lparr>st_Conditions := st_Conditions w @ [wc]\<rparr>)"

definition same_condition :: "WorkflowCondition \<Rightarrow> WorkflowCondition \<Rightarrow> bool" where
  "same_condition c d \<longleftrightarrow> wc_Status c = wc_Status d \<and> wc_Reason c = wc_Reason d \<and> wc_Message c = wc_Message d"

definition SetConditionIfDifferent :: "WorkflowCondition \<Rightarrow> WorkflowStatus \<Rightarrow> WorkflowStatus" where
  "SetConditionIfDifferent wc w =
     (case find_index (\<lambda>c. wc_Type c = wc_Type wc) (st_Conditions w) of
        Some i \<Rightarrow>
          if same_condition (st_Conditions w ! i) wc then w
          else w\<lparr>st_Conditions := (st_Conditions w)[i := wc]\<rparr>
      | None \<Rightarrow> w\<lparr>st_Conditions := st_Conditions w @ [wc]\<rparr>)"

lemma workflow_conditions_have_find:
  "workflow_conditions_have cs t s \<longleftrightarrow> (case find_index (\<lambda>c. wc_Type c = t) cs of
     None \<Rightarrow> False | Some i \<Rightarrow> wc_Status (cs ! i) = s)"
  by (induction cs) (auto split: option.splits)

interpretation wf_set: condition_list st_Conditions wc_Type wc_Status HasCondition SetCondition wc_Type wc_Status
  by unfold_locales (auto simp: HasCondition_def workflow_conditions_have_find SetCondition_def)

interpretation wf_set_diff:
  condition_list st_Conditions wc_Type wc_Status HasCondition SetConditionIfDifferent wc_Type wc_Status
proof unfold_locales
  fix wc :: WorkflowCondition and w :: WorkflowStatus and i
  assume hit: "find_index (\<lambda>c. wc_Type c = wc_Type wc) (st_Conditions w) = Some i"
  then have ty: "wc_Type (st_Conditions w ! i) = wc_Type wc" by (rule find_index_key)
  show "\<exists>c'. st_Conditions (SetConditionIfDifferent wc w) = (st_Conditions w)[i := c'] \<and>
      wc_Type c' = wc_Type wc \<and> wc_Status c' = wc_Status wc"
  proof (cases "same_condition (st_Conditions w ! i) wc")
    case True
    with hit ty show ?thesis
      by (intro exI [of _ "st_Conditions w ! i"]) (simp add: SetConditionIfDifferent_def same_condition_def)
  next
    case False
    with hit show ?thesis
      by (intro exI [of _ wc]) (simp add: SetConditionIfDifferent_def)
  qed
qed (auto simp: wf_set.has_reads SetConditionIfDifferent_def)

lemma SetCondition_frame [simp]:
  "st_State (SetCondition wc w) = st_State w"
  "st_Tasks (SetCondition wc w) = st_Tasks w"
  "st_AgentID (SetCondition wc w) = st_AgentID w"
  "st_BootOptions (SetCondition wc w) = st_BootOptions w"
  "st_CurrentState (SetCondition wc w) = st_CurrentState w"
  "st_TemplateRendering (SetCondition wc w) = st_TemplateRendering w"
  "st_GlobalTimeout (SetCondition wc w) = st_GlobalTimeout w"
  "st_GlobalExecutionStop (SetCondition wc w) = st_GlobalExecutionStop w"
  by (simp_all add: SetCondition_def split: option.splits)

lemma SetConditionIfDifferent_frame [simp]:
  "st_State (SetConditionIfDifferent wc w) = st_State w"
  "st_Tasks (SetConditionIfDifferent wc w) = st_Tasks w"
  "st_AgentID (SetConditionIfDifferent wc w) = st_AgentID w"
  "st_BootOptions (SetConditionIfDifferent wc w) = st_BootOptions w"
  "st_CurrentState (SetConditionIfDifferent wc w) = st_CurrentState w"
  "st_TemplateRendering (SetConditionIfDifferent wc w) = st_TemplateRendering w"
  "st_GlobalTimeout (SetConditionIfDifferent wc w) = st_GlobalTimeout w"
  "st_GlobalExecutionStop (SetConditionIfDifferent wc w) = st_GlobalExecutionStop w"
  by (simp_all add: SetConditionIfDifferent_def split: option.splits)

lemma HasCondition_set [simp]:
  "HasCondition (SetCondition wc w) t s \<longleftrightarrow>
     (if t = wc_Type wc then s = wc_Status wc else HasCondition w t s)"
  using wf_set.has_upd_same [of wc w s] wf_set.has_upd_other [of t wc w s] by auto

lemma HasCondition_set_diff [simp]:
  "HasCondition (SetConditionIfDifferent wc w) t s \<longleftrightarrow>
     (if t = wc_Type wc then s = wc_Status wc else HasCondition w t s)"
  using wf_set_diff.has_upd_same [of wc w s] wf_set_diff.has_upd_other [of t wc w s] by auto

lemma WorkflowState_roundtrip: "WorkflowState_text (WorkflowState_of s) = s"
  by (simp add: WorkflowState_of_def)

end
