(* ===== verification/Template.thy ===== *)
theory Template
  imports Net Api_Workflow
begin

text \<open>
  Workflow templates, \<open>src/tink/controller/internal/workflow\<close>: rendering with a bounded
  output (\<open>template_funcs.go\<close>), parsing and validation (\<open>template_validator.go\<close>), conversion
  to a workflow status (\<open>convert.go\<close>) and the reference rules (\<open>lists.go\<close>). The template
  engine, the YAML decoder, the image-name parser, the ULID generator and the rule engine are
  third-party or reflective code and appear as parameters.
\<close>


section \<open>Template types\<close>

record template_Action =
  ta_Name :: string
  ta_Image :: string
  ta_Timeout :: int
  ta_Command :: "string list"
  ta_OnTimeout :: "string list"
  ta_OnFailure :: "string list"
  ta_Volumes :: "string list"
  ta_Environment :: "(string \<times> string) list"
  ta_Pid :: string
  ta_Namespaces :: ActionNamespaces

record template_Task =
  tt_Name :: string
  tt_WorkerAddr :: string
  tt_Actions :: "template_Action list"
  tt_Volumes :: "string list"
  tt_Environment :: "(string \<times> string) list"

record template_Workflow =
  tw_Version :: string
  tw_Name :: string
  tw_ID :: string
  tw_GlobalTimeout :: int
  tw_Tasks :: "template_Task list"


section \<open>Bounded rendering\<close>

definition maxRenderBytes :: nat where
  "maxRenderBytes = 256 * 1024"

record limitedWriter =
  lw_buf :: string
  lw_limit :: nat

definition limitedWriter_Write :: "string \<Rightarrow> limitedWriter \<Rightarrow> (gerr + nat) \<times> limitedWriter" where
  "limitedWriter_Write p w =
     (if length (lw_buf w) + length p > lw_limit w
      then (Inl (NewError (''rendered template exceeds '' @ string_of_nat (lw_limit w) @ '' bytes'')), w)
      else (Inr (length p), w\<lparr>lw_buf := lw_buf w @ p\<rparr>))"

text \<open>
  The template engine: whether a text parses, and what executing it does. Executing writes a
  sequence of chunks to the writer and ends with success or with an error of its own; the
  engine stops at the first write that fails and returns that error unchanged.
\<close>

record 'd template_engine =
  tmpl_Parse :: "string \<Rightarrow> string \<Rightarrow> gerr option"
  tmpl_Chunks :: "string \<Rightarrow> string \<Rightarrow> 'd \<Rightarrow> string list"
  tmpl_Error :: "string \<Rightarrow> string \<Rightarrow> 'd \<Rightarrow> gerr option"

fun write_chunks :: "string list \<Rightarrow> gerr option \<Rightarrow> limitedWriter \<Rightarrow> gerr option \<times> limitedWriter" where
  "write_chunks [] final w = (final, w)"
| "write_chunks (p # ps) final w =
     (case limitedWriter_Write p w of
        (Inl e, w') \<Rightarrow> (Some e, w')
      | (Inr n, w') \<Rightarrow> write_chunks ps final w')"

definition renderTemplate :: "'d template_engine \<Rightarrow> string \<Rightarrow> string \<Rightarrow> 'd \<Rightarrow> gerr + string" where
  "renderTemplate eng name tmplStr data =
     (case tmpl_Parse eng name tmplStr of
        Some e \<Rightarrow> Inl e
      | None \<Rightarrow>
          (case write_chunks (tmpl_Chunks eng name tmplStr data) (tmpl_Error eng name tmplStr data)
                  \<lparr>lw_buf = [], lw_limit = maxRenderBytes\<rparr> of
             (Some e, w) \<Rightarrow> Inl e
           | (None, w) \<Rightarrow> Inr (lw_buf w)))"

text \<open>Writing never passes the limit, and without an error nothing is lost.\<close>

lemma write_chunks_bounded:
  "write_chunks ps final w = (r, w') \<Longrightarrow> length (lw_buf w) \<le> lw_limit w \<Longrightarrow>
   length (lw_buf w') \<le> lw_limit w \<and> lw_limit w' = lw_limit w"
proof (induction ps arbitrary: w)
  case Nil
  then show ?case by simp
next
  case (Cons p ps)
  show ?case
  proof (cases "length (lw_buf w) + length p > lw_limit w")
    case True
    with Cons.prems show ?thesis by (auto simp: limitedWriter_Write_def)
  next
    case False
    let ?w = "w\<lparr>lw_buf := lw_buf w @ p\<rparr>"
    have "write_chunks ps final ?w = (r, w')"
      using Cons.prems(1) False by (simp add: limitedWriter_Write_def)
    from Cons.IH [OF this] False show ?thesis by simp
  qed
qed

lemma write_chunks_complete:
  "length (lw_buf w) + length (concat ps) \<le> lw_limit w \<Longrightarrow>
   write_chunks ps final w = (final, w\<lparr>lw_buf := lw_buf w @ concat ps\<rparr>)"
  by (induction ps arbitrary: w) (simp_all add: limitedWriter_Write_def)

lemma write_chunks_overflow:
  "length (lw_buf w) \<le> lw_limit w \<Longrightarrow> lw_limit w < length (lw_buf w) + length (concat ps) \<Longrightarrow>
   \<exists>w'. write_chunks ps final w =
     (Some (NewError (''rendered template exceeds '' @ string_of_nat (lw_limit w) @ '' bytes'')), w')"
proof (induction ps arbitrary: w)
  case Nil
  then show ?case by simp
next
  case (Cons p ps)
  show ?case
  proof (cases "length (lw_buf w) + length p > lw_limit w")
    case True
    then show ?thesis by (simp add: limitedWriter_Write_def)
  next
    case False
    with Cons.IH [of "w\<lparr>lw_buf := lw_buf w @ p\<rparr>"] Cons.prems show ?thesis
      by (simp add: limitedWriter_Write_def)
  qed
qed


section \<open>Template functions\<close>

definition formatPartition :: "string \<Rightarrow> int \<Rightarrow> string" where
  "formatPartition dev part =
     (if has_prefix ''/dev/disk/'' dev then dev @ ''-part'' @ string_of_int part
      else if dev \<noteq> [] \<and> CHR ''0'' \<le> last dev \<and> last dev \<le> CHR ''9'' then dev @ ''p'' @ string_of_int part
      else dev @ string_of_int part)"

definition netmaskToPrefixLength :: "string \<Rightarrow> gerr + string" where
  "netmaskToPrefixLength netmask =
     (case ParseIP netmask of
        None \<Rightarrow> Inl (NewError (''invalid netmask format: '' @ netmask))
      | Some ip \<Rightarrow>
          (case To4 ip of
             None \<Rightarrow> Inl (NewError (''netmask must be IPv4: '' @ netmask))
           | Some ipv4 \<Rightarrow> Inr (string_of_nat (fst (IPMask_Size ipv4)))))"

definition toYaml :: "('v \<Rightarrow> gerr + string) \<Rightarrow> 'v \<Rightarrow> gerr + string" where
  "toYaml marshal v =
     (case marshal v of
        Inl e \<Rightarrow> Inl (errorf ''toYaml: '' e)
      | Inr d \<Rightarrow> Inr (if has_suffix [char_of (10 :: nat)] d then butlast d else d))"

definition fromYaml :: "(string \<Rightarrow> gerr + 'v) \<Rightarrow> string \<Rightarrow> gerr + 'v" where
  "fromYaml unmarshal s =
     (if s = [] then Inl (NewError ''fromYaml: empty YAML input'')
      else (case unmarshal s of
        Inl e \<Rightarrow> Inl (errorf ''fromYaml: '' e)
      | Inr v \<Rightarrow> Inr v))"


section \<open>Validation\<close>

definition hasValidLength :: "string \<Rightarrow> bool" where
  "hasValidLength name \<longleftrightarrow> length name > 0 \<and> length name < 200"

definition errInvalidLength :: "string \<Rightarrow> gerr" where
  "errInvalidLength name = NewError (''name cannot be empty or have more than 200 characters: '' @ name)"

text \<open>The loops over tasks and actions carry the set of names seen so far.\<close>

fun validate_actions :: "(string \<Rightarrow> gerr option) \<Rightarrow> template_Action list \<Rightarrow> string set \<Rightarrow> gerr option" where
  "validate_actions img [] seen = None"
| "validate_actions img (a # as) seen =
     (if \<not> hasValidLength (ta_Name a) then Some (errInvalidLength (ta_Name a))
      else (case img (ta_Image a) of
        Some e \<Rightarrow> Some (NewError (''invalid action image ('' @ ta_Image a @ ''): '' @ err_text e))
      | None \<Rightarrow>
          if ta_Name a \<in> seen then Some (NewError (''two actions in a task cannot have same name: '' @ ta_Name a))
          else validate_actions img as (insert (ta_Name a) seen)))"

fun validate_tasks :: "(string \<Rightarrow> gerr option) \<Rightarrow> template_Task list \<Rightarrow> string set \<Rightarrow> gerr option" where
  "validate_tasks img [] seen = None"
| "validate_tasks img (t # ts) seen =
     (if \<not> hasValidLength (tt_Name t) then Some (errInvalidLength (tt_Name t))
      else if tt_Name t \<in> seen
      then Some (NewError (''two tasks in a template cannot have same name ('' @ tt_Name t @ '')''))
      else (case validate_actions img (tt_Actions t) {} of
        Some e \<Rightarrow> Some e
      | None \<Rightarrow> validate_tasks img ts (insert (tt_Name t) seen)))"

definition validate :: "(string \<Rightarrow> gerr option) \<Rightarrow> template_Workflow \<Rightarrow> gerr option" where
  "validate img wfl =
     (if \<not> hasValidLength (tw_Name wfl) then Some (errInvalidLength (tw_Name wfl))
      else if tw_Tasks wfl = [] then Some (NewError ''template must have at least one task defined'')
      else validate_tasks img (tw_Tasks wfl) {})"

text \<open>What validation promises, as a predicate on the template.\<close>

definition valid_task :: "(string \<Rightarrow> gerr option) \<Rightarrow> template_Task \<Rightarrow> bool" where
  "valid_task img t \<longleftrightarrow>
     length (tt_Name t) \<in> {1..199} \<and> distinct (map ta_Name (tt_Actions t)) \<and>
     (\<forall>a \<in> set (tt_Actions t). length (ta_Name a) \<in> {1..199} \<and> img (ta_Image a) = None)"

definition valid_template :: "(string \<Rightarrow> gerr option) \<Rightarrow> template_Workflow \<Rightarrow> bool" where
  "valid_template img wfl \<longleftrightarrow>
     length (tw_Name wfl) \<in> {1..199} \<and> tw_Tasks wfl \<noteq> [] \<and> distinct (map tt_Name (tw_Tasks wfl)) \<and>
     (\<forall>t \<in> set (tw_Tasks wfl). valid_task img t)"

lemma hasValidLength_iff: "hasValidLength name \<longleftrightarrow> length name \<in> {1..199}"
  by (cases name) (auto simp: hasValidLength_def)

lemma validate_actions_None:
  "validate_actions img as seen = None \<longleftrightarrow>
     distinct (map ta_Name as) \<and> set (map ta_Name as) \<inter> seen = {} \<and>
     (\<forall>a \<in> set as. hasValidLength (ta_Name a) \<and> img (ta_Image a) = None)"
  by (induction as arbitrary: seen) (auto split: option.splits)

lemma valid_task_iff:
  "valid_task img t \<longleftrightarrow> hasValidLength (tt_Name t) \<and> validate_actions img (tt_Actions t) {} = None"
  by (auto simp: valid_task_def validate_actions_None hasValidLength_iff)

lemma validate_tasks_None:
  "validate_tasks img ts seen = None \<longleftrightarrow>
     distinct (map tt_Name ts) \<and> set (map tt_Name ts) \<inter> seen = {} \<and> (\<forall>t \<in> set ts. valid_task img t)"
  by (induction ts arbitrary: seen) (auto simp: valid_task_iff split: option.splits)

lemma validate_None_iff: "validate img wfl = None \<longleftrightarrow> valid_template img wfl"
  by (auto simp: validate_def valid_template_def hasValidLength_iff validate_tasks_None)


section \<open>Parsing and rendering a workflow\<close>

definition parse :: "(string \<Rightarrow> gerr + template_Workflow) \<Rightarrow> (string \<Rightarrow> gerr option) \<Rightarrow> string \<Rightarrow> gerr + template_Workflow" where
  "parse unmarshal img yamlContent =
     (case unmarshal yamlContent of
        Inl e \<Rightarrow> Inl (WrapError ''parsing yaml data: err: '' e ('', content: '' @ yamlContent))
      | Inr wfl \<Rightarrow>
          (case validate img wfl of
             Some e \<Rightarrow> Inl (errorf ''validating workflow template: '' e)
           | None \<Rightarrow> Inr wfl))"

record 'd renderer = "'d template_engine" +
  yaml_Unmarshal :: "string \<Rightarrow> gerr + template_Workflow"
  image_error :: "string \<Rightarrow> gerr option"
  data_text :: "'d \<Rightarrow> string"

definition renderTemplateHardware ::
  "('d, 'z) renderer_scheme \<Rightarrow> string \<Rightarrow> string \<Rightarrow> 'd \<Rightarrow> gerr + template_Workflow" where
  "renderTemplateHardware r templateID templateData hardware =
     (case renderTemplate (template_engine.truncate r) ''workflow-template'' templateData hardware of
        Inl e \<Rightarrow> Inl (errorf (''failed to parse template with ID '' @ templateID @ '': err: '') e)
      | Inr rendered \<Rightarrow>
          (case parse (yaml_Unmarshal r) (image_error r) rendered of
             Inl e \<Rightarrow> Inl e
           | Inr wfl \<Rightarrow>
               if list_ex (\<lambda>t. tt_WorkerAddr t = []) (tw_Tasks wfl)
               then Inl (NewError (''failed to render template, empty hardware address ('' @ data_text r hardware @ '')''))
               else Inr wfl))"

lemma renderTemplateHardware_Inr:
  assumes "renderTemplateHardware r tid td d = Inr wfl"
  shows "valid_template (image_error r) wfl" and "\<forall>t \<in> set (tw_Tasks wfl). tt_WorkerAddr t \<noteq> []"
  using assms
  by (auto simp: renderTemplateHardware_def parse_def validate_None_iff [symmetric] list_ex_iff
      split: sum.splits option.splits if_splits)


section \<open>Conversion to a workflow status\<close>

text \<open>\<open>mk\<close> is \<open>ulid.Make().String()\<close>: the next identifier and the generator after it.\<close>

definition convert_action :: "string \<Rightarrow> template_Action \<Rightarrow> Action" where
  "convert_action i act = \<lparr>a_ID = i, a_Name = ta_Name act, a_Image = ta_Image act, a_Timeout = ta_Timeout act,
     a_Command = ta_Command act, a_Volumes = ta_Volumes act, a_Pid = ta_Pid act,
     a_Namespaces =
       (if ns_Network (ta_Namespaces act) \<noteq> [] \<or> ns_PID (ta_Namespaces act) \<noteq> []
        then Some \<lparr>ns_Network = ns_Network (ta_Namespaces act), ns_PID = ns_PID (ta_Namespaces act)\<rparr> else None),
     a_Environment = ta_Environment act, a_State = WorkflowState_of ''PENDING'',
     a_ExecutionStart = None, a_ExecutionStop = None, a_ExecutionDuration = [], a_Message = []\<rparr>"

fun convert_actions :: "('g \<Rightarrow> string \<times> 'g) \<Rightarrow> template_Action list \<Rightarrow> 'g \<Rightarrow> Action list \<times> 'g" where
  "convert_actions mk [] g = ([], g)"
| "convert_actions mk (a # as) g =
     (let (i, g1) = mk g; (rest, g2) = convert_actions mk as g1 in (convert_action i a # rest, g2))"

fun convert_tasks :: "('g \<Rightarrow> string \<times> 'g) \<Rightarrow> template_Task list \<Rightarrow> 'g \<Rightarrow> Task list \<times> 'g" where
  "convert_tasks mk [] g = ([], g)"
| "convert_tasks mk (t # ts) g =
     (let (as, g1) = convert_actions mk (tt_Actions t) g;
          (i, g2) = mk g1;
          (rest, g3) = convert_tasks mk ts g2
      in (\<lparr>t_ID = i, t_Name = tt_Name t, t_AgentID = tt_WorkerAddr t, t_Actions = as,
           t_Volumes = tt_Volumes t, t_Environment = tt_Environment t\<rparr> # rest, g3))"

text \<open>The agent is the first non-empty worker address.\<close>

definition first_agent :: "template_Task list \<Rightarrow> string" where
  "first_agent ts = fold (\<lambda>t agentID. if agentID = [] then tt_WorkerAddr t else agentID) ts []"

definition YAMLToStatus :: "('g \<Rightarrow> string \<times> 'g) \<Rightarrow> template_Workflow \<Rightarrow> 'g \<Rightarrow> WorkflowStatus \<times> 'g" where
  "YAMLToStatus mk wfl g =
     (let (tasks, g') = convert_tasks mk (tw_Tasks wfl) g
      in (empty_WorkflowStatus\<lparr>st_GlobalTimeout := tw_GlobalTimeout wfl, st_Tasks := tasks,
            st_AgentID := first_agent (tw_Tasks wfl)\<rparr>, g'))"

lemma state_pending [simp]: "WorkflowState_of ''PENDING'' = WSPending"
  by (simp add: WorkflowState_of_def)

lemma convert_action_fields [simp]:
  "a_ID (convert_action i a) = i"
  "a_Name (convert_action i a) = ta_Name a"
  "a_State (convert_action i a) = WSPending"
  "a_ExecutionStart (convert_action i a) = None"
  by (simp_all add: convert_action_def)

lemma convert_actions_names:
  "map a_Name (fst (convert_actions mk as g)) = map ta_Name as"
  by (induction as arbitrary: g) (auto simp: Let_def case_prod_unfold)

lemma convert_actions_pending:
  "\<forall>a \<in> set (fst (convert_actions mk as g)). a_State a = WSPending \<and> a_ExecutionStart a = None"
  by (induction as arbitrary: g) (auto simp: Let_def case_prod_unfold)

lemma convert_tasks_shape:
  "map (\<lambda>t. (t_Name t, t_AgentID t, map a_Name (t_Actions t))) (fst (convert_tasks mk ts g)) =
   map (\<lambda>t. (tt_Name t, tt_WorkerAddr t, map ta_Name (tt_Actions t))) ts"
proof (induction ts arbitrary: g)
  case Nil
  then show ?case by simp
next
  case (Cons t ts)
  obtain as g1 where as: "convert_actions mk (tt_Actions t) g = (as, g1)" by fastforce
  obtain i g2 where i: "mk g1 = (i, g2)" by fastforce
  obtain rest g3 where rest: "convert_tasks mk ts g2 = (rest, g3)" by fastforce
  show ?case
    using Cons.IH [of g2] convert_actions_names [of mk "tt_Actions t" g] as i rest by simp
qed

lemma convert_tasks_pending:
  "\<forall>t \<in> set (fst (convert_tasks mk ts g)). \<forall>a \<in> set (t_Actions t). a_State a = WSPending \<and> a_ExecutionStart a = None"
proof (induction ts arbitrary: g)
  case Nil
  then show ?case by simp
next
  case (Cons t ts)
  obtain as g1 where as: "convert_actions mk (tt_Actions t) g = (as, g1)" by fastforce
  obtain i g2 where i: "mk g1 = (i, g2)" by fastforce
  obtain rest g3 where rest: "convert_tasks mk ts g2 = (rest, g3)" by fastforce
  show ?case
    using Cons.IH [of g2] convert_actions_pending [of mk "tt_Actions t" g] as i rest by simp
qed

lemma first_agent_nonempty: "fold (\<lambda>t a. if a = [] then tt_WorkerAddr t else a) ts x = x" if "x \<noteq> []"
  using that by (induction ts) auto

lemma first_agent_Cons: "tt_WorkerAddr t \<noteq> [] \<Longrightarrow> first_agent (t # ts) = tt_WorkerAddr t"
  by (simp add: first_agent_def first_agent_nonempty)


subsection \<open>Fresh identifiers\<close>

text \<open>
  The identifiers a status carries, in the order the conversion draws them. They are a
  segment of the stream the generator produces, so they are distinct when the generator does
  not repeat itself.
\<close>

fun draws :: "('g \<Rightarrow> string \<times> 'g) \<Rightarrow> nat \<Rightarrow> 'g \<Rightarrow> string list \<times> 'g" where
  "draws mk 0 g = ([], g)"
| "draws mk (Suc n) g = (let (i, g1) = mk g; (is, g2) = draws mk n g1 in (i # is, g2))"

definition task_ids :: "Task list \<Rightarrow> string list" where
  "task_ids ts = concat (map (\<lambda>t. map a_ID (t_Actions t) @ [t_ID t]) ts)"

lemma draws_append:
  "draws mk (m + n) g = (let (is, g1) = draws mk m g; (js, g2) = draws mk n g1 in (is @ js, g2))"
  by (induction m arbitrary: g) (auto simp: Let_def split: prod.splits)

lemma draws_one: "draws mk (Suc 0) g = (let (i, g') = mk g in ([i], g'))"
  by (simp split: prod.splits)

lemma convert_actions_draws:
  "convert_actions mk as g = (bs, g') \<Longrightarrow> draws mk (length as) g = (map a_ID bs, g')"
  by (induction as arbitrary: g bs) (auto simp: Let_def split: prod.splits)

lemma convert_tasks_draws:
  "convert_tasks mk ts g = (us, g') \<Longrightarrow>
   draws mk (sum_list (map (\<lambda>t. length (tt_Actions t) + 1) ts)) g = (task_ids us, g')"
proof (induction ts arbitrary: g us g')
  case Nil
  then show ?case by (simp add: task_ids_def)
next
  case (Cons t ts)
  obtain as g1 where as: "convert_actions mk (tt_Actions t) g = (as, g1)" by fastforce
  obtain i g2 where i: "mk g1 = (i, g2)" by fastforce
  obtain rest g3 where rest: "convert_tasks mk ts g2 = (rest, g3)" by fastforce
  have d1: "draws mk (length (tt_Actions t) + Suc 0) g = (map a_ID as @ [i], g2)"
    unfolding draws_append convert_actions_draws [OF as] by (simp add: i)
  have d2: "draws mk (sum_list (map (\<lambda>t. length (tt_Actions t) + 1) ts)) g2 = (task_ids rest, g3)"
    by (rule Cons.IH [OF rest])
  show ?case
    using Cons.prems as i rest d1 d2 draws_append [of mk "length (tt_Actions t) + Suc 0" _ g]
    by (auto simp: task_ids_def)
qed


section \<open>Reference rules\<close>

record evaluationData =
  ed_SourceName :: string
  ed_SourceNamespace :: string
  ed_Reference :: Reference

text \<open>
  The rule engine: creating it, adding a pattern, and the identifiers of the patterns an event
  matches. \<open>None\<close> in the result stands for an identifier that is not a string.
\<close>

record rule_engine =
  q_New :: "gerr option"
  q_AddPattern :: "string list \<Rightarrow> string \<Rightarrow> gerr option"
  q_Matches :: "string list \<Rightarrow> evaluationData \<Rightarrow> gerr + string option list"

fun add_patterns :: "rule_engine \<Rightarrow> string list \<Rightarrow> string list \<Rightarrow> gerr option" where
  "add_patterns q done [] = None"
| "add_patterns q done (r # rs) =
     (case q_AddPattern q done r of
        Some e \<Rightarrow> Some (WrapError (''error adding matching pattern: '' @ r @ '' err: '') e [])
      | None \<Rightarrow> add_patterns q (done @ [r]) rs)"

definition match_names :: "string option list \<Rightarrow> string list" where
  "match_names ms = map (\<lambda>(i, m). case m of Some s \<Rightarrow> s | None \<Rightarrow> ''pattern-'' @ string_of_nat i) (enumerate 0 ms)"

definition evaluate :: "rule_engine \<Rightarrow> string list \<Rightarrow> evaluationData \<Rightarrow> gerr + bool \<times> string" where
  "evaluate q rules data =
     (case q_New q of
        Some e \<Rightarrow> Inl (errorf ''error creating rule evaluation engine: '' e)
      | None \<Rightarrow>
          (case add_patterns q [] rules of
             Some e \<Rightarrow> Inl e
           | None \<Rightarrow>
               (case q_Matches q rules data of
                  Inl e \<Rightarrow> Inl (errorf ''error while matching pattern: '' e)
                | Inr ms \<Rightarrow>
                    if ms = [] then Inr (False, []) else Inr (True, join_str '';'' (match_names ms)))))"

section \<open>Properties of templates\<close>

text \<open>C15. Rendering is the engine's output, cut off by size and by nothing else: when the template
  parses and the engine's chunks together fit into \<open>maxRenderBytes\<close> (256 KiB), \<open>renderTemplate\<close>
  returns exactly their concatenation or the engine's own error; when they do not fit, it returns
  the size error, whatever the engine would have done later.\<close>

theorem renderTemplate_spec:
  "renderTemplate eng name t d =
     (case tmpl_Parse eng name t of
        Some e \<Rightarrow> Inl e
      | None \<Rightarrow>
          if 262144 < length (concat (tmpl_Chunks eng name t d))
          then Inl (NewError ''rendered template exceeds 262144 bytes'')
          else (case tmpl_Error eng name t d of Some e \<Rightarrow> Inl e | None \<Rightarrow> Inr (concat (tmpl_Chunks eng name t d))))"
proof -
  let ?ps = "tmpl_Chunks eng name t d" and ?w = "\<lparr>lw_buf = [], lw_limit = maxRenderBytes\<rparr>"
  have limit: "string_of_nat maxRenderBytes = ''262144''"
    by (simp add: maxRenderBytes_def string_of_nat.simps digit_chars)
  show ?thesis
  proof (cases "262144 < length (concat ?ps)")
    case True
    then obtain w' where "write_chunks ?ps (tmpl_Error eng name t d) ?w =
        (Some (NewError (''rendered template exceeds '' @ string_of_nat maxRenderBytes @ '' bytes'')), w')"
      using write_chunks_overflow [of ?w ?ps "tmpl_Error eng name t d"] by (auto simp: maxRenderBytes_def)
    with True limit show ?thesis by (simp add: renderTemplate_def split: option.splits)
  next
    case False
    then have "write_chunks ?ps (tmpl_Error eng name t d) ?w = (tmpl_Error eng name t d, ?w\<lparr>lw_buf := concat ?ps\<rparr>)"
      using write_chunks_complete [of ?w ?ps "tmpl_Error eng name t d"] by (simp add: maxRenderBytes_def)
    with False show ?thesis by (simp add: renderTemplate_def split: option.splits)
  qed
qed


text \<open>C24. Converting a template to a status keeps tasks and actions in order with their names and
  agents, starts every action in \<open>PENDING\<close>, and, when the identifier generator does not repeat
  itself, gives every task and every action an identifier of its own.\<close>

theorem YAMLToStatus_correct:
  assumes "\<And>n. distinct (fst (draws mk n g))" and "YAMLToStatus mk wfl g = (st, g')"
  shows "map (\<lambda>t. (t_Name t, t_AgentID t, map a_Name (t_Actions t))) (st_Tasks st) =
      map (\<lambda>t. (tt_Name t, tt_WorkerAddr t, map ta_Name (tt_Actions t))) (tw_Tasks wfl) \<and>
    (\<forall>t \<in> set (st_Tasks st). \<forall>a \<in> set (t_Actions t). a_State a = WSPending) \<and>
    distinct (task_ids (st_Tasks st))"
proof -
  obtain ts where c: "convert_tasks mk (tw_Tasks wfl) g = (ts, g')" and st: "st_Tasks st = ts"
    using assms(2) by (auto simp: YAMLToStatus_def Let_def split: prod.splits)
  have "distinct (task_ids ts)"
    using convert_tasks_draws [OF c] assms(1) by (metis fst_conv)
  then show ?thesis
    using convert_tasks_shape [of mk "tw_Tasks wfl" g] convert_tasks_pending [of mk "tw_Tasks wfl" g] c st by simp
qed

text \<open>A generator that counts: the identifiers are the decimal numbers.\<close>

lemma draws_counter: "draws (\<lambda>n. (string_of_nat n, Suc n)) m n = (map string_of_nat [n ..< n + m], n + m)"
  by (induction m arbitrary: n) (simp_all add: upt_conv_Cons del: upt_Suc)

lemma draws_counter_distinct: "distinct (fst (draws (\<lambda>n. (string_of_nat n, Suc n)) m n))"
  by (simp add: draws_counter distinct_map inj_on_def inj_string_of_nat)

definition sample_task :: template_Task where
  "sample_task = \<lparr>tt_Name = ''os'', tt_WorkerAddr = ''02:00:00:00:00:01'',
     tt_Actions = [\<lparr>ta_Name = ''stream'', ta_Image = ''image2disk'', ta_Timeout = 60, ta_Command = [], ta_OnTimeout = [],
       ta_OnFailure = [], ta_Volumes = [], ta_Environment = [], ta_Pid = [],
       ta_Namespaces = \<lparr>ns_Network = [], ns_PID = []\<rparr>\<rparr>],
     tt_Volumes = [], tt_Environment = []\<rparr>"

definition sample_template :: template_Workflow where
  "sample_template = \<lparr>tw_Version = ''0.1'', tw_Name = ''debian'', tw_ID = [], tw_GlobalTimeout = 600, tw_Tasks = [sample_task]\<rparr>"

theorem YAMLToStatus_correct_witness:
  "distinct (task_ids (st_Tasks (fst (YAMLToStatus (\<lambda>n. (string_of_nat n, Suc n)) sample_template 0)))) \<and>
   map t_Name (st_Tasks (fst (YAMLToStatus (\<lambda>n. (string_of_nat n, Suc n)) sample_template 0))) = [''os'']"
proof -
  obtain st g' where y: "YAMLToStatus (\<lambda>n. (string_of_nat n, Suc n)) sample_template 0 = (st, g')" by fastforce
  note facts = YAMLToStatus_correct [OF draws_counter_distinct y]
  then have ids: "distinct (task_ids (st_Tasks st))" by blast
  have "map fst (map (\<lambda>t. (t_Name t, t_AgentID t, map a_Name (t_Actions t))) (st_Tasks st)) = [''os'']"
    unfolding facts [THEN conjunct1] by (simp add: sample_template_def sample_task_def)
  then have "map t_Name (st_Tasks st) = [''os'']" by (simp add: comp_def)
  with ids y show ?thesis by simp
qed

text \<open>The masks that \<open>simpleMaskLength\<close> accepts are the prefix masks.\<close>

lemma word8_cases:
  assumes "list_all (\<lambda>n. P (word_of_int n :: 8 word)) [0..255]"
  shows "P v"
proof -
  have "uint v < 2 ^ LENGTH(8)" by (rule unsigned_less)
  then have "uint v \<in> set [0..255]" by simp
  with assms have "P (word_of_int (uint v))" by (simp only: list_all_iff)
  then show ?thesis by simp
qed

lemma leading_ones_mask:
  "v \<noteq> 0xff \<Longrightarrow> leading_ones 8 v = (n, 0) \<longleftrightarrow> n < 8 \<and> v = NOT (drop_bit n (0xff :: 8 word))"
proof -
  have "list_all (\<lambda>m. (word_of_int m :: 8 word) \<noteq> 0xff \<longrightarrow>
     (case leading_ones 8 (word_of_int m) of (n, v') \<Rightarrow> n < 8 \<and> (v' = 0 \<longleftrightarrow> word_of_int m = NOT (drop_bit n (0xff :: 8 word))))) [0..255]"
    by code_simp
  then have a: "v \<noteq> 0xff \<longrightarrow> (case leading_ones 8 v of (n, v') \<Rightarrow> n < 8 \<and> (v' = 0 \<longleftrightarrow> v = NOT (drop_bit n (0xff :: 8 word))))"
    by (rule word8_cases)
  have "list_all (\<lambda>n. leading_ones 8 (NOT (drop_bit n (0xff :: 8 word))) = (n, 0)) [0..<8]" by code_simp
  then have b: "\<forall>n \<in> {0..<8}. leading_ones 8 (NOT (drop_bit n (0xff :: 8 word))) = (n, 0)"
    by (simp only: list_all_iff set_upt)
  assume "v \<noteq> 0xff"
  with a have "leading_ones 8 v = (n, 0) \<Longrightarrow> n < 8 \<and> v = NOT (drop_bit n (0xff :: 8 word))"
    by (simp only: prod.case simp_thms)
  moreover have "n < 8 \<Longrightarrow> v = NOT (drop_bit n (0xff :: 8 word)) \<Longrightarrow> leading_ones 8 v = (n, 0)"
    using b [THEN bspec, of n] by simp
  ultimately show ?thesis by blast
qed

lemma CIDRMask_0: "CIDRMask 0 k = replicate k 0"
  by (induction k) simp_all

lemma NOT_drop_bit_not_ff: "n < 8 \<Longrightarrow> NOT (drop_bit n (0xff :: 8 word)) \<noteq> 0xff"
proof -
  have "list_all (\<lambda>n. NOT (drop_bit n (0xff :: 8 word)) \<noteq> 0xff) [0..<8]" by code_simp
  then show "n < 8 \<Longrightarrow> NOT (drop_bit n (0xff :: 8 word)) \<noteq> 0xff"
    by (simp only: list_all_iff set_upt) simp
qed

lemma simpleMaskLength_iff:
  "simpleMaskLength b = Some n \<longleftrightarrow> n \<le> 8 * length b \<and> b = CIDRMask n (length b)"
proof (induction b arbitrary: n)
  case Nil
  then show ?case by auto
next
  case (Cons v vs)
  show ?case
  proof (cases "v = 0xff")
    case True
    show ?thesis
    proof (cases "8 \<le> n")
      case hi: True
      then obtain m where "n = 8 + m" by (metis le_iff_add)
      with True Cons.IH [of m] show ?thesis by auto
    next
      case lo: False
      with True NOT_drop_bit_not_ff [of n] show ?thesis by auto
    qed
  next
    case False
    have zeros: "\<not> list_ex (\<lambda>x. x \<noteq> 0) vs \<longleftrightarrow> vs = replicate (length vs) 0"
      by (induction vs) auto
    show ?thesis
    proof (cases "leading_ones 8 v")
      case (Pair m v')
      with False zeros leading_ones_mask [OF False, of n] leading_ones_mask [OF False, of m] show ?thesis
        by (auto simp: CIDRMask_0)
    qed
  qed
qed



end
