(* ===== verification/Controller_Job.thy ===== *)
theory Controller_Job
  imports Template
begin

text \<open>
  The boot jobs of the workflow controller, \<open>src/tink/controller/internal/workflow\<close>:
  \<open>job.go\<close> (create, track and delete the BMC job of a workflow) and \<open>hardware.go\<close>
  (toggling netboot on the Hardware object). The API client is a record of operations on an
  abstract world: each call, reads included, may see and leave a different world, because
  other actors write to the cluster at the same time.
\<close>


section \<open>The API client\<close>

record ('w, 'v) ctl_client =
  ck_now :: "'w \<Rightarrow> time"
  ck_Sleep :: "'w \<Rightarrow> 'w"
  ck_GetWorkflow :: "string \<Rightarrow> string \<Rightarrow> 'w \<Rightarrow> (gerr + Workflow) \<times> 'w"
  ck_GetTemplate :: "string \<Rightarrow> string \<Rightarrow> 'w \<Rightarrow> (gerr + Template) \<times> 'w"
  ck_GetHardware :: "string \<Rightarrow> string \<Rightarrow> 'w \<Rightarrow> (gerr + Hardware) \<times> 'w"
  ck_GetJob :: "string \<Rightarrow> string \<Rightarrow> 'w \<Rightarrow> (gerr + Job) \<times> 'w"
  ck_UpdateHardware :: "Hardware \<Rightarrow> 'w \<Rightarrow> gerr option \<times> 'w"
  ck_CreateJob :: "Job \<Rightarrow> 'w \<Rightarrow> gerr option \<times> 'w"
  ck_DeleteJob :: "string \<Rightarrow> string \<Rightarrow> 'w \<Rightarrow> gerr option \<times> 'w"
  ck_DeleteTasks :: "string \<Rightarrow> string \<times> string \<Rightarrow> 'w \<Rightarrow> gerr option \<times> 'w"
  ck_PatchStatus :: "Workflow \<Rightarrow> Workflow \<Rightarrow> 'w \<Rightarrow> gerr option \<times> 'w"
  ck_DynamicRead :: "Reference \<Rightarrow> 'w \<Rightarrow> (gerr option \<times> 'v option) \<times> 'w"
  ck_Ulid :: "'w \<Rightarrow> string \<times> 'w"

definition reasonError :: string where
  "reasonError = ''Error''"

definition mk_condition :: "WorkflowConditionType \<Rightarrow> MetaStatus \<Rightarrow> string \<Rightarrow> string \<Rightarrow> time \<Rightarrow> WorkflowCondition" where
  "mk_condition ty s reason msg t =
     \<lparr>wc_Type = ty, wc_Status = s, wc_Reason = reason, wc_Message = msg, wc_Time = Some t\<rparr>"

lemma mk_condition_fields [simp]:
  "wc_Type (mk_condition ty s r m t) = ty"
  "wc_Status (mk_condition ty s r m t) = s"
  by (simp_all add: mk_condition_def)


section \<open>Job status\<close>

definition zero_JobStatus :: JobStatus where
  "zero_JobStatus = \<lparr>jst_UID = [], jst_Complete = False, jst_ExistingJobDeleted = False\<rparr>"

definition job_of :: "Workflow \<Rightarrow> string \<Rightarrow> JobStatus" where
  "job_of wfl name = (case bos_Jobs (st_BootOptions (Workflow_Status wfl)) name of
     None \<Rightarrow> zero_JobStatus | Some j \<Rightarrow> j)"

definition set_job :: "string \<Rightarrow> JobStatus \<Rightarrow> Workflow \<Rightarrow> Workflow" where
  "set_job name j = on_status (\<lambda>st. st\<lparr>st_BootOptions := (st_BootOptions st)
     \<lparr>bos_Jobs := (bos_Jobs (st_BootOptions st))(name \<mapsto> j)\<rparr>\<rparr>)"

text \<open>
  What the job handling leaves alone: the specification and identity of the workflow, its
  state, its tasks, its agent, its current action and the netboot toggles.
\<close>

definition job_frame :: "Workflow \<Rightarrow> Workflow \<Rightarrow> bool" where
  "job_frame a b \<longleftrightarrow>
     Workflow_Spec b = Workflow_Spec a \<and> Name b = Name a \<and> Namespace b = Namespace a \<and> UID b = UID a \<and>
     wf_state b = wf_state a \<and>
     st_Tasks (Workflow_Status b) = st_Tasks (Workflow_Status a) \<and>
     st_AgentID (Workflow_Status b) = st_AgentID (Workflow_Status a) \<and>
     st_CurrentState (Workflow_Status b) = st_CurrentState (Workflow_Status a) \<and>
     st_TemplateRendering (Workflow_Status b) = st_TemplateRendering (Workflow_Status a) \<and>
     bos_AllowNetboot (st_BootOptions (Workflow_Status b)) = bos_AllowNetboot (st_BootOptions (Workflow_Status a))"

lemma job_frame_refl [simp]: "job_frame a a"
  by (simp add: job_frame_def)

lemma job_frame_set_job [simp]: "job_frame a (set_job n j b) \<longleftrightarrow> job_frame a b"
  by (simp add: job_frame_def set_job_def on_status_def)

lemma job_frame_cond [simp]:
  "job_frame a (on_status (SetCondition c) b) \<longleftrightarrow> job_frame a b"
  "job_frame a (on_status (SetConditionIfDifferent c) b) \<longleftrightarrow> job_frame a b"
  by (simp_all add: job_frame_def on_status_def)

lemma job_of_set_job [simp]: "job_of (set_job n j wfl) m = (if m = n then j else job_of wfl m)"
  by (simp add: job_of_def set_job_def on_status_def)

lemma job_of_set_state [simp]: "job_of (set_state s wfl) m = job_of wfl m"
  by (simp add: job_of_def set_state_def on_status_def)

lemma job_of_cond [simp]:
  "job_of (on_status (SetCondition c) wfl) m = job_of wfl m"
  "job_of (on_status (SetConditionIfDifferent c) wfl) m = job_of wfl m"
  by (simp_all add: job_of_def on_status_def)

lemma job_found_cond [simp]:
  "bos_Jobs (st_BootOptions (Workflow_Status (on_status (SetCondition c) wfl))) =
   bos_Jobs (st_BootOptions (Workflow_Status wfl))"
  "bos_Jobs (st_BootOptions (Workflow_Status (on_status (SetConditionIfDifferent c) wfl))) =
   bos_Jobs (st_BootOptions (Workflow_Status wfl))"
  by (simp_all add: on_status_def)

lemma set_state_fields [simp]:
  "wf_state (set_state s wfl) = s"
  "Workflow_Spec (set_state s wfl) = Workflow_Spec wfl"
  "Name (set_state s wfl) = Name wfl"
  "Namespace (set_state s wfl) = Namespace wfl"
  "st_CurrentState (Workflow_Status (set_state s wfl)) = st_CurrentState (Workflow_Status wfl)"
  "st_Tasks (Workflow_Status (set_state s wfl)) = st_Tasks (Workflow_Status wfl)"
  "st_AgentID (Workflow_Status (set_state s wfl)) = st_AgentID (Workflow_Status wfl)"
  by (simp_all add: set_state_def on_status_def)

lemma cond_fields [simp]:
  "wf_state (on_status (SetCondition c) wfl) = wf_state wfl"
  "wf_state (on_status (SetConditionIfDifferent c) wfl) = wf_state wfl"
  "Workflow_Spec (on_status f wfl) = Workflow_Spec wfl"
  "Name (on_status f wfl) = Name wfl"
  "Namespace (on_status f wfl) = Namespace wfl"
  "st_CurrentState (Workflow_Status (on_status (SetCondition c) wfl)) = st_CurrentState (Workflow_Status wfl)"
  "st_CurrentState (Workflow_Status (on_status (SetConditionIfDifferent c) wfl)) = st_CurrentState (Workflow_Status wfl)"
  "st_Tasks (Workflow_Status (on_status (SetCondition c) wfl)) = st_Tasks (Workflow_Status wfl)"
  "st_Tasks (Workflow_Status (on_status (SetConditionIfDifferent c) wfl)) = st_Tasks (Workflow_Status wfl)"
  by (simp_all add: on_status_def)


section \<open>Hardware\<close>

definition hardwareFrom :: "('w, 'v) ctl_client \<Rightarrow> Workflow \<Rightarrow> 'w \<Rightarrow> (gerr + Hardware) \<times> 'w" where
  "hardwareFrom k wfl w =
     (case ck_GetHardware k (Namespace wfl) (ws_HardwareRef (Workflow_Spec wfl)) w of
        (Inl e, w') \<Rightarrow>
          (Inl (errorf (''hardware not found: name='' @ ws_HardwareRef (Workflow_Spec wfl) @
             ''; namespace='' @ Namespace wfl @ '', error: '') e), w')
      | (Inr h, w') \<Rightarrow> (Inr h, w'))"

text \<open>The loop over the interfaces of a Hardware object.\<close>

definition set_allow_pxe :: "bool \<Rightarrow> Interface \<Rightarrow> Interface" where
  "set_allow_pxe allowPXE i =
     (case if_Netboot i of
        Some nb \<Rightarrow> i\<lparr>if_Netboot := Some (nb\<lparr>nb_AllowPXE := Some allowPXE\<rparr>)\<rparr>
      | None \<Rightarrow> i\<lparr>if_Netboot := Some (empty_Netboot\<lparr>nb_AllowPXE := Some allowPXE\<rparr>)\<rparr>)"

definition hw_allow_pxe :: "bool \<Rightarrow> Hardware \<Rightarrow> Hardware" where
  "hw_allow_pxe allowPXE h =
     h\<lparr>Hardware_Spec := (Hardware_Spec h)\<lparr>hw_Interfaces := map (set_allow_pxe allowPXE) (hw_Interfaces (Hardware_Spec h))\<rparr>\<rparr>"

text \<open>
  The retry loop of \<open>setAllowPXE\<close>. \<open>left\<close> counts the attempts that remain; \<open>attempt\<close> is the
  loop variable. The Hardware is read again after a conflict.
\<close>

fun allow_pxe_loop ::
  "('w, 'v) ctl_client \<Rightarrow> nat \<Rightarrow> nat \<Rightarrow> Workflow option \<Rightarrow> Hardware option \<Rightarrow> bool \<Rightarrow> 'w \<Rightarrow> gerr option \<times> 'w" where
  "allow_pxe_loop k 0 attempt wfl h allowPXE w = (None, w)"
| "allow_pxe_loop k (Suc left) attempt wfl h allowPXE w =
     (let (got, w1) =
        (case h of
           Some hw \<Rightarrow> (Inr hw, w)
         | None \<Rightarrow>
             (case wfl of
                None \<Rightarrow> (Inl (PanicError ''nil pointer dereference''), w)
              | Some wo \<Rightarrow>
                  (case ck_GetHardware k (Namespace wo) (ws_HardwareRef (Workflow_Spec wo)) w of
                     (Inl e, w') \<Rightarrow>
                       (Inl (errorf (''hardware not found: name='' @ ws_HardwareRef (Workflow_Spec wo) @
                          ''; namespace='' @ Namespace wo @ '', error: '') e), w')
                   | (Inr hw, w') \<Rightarrow> (Inr hw, w'))))
      in (case got of
            Inl e \<Rightarrow> (Some e, w1)
          | Inr hw \<Rightarrow>
              (case ck_UpdateHardware k (hw_allow_pxe allowPXE hw) w1 of
                 (None, w2) \<Rightarrow> (None, w2)
               | (Some e, w2) \<Rightarrow>
                   if IsConflict e then
                     (if left = 0
                      then (Some (errorf (''error updating allow pxe after '' @ string_of_nat attempt @ '' retries: '') e), w2)
                      else allow_pxe_loop k left (Suc attempt) wfl None allowPXE (ck_Sleep k w2))
                   else (Some (errorf ''error updating allow pxe: '' e), w2))))"

definition setAllowPXE ::
  "('w, 'v) ctl_client \<Rightarrow> nat \<Rightarrow> Workflow option \<Rightarrow> Hardware option \<Rightarrow> bool \<Rightarrow> 'w \<Rightarrow> gerr option \<times> 'w" where
  "setAllowPXE k maxRetries wfl h allowPXE w =
     (if h = None \<and> wfl = None then (Some (NewError ''both workflow and hardware cannot be nil''), w)
      else allow_pxe_loop k maxRetries 1 wfl h allowPXE w)"

definition defaultRetries :: nat where
  "defaultRetries = 4"

definition set_toggled :: "bool \<Rightarrow> Workflow \<Rightarrow> Workflow" where
  "set_toggled allowPXE = on_status (\<lambda>st. st\<lparr>st_BootOptions := (st_BootOptions st)\<lparr>bos_AllowNetboot :=
     (if allowPXE then (bos_AllowNetboot (st_BootOptions st))\<lparr>an_ToggledTrue := True\<rparr>
      else (bos_AllowNetboot (st_BootOptions st))\<lparr>an_ToggledFalse := True\<rparr>)\<rparr>\<rparr>)"

definition toggled :: "bool \<Rightarrow> Workflow \<Rightarrow> bool" where
  "toggled allowPXE wfl =
     (let n = bos_AllowNetboot (st_BootOptions (Workflow_Status wfl)) in
      if allowPXE then an_ToggledTrue n else an_ToggledFalse n)"

definition toggle_condition :: "bool \<Rightarrow> WorkflowConditionType" where
  "toggle_condition allowPXE = (if allowPXE then ToggleAllowNetbootTrue else ToggleAllowNetbootFalse)"

text \<open>
  \<open>toggleHardware\<close>. The two halves of the function, for true and for false, differ only in
  the flag and the condition they write. A failed lookup is recorded under
  \<open>ToggleAllowNetbootTrue\<close> in both cases, as in the source.
\<close>

definition toggleHardware ::
  "('w, 'v) ctl_client \<Rightarrow> bool \<Rightarrow> Workflow \<Rightarrow> 'w \<Rightarrow> gerr option \<times> Workflow \<times> 'w" where
  "toggleHardware k allowPXE wfl w =
     (case hardwareFrom k wfl w of
        (Inl e, w1) \<Rightarrow>
          (Some e,
           on_status (SetConditionIfDifferent (mk_condition ToggleAllowNetbootTrue MetaFalse reasonError
             (''error getting hardware: '' @ err_text e) (ck_now k w1))) wfl, w1)
      | (Inr hw, w1) \<Rightarrow>
          if toggled allowPXE wfl then (None, wfl, w1)
          else
            (case setAllowPXE k defaultRetries (Some wfl) (Some hw) allowPXE w1 of
               (Some e, w2) \<Rightarrow>
                 (Some e,
                  on_status (SetConditionIfDifferent (mk_condition (toggle_condition allowPXE) MetaFalse reasonError
                    (''error setting allowPXE to '' @ string_of_bool allowPXE @ '': '' @ err_text e) (ck_now k w2))) wfl, w2)
             | (None, w2) \<Rightarrow>
                 (None,
                  on_status (SetCondition (mk_condition (toggle_condition allowPXE) MetaTrue ''Complete''
                    (''set allowPXE to '' @ string_of_bool allowPXE) (ck_now k w2))) (set_toggled allowPXE wfl), w2)))"


section \<open>Jobs\<close>

definition netboot_job :: "Workflow \<Rightarrow> string" where
  "netboot_job wfl = ''netboot-'' @ Name wfl"

definition iso_mount_job :: "Workflow \<Rightarrow> string" where
  "iso_mount_job wfl = ''iso-mount-'' @ Name wfl"

definition iso_eject_job :: "Workflow \<Rightarrow> string" where
  "iso_eject_job wfl = ''iso-eject-'' @ Name wfl"

definition customboot_preparing_job :: "Workflow \<Rightarrow> string" where
  "customboot_preparing_job wfl = ''customboot-preparing-'' @ Name wfl"

definition customboot_post_job :: "Workflow \<Rightarrow> string" where
  "customboot_post_job wfl = ''customboot-post-'' @ Name wfl"

definition IgnoreNotFound :: "gerr option \<Rightarrow> gerr option" where
  "IgnoreNotFound e = (case e of Some x \<Rightarrow> if IsNotFound x then None else Some x | None \<Rightarrow> None)"

definition deleteExisting ::
  "('w, 'v) ctl_client \<Rightarrow> string \<Rightarrow> Workflow \<Rightarrow> 'w \<Rightarrow> outcome \<times> Workflow \<times> 'w" where
  "deleteExisting k name wfl w =
     (let (e1, w1) = ck_DeleteTasks k (Namespace wfl) (''owner-name'', name) w in
      case IgnoreNotFound e1 of
        Some e \<Rightarrow> ((NoRequeue, Some (errorf ''error deleting tasks.bmc.tinkerbell.org objects: '' e)), wfl, w1)
      | None \<Rightarrow>
          (let (e2, w2) = ck_DeleteJob k (Namespace wfl) name w1 in
           case IgnoreNotFound e2 of
             Some e \<Rightarrow> ((NoRequeue, Some (errorf ''error deleting job.bmc.tinkerbell.org object: '' e)), wfl, w2)
           | None \<Rightarrow>
               ((RequeueNow, None),
                set_job name ((job_of wfl name)\<lparr>jst_ExistingJobDeleted := True, jst_UID := [], jst_Complete := False\<rparr>) wfl,
                w2)))"

definition new_job :: "string \<Rightarrow> Hardware \<Rightarrow> TypedLocalObjectReference \<Rightarrow> string \<Rightarrow> bmc_Action list \<Rightarrow> OwnerReference list \<Rightarrow> Job" where
  "new_job name hw bmcRef ns tasks ownerRef =
     \<lparr>APIVersion = [], Kind = [], Name = name, Namespace = ns, UID = [], DeletionTimestamp = None,
      Labels = [''tink-controller-auto-created'' \<mapsto> ''true''],
      Annotations = [''tink-controller-auto-created'' \<mapsto> ''true''],
      OwnerReferences = ownerRef,
      Job_Spec = \<lparr>js_MachineRef = \<lparr>mref_Name = tlo_Name bmcRef, mref_Namespace = ns\<rparr>, js_Tasks = tasks\<rparr>,
      Job_Status = \<lparr>js_Conditions = [], js_StartTime = None, js_CompletionTime = None\<rparr>\<rparr>"

definition createJob ::
  "('w, 'v) ctl_client \<Rightarrow> bmc_Action list \<Rightarrow> string \<Rightarrow> Workflow \<Rightarrow> 'w \<Rightarrow> outcome \<times> Workflow \<times> 'w" where
  "createJob k actions name wfl w =
     (case ck_GetJob k (Namespace wfl) name w of
        (Inr rj, w1) \<Rightarrow>
          if DeletionTimestamp rj \<noteq> None then ((RequeueNow, None), wfl, w1)
          else ((RequeueNow, None), set_job name ((job_of wfl name)\<lparr>jst_UID := UID rj\<rparr>) wfl, w1)
      | (Inl _, w1) \<Rightarrow>
          (case hardwareFrom k wfl w1 of
             (Inl e, w2) \<Rightarrow> ((NoRequeue, Some (errorf ''error getting hardware: '' e)), wfl, w2)
           | (Inr hw, w2) \<Rightarrow>
               (case hw_BMCRef (Hardware_Spec hw) of
                  None \<Rightarrow> ((NoRequeue, Some (NewError (''hardware \"'' @ Name hw @ ''\" does not have a BMC''))), wfl, w2)
                | Some bmcRef \<Rightarrow>
                    (case ck_CreateJob k
                        (new_job name hw bmcRef (Namespace wfl) actions
                          [\<lparr>owner_APIVersion = APIVersion wfl, owner_Kind = Kind wfl, owner_Name = Name wfl,
                            owner_UID = UID wfl, owner_Controller = Some True\<rparr>]) w2 of
                       (Some e, w3) \<Rightarrow>
                         ((NoRequeue, Some (errorf ''error creating job: ''
                            (errorf ''error creating job.bmc.tinkerbell.org object for netbooting machine: '' e))), wfl, w3)
                     | (None, w3) \<Rightarrow> ((RequeueNow, None), wfl, w3)))))"

datatype trackedState = trackedStateComplete | trackedStateRunning | trackedStateError | trackedStateFailed

definition trackRunningJob ::
  "('w, 'v) ctl_client \<Rightarrow> string \<Rightarrow> Workflow \<Rightarrow> 'w \<Rightarrow> (Result \<times> trackedState \<times> gerr option) \<times> Workflow \<times> 'w" where
  "trackRunningJob k name wfl w =
     (case ck_GetJob k (Namespace wfl) name w of
        (Inl e, w1) \<Rightarrow> ((NoRequeue, trackedStateError, Some (errorf ''error getting job: '' e)), wfl, w1)
      | (Inr rj, w1) \<Rightarrow>
          if Job_HasCondition rj JobFailed ConditionTrue
          then ((NoRequeue, trackedStateFailed, Some (NewError ''job failed'')), wfl, w1)
          else if Job_HasCondition rj JobCompleted ConditionTrue
          then ((NoRequeue, trackedStateComplete, None),
                set_job name ((job_of wfl name)\<lparr>jst_Complete := True\<rparr>) wfl, w1)
          else ((RequeueNow, trackedStateRunning, None), wfl, ck_Sleep k w1))"

definition handleJob ::
  "('w, 'v) ctl_client \<Rightarrow> bmc_Action list \<Rightarrow> string \<Rightarrow> Workflow \<Rightarrow> 'w \<Rightarrow> outcome \<times> Workflow \<times> 'w" where
  "handleJob k actions name wfl w =
     (if bos_Jobs (st_BootOptions (Workflow_Status wfl)) name \<noteq> None \<and> \<not> jst_ExistingJobDeleted (job_of wfl name)
      then deleteExisting k name wfl w
      else if jst_UID (job_of wfl name) = [] then
        (if actions = [] then ((NoRequeue, None), wfl, w)
         else
           (case createJob k actions name wfl w of
              ((r, Some e), wfl1, w1) \<Rightarrow>
                ((r, Some e),
                 on_status (SetCondition (mk_condition BootJobSetupFailed MetaTrue reasonError
                   (''error creating job: '' @ err_text e) (ck_now k w1))) wfl1, w1)
            | ((r, None), wfl1, w1) \<Rightarrow>
                ((r, None),
                 on_status (SetCondition (mk_condition BootJobSetupComplete MetaTrue ''Created'' ''job created''
                   (ck_now k w1))) wfl1, w1)))
      else if \<not> jst_Complete (job_of wfl name) then
        (case trackRunningJob k name wfl w of
           ((r, s, Some e), wfl1, w1) \<Rightarrow>
             ((r, Some e),
              on_status (SetCondition (mk_condition BootJobFailed MetaTrue reasonError (err_text e) (ck_now k w1))) wfl1, w1)
         | ((r, s, None), wfl1, w1) \<Rightarrow>
             ((r, None),
              (if s = trackedStateComplete
               then on_status (SetCondition (mk_condition BootJobComplete MetaTrue ''Complete'' ''job completed''
                 (ck_now k w1))) wfl1
               else wfl1), w1))
      else ((RequeueNow, None), wfl, w))"

section \<open>Toggling netboot\<close>

lemma set_allow_pxe_spec:
  "map_option nb_AllowPXE (if_Netboot (set_allow_pxe b i)) = Some (Some b)"
  "if_DHCP (set_allow_pxe b i) = if_DHCP i"
  "if_Isoboot (set_allow_pxe b i) = if_Isoboot i"
  "if_DisableDHCP (set_allow_pxe b i) = if_DisableDHCP i"
  by (simp_all add: set_allow_pxe_def split: option.splits)

lemma allow_pxe_loop_step:
  assumes "allow_pxe_loop k (Suc left) attempt wfl (Some hw) b w = r"
  shows "(\<exists>w'. ck_UpdateHardware k (hw_allow_pxe b hw) w = (None, w') \<and> r = (None, w')) \<or>
    (\<exists>e w'. ck_UpdateHardware k (hw_allow_pxe b hw) w = (Some e, w') \<and> \<not> IsConflict e \<and>
       r = (Some (errorf ''error updating allow pxe: '' e), w')) \<or>
    (\<exists>e w'. ck_UpdateHardware k (hw_allow_pxe b hw) w = (Some e, w') \<and> IsConflict e \<and>
       r = (if left = 0
            then (Some (errorf (''error updating allow pxe after '' @ string_of_nat attempt @ '' retries: '') e), w')
            else allow_pxe_loop k left (Suc attempt) wfl None b (ck_Sleep k w')))"
proof (cases "ck_UpdateHardware k (hw_allow_pxe b hw) w")
  case (Pair u w')
  show ?thesis
  proof (cases u)
    case None
    with Pair assms [symmetric] show ?thesis by simp
  next
    case (Some e)
    with Pair assms [symmetric] show ?thesis by (cases "IsConflict e") simp_all
  qed
qed

lemma allow_pxe_loop_reread:
  "allow_pxe_loop k (Suc left) attempt (Some wfl) None b w =
     (case ck_GetHardware k (Namespace wfl) (ws_HardwareRef (Workflow_Spec wfl)) w of
        (Inl e, w') \<Rightarrow> (Some (errorf (''hardware not found: name='' @ ws_HardwareRef (Workflow_Spec wfl) @
             ''; namespace='' @ Namespace wfl @ '', error: '') e), w')
      | (Inr hw, w') \<Rightarrow> allow_pxe_loop k (Suc left) attempt (Some wfl) (Some hw) b w')"
  by (simp split: prod.splits sum.splits)

text \<open>A success is an accepted write of the Hardware with netboot set on every interface.\<close>

lemma allow_pxe_loop_success:
  assumes "allow_pxe_loop k (Suc left) attempt (Some wfl) h b w = (None, w')"
  shows "\<exists>hw w0. ck_UpdateHardware k (hw_allow_pxe b hw) w0 = (None, w')"
  using assms
proof (induction left arbitrary: attempt h w)
  case 0
  show ?case
  proof (cases h)
    case None
    with 0 show ?thesis unfolding None allow_pxe_loop_reread
      by (auto split: prod.splits sum.splits option.splits if_splits)
  next
    case (Some hw)
    with 0 show ?thesis by (auto split: prod.splits option.splits if_splits)
  qed
next
  case (Suc left)
  have hit: "\<exists>hw w0. ck_UpdateHardware k (hw_allow_pxe b hw) w0 = (None, w')"
    if "allow_pxe_loop k (Suc (Suc left)) attempt (Some wfl) (Some hw) b v = (None, w')" for hw v
    using allow_pxe_loop_step [OF that] by (auto simp del: allow_pxe_loop.simps dest!: Suc.IH [OF sym])
  show ?case
  proof (cases h)
    case None
    from Suc.prems obtain hw v where "allow_pxe_loop k (Suc (Suc left)) attempt (Some wfl) (Some hw) b v = (None, w')"
      unfolding None allow_pxe_loop_reread by (auto simp del: allow_pxe_loop.simps split: prod.splits sum.splits)
    then show ?thesis by (rule hit)
  next
    case (Some hw)
    with Suc.prems show ?thesis by (intro hit) (simp del: allow_pxe_loop.simps)
  qed
qed

text \<open>
  A server that answers every read with the current Hardware and refuses the first \<open>c\<close>
  writes with a conflict: the retry loop gets through exactly when it has more attempts than
  the server has conflicts.
\<close>

fun write_conflicts :: "('w, 'v) ctl_client \<Rightarrow> Workflow \<Rightarrow> bool \<Rightarrow> nat \<Rightarrow> 'w \<Rightarrow> bool" where
  "write_conflicts k wfl b 0 w \<longleftrightarrow>
     (\<exists>hw w1 w2. ck_GetHardware k (Namespace wfl) (ws_HardwareRef (Workflow_Spec wfl)) w = (Inr hw, w1) \<and>
        ck_UpdateHardware k (hw_allow_pxe b hw) w1 = (None, w2))"
| "write_conflicts k wfl b (Suc c) w \<longleftrightarrow>
     (\<exists>hw w1 e w2. ck_GetHardware k (Namespace wfl) (ws_HardwareRef (Workflow_Spec wfl)) w = (Inr hw, w1) \<and>
        ck_UpdateHardware k (hw_allow_pxe b hw) w1 = (Some e, w2) \<and> IsConflict e \<and>
        write_conflicts k wfl b c (ck_Sleep k w2))"

lemma allow_pxe_loop_conflicts:
  "write_conflicts k wfl b c w \<Longrightarrow>
   fst (allow_pxe_loop k (Suc left) attempt (Some wfl) None b w) = None \<longleftrightarrow> c \<le> left"
proof (induction c arbitrary: left attempt w)
  case 0
  then show ?case by (auto split: prod.splits)
next
  case (Suc c)
  then show ?case by (cases left) (auto split: prod.splits)
qed

lemma toggleHardware_frame:
  assumes "toggleHardware k b wfl w = (e, wfl', w')"
  shows "Workflow_Spec wfl' = Workflow_Spec wfl" "Name wfl' = Name wfl" "Namespace wfl' = Namespace wfl"
    "wf_state wfl' = wf_state wfl"
    "st_CurrentState (Workflow_Status wfl') = st_CurrentState (Workflow_Status wfl)"
    "st_Tasks (Workflow_Status wfl') = st_Tasks (Workflow_Status wfl)"
    "job_of wfl' n = job_of wfl n"
  using assms
  by (auto simp: toggleHardware_def set_toggled_def on_status_def job_of_def
      split: prod.splits sum.splits option.splits if_splits)

lemma toggleHardware_error_keeps:
  "toggleHardware k b wfl w = (Some e, wfl', w') \<Longrightarrow> toggled b wfl' = toggled b wfl"
  by (auto simp: toggleHardware_def toggled_def on_status_def
      split: prod.splits sum.splits option.splits if_splits)

lemma toggleHardware_success:
  "toggleHardware k b wfl w = (None, wfl', w') \<Longrightarrow> toggled b wfl'"
  by (auto simp: toggleHardware_def toggled_def set_toggled_def on_status_def Let_def
      split: prod.splits sum.splits option.splits if_splits)


section \<open>The life of a job\<close>

text \<open>
  A job entry is complete only after its predecessor was cleaned up and its own object was
  seen. Every phase of \<open>handleJob\<close> keeps this.
\<close>

definition job_ok :: "JobStatus \<Rightarrow> bool" where
  "job_ok j \<longleftrightarrow> (jst_Complete j \<longrightarrow> jst_ExistingJobDeleted j \<and> jst_UID j \<noteq> [])"

definition jobs_ok :: "Workflow \<Rightarrow> bool" where
  "jobs_ok wfl \<longleftrightarrow> (\<forall>n. job_ok (job_of wfl n))"

definition job_done :: "JobStatus \<Rightarrow> bool" where
  "job_done j \<longleftrightarrow> jst_ExistingJobDeleted j \<and> jst_UID j \<noteq> [] \<and> jst_Complete j"

lemma job_done_iff: "job_ok j \<Longrightarrow> job_done j \<longleftrightarrow> jst_Complete j"
  by (auto simp: job_ok_def job_done_def)

lemma job_of_missing: "bos_Jobs (st_BootOptions (Workflow_Status wfl)) n = None \<Longrightarrow> job_of wfl n = zero_JobStatus"
  by (simp add: job_of_def)

lemma zero_JobStatus_fields [simp]:
  "jst_UID zero_JobStatus = []" "\<not> jst_Complete zero_JobStatus" "\<not> jst_ExistingJobDeleted zero_JobStatus"
  by (simp_all add: zero_JobStatus_def)

lemma job_ok_zero [simp]: "job_ok zero_JobStatus"
  by (simp add: job_ok_def)

lemma deleteExisting_frame:
  "deleteExisting k n wfl w = (o', wfl', w') \<Longrightarrow> job_frame wfl wfl' \<and> (\<forall>m. m \<noteq> n \<longrightarrow> job_of wfl' m = job_of wfl m)"
  by (auto simp: deleteExisting_def Let_def split: prod.splits option.splits)

lemma createJob_frame:
  "createJob k as n wfl w = (o', wfl', w') \<Longrightarrow> job_frame wfl wfl' \<and> (\<forall>m. m \<noteq> n \<longrightarrow> job_of wfl' m = job_of wfl m)"
  by (auto simp: createJob_def split: prod.splits sum.splits option.splits if_splits)

lemma trackRunningJob_frame:
  "trackRunningJob k n wfl w = (o', wfl', w') \<Longrightarrow> job_frame wfl wfl' \<and> (\<forall>m. m \<noteq> n \<longrightarrow> job_of wfl' m = job_of wfl m)"
  by (auto simp: trackRunningJob_def split: prod.splits sum.splits option.splits if_splits)

lemma handleJob_frame:
  assumes "handleJob k as n wfl w = (o', wfl', w')"
  shows "job_frame wfl wfl'" and "m \<noteq> n \<Longrightarrow> job_of wfl' m = job_of wfl m"
  using assms deleteExisting_frame [of k n wfl w] createJob_frame [of k as n wfl w] trackRunningJob_frame [of k n wfl w]
  by (auto simp: handleJob_def split: prod.splits option.splits if_splits)

lemma createJob_job:
  "createJob k as n wfl w = (o', wfl', w') \<Longrightarrow>
   jst_Complete (job_of wfl' n) = jst_Complete (job_of wfl n) \<and>
   jst_ExistingJobDeleted (job_of wfl' n) = jst_ExistingJobDeleted (job_of wfl n)"
  by (auto simp: createJob_def split: prod.splits sum.splits option.splits if_splits)

lemma trackRunningJob_complete:
  assumes "trackRunningJob k n wfl w = ((r, s, e), wfl', w')"
    and "jst_Complete (job_of wfl' n)" "\<not> jst_Complete (job_of wfl n)"
  shows "\<exists>rj w1. ck_GetJob k (Namespace wfl) n w = (Inr rj, w1) \<and>
    Job_HasCondition rj JobCompleted ConditionTrue \<and> \<not> Job_HasCondition rj JobFailed ConditionTrue"
    and "e = None" and "s = trackedStateComplete"
    and "job_of wfl' n = (job_of wfl n)\<lparr>jst_Complete := True\<rparr>"
  using assms by (auto simp: trackRunningJob_def split: prod.splits sum.splits if_splits)

lemma trackRunningJob_job:
  "trackRunningJob k n wfl w = ((r, s, e), wfl', w') \<Longrightarrow>
   job_of wfl' n = job_of wfl n \<or> job_of wfl' n = (job_of wfl n)\<lparr>jst_Complete := True\<rparr>"
  by (auto simp: trackRunningJob_def split: prod.splits sum.splits if_splits)

lemma handleJob_job:
  assumes run: "handleJob k as n wfl w = ((r, e), wfl', w')"
  shows "job_of wfl' n = job_of wfl n \<or>
    (job_of wfl' n = (job_of wfl n)\<lparr>jst_ExistingJobDeleted := True, jst_UID := [], jst_Complete := False\<rparr> \<and>
       \<not> jst_ExistingJobDeleted (job_of wfl n)) \<or>
    (jst_UID (job_of wfl n) = [] \<and> (\<exists>u. job_of wfl' n = (job_of wfl n)\<lparr>jst_UID := u\<rparr>)) \<or>
    (jst_UID (job_of wfl n) \<noteq> [] \<and> jst_ExistingJobDeleted (job_of wfl n) \<and>
       job_of wfl' n = (job_of wfl n)\<lparr>jst_Complete := True\<rparr>)"
proof (cases "bos_Jobs (st_BootOptions (Workflow_Status wfl)) n \<noteq> None \<and> \<not> jst_ExistingJobDeleted (job_of wfl n)")
  case True
  with run show ?thesis
    by (auto simp: handleJob_def deleteExisting_def Let_def split: prod.splits option.splits)
next
  case clean: False
  show ?thesis
  proof (cases "jst_UID (job_of wfl n) = []")
    case True
    with run clean show ?thesis
      by (auto simp: handleJob_def createJob_def split: prod.splits sum.splits option.splits if_splits)
  next
    case False
    with clean have "jst_ExistingJobDeleted (job_of wfl n)" by (metis job_of_missing zero_JobStatus_fields(1))
    with run clean False show ?thesis
      by (auto simp: handleJob_def trackRunningJob_def split: prod.splits sum.splits option.splits if_splits)
  qed
qed

lemma handleJob_keeps_ok:
  assumes "jobs_ok wfl" and run: "handleJob k as n wfl w = ((r, e), wfl', w')"
  shows "jobs_ok wfl'"
  unfolding jobs_ok_def
proof
  fix m
  show "job_ok (job_of wfl' m)"
  proof (cases "m = n")
    case True
    with assms(1) handleJob_job [OF run] show ?thesis by (auto simp: jobs_ok_def job_ok_def)
  next
    case False
    with assms(1) handleJob_frame(2) [OF run] show ?thesis by (simp add: jobs_ok_def)
  qed
qed

text \<open>Completion is always read off the BMC job.\<close>

lemma handleJob_complete:
  assumes "handleJob k as n wfl w = ((r, e), wfl', w')"
    and "jst_Complete (job_of wfl' n)" "\<not> jst_Complete (job_of wfl n)"
  shows "\<exists>rj w1. ck_GetJob k (Namespace wfl) n w = (Inr rj, w1) \<and>
    Job_HasCondition rj JobCompleted ConditionTrue \<and> \<not> Job_HasCondition rj JobFailed ConditionTrue"
  using assms createJob_job [of k as n wfl w] trackRunningJob_complete(1) [of k n wfl w]
  by (auto simp: handleJob_def deleteExisting_def Let_def split: prod.splits option.splits if_splits)

end
