(* ===== verification/Controller.thy ===== *)
theory Controller
  imports Controller_Job
begin

text \<open>
  The workflow controller, \<open>src/tink/controller/internal/workflow\<close>: preparing a machine
  (\<open>pre.go\<close>), the actions after the last task (\<open>post.go\<close>) and the reconciler
  (\<open>reconciler.go\<close>), which moves a Workflow object through its states. Logging and the
  journal have no effect on the result and are left out.
\<close>


section \<open>Template data\<close>

record templateHardwareData =
  thd_Disks :: "string list"
  thd_Interfaces :: "Interface list"
  thd_UserData :: string
  thd_Metadata :: HardwareMetadata
  thd_VendorData :: string

definition zero_HardwareMetadata :: HardwareMetadata where
  "zero_HardwareMetadata = \<lparr>md_State = [], md_BondingMode = 0, md_Manufacturer = None, md_Instance = None,
     md_Custom = None, md_Facility = None\<rparr>"

definition pointerToValue :: "'a \<Rightarrow> 'a option \<Rightarrow> 'a" where
  "pointerToValue zero p = (case p of None \<Rightarrow> zero | Some v \<Rightarrow> v)"

definition toTemplateHardwareData :: "Hardware \<Rightarrow> templateHardwareData" where
  "toTemplateHardwareData hardware =
     \<lparr>thd_Disks = hw_Disks (Hardware_Spec hardware),
      thd_Interfaces = hw_Interfaces (Hardware_Spec hardware),
      thd_UserData = pointerToValue [] (hw_UserData (Hardware_Spec hardware)),
      thd_Metadata = pointerToValue zero_HardwareMetadata (hw_Metadata (Hardware_Spec hardware)),
      thd_VendorData = pointerToValue [] (hw_VendorData (Hardware_Spec hardware))\<rparr>"

text \<open>
  What a template sees. \<open>'v\<close> is the type of decoded JSON objects; the round trip of a
  Hardware through JSON is a parameter of the reconciler.
\<close>

datatype 'v data_value =
    DString string
  | DJson 'v
  | DLegacy templateHardwareData
  | DReferences "(string \<times> 'v option) list"

datatype 'v template_data =
    WorkflowData "string \<rightharpoonup> 'v data_value"
  | ActionData HardwareSpec

record 'v Reconciler =
  rc_Renderer :: "'v template_data renderer"
  rc_Rules :: rule_engine
  rc_Allowlist :: "string list"
  rc_Denylist :: "string list"
  rc_structToMap :: "Hardware \<Rightarrow> gerr + 'v"
  rc_emptyMap :: 'v

definition defaultDenylist :: "string list" where
  "defaultDenylist = [''{\"reference\": {\"name\": [{\"wildcard\": \"*\"}]}}'']"


section \<open>Preparing\<close>

definition templateString :: "'v Reconciler \<Rightarrow> string \<Rightarrow> HardwareSpec \<Rightarrow> gerr + string" where
  "templateString rc tmplStr spec =
     renderTemplate (template_engine.truncate (rc_Renderer rc)) ''action'' tmplStr (ActionData spec)"

fun templateActions :: "'v Reconciler \<Rightarrow> bmc_Action list \<Rightarrow> HardwareSpec \<Rightarrow> gerr + bmc_Action list" where
  "templateActions rc [] spec = Inr []"
| "templateActions rc (a # as) spec =
     (case act_VirtualMedia a of
        None \<Rightarrow> (case templateActions rc as spec of Inl e \<Rightarrow> Inl e | Inr bs \<Rightarrow> Inr (a # bs))
      | Some vm \<Rightarrow>
          (case templateString rc (vm_MediaURL vm) spec of
             Inl e \<Rightarrow> Inl (errorf ''failed to template VirtualMediaAction.MediaURL: '' e)
           | Inr url \<Rightarrow>
               (case templateActions rc as spec of
                  Inl e \<Rightarrow> Inl e
                | Inr bs \<Rightarrow> Inr (a\<lparr>act_VirtualMedia := Some (vm\<lparr>vm_MediaURL := url\<rparr>)\<rparr> # bs))))"

definition efiBoot :: "Hardware \<Rightarrow> bool" where
  "efiBoot hw = list_ex (\<lambda>i. case if_DHCP i of Some d \<Rightarrow> dhcp_UEFI d | None \<Rightarrow> False) (hw_Interfaces (Hardware_Spec hw))"

definition power_action :: "PowerAction \<Rightarrow> bmc_Action" where
  "power_action p = empty_action\<lparr>act_PowerAction := Some p\<rparr>"

definition boot_device_action :: "BootDevice \<Rightarrow> bool \<Rightarrow> bmc_Action" where
  "boot_device_action d efi = empty_action\<lparr>act_OneTimeBootDevice := Some \<lparr>otbd_Devices = [d], otbd_EFIBoot = efi\<rparr>\<rparr>"

definition media_action :: "string \<Rightarrow> bmc_Action" where
  "media_action url = empty_action\<lparr>act_VirtualMedia := Some \<lparr>vm_MediaURL = url, vm_Kind = VirtualMediaCD\<rparr>\<rparr>"

definition netboot_actions :: "Hardware \<Rightarrow> bmc_Action list" where
  "netboot_actions hw = [power_action PowerHardOff, boot_device_action PXE (efiBoot hw), power_action PowerOn]"

definition iso_mount_actions :: "string \<Rightarrow> Hardware \<Rightarrow> bmc_Action list" where
  "iso_mount_actions url hw =
     [power_action PowerHardOff, media_action [], media_action url, boot_device_action CDROM (efiBoot hw), power_action PowerOn]"

definition iso_eject_actions :: "bmc_Action list" where
  "iso_eject_actions = [media_action []]"

abbreviation boot_options :: "Workflow \<Rightarrow> BootOptions" where
  "boot_options wfl \<equiv> ws_BootOptions (Workflow_Spec wfl)"

text \<open>
  The tail the three boot modes share: run the job, fail the workflow on an error, and leave
  \<open>PREPARING\<close> once the job is complete.
\<close>

definition prepare_job ::
  "('w, 'v) ctl_client \<Rightarrow> bmc_Action list \<Rightarrow> string \<Rightarrow> Workflow \<Rightarrow> 'w \<Rightarrow> outcome \<times> Workflow \<times> 'w" where
  "prepare_job k actions name wfl w =
     (case handleJob k actions name wfl w of
        ((r, Some e), wfl1, w1) \<Rightarrow> ((r, Some e), set_state WSFailed wfl1, w1)
      | ((r, None), wfl1, w1) \<Rightarrow>
          ((r, None),
           (if jst_Complete (job_of wfl1 name) \<and> wf_state wfl1 = WSPreparing then set_state WSPending wfl1 else wfl1),
           w1))"

definition fail_hardware ::
  "('w, 'v) ctl_client \<Rightarrow> WorkflowConditionType \<Rightarrow> gerr \<Rightarrow> Workflow \<Rightarrow> 'w \<Rightarrow> outcome \<times> Workflow \<times> 'w" where
  "fail_hardware k ty e wfl w =
     ((NoRequeue, Some (errorf ''failed to get hardware: '' e)),
      set_state WSFailed (on_status (SetConditionIfDifferent (mk_condition ty MetaFalse reasonError
        (''failed to get hardware: '' @ err_text e) (ck_now k w))) wfl), w)"

definition prepare_boot ::
  "'v Reconciler \<Rightarrow> ('w, 'v) ctl_client \<Rightarrow> Workflow \<Rightarrow> 'w \<Rightarrow> outcome \<times> Workflow \<times> 'w" where
  "prepare_boot rc k wfl w =
     (case bo_BootMode (boot_options wfl) of
        BootModeNetboot \<Rightarrow>
          (if \<not> job_done (job_of wfl (netboot_job wfl)) then
             (case hardwareFrom k wfl w of
                (Inl e, w1) \<Rightarrow> fail_hardware k BootJobSetupFailed e wfl w1
              | (Inr hw, w1) \<Rightarrow> prepare_job k (netboot_actions hw) (netboot_job wfl) wfl w1)
           else ((NoRequeue, None), wfl, w))
      | BootModeCustomboot \<Rightarrow>
          (if \<not> job_done (job_of wfl (customboot_preparing_job wfl)) then
             (case hardwareFrom k wfl w of
                (Inl e, w1) \<Rightarrow> fail_hardware k BootJobSetupFailed e wfl w1
              | (Inr hw, w1) \<Rightarrow>
                  (case templateActions rc (cb_PreparingActions (bo_CustombootConfig (boot_options wfl))) (Hardware_Spec hw) of
                     Inl e \<Rightarrow>
                       ((NoRequeue, Some (errorf ''failed to template actions: '' e)),
                        set_state WSFailed (on_status (SetConditionIfDifferent (mk_condition BootJobSetupFailed MetaFalse
                          reasonError (''failed to template actions: '' @ err_text e) (ck_now k w1))) wfl), w1)
                   | Inr actions \<Rightarrow> prepare_job k actions (customboot_preparing_job wfl) wfl w1))
           else ((NoRequeue, None), wfl, w))
      | m \<Rightarrow>
          (if m = BootModeISO \<or> m = BootModeIsoboot then
             (if \<not> job_done (job_of wfl (iso_mount_job wfl)) then
                (if bo_ISOURL (boot_options wfl) = []
                 then ((NoRequeue, Some (NewError ''iso url must be a valid url'')), set_state WSFailed wfl, w)
                 else
                   (case hardwareFrom k wfl w of
                      (Inl e, w1) \<Rightarrow> fail_hardware k BootJobSetupComplete e wfl w1
                    | (Inr hw, w1) \<Rightarrow>
                        prepare_job k (iso_mount_actions (bo_ISOURL (boot_options wfl)) hw) (iso_mount_job wfl) wfl w1))
              else ((NoRequeue, None), wfl, w))
           else ((NoRequeue, None), set_state WSPending wfl, w)))"

definition prepareWorkflow ::
  "'v Reconciler \<Rightarrow> ('w, 'v) ctl_client \<Rightarrow> Workflow \<Rightarrow> 'w \<Rightarrow> outcome \<times> Workflow \<times> 'w" where
  "prepareWorkflow rc k wfl w =
     (if bo_ToggleAllowNetboot (boot_options wfl) \<and> \<not> toggled True wfl then
        (case toggleHardware k True wfl w of
           (Some e, wfl1, w1) \<Rightarrow> ((NoRequeue, Some e), set_state WSFailed wfl1, w1)
         | (None, wfl1, w1) \<Rightarrow> prepare_boot rc k wfl1 w1)
      else prepare_boot rc k wfl w)"


section \<open>Post actions\<close>

text \<open>The workflow takes over the state of its last action.\<close>

definition finish_state :: "Workflow \<Rightarrow> Workflow" where
  "finish_state wfl = (case st_CurrentState (Workflow_Status wfl) of
     Some c \<Rightarrow> set_state (cur_State c) wfl | None \<Rightarrow> wfl)"

definition post_job ::
  "('w, 'v) ctl_client \<Rightarrow> bmc_Action list \<Rightarrow> string \<Rightarrow> bool \<Rightarrow> Workflow \<Rightarrow> 'w \<Rightarrow> outcome \<times> Workflow \<times> 'w" where
  "post_job k actions name nothing wfl w =
     (case handleJob k actions name wfl w of
        ((r, Some e), wfl1, w1) \<Rightarrow> ((r, Some e), set_state WSFailed wfl1, w1)
      | ((r, None), wfl1, w1) \<Rightarrow>
          ((r, None), (if jst_Complete (job_of wfl1 name) \<or> nothing then finish_state wfl1 else wfl1), w1))"

definition post_boot ::
  "'v Reconciler \<Rightarrow> ('w, 'v) ctl_client \<Rightarrow> Workflow \<Rightarrow> 'w \<Rightarrow> outcome \<times> Workflow \<times> 'w" where
  "post_boot rc k wfl w =
     (let mode = bo_BootMode (boot_options wfl) in
      if (mode = BootModeISO \<or> mode = BootModeIsoboot) \<and> \<not> job_done (job_of wfl (iso_eject_job wfl)) then
        (if bo_ISOURL (boot_options wfl) = []
         then ((NoRequeue, Some (NewError ''iso url must be a valid url'')), set_state WSFailed wfl, w)
         else post_job k iso_eject_actions (iso_eject_job wfl) False wfl w)
      else if mode = BootModeCustomboot \<and> \<not> job_done (job_of wfl (customboot_post_job wfl)) then
        (case hardwareFrom k wfl w of
           (Inl e, w1) \<Rightarrow> ((NoRequeue, Some (errorf ''failed to get hardware: '' e)), set_state WSFailed wfl, w1)
         | (Inr hw, w1) \<Rightarrow>
             (case templateActions rc (cb_PostActions (bo_CustombootConfig (boot_options wfl))) (Hardware_Spec hw) of
                Inl e \<Rightarrow> ((NoRequeue, Some (errorf ''failed to template post actions: '' e)), set_state WSFailed wfl, w1)
              | Inr actions \<Rightarrow>
                  post_job k actions (customboot_post_job wfl)
                    (cb_PostActions (bo_CustombootConfig (boot_options wfl)) = []) wfl w1))
      else ((NoRequeue, None), finish_state wfl, w))"

definition postActions ::
  "'v Reconciler \<Rightarrow> ('w, 'v) ctl_client \<Rightarrow> Workflow \<Rightarrow> 'w \<Rightarrow> outcome \<times> Workflow \<times> 'w" where
  "postActions rc k wfl w =
     (if bo_ToggleAllowNetboot (boot_options wfl) \<and> \<not> toggled False wfl then
        (case toggleHardware k False wfl w of
           (Some e, wfl1, w1) \<Rightarrow> ((NoRequeue, Some e), set_state WSFailed wfl1, w1)
         | (None, wfl1, w1) \<Rightarrow> post_boot rc k wfl1 w1)
      else post_boot rc k wfl w)"


section \<open>Rendering a workflow\<close>

text \<open>
  The loop over the references of a Hardware: a reference is read only when it is not denied,
  or denied and explicitly allowed. Errors are collected and never stop the loop.
\<close>

fun collect_references ::
  "'v Reconciler \<Rightarrow> ('w, 'v) ctl_client \<Rightarrow> Hardware \<Rightarrow> (string \<times> Reference) list \<Rightarrow>
   gerr option \<Rightarrow> (string \<times> 'v option) list \<Rightarrow> 'w \<Rightarrow> gerr option \<times> (string \<times> 'v option) list \<times> 'w" where
  "collect_references rc k hardware [] refErr refs w = (refErr, refs, w)"
| "collect_references rc k hardware ((refName, rf) # rest) refErr refs w =
     (let ed = \<lparr>ed_SourceName = Name hardware, ed_SourceNamespace = Namespace hardware, ed_Reference = rf\<rparr> in
      case evaluate (rc_Rules rc) (rc_Denylist rc) ed of
        Inl e \<Rightarrow> collect_references rc k hardware rest (errors_join refErr (Some e)) refs w
      | Inr (denied, drules) \<Rightarrow>
          (case evaluate (rc_Rules rc) (rc_Allowlist rc) ed of
             Inl e \<Rightarrow> collect_references rc k hardware rest (errors_join refErr (Some e)) refs w
           | Inr (allowed, arules) \<Rightarrow>
               if denied \<and> \<not> allowed
               then collect_references rc k hardware rest (errors_join refErr (Some (NewError ''reference denied''))) refs w
               else
                 (case ck_DynamicRead k rf w of
                    ((err, v), w1) \<Rightarrow>
                      if err = None \<or> v \<noteq> None
                      then collect_references rc k hardware rest refErr (refs @ [(refName, v)]) w1
                      else collect_references rc k hardware rest (errors_join refErr err) refs w1)))"

definition render_failed ::
  "('w, 'v) ctl_client \<Rightarrow> string \<Rightarrow> 'w \<Rightarrow> Workflow \<Rightarrow> Workflow" where
  "render_failed k msg w = on_status (\<lambda>st.
     SetConditionIfDifferent (mk_condition TemplateRenderedSuccess MetaFalse reasonError msg (ck_now k w))
       (st\<lparr>st_TemplateRendering := TemplateRenderingFailed\<rparr>))"

definition workflow_data ::
  "'v Reconciler \<Rightarrow> (string \<times> string) list \<Rightarrow> Hardware \<Rightarrow> (string \<times> 'v option) list \<Rightarrow> 'v template_data" where
  "workflow_data rc hardwareMap hardware references =
     WorkflowData ((map_option DString \<circ> map_of hardwareMap)
       (''hardware'' \<mapsto> DJson (case rc_structToMap rc hardware of Inl _ \<Rightarrow> rc_emptyMap rc | Inr v \<Rightarrow> v),
        ''Hardware'' \<mapsto> DLegacy (toTemplateHardwareData hardware),
        ''references'' \<mapsto> DReferences references))"

definition render_workflow ::
  "'v Reconciler \<Rightarrow> ('w, 'v) ctl_client \<Rightarrow> Template \<Rightarrow> Hardware \<Rightarrow> Workflow \<Rightarrow> 'w \<Rightarrow> gerr option \<times> Workflow \<times> 'w" where
  "render_workflow rc k tpl hardware stored w =
     (let (refErr, references, w1) = collect_references rc k hardware (hw_References (Hardware_Spec hardware)) None [] w in
      case renderTemplateHardware (rc_Renderer rc) (Name stored) (pointerToValue [] (Template_Data tpl))
             (workflow_data rc (ws_HardwareMap (Workflow_Spec stored)) hardware references) of
        Inl e \<Rightarrow>
          (Some e,
           render_failed k (''error rendering template: '' @
             err_text (the (errors_join refErr (Some e)))) w1 stored, w1)
      | Inr tinkWf \<Rightarrow>
          (let (st, w2) = YAMLToStatus (ck_Ulid k) tinkWf w1 in
           (None,
            on_status (\<lambda>_. SetCondition (mk_condition TemplateRenderedSuccess MetaTrue ''Complete''
                ''template rendered successfully'' (ck_now k w2))
              (st\<lparr>st_TemplateRendering := TemplateRenderingSuccessful\<rparr>)) stored, w2)))"

definition processWorkflow ::
  "'v Reconciler \<Rightarrow> ('w, 'v) ctl_client \<Rightarrow> Workflow \<Rightarrow> 'w \<Rightarrow> gerr option \<times> Workflow \<times> 'w" where
  "processWorkflow rc k stored w =
     (let ref = ws_TemplateRef (Workflow_Spec stored); hwRef = ws_HardwareRef (Workflow_Spec stored);
          ns = Namespace stored in
      case ck_GetTemplate k ns ref w of
        (Inl e, w1) \<Rightarrow>
          (if IsNotFound e
           then (Some (NewError (''no template found: name='' @ ref @ ''; namespace='' @ ns)),
                 render_failed k ''template not found'' w1 stored, w1)
           else (Some e, render_failed k (err_text e) w1 stored, w1))
      | (Inr tpl, w1) \<Rightarrow>
          (case ck_GetHardware k ns hwRef w1 of
             (Inl e, w2) \<Rightarrow>
               (if \<not> IsNotFound e
                then (Some e, render_failed k (''error getting hardware: '' @ err_text e) w2 stored, w2)
                else if hwRef \<noteq> []
                then (Some (NewError (''hardware not found: name='' @ hwRef @ ''; namespace='' @ ns)),
                      render_failed k (''hardware not found: '' @ err_text e) w2 stored, w2)
                else render_workflow rc k tpl empty_Hardware stored w2)
           | (Inr hardware, w2) \<Rightarrow> render_workflow rc k tpl hardware stored w2))"

definition processNewWorkflow ::
  "'v Reconciler \<Rightarrow> ('w, 'v) ctl_client \<Rightarrow> Workflow \<Rightarrow> 'w \<Rightarrow> outcome \<times> Workflow \<times> 'w" where
  "processNewWorkflow rc k stored w =
     (case processWorkflow rc k stored w of
        (Some e, stored1, w1) \<Rightarrow> ((NoRequeue, Some e), stored1, w1)
      | (None, stored1, w1) \<Rightarrow>
          if bo_ToggleAllowNetboot (boot_options stored1) \<or> bo_BootMode (boot_options stored1) \<noteq> BootModeUnset
          then ((RequeueNow, None), set_state WSPreparing stored1, w1)
          else ((NoRequeue, None), set_state WSPending stored1, w1))"


section \<open>The reconciler\<close>

definition firstAction :: "Workflow \<Rightarrow> Action option" where
  "firstAction wfl =
     (case st_Tasks (Workflow_Status wfl) of
        [] \<Rightarrow> None
      | t # _ \<Rightarrow> (case t_Actions t of [] \<Rightarrow> None | a # _ \<Rightarrow> Some a))"

definition set_agent :: "string \<Rightarrow> Workflow \<Rightarrow> Workflow" where
  "set_agent a = on_status (\<lambda>st. st\<lparr>st_AgentID := a\<rparr>)"

definition updateAgentIDIfNeeded :: "Workflow \<Rightarrow> bool \<times> Workflow" where
  "updateAgentIDIfNeeded wfl =
     (let tasks = st_Tasks (Workflow_Status wfl) in
      case st_CurrentState (Workflow_Status wfl) of
        None \<Rightarrow> (False, wfl)
      | Some cur \<Rightarrow>
          (case find_index (\<lambda>t. t_ID t = cur_TaskID cur) tasks of
             None \<Rightarrow> (False, wfl)
           | Some i \<Rightarrow>
               if length tasks - 1 \<le> i then (False, wfl)
               else if list_ex (\<lambda>a. a_State a \<noteq> WSSuccess) (t_Actions (tasks ! i)) then (False, wfl)
               else
                 (case t_Actions (tasks ! Suc i) of
                    [] \<Rightarrow> (False, wfl)
                  | a # _ \<Rightarrow>
                      if a_State a \<noteq> WSPending then (False, wfl)
                      else if st_AgentID (Workflow_Status wfl) = t_AgentID (tasks ! Suc i) then (False, wfl)
                      else (True, set_agent (t_AgentID (tasks ! Suc i)) wfl))))"

definition mergePatchStatus :: "('w, 'v) ctl_client \<Rightarrow> Workflow \<Rightarrow> Workflow \<Rightarrow> 'w \<Rightarrow> gerr option \<times> 'w" where
  "mergePatchStatus k original updated w =
     (if Workflow_Status updated \<noteq> Workflow_Status original then
        (case ck_PatchStatus k original updated w of
           (Some e, w1) \<Rightarrow> (Some (errorf (''error patching status of workflow: '' @ Name updated @ '', error: '') e), w1)
         | (None, w1) \<Rightarrow> (None, w1))
      else (None, w))"

definition global_stop :: "time \<Rightarrow> time \<Rightarrow> int \<Rightarrow> time" where
  "global_stop now start timeout =
     now + i64 (timeout * second) + (if start < now then \<bar>sat64 (now - start)\<bar> else 0)"

definition set_global_stop :: "time \<Rightarrow> Workflow \<Rightarrow> Workflow" where
  "set_global_stop t = on_status (\<lambda>st. st\<lparr>st_GlobalExecutionStop := Some t\<rparr>)"

text \<open>
  The body of \<open>Reconcile\<close> between reading the Workflow and patching its status: the outcome,
  and the Workflow handed to \<open>mergePatchStatus\<close>. A branch does not patch at all, returns the
  error of the patch, or joins it to its own error.
\<close>

datatype patch = NoPatch | Patch Workflow | JoinPatch Workflow

definition reconcile_running ::
  "('w, 'v) ctl_client \<Rightarrow> Workflow \<Rightarrow> 'w \<Rightarrow> outcome \<times> patch \<times> 'w" where
  "reconcile_running k wflow w =
     (case st_GlobalExecutionStop (Workflow_Status wflow) of
        Some stop \<Rightarrow>
          if stop < ck_now k w then ((NoRequeue, None), Patch (set_state WSTimeout wflow), w)
          else ((NoRequeue, None), Patch (snd (updateAgentIDIfNeeded wflow)), w)
      | None \<Rightarrow>
          (let wflow1 = snd (updateAgentIDIfNeeded wflow) in
           case (firstAction wflow1, st_CurrentState (Workflow_Status wflow1)) of
             (Some first, Some cur) \<Rightarrow>
               if a_ID first = cur_ActionID cur then
                 (case a_ExecutionStart first of
                    None \<Rightarrow> ((NoRequeue, None), NoPatch, w)
                  | Some start \<Rightarrow>
                      (let now = ck_now k w; stop = global_stop now start (st_GlobalTimeout (Workflow_Status wflow1))
                       in ((RequeueIn (sat64 (stop - now)), None), Patch (set_global_stop stop wflow1), w)))
               else ((NoRequeue, None), Patch wflow1, w)
           | _ \<Rightarrow> ((NoRequeue, None), Patch wflow1, w)))"

definition reconcile_step ::
  "'v Reconciler \<Rightarrow> ('w, 'v) ctl_client \<Rightarrow> Workflow \<Rightarrow> 'w \<Rightarrow> outcome \<times> patch \<times> 'w" where
  "reconcile_step rc k stored w =
     (case wf_state stored of
        WSEmpty \<Rightarrow>
          (case processNewWorkflow rc k stored w of
             (resp, wflow, w1) \<Rightarrow>
               if ws_Disabled (Workflow_Spec wflow) = Some True
               then ((NoRequeue, None), Patch (set_agent (st_AgentID (Workflow_Status wflow)) stored), w1)
               else (resp, JoinPatch wflow, w1))
      | WSPreparing \<Rightarrow> (case prepareWorkflow rc k stored w of (resp, wflow, w1) \<Rightarrow> (resp, JoinPatch wflow, w1))
      | WSRunning \<Rightarrow> reconcile_running k stored w
      | WSPost \<Rightarrow> (case postActions rc k stored w of (resp, wflow, w1) \<Rightarrow> (resp, JoinPatch wflow, w1))
      | WSOther s \<Rightarrow>
          (if s = ''STATE_PENDING'' then
             (case processWorkflow rc k stored w of (e, wflow, w1) \<Rightarrow> ((NoRequeue, e), JoinPatch wflow, w1))
           else ((NoRequeue, None), NoPatch, w))
      | _ \<Rightarrow> ((NoRequeue, None), NoPatch, w))"

definition Reconcile :: "'v Reconciler \<Rightarrow> ('w, 'v) ctl_client \<Rightarrow> string \<Rightarrow> string \<Rightarrow> 'w \<Rightarrow> outcome \<times> 'w" where
  "Reconcile rc k ns name w =
     (case ck_GetWorkflow k ns name w of
        (Inl e, w1) \<Rightarrow> ((NoRequeue, if IsNotFound e then None else Some e), w1)
      | (Inr stored, w1) \<Rightarrow>
          (if DeletionTimestamp stored \<noteq> None then ((NoRequeue, None), w1)
           else
             (case reconcile_step rc k stored w1 of
                ((r, err), NoPatch, w2) \<Rightarrow> ((r, err), w2)
              | ((r, err), Patch wflow, w2) \<Rightarrow>
                  (case mergePatchStatus k stored wflow w2 of (perr, w3) \<Rightarrow> ((r, perr), w3))
              | ((r, err), JoinPatch wflow, w2) \<Rightarrow>
                  (case mergePatchStatus k stored wflow w2 of
                     (perr, w3) \<Rightarrow> ((r, errors_join err perr), w3)))))"


text \<open>The Workflow a step hands to the patch, if it patches.\<close>

fun patched :: "patch \<Rightarrow> Workflow option" where
  "patched NoPatch = None"
| "patched (Patch wflow) = Some wflow"
| "patched (JoinPatch wflow) = Some wflow"


section \<open>Preparing: outcomes\<close>

lemma prepare_job_outcome:
  assumes run: "prepare_job k as n wfl w = ((r, e), wfl', w')" and pre: "wf_state wfl = WSPreparing"
  shows "e \<noteq> None \<Longrightarrow> wf_state wfl' = WSFailed"
    and "e = None \<Longrightarrow> wf_state wfl' = (if jst_Complete (job_of wfl' n) then WSPending else WSPreparing)"
    and "Workflow_Spec wfl' = Workflow_Spec wfl" "Name wfl' = Name wfl"
    and "bos_AllowNetboot (st_BootOptions (Workflow_Status wfl')) = bos_AllowNetboot (st_BootOptions (Workflow_Status wfl))"
    and "st_Tasks (Workflow_Status wfl') = st_Tasks (Workflow_Status wfl)"
proof -
  obtain o1 wfl1 w1 where h: "handleJob k as n wfl w = (o1, wfl1, w1)" by (cases "handleJob k as n wfl w") auto
  have f: "job_frame wfl wfl1" using h by (rule handleJob_frame)
  obtain r1 e1 where o1: "o1 = (r1, e1)" by fastforce
  note facts = run h f o1 pre
  show "e \<noteq> None \<Longrightarrow> wf_state wfl' = WSFailed"
    and "e = None \<Longrightarrow> wf_state wfl' = (if jst_Complete (job_of wfl' n) then WSPending else WSPreparing)"
    and "Workflow_Spec wfl' = Workflow_Spec wfl" "Name wfl' = Name wfl"
    and "st_Tasks (Workflow_Status wfl') = st_Tasks (Workflow_Status wfl)"
    using facts by (auto simp: prepare_job_def job_frame_def split: option.splits if_splits)
  show "bos_AllowNetboot (st_BootOptions (Workflow_Status wfl')) = bos_AllowNetboot (st_BootOptions (Workflow_Status wfl))"
    using facts by (auto simp: prepare_job_def job_frame_def set_state_def on_status_def split: option.splits if_splits)
qed

text \<open>The job a boot mode waits for, and what a prepared workflow has behind it.\<close>

definition boot_job :: "Workflow \<Rightarrow> string option" where
  "boot_job wfl = (case bo_BootMode (boot_options wfl) of
     BootModeNetboot \<Rightarrow> Some (netboot_job wfl)
   | BootModeISO \<Rightarrow> Some (iso_mount_job wfl)
   | BootModeIsoboot \<Rightarrow> Some (iso_mount_job wfl)
   | BootModeCustomboot \<Rightarrow> Some (customboot_preparing_job wfl)
   | _ \<Rightarrow> None)"

definition boot_ready :: "Workflow \<Rightarrow> bool" where
  "boot_ready wfl \<longleftrightarrow> (case boot_job wfl of None \<Rightarrow> True | Some n \<Rightarrow> jst_Complete (job_of wfl n))"

lemma boot_job_cong: "Workflow_Spec a = Workflow_Spec b \<Longrightarrow> Name a = Name b \<Longrightarrow> boot_job a = boot_job b"
  by (simp add: boot_job_def netboot_job_def iso_mount_job_def customboot_preparing_job_def split: BootMode.split)

text \<open>The shape of a finished preparation step: failed with an error, or still waiting, or ready.\<close>

definition prepare_result :: "Workflow \<Rightarrow> gerr option \<Rightarrow> Workflow \<Rightarrow> bool" where
  "prepare_result wfl e wfl' \<longleftrightarrow>
     Workflow_Spec wfl' = Workflow_Spec wfl \<and> Name wfl' = Name wfl \<and>
     st_Tasks (Workflow_Status wfl') = st_Tasks (Workflow_Status wfl) \<and>
     bos_AllowNetboot (st_BootOptions (Workflow_Status wfl')) = bos_AllowNetboot (st_BootOptions (Workflow_Status wfl)) \<and>
     (if e \<noteq> None then wf_state wfl' = WSFailed
      else wf_state wfl' = WSPreparing \<or> (wf_state wfl' = WSPending \<and> boot_ready wfl'))"

lemma prepare_job_result:
  assumes run: "prepare_job k as n wfl w = ((r, e), wfl', w')" and pre: "wf_state wfl = WSPreparing"
    and job: "boot_job wfl = Some n"
  shows "prepare_result wfl e wfl'"
proof -
  note out = prepare_job_outcome [OF run pre]
  have "boot_job wfl' = Some n" using boot_job_cong [OF out(3,4)] job by simp
  then show ?thesis using out by (auto simp: prepare_result_def boot_ready_def)
qed

lemma fail_hardware_result:
  "fail_hardware k ty e wfl w = ((r, e'), wfl', w') \<Longrightarrow> prepare_result wfl e' wfl'"
  by (auto simp: fail_hardware_def prepare_result_def set_state_def on_status_def)

lemma prepare_idle_result: "wf_state wfl = WSPreparing \<Longrightarrow> prepare_result wfl None wfl"
  by (simp add: prepare_result_def)

lemma prepare_fail_result: "prepare_result wfl (Some e) (set_state WSFailed wfl)"
  "prepare_result wfl (Some e) (set_state WSFailed (on_status (SetConditionIfDifferent c) wfl))"
  by (simp_all add: prepare_result_def set_state_def on_status_def)

lemmas prepare_results = prepare_job_result fail_hardware_result prepare_idle_result prepare_fail_result

lemma prepare_boot_result:
  assumes run: "prepare_boot rc k wfl w = ((r, e), wfl', w')" and pre: "wf_state wfl = WSPreparing"
  shows "prepare_result wfl e wfl'"
proof (cases "bo_BootMode (boot_options wfl)")
  case BootModeNetboot
  then have "boot_job wfl = Some (netboot_job wfl)" by (simp add: boot_job_def)
  with BootModeNetboot run pre show ?thesis
    by (auto simp: prepare_boot_def intro: prepare_results split: prod.splits sum.splits if_splits)
next
  case BootModeISO
  then have "boot_job wfl = Some (iso_mount_job wfl)" by (simp add: boot_job_def)
  with BootModeISO run pre show ?thesis
    by (auto simp: prepare_boot_def intro: prepare_results split: prod.splits sum.splits if_splits)
next
  case BootModeIsoboot
  then have "boot_job wfl = Some (iso_mount_job wfl)" by (simp add: boot_job_def)
  with BootModeIsoboot run pre show ?thesis
    by (auto simp: prepare_boot_def intro: prepare_results split: prod.splits sum.splits if_splits)
next
  case BootModeCustomboot
  then have "boot_job wfl = Some (customboot_preparing_job wfl)" by (simp add: boot_job_def)
  with BootModeCustomboot run pre show ?thesis
    by (auto simp: prepare_boot_def intro: prepare_results split: prod.splits sum.splits if_splits)
next
  case BootModeUnset
  with run show ?thesis
    by (auto simp: prepare_boot_def prepare_result_def boot_ready_def boot_job_def set_state_def on_status_def)
next
  case (BootModeOther s)
  with run show ?thesis
    by (auto simp: prepare_boot_def prepare_result_def boot_ready_def boot_job_def set_state_def on_status_def)
qed

lemma prepareWorkflow_result:
  assumes run: "prepareWorkflow rc k wfl w = ((r, e), wfl', w')" and pre: "wf_state wfl = WSPreparing"
  shows "e \<noteq> None \<Longrightarrow> wf_state wfl' = WSFailed"
    and "e = None \<Longrightarrow> wf_state wfl' = WSPreparing \<or> (wf_state wfl' = WSPending \<and> boot_ready wfl')"
    and "e = None \<Longrightarrow> bo_ToggleAllowNetboot (boot_options wfl) \<Longrightarrow> toggled True wfl'"
    and "Workflow_Spec wfl' = Workflow_Spec wfl" "st_Tasks (Workflow_Status wfl') = st_Tasks (Workflow_Status wfl)"
proof -
  have "(if e \<noteq> None then wf_state wfl' = WSFailed
         else (wf_state wfl' = WSPreparing \<or> (wf_state wfl' = WSPending \<and> boot_ready wfl')) \<and>
              (bo_ToggleAllowNetboot (boot_options wfl) \<longrightarrow> toggled True wfl')) \<and>
        Workflow_Spec wfl' = Workflow_Spec wfl \<and> st_Tasks (Workflow_Status wfl') = st_Tasks (Workflow_Status wfl)"
  proof (cases "bo_ToggleAllowNetboot (boot_options wfl) \<and> \<not> toggled True wfl")
    case toggle: True
    obtain et wfl1 w1 where t: "toggleHardware k True wfl w = (et, wfl1, w1)" by (cases "toggleHardware k True wfl w") auto
    note frame = toggleHardware_frame [OF t]
    show ?thesis
    proof (cases et)
      case None
      with run toggle t have b: "prepare_boot rc k wfl1 w1 = ((r, e), wfl', w')" by (simp add: prepareWorkflow_def)
      have "toggled True wfl1" using toggleHardware_success [of k True wfl w wfl1 w1] t None by simp
      with prepare_boot_result [OF b] frame pre show ?thesis
        by (auto simp: prepare_result_def toggled_def)
    next
      case (Some x)
      with run toggle t frame show ?thesis by (auto simp: prepareWorkflow_def)
    qed
  next
    case False
    with run have b: "prepare_boot rc k wfl w = ((r, e), wfl', w')" by (auto simp: prepareWorkflow_def)
    with False prepare_boot_result [OF b pre] show ?thesis by (auto simp: prepare_result_def toggled_def)
  qed
  then show "e \<noteq> None \<Longrightarrow> wf_state wfl' = WSFailed"
    and "e = None \<Longrightarrow> wf_state wfl' = WSPreparing \<or> (wf_state wfl' = WSPending \<and> boot_ready wfl')"
    and "e = None \<Longrightarrow> bo_ToggleAllowNetboot (boot_options wfl) \<Longrightarrow> toggled True wfl'"
    and "Workflow_Spec wfl' = Workflow_Spec wfl" "st_Tasks (Workflow_Status wfl') = st_Tasks (Workflow_Status wfl)"
    by (auto split: if_splits)
qed


section \<open>Post actions: outcomes\<close>

lemma finish_state_cases:
  "wf_state (finish_state wfl) = (case st_CurrentState (Workflow_Status wfl) of None \<Rightarrow> wf_state wfl | Some c \<Rightarrow> cur_State c)"
  by (simp add: finish_state_def split: option.splits)

lemma finish_state_frame [simp]:
  "Workflow_Spec (finish_state wfl) = Workflow_Spec wfl"
  "st_Tasks (Workflow_Status (finish_state wfl)) = st_Tasks (Workflow_Status wfl)"
  "st_CurrentState (Workflow_Status (finish_state wfl)) = st_CurrentState (Workflow_Status wfl)"
  by (simp_all add: finish_state_def split: option.splits)

definition post_result :: "Workflow \<Rightarrow> gerr option \<Rightarrow> Workflow \<Rightarrow> bool" where
  "post_result wfl e wfl' \<longleftrightarrow>
     Workflow_Spec wfl' = Workflow_Spec wfl \<and>
     st_Tasks (Workflow_Status wfl') = st_Tasks (Workflow_Status wfl) \<and>
     st_CurrentState (Workflow_Status wfl') = st_CurrentState (Workflow_Status wfl) \<and>
     (if e \<noteq> None then wf_state wfl' = WSFailed
      else wf_state wfl' = wf_state wfl \<or> wf_state wfl' = wf_state (finish_state wfl))"

lemma post_fail_result: "post_result wfl (Some e) (set_state WSFailed wfl)"
  by (simp add: post_result_def)

lemma post_finish_result: "post_result wfl None (finish_state wfl)"
  by (simp add: post_result_def)

lemma post_job_result:
  assumes run: "post_job k as n nothing wfl w = ((r, e), wfl', w')"
  shows "post_result wfl e wfl'"
proof -
  obtain r1 e1 wfl1 w1 where h: "handleJob k as n wfl w = ((r1, e1), wfl1, w1)" by (metis prod.exhaust)
  have f: "job_frame wfl wfl1" using h by (rule handleJob_frame)
  from run h f show ?thesis
    by (auto simp: post_job_def job_frame_def post_result_def finish_state_cases split: option.splits if_splits)
qed

lemma post_boot_result:
  "post_boot rc k wfl w = ((r, e), wfl', w') \<Longrightarrow> post_result wfl e wfl'"
  by (auto simp: post_boot_def Let_def post_fail_result post_finish_result intro: post_job_result
      split: prod.splits sum.splits if_splits)

lemma postActions_result:
  assumes run: "postActions rc k wfl w = ((r, e), wfl', w')"
  shows "post_result wfl e wfl'"
proof (cases "bo_ToggleAllowNetboot (boot_options wfl) \<and> \<not> toggled False wfl")
  case True
  obtain et wfl1 w1 where t: "toggleHardware k False wfl w = (et, wfl1, w1)" by (cases "toggleHardware k False wfl w") auto
  note frame = toggleHardware_frame [OF t]
  show ?thesis
  proof (cases et)
    case None
    with run True t have b: "post_boot rc k wfl1 w1 = ((r, e), wfl', w')" by (simp add: postActions_def)
    from post_boot_result [OF b] frame show ?thesis
      by (auto simp: post_result_def finish_state_cases split: option.splits)
  next
    case (Some x)
    with run True t frame show ?thesis by (auto simp: postActions_def post_result_def)
  qed
next
  case False
  with run have "post_boot rc k wfl w = ((r, e), wfl', w')" by (auto simp: postActions_def)
  then show ?thesis by (rule post_boot_result)
qed

section \<open>Rendering: outcomes\<close>

lemma render_failed_frame [simp]:
  "Workflow_Spec (render_failed k m w wfl) = Workflow_Spec wfl"
  "wf_state (render_failed k m w wfl) = wf_state wfl"
  "st_Tasks (Workflow_Status (render_failed k m w wfl)) = st_Tasks (Workflow_Status wfl)"
  "st_AgentID (Workflow_Status (render_failed k m w wfl)) = st_AgentID (Workflow_Status wfl)"
  "st_TemplateRendering (Workflow_Status (render_failed k m w wfl)) = TemplateRenderingFailed"
  "HasCondition (Workflow_Status (render_failed k m w wfl)) TemplateRenderedSuccess MetaFalse"
  by (simp_all add: render_failed_def on_status_def)

text \<open>
  A rendered status: at least one task, an agent for every task, the workflow assigned to the
  agent of the first task, and every action waiting.
\<close>

definition fresh_status :: "WorkflowStatus \<Rightarrow> bool" where
  "fresh_status st \<longleftrightarrow>
     st_Tasks st \<noteq> [] \<and> (\<forall>t \<in> set (st_Tasks st). t_AgentID t \<noteq> []) \<and>
     st_AgentID st = t_AgentID (hd (st_Tasks st)) \<and>
     distinct (map t_Name (st_Tasks st)) \<and>
     (\<forall>t \<in> set (st_Tasks st). distinct (map a_Name (t_Actions t)) \<and> (\<forall>a \<in> set (t_Actions t). a_State a = WSPending)) \<and>
     st_CurrentState st = None \<and> st_GlobalExecutionStop st = None"

lemma YAMLToStatus_fresh:
  assumes valid: "valid_template img wfl" and agents: "\<forall>t \<in> set (tw_Tasks wfl). tt_WorkerAddr t \<noteq> []"
  shows "fresh_status (fst (YAMLToStatus mk wfl g))"
proof -
  let ?ts = "fst (convert_tasks mk (tw_Tasks wfl) g)"
  note shape = convert_tasks_shape [of mk "tw_Tasks wfl" g]
  have names: "map t_Name ?ts = map tt_Name (tw_Tasks wfl)"
    and ag: "map t_AgentID ?ts = map tt_WorkerAddr (tw_Tasks wfl)"
    and acts: "map (\<lambda>t. map a_Name (t_Actions t)) ?ts = map (\<lambda>t. map ta_Name (tt_Actions t)) (tw_Tasks wfl)"
    using arg_cong [OF shape, of "map fst"] arg_cong [OF shape, of "map (fst \<circ> snd)"]
      arg_cong [OF shape, of "map (snd \<circ> snd)"] by (simp_all add: comp_def)
  obtain t ts where tw: "tw_Tasks wfl = t # ts" using valid by (cases "tw_Tasks wfl") (auto simp: valid_template_def)
  have ne: "?ts \<noteq> []" using names tw by auto
  have d: "distinct (map t_Name ?ts)" using valid names by (simp add: valid_template_def)
  have "\<forall>x \<in> set (map t_AgentID ?ts). x \<noteq> []" unfolding ag using agents by simp
  then have a1: "\<forall>t \<in> set ?ts. t_AgentID t \<noteq> []" by simp
  have "\<forall>x \<in> set (map (\<lambda>t. map a_Name (t_Actions t)) ?ts). distinct x"
    unfolding acts using valid by (simp add: valid_template_def valid_task_def)
  then have a2: "\<forall>t \<in> set ?ts. distinct (map a_Name (t_Actions t))" by simp
  have hd: "first_agent (tw_Tasks wfl) = t_AgentID (hd ?ts)"
    using arg_cong [OF ag, of hd] ne agents by (simp add: tw first_agent_Cons hd_map)
  show ?thesis
    using ne d a1 a2 hd convert_tasks_pending [of mk "tw_Tasks wfl" g]
    by (auto simp: fresh_status_def YAMLToStatus_def Let_def case_prod_unfold empty_WorkflowStatus_def)
qed

lemma render_workflow_cases:
  assumes "render_workflow rc k tpl hw stored w = (e, wfl', w')"
  shows "e \<noteq> None \<Longrightarrow> \<exists>m w0. wfl' = render_failed k m w0 stored"
    and "e = None \<Longrightarrow> fresh_status (Workflow_Status wfl') \<and> wf_state wfl' = WSEmpty \<and>
      st_TemplateRendering (Workflow_Status wfl') = TemplateRenderingSuccessful \<and>
      HasCondition (Workflow_Status wfl') TemplateRenderedSuccess MetaTrue \<and> Workflow_Spec wfl' = Workflow_Spec stored"
proof -
  obtain refErr refs w1 where c: "collect_references rc k hw (hw_References (Hardware_Spec hw)) None [] w = (refErr, refs, w1)"
    by (metis prod.exhaust)
  let ?d = "workflow_data rc (ws_HardwareMap (Workflow_Spec stored)) hw refs"
  let ?r = "renderTemplateHardware (rc_Renderer rc) (Name stored) (pointerToValue [] (Template_Data tpl)) ?d"
  show "e \<noteq> None \<Longrightarrow> \<exists>m w0. wfl' = render_failed k m w0 stored"
    using assms c by (auto simp: render_workflow_def split: sum.splits prod.splits)
  assume "e = None"
  with assms c obtain tw where r: "?r = Inr tw" by (auto simp: render_workflow_def split: sum.splits prod.splits)
  obtain st w2 where y: "YAMLToStatus (ck_Ulid k) tw w1 = (st, w2)" by fastforce
  have "fresh_status st" using YAMLToStatus_fresh [OF renderTemplateHardware_Inr [OF r], of "ck_Ulid k" w1] y by simp
  moreover have "st_State st = WSEmpty"
    using y by (auto simp: YAMLToStatus_def empty_WorkflowStatus_def split: prod.splits)
  ultimately show "fresh_status (Workflow_Status wfl') \<and> wf_state wfl' = WSEmpty \<and>
      st_TemplateRendering (Workflow_Status wfl') = TemplateRenderingSuccessful \<and>
      HasCondition (Workflow_Status wfl') TemplateRenderedSuccess MetaTrue \<and> Workflow_Spec wfl' = Workflow_Spec stored"
    using assms c r y by (auto simp: render_workflow_def fresh_status_def on_status_def)
qed

lemma processWorkflow_cases:
  assumes "processWorkflow rc k stored w = (e, wfl', w')"
  shows "e \<noteq> None \<Longrightarrow> \<exists>m w0. wfl' = render_failed k m w0 stored"
    and "e = None \<Longrightarrow> fresh_status (Workflow_Status wfl') \<and> wf_state wfl' = WSEmpty \<and>
      st_TemplateRendering (Workflow_Status wfl') = TemplateRenderingSuccessful \<and>
      HasCondition (Workflow_Status wfl') TemplateRenderedSuccess MetaTrue \<and> Workflow_Spec wfl' = Workflow_Spec stored"
  using assms
  by (auto simp: processWorkflow_def Let_def dest: render_workflow_cases
      split: prod.splits sum.splits if_splits)

lemma processNewWorkflow_cases:
  assumes "processNewWorkflow rc k stored w = ((r, e), wfl', w')"
  shows "e \<noteq> None \<Longrightarrow> \<exists>m w0. wfl' = render_failed k m w0 stored"
    and "e = None \<Longrightarrow> fresh_status (Workflow_Status wfl') \<and> Workflow_Spec wfl' = Workflow_Spec stored \<and>
      wf_state wfl' = (if bo_ToggleAllowNetboot (boot_options stored) \<or> bo_BootMode (boot_options stored) \<noteq> BootModeUnset
        then WSPreparing else WSPending)"
proof -
  obtain e1 wfl1 w1 where p: "processWorkflow rc k stored w = (e1, wfl1, w1)" by (metis prod.exhaust)
  note cases = processWorkflow_cases [OF p]
  show "e \<noteq> None \<Longrightarrow> \<exists>m w0. wfl' = render_failed k m w0 stored"
    using assms p cases(1) by (auto simp: processNewWorkflow_def split: option.splits if_splits)
  assume "e = None"
  with assms p have "e1 = None" by (auto simp: processNewWorkflow_def split: option.splits)
  with cases(2) assms p show "fresh_status (Workflow_Status wfl') \<and> Workflow_Spec wfl' = Workflow_Spec stored \<and>
      wf_state wfl' = (if bo_ToggleAllowNetboot (boot_options stored) \<or> bo_BootMode (boot_options stored) \<noteq> BootModeUnset
        then WSPreparing else WSPending)"
    by (auto simp: processNewWorkflow_def fresh_status_def set_state_def on_status_def split: if_splits)
qed


section \<open>The state machine of the controller\<close>

lemma updateAgent_frame:
  "wf_state (snd (updateAgentIDIfNeeded wfl)) = wf_state wfl"
  "st_Tasks (Workflow_Status (snd (updateAgentIDIfNeeded wfl))) = st_Tasks (Workflow_Status wfl)"
  "Workflow_Spec (snd (updateAgentIDIfNeeded wfl)) = Workflow_Spec wfl"
  "st_CurrentState (Workflow_Status (snd (updateAgentIDIfNeeded wfl))) = st_CurrentState (Workflow_Status wfl)"
  by (auto simp: updateAgentIDIfNeeded_def Let_def set_agent_def on_status_def split: option.splits list.splits)

text \<open>The states a reconciliation may write for a stored Workflow.\<close>

definition ctl_successors :: "Workflow \<Rightarrow> WorkflowState set" where
  "ctl_successors stored =
     (case wf_state stored of
        WSEmpty \<Rightarrow> {WSEmpty, WSPreparing, WSPending}
      | WSPreparing \<Rightarrow> {WSPreparing, WSPending, WSFailed}
      | WSRunning \<Rightarrow> {WSRunning, WSTimeout}
      | WSPost \<Rightarrow> {WSPost, WSFailed, wf_state (finish_state stored)}
      | WSOther s \<Rightarrow> (if s = ''STATE_PENDING'' then {WSOther s, WSEmpty} else {})
      | _ \<Rightarrow> {})"

lemma reconcile_running_state:
  assumes "reconcile_running k stored w = (out, p, w')" "wf_state stored = WSRunning" "patched p = Some wflow"
  shows "wf_state wflow \<in> {WSRunning, WSTimeout}"
    and "st_Tasks (Workflow_Status wflow) = st_Tasks (Workflow_Status stored)"
    and "st_CurrentState (Workflow_Status wflow) = st_CurrentState (Workflow_Status stored)"
  using assms updateAgent_frame [of stored]
  by (auto simp: reconcile_running_def Let_def set_global_stop_def on_status_def split: option.splits if_splits)

lemma reconcile_step_state:
  assumes run: "reconcile_step rc k stored w = (out, p, w')" and patch: "patched p = Some wflow"
  shows "wf_state wflow \<in> ctl_successors stored"
proof (cases "wf_state stored")
  case WSEmpty
  obtain r e wfl1 w1 where n: "processNewWorkflow rc k stored w = ((r, e), wfl1, w1)" by (metis prod.exhaust)
  show ?thesis
    using run patch WSEmpty n processNewWorkflow_cases [OF n]
    by (cases e) (auto simp: reconcile_step_def ctl_successors_def set_agent_def on_status_def split: if_splits)
next
  case WSPreparing
  obtain r e wfl1 w1 where n: "prepareWorkflow rc k stored w = ((r, e), wfl1, w1)" by (metis prod.exhaust)
  show ?thesis
    using run patch WSPreparing n prepareWorkflow_result(1,2) [OF n WSPreparing]
    by (cases e) (auto simp: reconcile_step_def ctl_successors_def)
next
  case WSRunning
  with run have "reconcile_running k stored w = (out, p, w')" by (simp add: reconcile_step_def)
  from reconcile_running_state(1) [OF this WSRunning patch] WSRunning show ?thesis
    by (simp add: ctl_successors_def)
next
  case WSPost
  obtain r e wfl1 w1 where n: "postActions rc k stored w = ((r, e), wfl1, w1)" by (metis prod.exhaust)
  show ?thesis
    using run patch WSPost n postActions_result [OF n]
    by (auto simp: reconcile_step_def ctl_successors_def post_result_def split: if_splits)
next
  case (WSOther s)
  obtain e wfl1 w1 where n: "processWorkflow rc k stored w = (e, wfl1, w1)" by (metis prod.exhaust)
  show ?thesis
    using run patch WSOther n processWorkflow_cases [OF n]
    by (cases e) (auto simp: reconcile_step_def ctl_successors_def split: if_splits)
qed (use run patch in \<open>auto simp: reconcile_step_def\<close>)

end
