(* ===== verification/Controller_Props.thy ===== *)
theory Controller_Props
  imports Controller
begin

text \<open>
  Properties of the workflow controller, with a small API server, \<open>sim_client\<close>, on which
  their hypotheses are shown to hold.
\<close>


section \<open>A small API server\<close>

record sim =
  sim_now :: time
  sim_workflow :: "Workflow option"
  sim_template :: "Template option"
  sim_hw :: "Hardware option"
  sim_job :: "Job option"
  sim_conflicts :: nat
  sim_created :: nat
  sim_ids :: nat

definition found :: "'a option \<Rightarrow> sim \<Rightarrow> (gerr + 'a) \<times> sim" where
  "found x w = (case x of None \<Rightarrow> (Inl (ApiError ReasonNotFound ''not found''), w) | Some a \<Rightarrow> (Inr a, w))"

definition sim_client :: "(sim, unit) ctl_client" where
  "sim_client =
     \<lparr>ck_now = sim_now,
      ck_Sleep = (\<lambda>w. w\<lparr>sim_now := sim_now w + second\<rparr>),
      ck_GetWorkflow = (\<lambda>ns n w. found (sim_workflow w) w),
      ck_GetTemplate = (\<lambda>ns n w. found (sim_template w) w),
      ck_GetHardware = (\<lambda>ns n w. found (sim_hw w) w),
      ck_GetJob = (\<lambda>ns n w. found (sim_job w) w),
      ck_UpdateHardware = (\<lambda>h w.
        if 0 < sim_conflicts w
        then (Some (ApiError ReasonConflict ''conflict''), w\<lparr>sim_conflicts := sim_conflicts w - 1\<rparr>)
        else (None, w\<lparr>sim_hw := Some h\<rparr>)),
      ck_CreateJob = (\<lambda>j w. (None, w\<lparr>sim_job := Some (j\<lparr>UID := ''uid''\<rparr>), sim_created := Suc (sim_created w)\<rparr>)),
      ck_DeleteJob = (\<lambda>ns n w. (None, w\<lparr>sim_job := None\<rparr>)),
      ck_DeleteTasks = (\<lambda>ns sel w. (None, w)),
      ck_PatchStatus = (\<lambda>original updated w. (None, w\<lparr>sim_workflow := Some updated\<rparr>)),
      ck_DynamicRead = (\<lambda>r w. ((None, None), w)),
      ck_Ulid = (\<lambda>w. (string_of_nat (sim_ids w), w\<lparr>sim_ids := Suc (sim_ids w)\<rparr>))\<rparr>"

definition sim_hardware :: Hardware where
  "sim_hardware = empty_Hardware\<lparr>Name := ''node'', Namespace := ''tink'',
     Hardware_Spec := empty_HardwareSpec
       \<lparr>hw_BMCRef := Some \<lparr>tlo_APIGroup = None, tlo_Kind = ''Machine'', tlo_Name = ''bmc''\<rparr>\<rparr>\<rparr>"

definition sim_spec :: WorkflowSpec where
  "sim_spec = \<lparr>ws_Disabled = None, ws_TemplateRef = ''tpl'', ws_HardwareRef = ''node'', ws_HardwareMap = [],
     ws_BootOptions = \<lparr>bo_ToggleAllowNetboot = False, bo_ISOURL = [], bo_BootMode = BootModeUnset,
       bo_CustombootConfig = \<lparr>cb_PreparingActions = [], cb_PostActions = []\<rparr>\<rparr>\<rparr>"

definition sim_wf :: "BootMode \<Rightarrow> WorkflowState \<Rightarrow> Workflow" where
  "sim_wf mode s =
     \<lparr>APIVersion = ''tinkerbell.org/v1alpha1'', Kind = ''Workflow'', Name = ''wf'', Namespace = ''tink'', UID = ''u1'',
      DeletionTimestamp = None, Labels = Map.empty, Annotations = Map.empty, OwnerReferences = [],
      Workflow_Spec = sim_spec\<lparr>ws_BootOptions := (ws_BootOptions sim_spec)\<lparr>bo_BootMode := mode\<rparr>\<rparr>,
      Workflow_Status = empty_WorkflowStatus\<lparr>st_State := s\<rparr>\<rparr>"

definition sim0 :: sim where
  "sim0 = \<lparr>sim_now = 0, sim_workflow = None, sim_template = None, sim_hw = Some sim_hardware, sim_job = None,
     sim_conflicts = 0, sim_created = 0, sim_ids = 0\<rparr>"

text \<open>A renderer whose templates are YAML already, and rules that match nothing.\<close>

definition sim_rc :: "unit Reconciler" where
  "sim_rc =
     \<lparr>rc_Renderer = \<lparr>tmpl_Parse = (\<lambda>n t. None), tmpl_Chunks = (\<lambda>n t d. [t]), tmpl_Error = (\<lambda>n t d. None),
        yaml_Unmarshal = (\<lambda>s. Inr sample_template), image_error = (\<lambda>s. None), data_text = (\<lambda>d. [])\<rparr>,
      rc_Rules = \<lparr>q_New = None, q_AddPattern = (\<lambda>ps p. None), q_Matches = (\<lambda>ps d. Inr [])\<rparr>,
      rc_Allowlist = [], rc_Denylist = defaultDenylist, rc_structToMap = (\<lambda>h. Inr ()), rc_emptyMap = ()\<rparr>"

lemma sim_wf_fields [simp]:
  "wf_state (sim_wf m s) = s"
  "bo_BootMode (boot_options (sim_wf m s)) = m"
  "\<not> bo_ToggleAllowNetboot (boot_options (sim_wf m s))"
  "cb_PreparingActions (bo_CustombootConfig (boot_options (sim_wf m s))) = []"
  "bos_Jobs (st_BootOptions (Workflow_Status (sim_wf m s))) n = None"
  "job_of (sim_wf m s) n = zero_JobStatus"
  "DeletionTimestamp (sim_wf m s) = None"
  by (simp_all add: sim_wf_def sim_spec_def empty_WorkflowStatus_def job_of_def)

lemmas sim_simps = sim_client_def sim0_def sim_wf_def sim_spec_def sim_hardware_def sim_rc_def found_def


section \<open>Toggling netboot\<close>

text \<open>C26. Optimistic concurrency on Hardware writes: when the API server answers every read and
  refuses the next \<open>c\<close> writes with a conflict before it accepts one, \<open>setAllowPXE\<close> with a budget
  of \<open>n\<close> attempts succeeds exactly when \<open>c < n\<close>.\<close>

theorem setAllowPXE_conflicts:
  assumes "write_conflicts k wfl b c w" and "0 < n"
  shows "fst (setAllowPXE k n (Some wfl) None b w) = None \<longleftrightarrow> c < n"
proof -
  obtain m where n: "n = Suc m" using assms(2) by (cases n) auto
  have "fst (setAllowPXE k n (Some wfl) None b w) = fst (allow_pxe_loop k (Suc m) 1 (Some wfl) None b w)"
    by (simp add: setAllowPXE_def n del: allow_pxe_loop.simps)
  then show ?thesis using allow_pxe_loop_conflicts [OF assms(1), of m 1] n by auto
qed

lemma sim_write_conflicts:
  "sim_hw w = Some h \<Longrightarrow> sim_conflicts w = c \<Longrightarrow> write_conflicts sim_client wfl b c w"
proof (induction c arbitrary: w)
  case 0
  then show ?case by (simp add: sim_client_def found_def)
next
  case (Suc c)
  then show ?case by (simp add: sim_client_def found_def IsConflict_def)
qed

theorem setAllowPXE_conflicts_witness:
  "fst (setAllowPXE sim_client 4 (Some (sim_wf BootModeUnset WSPreparing)) None True (sim0\<lparr>sim_conflicts := 3\<rparr>)) = None \<and>
   fst (setAllowPXE sim_client 4 (Some (sim_wf BootModeUnset WSPreparing)) None True (sim0\<lparr>sim_conflicts := 4\<rparr>)) \<noteq> None"
proof -
  have c: "write_conflicts sim_client (sim_wf BootModeUnset WSPreparing) True c (sim0\<lparr>sim_conflicts := c\<rparr>)" for c
    by (rule sim_write_conflicts) (simp_all add: sim0_def)
  show ?thesis using setAllowPXE_conflicts [OF c, of 4] by simp
qed

lemma hw_allow_pxe_all:
  "\<forall>i \<in> set (hw_Interfaces (Hardware_Spec (hw_allow_pxe b hw))). map_option nb_AllowPXE (if_Netboot i) = Some (Some b)"
  using set_allow_pxe_spec(1) [of b] by (simp add: hw_allow_pxe_def)

text \<open>When \<open>toggleHardware\<close> reports success and the flag was not set before, the API server
  has accepted a Hardware in which every interface, and nothing but its netboot setting, has
  \<open>AllowPXE\<close> set to the requested value, and the workflow records the toggle and its condition.\<close>

theorem toggleHardware_effect:
  assumes "toggleHardware k b wfl w = (None, wfl', w')" and "\<not> toggled b wfl"
  shows "(\<exists>hw w0. ck_UpdateHardware k (hw_allow_pxe b hw) w0 = (None, w') \<and>
      (\<forall>i \<in> set (hw_Interfaces (Hardware_Spec (hw_allow_pxe b hw))). map_option nb_AllowPXE (if_Netboot i) = Some (Some b)))
    \<and> toggled b wfl' \<and> HasCondition (Workflow_Status wfl') (toggle_condition b) MetaTrue"
proof (intro conjI)
  obtain hw w1 where h: "hardwareFrom k wfl w = (Inr hw, w1)"
    using assms(1) by (auto simp: toggleHardware_def split: prod.splits sum.splits)
  have s: "setAllowPXE k defaultRetries (Some wfl) (Some hw) b w1 = (None, w')"
    using assms h by (auto simp: toggleHardware_def split: prod.splits option.splits)
  then have "allow_pxe_loop k (Suc 3) 1 (Some wfl) (Some hw) b w1 = (None, w')"
    by (simp add: setAllowPXE_def defaultRetries_def numeral_eq_Suc del: allow_pxe_loop.simps)
  from allow_pxe_loop_success [OF this]
  show "\<exists>hw w0. ck_UpdateHardware k (hw_allow_pxe b hw) w0 = (None, w') \<and>
      (\<forall>i \<in> set (hw_Interfaces (Hardware_Spec (hw_allow_pxe b hw))). map_option nb_AllowPXE (if_Netboot i) = Some (Some b))"
    using hw_allow_pxe_all by blast
  show "toggled b wfl'" using assms(1) by (rule toggleHardware_success)
  show "HasCondition (Workflow_Status wfl') (toggle_condition b) MetaTrue"
    using assms h s by (auto simp: toggleHardware_def on_status_def)
qed

theorem toggleHardware_effect_witness:
  "toggled True (fst (snd (toggleHardware sim_client True (sim_wf BootModeUnset WSPreparing) sim0))) \<and>
   fst (toggleHardware sim_client True (sim_wf BootModeUnset WSPreparing) sim0) = None"
proof -
  let ?t = "toggleHardware sim_client True (sim_wf BootModeUnset WSPreparing) sim0"
  have off: "\<not> toggled True (sim_wf BootModeUnset WSPreparing)"
    by (simp add: toggled_def sim_wf_def empty_WorkflowStatus_def)
  have ok: "fst ?t = None"
    by (simp add: toggleHardware_def hardwareFrom_def setAllowPXE_def defaultRetries_def numeral_eq_Suc toggled_def
        sim_simps empty_WorkflowStatus_def)
  then have "?t = (None, fst (snd ?t), snd (snd ?t))" by (metis prod.collapse)
  from toggleHardware_effect [OF this off] ok show ?thesis by simp
qed


section \<open>Boot jobs\<close>

text \<open>C5. A boot job counts as complete only when its BMC job says so. Every call of \<open>handleJob\<close>
  keeps the invariant that a complete entry was cleaned up first and carries the identifier of a
  job object, leaves the entries of other jobs and the state, tasks and specification of the
  workflow alone, and marks an entry complete only after reading a job that is completed and not
  failed.\<close>

theorem handleJob_invariant:
  assumes "jobs_ok wfl" and "handleJob k actions n wfl w = ((r, e), wfl', w')"
  shows "jobs_ok wfl' \<and> job_frame wfl wfl' \<and> (\<forall>m. m \<noteq> n \<longrightarrow> job_of wfl' m = job_of wfl m) \<and>
    (jst_Complete (job_of wfl' n) \<and> \<not> jst_Complete (job_of wfl n) \<longrightarrow>
      (\<exists>rj w1. ck_GetJob k (Namespace wfl) n w = (Inr rj, w1) \<and>
        Job_HasCondition rj JobCompleted ConditionTrue \<and> \<not> Job_HasCondition rj JobFailed ConditionTrue))"
  using handleJob_keeps_ok [OF assms] handleJob_frame [OF assms(2)] handleJob_complete [OF assms(2)] by auto

theorem handleJob_invariant_witness:
  "jobs_ok (fst (snd (handleJob sim_client (netboot_actions sim_hardware) ''netboot-wf'' (sim_wf BootModeNetboot WSPreparing) sim0)))"
proof -
  let ?h = "handleJob sim_client (netboot_actions sim_hardware) ''netboot-wf'' (sim_wf BootModeNetboot WSPreparing) sim0"
  have ok: "jobs_ok (sim_wf BootModeNetboot WSPreparing)"
    by (simp add: jobs_ok_def job_of_def sim_wf_def empty_WorkflowStatus_def)
  have "?h = ((fst (fst ?h), snd (fst ?h)), fst (snd ?h), snd (snd ?h))" by simp
  from handleJob_invariant [OF ok this] show ?thesis by blast
qed

text \<open>On the first pass there is nothing recorded to clean up, so a job object that already
  exists under the name is adopted; the very next call then deletes it. The cleanup that the
  comment in \<open>handleJob\<close> puts first comes after the adoption.\<close>

theorem handleJob_adopts_then_deletes:
  assumes "bos_Jobs (st_BootOptions (Workflow_Status wfl)) n = None" and "actions \<noteq> []"
    and "ck_GetJob k (Namespace wfl) n w = (Inr rj, w1)" and "DeletionTimestamp rj = None"
  shows "\<exists>wfl1. handleJob k actions n wfl w = ((RequeueNow, None), wfl1, w1) \<and>
    jst_UID (job_of wfl1 n) = UID rj \<and>
    handleJob k actions n wfl1 w2 = deleteExisting k n wfl1 w2"
proof -
  have z: "job_of wfl n = zero_JobStatus" using assms(1) by (rule job_of_missing)
  let ?wfl1 = "on_status (SetCondition (mk_condition BootJobSetupComplete MetaTrue ''Created'' ''job created'' (ck_now k w1)))
    (set_job n (zero_JobStatus\<lparr>jst_UID := UID rj\<rparr>) wfl)"
  have run: "handleJob k actions n wfl w = ((RequeueNow, None), ?wfl1, w1)"
    using assms z by (simp add: handleJob_def createJob_def)
  have entry: "bos_Jobs (st_BootOptions (Workflow_Status ?wfl1)) n \<noteq> None"
    by (simp add: on_status_def set_job_def)
  have job: "job_of ?wfl1 n = zero_JobStatus\<lparr>jst_UID := UID rj\<rparr>" by simp
  have "handleJob k actions n ?wfl1 w2 = deleteExisting k n ?wfl1 w2"
    unfolding handleJob_def using entry job by simp
  with run job show ?thesis by auto
qed

definition sim_running_job :: Job where
  "sim_running_job = (new_job ''netboot-wf'' sim_hardware \<lparr>tlo_APIGroup = None, tlo_Kind = [], tlo_Name = ''bmc''\<rparr> ''tink'' [] [])
     \<lparr>UID := ''j1''\<rparr>"

theorem handleJob_adopts_then_deletes_witness:
  "\<exists>wfl1. handleJob sim_client (netboot_actions sim_hardware) ''netboot-wf'' (sim_wf BootModeNetboot WSPreparing)
      (sim0\<lparr>sim_job := Some sim_running_job\<rparr>) = ((RequeueNow, None), wfl1, sim0\<lparr>sim_job := Some sim_running_job\<rparr>) \<and>
    jst_UID (job_of wfl1 ''netboot-wf'') = ''j1'' \<and>
    handleJob sim_client (netboot_actions sim_hardware) ''netboot-wf'' wfl1 sim0 =
      deleteExisting sim_client ''netboot-wf'' wfl1 sim0"
proof -
  let ?w = "sim0\<lparr>sim_job := Some sim_running_job\<rparr>"
  have 1: "bos_Jobs (st_BootOptions (Workflow_Status (sim_wf BootModeNetboot WSPreparing))) ''netboot-wf'' = None"
    by (simp add: sim_wf_def empty_WorkflowStatus_def)
  have 2: "netboot_actions sim_hardware \<noteq> []" by (simp add: netboot_actions_def)
  have 3: "ck_GetJob sim_client (Namespace (sim_wf BootModeNetboot WSPreparing)) ''netboot-wf'' ?w = (Inr sim_running_job, ?w)"
    by (simp add: sim_client_def found_def)
  have 4: "DeletionTimestamp sim_running_job = None" and uid: "UID sim_running_job = ''j1''"
    by (simp_all add: sim_running_job_def new_job_def)
  from handleJob_adopts_then_deletes [OF 1 2 3 4, of sim0] uid show ?thesis by simp
qed

section \<open>Preparing\<close>

text \<open>C3. Preparing a workflow has three outcomes. With an error the workflow is \<open>FAILED\<close>; without
  one it is still \<open>PREPARING\<close>, or it is \<open>PENDING\<close> and the boot job its mode asks for is complete.
  Without an error a requested netboot toggle has been carried out. The specification and the
  tasks never change.\<close>

theorem prepareWorkflow_outcome:
  assumes "prepareWorkflow rc k wfl w = ((r, e), wfl', w')" and "wf_state wfl = WSPreparing"
  shows "(e \<noteq> None \<longleftrightarrow> wf_state wfl' = WSFailed) \<and>
    (e = None \<longrightarrow> wf_state wfl' = WSPreparing \<or> (wf_state wfl' = WSPending \<and> boot_ready wfl')) \<and>
    (e = None \<and> bo_ToggleAllowNetboot (boot_options wfl) \<longrightarrow> toggled True wfl') \<and>
    Workflow_Spec wfl' = Workflow_Spec wfl \<and> st_Tasks (Workflow_Status wfl') = st_Tasks (Workflow_Status wfl)"
  using prepareWorkflow_result [OF assms] by (cases e) auto

theorem prepareWorkflow_outcome_witness:
  "let (out, wfl', w') = prepareWorkflow sim_rc sim_client (sim_wf BootModeNetboot WSPreparing) sim0
   in snd out \<noteq> None \<longleftrightarrow> wf_state wfl' = WSFailed"
proof -
  let ?p = "prepareWorkflow sim_rc sim_client (sim_wf BootModeNetboot WSPreparing) sim0"
  have s: "wf_state (sim_wf BootModeNetboot WSPreparing) = WSPreparing" by (simp add: sim_wf_def)
  have "?p = ((fst (fst ?p), snd (fst ?p)), fst (snd ?p), snd (snd ?p))" by simp
  from prepareWorkflow_outcome [OF this s] show ?thesis by (simp add: case_prod_unfold)
qed

text \<open>Custom boot without preparing actions never leaves \<open>PREPARING\<close>: the step succeeds, changes
  nothing and asks for no requeue. The post actions treat the empty list as done; the preparing
  side does not.\<close>

theorem customboot_without_actions_stays:
  assumes "bo_BootMode (boot_options wfl) = BootModeCustomboot" and "\<not> bo_ToggleAllowNetboot (boot_options wfl)"
    and "cb_PreparingActions (bo_CustombootConfig (boot_options wfl)) = []"
    and "bos_Jobs (st_BootOptions (Workflow_Status wfl)) (customboot_preparing_job wfl) = None"
    and "hardwareFrom k wfl w = (Inr hw, w1)" and "wf_state wfl = WSPreparing"
  shows "reconcile_step rc k wfl w = ((NoRequeue, None), JoinPatch wfl, w1)"
proof -
  have z: "job_of wfl (customboot_preparing_job wfl) = zero_JobStatus" using assms(4) by (rule job_of_missing)
  have "prepareWorkflow rc k wfl w = ((NoRequeue, None), wfl, w1)"
    using assms z by (simp add: prepareWorkflow_def prepare_boot_def job_done_def prepare_job_def handleJob_def)
  with assms(6) show ?thesis by (simp add: reconcile_step_def)
qed

theorem customboot_without_actions_stays_witness:
  "reconcile_step sim_rc sim_client (sim_wf BootModeCustomboot WSPreparing) sim0 =
     ((NoRequeue, None), JoinPatch (sim_wf BootModeCustomboot WSPreparing), sim0)"
proof (rule customboot_without_actions_stays)
  show "hardwareFrom sim_client (sim_wf BootModeCustomboot WSPreparing) sim0 = (Inr sim_hardware, sim0)"
    by (simp add: hardwareFrom_def sim_client_def found_def sim0_def)
qed simp_all


section \<open>The reconciler\<close>

text \<open>C2. The controller moves a workflow only along its state machine: whatever the API server
  answers, the state a reconciliation writes is a successor of the stored state, from new to
  \<open>PREPARING\<close> or \<open>PENDING\<close>, from \<open>PREPARING\<close> to \<open>PENDING\<close> or \<open>FAILED\<close>, from \<open>RUNNING\<close> to
  \<open>TIMEOUT\<close>, from \<open>POST\<close> to \<open>FAILED\<close> or to the state of the last action.\<close>

theorem reconcile_transitions:
  assumes "reconcile_step rc k stored w = (out, p, w')" and "patched p = Some wflow"
  shows "wf_state wflow \<in> ctl_successors stored"
  using assms by (rule reconcile_step_state)

theorem reconcile_transitions_witness:
  "reconcile_step sim_rc sim_client (sim_wf BootModeUnset WSPreparing) sim0 =
     ((NoRequeue, None), JoinPatch (set_state WSPending (sim_wf BootModeUnset WSPreparing)), sim0) \<and>
   WSPending \<in> ctl_successors (sim_wf BootModeUnset WSPreparing)"
proof -
  have run: "reconcile_step sim_rc sim_client (sim_wf BootModeUnset WSPreparing) sim0 =
      ((NoRequeue, None), JoinPatch (set_state WSPending (sim_wf BootModeUnset WSPreparing)), sim0)"
    by (simp add: reconcile_step_def prepareWorkflow_def prepare_boot_def)
  from reconcile_transitions [OF run] run show ?thesis by simp
qed

text \<open>C25. Settled workflows are left alone: for a workflow that is waiting for its agent or has
  ended (\<open>PENDING\<close>, \<open>SUCCESS\<close>, \<open>FAILED\<close>, \<open>TIMEOUT\<close>) and for one that is being deleted,
  \<open>Reconcile\<close> reads the object and does nothing else.\<close>

theorem reconcile_settled:
  assumes "ck_GetWorkflow k ns name w = (Inr stored, w1)"
    and "wf_state stored \<in> {WSPending, WSSuccess, WSFailed, WSTimeout} \<or> DeletionTimestamp stored \<noteq> None"
  shows "Reconcile rc k ns name w = ((NoRequeue, None), w1)"
  using assms by (auto simp: Reconcile_def reconcile_step_def)

theorem reconcile_settled_witness:
  "Reconcile sim_rc sim_client ''tink'' ''wf'' (sim0\<lparr>sim_workflow := Some (sim_wf BootModeNetboot WSTimeout)\<rparr>) =
     ((NoRequeue, None), sim0\<lparr>sim_workflow := Some (sim_wf BootModeNetboot WSTimeout)\<rparr>)"
  by (rule reconcile_settled [where stored = "sim_wf BootModeNetboot WSTimeout"])
    (simp_all add: sim_client_def found_def)

text \<open>C14. Rendering succeeds or leaves the work list alone. On success the workflow has a fresh
  status: valid tasks with agents, distinct names, every action \<open>PENDING\<close>, the agent of the first
  task, and the condition \<open>TemplateRenderedSuccess\<close>. On failure tasks, agent and state are as
  before and the failure is recorded.\<close>

theorem processWorkflow_outcome:
  assumes "processWorkflow rc k stored w = (e, wfl', w')"
  shows "if e = None
    then fresh_status (Workflow_Status wfl') \<and>
      st_TemplateRendering (Workflow_Status wfl') = TemplateRenderingSuccessful \<and>
      HasCondition (Workflow_Status wfl') TemplateRenderedSuccess MetaTrue
    else st_Tasks (Workflow_Status wfl') = st_Tasks (Workflow_Status stored) \<and>
      st_AgentID (Workflow_Status wfl') = st_AgentID (Workflow_Status stored) \<and> wf_state wfl' = wf_state stored \<and>
      st_TemplateRendering (Workflow_Status wfl') = TemplateRenderingFailed \<and>
      HasCondition (Workflow_Status wfl') TemplateRenderedSuccess MetaFalse"
  using processWorkflow_cases [OF assms] by auto

definition sim_tpl :: Template where
  "sim_tpl = \<lparr>APIVersion = [], Kind = [], Name = ''tpl'', Namespace = ''tink'', UID = [], DeletionTimestamp = None,
     Labels = Map.empty, Annotations = Map.empty, OwnerReferences = [], Template_Data = Some ''yaml''\<rparr>"

lemma sim_renders:
  "renderTemplateHardware (rc_Renderer sim_rc) i ''yaml'' d = Inr sample_template"
proof -
  have "validate (\<lambda>s. None) sample_template = None"
    by (simp add: validate_def hasValidLength_def sample_template_def sample_task_def)
  then show ?thesis
    by (simp add: renderTemplateHardware_def renderTemplate_def parse_def sim_rc_def template_engine.defs
        limitedWriter_Write_def maxRenderBytes_def) (simp add: sample_template_def sample_task_def)
qed

theorem processWorkflow_outcome_witness:
  "fst (processWorkflow sim_rc sim_client (sim_wf BootModeUnset WSEmpty) (sim0\<lparr>sim_template := Some sim_tpl\<rparr>)) = None \<and>
   fresh_status (Workflow_Status (fst (snd
     (processWorkflow sim_rc sim_client (sim_wf BootModeUnset WSEmpty) (sim0\<lparr>sim_template := Some sim_tpl\<rparr>)))))"
proof -
  let ?w = "sim0\<lparr>sim_template := Some sim_tpl\<rparr>"
  let ?p = "processWorkflow sim_rc sim_client (sim_wf BootModeUnset WSEmpty) ?w"
  have t: "ck_GetTemplate sim_client ns n ?w = (Inr sim_tpl, ?w)" for ns n by (simp add: sim_client_def found_def)
  have h: "ck_GetHardware sim_client ns n ?w = (Inr sim_hardware, ?w)" for ns n
    by (simp add: sim_client_def found_def sim0_def)
  have d: "pointerToValue [] (Template_Data sim_tpl) = ''yaml''" by (simp add: sim_tpl_def pointerToValue_def)
  have refs: "hw_References (Hardware_Spec sim_hardware) = []" by (simp add: sim_hardware_def empty_HardwareSpec_def)
  have e: "fst ?p = None"
    by (simp add: processWorkflow_def Let_def t h render_workflow_def refs d sim_renders case_prod_unfold)
  then have "?p = (None, fst (snd ?p), snd (snd ?p))" by (metis prod.collapse)
  from processWorkflow_outcome [OF this] e show ?thesis by simp
qed

text \<open>Handing a workflow to the agent of the next task is idempotent and touches nothing but
  the agent: a second call right after the first finds nothing to do.\<close>

theorem updateAgentIDIfNeeded_idempotent:
  "updateAgentIDIfNeeded (snd (updateAgentIDIfNeeded wfl)) = (False, snd (updateAgentIDIfNeeded wfl))"
  by (auto simp: updateAgentIDIfNeeded_def Let_def set_agent_def on_status_def split: option.splits list.splits)


definition sim_action :: "string \<Rightarrow> WorkflowState \<Rightarrow> time option \<Rightarrow> Action" where
  "sim_action i s t = (convert_action i (hd (tt_Actions sample_task)))\<lparr>a_State := s, a_ExecutionStart := t\<rparr>"

definition sim_running :: Workflow where
  "sim_running = on_status (\<lambda>st. st\<lparr>st_GlobalTimeout := 600,
     st_Tasks := [\<lparr>t_ID = ''t'', t_Name = ''os'', t_AgentID = ''m1'', t_Actions = [sim_action ''a'' WSRunning (Some 0)],
       t_Volumes = [], t_Environment = []\<rparr>],
     st_CurrentState := Some \<lparr>cur_AgentID = ''m1'', cur_TaskID = ''t'', cur_ActionID = ''a'', cur_State = WSRunning,
       cur_ActionName = ''stream'', cur_TaskName = ''os''\<rparr>\<rparr>) (sim_wf BootModeUnset WSRunning)"


end
