(* ===== verification/Kube_Name.thy ===== *)
theory Kube_Name
  imports Prelude
begin

text \<open>
  Object names from agent identifiers, \<open>src/tink/server/internal/grpc/kube.go\<close>.
  \<open>makeValidName\<close> normalises a string step by step and checks the result with \<open>isValid\<close>.
  The regular expressions of the source are written as functions on the characters they
  match. The replacement of invalid characters works byte by byte here and rune by rune in
  Go; both give a run of hyphens where the next step leaves one.
\<close>


section \<open>Trimming space\<close>

text \<open>
  \<open>strings.TrimSpace\<close>: the encodings of the characters with the Unicode property
  \<open>White_Space\<close>, as byte sequences.
\<close>

definition unicode_spaces :: "string list" where
  "unicode_spaces =
     [[CHR 0x09], [CHR 0x0A], [CHR 0x0B], [CHR 0x0C], [CHR 0x0D], [CHR 0x20],
      [CHR 0xC2, CHR 0x85], [CHR 0xC2, CHR 0xA0], [CHR 0xE1, CHR 0x9A, CHR 0x80]] @
     map (\<lambda>c. [CHR 0xE2, CHR 0x80, c])
       [CHR 0x80, CHR 0x81, CHR 0x82, CHR 0x83, CHR 0x84, CHR 0x85, CHR 0x86, CHR 0x87, CHR 0x88, CHR 0x89, CHR 0x8A,
        CHR 0xA8, CHR 0xA9, CHR 0xAF] @
     [[CHR 0xE2, CHR 0x81, CHR 0x9F], [CHR 0xE3, CHR 0x80, CHR 0x80]]"

text \<open>The length of the space at the front of a string, 0 if there is none.\<close>

definition space_at :: "string list \<Rightarrow> string \<Rightarrow> nat" where
  "space_at sps s = (case find (\<lambda>p. has_prefix p s) sps of None \<Rightarrow> 0 | Some p \<Rightarrow> length p)"

function trim_front :: "string list \<Rightarrow> string \<Rightarrow> string" where
  "trim_front sps s = (if space_at sps s = 0 \<or> s = [] then s else trim_front sps (drop (space_at sps s) s))"
  by pat_completeness auto

termination
  by (relation "measure (\<lambda>(sps, s). length s)") auto

declare trim_front.simps [simp del]

definition TrimSpace :: "string \<Rightarrow> string" where
  "TrimSpace s = rev (trim_front (map rev unicode_spaces) (rev (trim_front unicode_spaces s)))"


section \<open>Building a name\<close>

definition alnum :: "char \<Rightarrow> bool" where
  "alnum c \<longleftrightarrow> is_lower c \<or> is_upper c \<or> is_digit c"

abbreviation hyphen :: char where
  "hyphen \<equiv> CHR ''-''"

text \<open>Start and end with an alphanumeric character.\<close>

definition ensure_ends :: "string \<Rightarrow> string" where
  "ensure_ends s =
     (if length s = 1 \<and> alnum (hd s) then s
      else
        let s1 = (if s \<noteq> [] \<and> alnum (hd s) then s else CHR ''e'' # s)
        in if s1 \<noteq> [] \<and> alnum (last s1) then s1 else s1 @ ''e'')"

definition hyphenate :: "string \<Rightarrow> string" where
  "hyphenate = map (\<lambda>c. if alnum c \<or> c = hyphen then c else hyphen)"

fun squeeze :: "string \<Rightarrow> string" where
  "squeeze (a # b # s) = (if a = hyphen \<and> b = hyphen then squeeze (b # s) else a # squeeze (b # s))"
| "squeeze s = s"

definition trim_hyphens :: "string \<Rightarrow> string" where
  "trim_hyphens s = rev (dropWhile (\<lambda>c. c = hyphen) (rev (dropWhile (\<lambda>c. c = hyphen) s)))"

definition errEmptyName :: gerr where
  "errEmptyName = NewError ''name cannot be empty''"

definition errMaxLenExceeded :: gerr where
  "errMaxLenExceeded = NewError ''name exceeds maximum length of 63 characters''"

definition errInvalidStartEnd :: gerr where
  "errInvalidStartEnd = NewError ''name cannot start or end with hyphen''"

definition errConsecutiveHyphens :: gerr where
  "errConsecutiveHyphens = NewError ''name contains consecutive hyphens''"

definition errInvalidChars :: gerr where
  "errInvalidChars = NewError ''name contains invalid characters''"

definition name_char :: "char \<Rightarrow> bool" where
  "name_char c \<longleftrightarrow> is_lower c \<or> is_digit c \<or> c = hyphen"

definition isValid :: "string \<Rightarrow> gerr option" where
  "isValid name =
     (if name = [] then Some errEmptyName
      else if length name > 63 then Some errMaxLenExceeded
      else if hd name = hyphen \<or> last name = hyphen then Some errInvalidStartEnd
      else if contains_str ''--'' name then Some errConsecutiveHyphens
      else if \<not> list_all name_char name then Some errInvalidChars
      else None)"

definition makeValidName :: "string \<Rightarrow> string \<Rightarrow> gerr + string" where
  "makeValidName name prefix =
     (if length (TrimSpace name) = 0 then Inl errEmptyName
      else
        let result = TrimSpace name;
            result = (if prefix \<noteq> [] then prefix @ result else result);
            result = ensure_ends result;
            result = hyphenate result;
            result = squeeze result;
            result = trim_hyphens result;
            result = to_lower result;
            result = (if length result > 63 then take 63 result else result)
        in (case isValid result of Some e \<Rightarrow> Inl e | None \<Rightarrow> Inr result))"


section \<open>What the steps do\<close>

lemma alnum_not_hyphen: "alnum c \<Longrightarrow> c \<noteq> hyphen"
  by (auto simp: alnum_def is_lower_def is_upper_def is_digit_def less_eq_char_def)

lemma alnum_e [simp]: "alnum CHR ''e''"
  by (simp add: alnum_def is_lower_def less_eq_char_def)

lemma ensure_ends_spec:
  "ensure_ends s \<noteq> []" "alnum (hd (ensure_ends s))" "alnum (last (ensure_ends s))"
  by (auto simp: ensure_ends_def Let_def last_ConsR) (cases s; simp)+

lemma hyphenate_ends:
  assumes "s \<noteq> []"
  shows "alnum (hd s) \<Longrightarrow> hd (hyphenate s) = hd s" and "alnum (last s) \<Longrightarrow> last (hyphenate s) = last s"
  using assms by (simp_all add: hyphenate_def hd_map last_map)

lemma hyphenate_chars: "\<forall>c \<in> set (hyphenate s). alnum c \<or> c = hyphen"
  by (auto simp: hyphenate_def)

lemma squeeze_nonempty [simp]: "squeeze s = [] \<longleftrightarrow> s = []"
  by (induction s rule: squeeze.induct) auto

lemma squeeze_hd: "s \<noteq> [] \<Longrightarrow> hd (squeeze s) = hd s"
  by (induction s rule: squeeze.induct) auto

lemma squeeze_last: "s \<noteq> [] \<Longrightarrow> last (squeeze s) = last s"
  by (induction s rule: squeeze.induct) auto

lemma squeeze_set: "set (squeeze s) = set s"
  by (induction s rule: squeeze.induct) auto

text \<open>No two hyphens in a row, as a property of neighbours.\<close>

fun no_double :: "string \<Rightarrow> bool" where
  "no_double (a # b # s) \<longleftrightarrow> \<not> (a = hyphen \<and> b = hyphen) \<and> no_double (b # s)"
| "no_double s \<longleftrightarrow> True"

lemma no_double_Cons: "no_double (a # s) \<longleftrightarrow> no_double s \<and> \<not> (a = hyphen \<and> s \<noteq> [] \<and> hd s = hyphen)"
  by (cases s) auto

lemma contains_double: "contains_str ''--'' s \<longleftrightarrow> \<not> no_double s"
proof (induction s)
  case Nil
  then show ?case by simp
next
  case (Cons a s)
  show ?case
  proof (cases s)
    case Nil
    then show ?thesis by (simp add: has_prefix_def)
  next
    case (Cons b t)
    with Cons.IH show ?thesis by (auto simp: has_prefix_def)
  qed
qed

lemma no_double_squeeze: "no_double (squeeze s)"
proof (induction s rule: squeeze.induct)
  case (1 a b s)
  then show ?case by (auto simp: no_double_Cons squeeze_hd)
qed auto

lemma no_double_map:
  "(\<And>c. f c = hyphen \<longleftrightarrow> c = hyphen) \<Longrightarrow> no_double (map f s) = no_double s"
  by (induction s rule: no_double.induct) auto

lemma no_double_take: "no_double s \<Longrightarrow> no_double (take n s)"
proof (induction s arbitrary: n)
  case Nil
  then show ?case by simp
next
  case (Cons a s)
  then show ?case by (cases n) (auto simp: no_double_Cons hd_take)
qed

lemma squeeze_id: "no_double s \<Longrightarrow> squeeze s = s"
  by (induction s rule: squeeze.induct) auto

lemma trim_hyphens_id: "s \<noteq> [] \<Longrightarrow> hd s \<noteq> hyphen \<Longrightarrow> last s \<noteq> hyphen \<Longrightarrow> trim_hyphens s = s"
proof -
  assume s: "s \<noteq> []" "hd s \<noteq> hyphen" "last s \<noteq> hyphen"
  have front: "dropWhile (\<lambda>c. c = hyphen) s = s" using s by (cases s) auto
  have "rev s \<noteq> []" "hd (rev s) \<noteq> hyphen" using s by (simp_all add: hd_rev)
  then have "dropWhile (\<lambda>c. c = hyphen) (rev s) = rev s" by (cases "rev s") auto
  with front show ?thesis by (simp add: trim_hyphens_def)
qed

lemma lower_char_hyphen [simp]: "lower_char c = hyphen \<longleftrightarrow> c = hyphen"
proof
  assume l: "lower_char c = hyphen"
  show "c = hyphen"
  proof (cases "is_upper c")
    case True
    then have le: "of_char c \<le> (90 :: nat)" and ge: "(65 :: nat) \<le> of_char c"
      by (auto simp: is_upper_def less_eq_char_def)
    from l True have "char_of (of_char c + (32 :: nat)) = hyphen" by (simp add: lower_char_def)
    then have "of_char (char_of (of_char c + (32 :: nat)) :: char) = (of_char hyphen :: nat)" by (rule arg_cong)
    with le ge show ?thesis by (simp add: of_char_of)
  qed (use l in \<open>simp add: lower_char_def\<close>)
qed (simp add: lower_char_def is_upper_def less_eq_char_def)

lemma lower_char_alnum: "alnum c \<Longrightarrow> is_lower (lower_char c) \<or> is_digit (lower_char c)"
proof (cases "is_upper c")
  case True
  then have "of_char c \<le> (90 :: nat)" and "(65 :: nat) \<le> of_char c"
    by (auto simp: is_upper_def less_eq_char_def)
  with True show ?thesis by (simp add: lower_char_def is_lower_def less_eq_char_def of_char_of)
qed (auto simp: lower_char_def alnum_def)

text \<open>The normal form of a non-blank name before it is cut to length.\<close>

definition normal_name :: "string \<Rightarrow> string" where
  "normal_name s = to_lower (squeeze (hyphenate (ensure_ends s)))"

lemma normal_name_spec:
  "normal_name s \<noteq> []" "hd (normal_name s) \<noteq> hyphen" "last (normal_name s) \<noteq> hyphen"
  "no_double (normal_name s)" "list_all name_char (normal_name s)"
  "to_lower (trim_hyphens (squeeze (hyphenate (ensure_ends s)))) = normal_name s"
proof -
  let ?e = "ensure_ends s" let ?q = "squeeze (hyphenate ?e)"
  have hy: "hyphenate ?e \<noteq> []" using ensure_ends_spec by (simp add: hyphenate_def)
  have hd: "alnum (hd ?q)" and last: "alnum (last ?q)"
    using ensure_ends_spec [of s] hy by (simp_all add: squeeze_hd squeeze_last hyphenate_ends)
  have ne: "?q \<noteq> []" using hy by simp
  show "normal_name s \<noteq> []" using ne by (simp add: normal_name_def to_lower_def)
  show "hd (normal_name s) \<noteq> hyphen" "last (normal_name s) \<noteq> hyphen"
    using ne alnum_not_hyphen [OF hd] alnum_not_hyphen [OF last] by (simp_all add: normal_name_def to_lower_def hd_map last_map)
  show "no_double (normal_name s)" by (simp add: normal_name_def to_lower_def no_double_map no_double_squeeze)
  show "list_all name_char (normal_name s)"
    using hyphenate_chars [of ?e] lower_char_alnum
    by (auto simp: normal_name_def to_lower_def list_all_iff squeeze_set name_char_def)
  show "to_lower (trim_hyphens ?q) = normal_name s"
    using trim_hyphens_id [OF ne alnum_not_hyphen [OF hd] alnum_not_hyphen [OF last]] by (simp add: normal_name_def)
qed

lemma isValid_None_iff:
  "isValid s = None \<longleftrightarrow> s \<noteq> [] \<and> length s \<le> 63 \<and> hd s \<noteq> hyphen \<and> last s \<noteq> hyphen \<and> no_double s \<and> list_all name_char s"
  by (auto simp: isValid_def contains_double)

lemma isValid_cut:
  "isValid (take 63 (normal_name s)) =
     (if last (take 63 (normal_name s)) = hyphen then Some errInvalidStartEnd else None)"
proof -
  let ?t = "take 63 (normal_name s)"
  have "?t \<noteq> []" "hd ?t \<noteq> hyphen" using normal_name_spec(1,2) [of s] by (simp_all add: hd_take)
  moreover have "no_double ?t" using normal_name_spec(4) by (rule no_double_take)
  moreover have "list_all name_char ?t" using normal_name_spec(5) [of s] by (auto simp: list_all_iff dest: in_set_takeD)
  ultimately show ?thesis by (simp add: isValid_def contains_double)
qed


section \<open>Properties\<close>

text \<open>C33. A name the server builds is a valid object name: non-empty, at most 63 characters from
  \<open>a-z\<close>, \<open>0-9\<close> and the hyphen, no hyphen at either end and no two in a row. The result is the
  normal form of prefix and trimmed identifier, cut to 63 characters. A blank identifier is
  refused as empty, and the only other failure is a long identifier whose 63rd character after
  normalisation is a hyphen.\<close>

theorem makeValidName_spec:
  "makeValidName name prefix =
     (let s = normal_name (prefix @ TrimSpace name) in
      if TrimSpace name = [] then Inl errEmptyName
      else if 63 < length s \<and> s ! 62 = hyphen then Inl errInvalidStartEnd
      else Inr (take 63 s)) \<and>
   (\<forall>s. makeValidName name prefix = Inr s \<longrightarrow> isValid s = None)"
proof
  let ?s = "normal_name (prefix @ TrimSpace name)"
  have long: "(if 63 < length x then take 63 x else x) = take 63 x" for x :: string by simp
  have pre: "(if prefix \<noteq> [] then prefix @ t else t) = prefix @ t" for t by simp
  have run: "makeValidName name prefix =
      (if TrimSpace name = [] then Inl errEmptyName
       else (case isValid (take 63 ?s) of Some e \<Rightarrow> Inl e | None \<Rightarrow> Inr (take 63 ?s)))"
    unfolding makeValidName_def Let_def normal_name_spec(6) long pre by simp
  have cut: "last (take 63 ?s) = hyphen \<longleftrightarrow> 63 < length ?s \<and> ?s ! 62 = hyphen"
  proof (cases "63 < length ?s")
    case True
    then have "take 63 ?s \<noteq> []" by auto
    with True show ?thesis by (simp add: last_conv_nth)
  next
    case False
    then show ?thesis using normal_name_spec(3) by simp
  qed
  show "makeValidName name prefix =
     (let s = ?s in
      if TrimSpace name = [] then Inl errEmptyName
      else if 63 < length s \<and> s ! 62 = hyphen then Inl errInvalidStartEnd
      else Inr (take 63 s))"
    unfolding run isValid_cut cut Let_def by simp
  show "\<forall>s. makeValidName name prefix = Inr s \<longrightarrow> isValid s = None"
    unfolding run by (auto split: option.splits if_splits)
qed

lemmas char_class_defs = alnum_def is_lower_def is_upper_def is_digit_def name_char_def less_eq_char_def

theorem makeValidName_spec_witness:
  "makeValidName '' 5:c '' ''d-'' = Inr ''d-5-c'' \<and> isValid ''d-5-c'' = None"
proof -
  have trim: "TrimSpace '' 5:c '' = ''5:c''"
    by (simp add: TrimSpace_def trim_front.simps space_at_def unicode_spaces_def has_prefix_def)
  have ends: "ensure_ends ''d-5:c'' = ''d-5:c''" by (simp add: ensure_ends_def char_class_defs)
  have hy: "hyphenate ''d-5:c'' = ''d-5-c''" by (simp add: hyphenate_def char_class_defs)
  have low: "to_lower ''d-5-c'' = ''d-5-c''" by (simp add: to_lower_def lower_char_def char_class_defs)
  have "normal_name ''d-5:c'' = ''d-5-c''" unfolding normal_name_def ends hy by (simp add: low)
  with makeValidName_spec [THEN conjunct1, of "'' 5:c ''" "''d-''"]
  have run: "makeValidName '' 5:c '' ''d-'' = Inr ''d-5-c''" by (simp add: trim)
  show ?thesis by (rule conjI [OF run makeValidName_spec [THEN conjunct2, THEN spec, THEN mp, OF run]])
qed

text \<open>A valid name is its own normal form.\<close>

lemma name_char_cases: "name_char c \<Longrightarrow> c \<noteq> hyphen \<Longrightarrow> alnum c"
  by (auto simp: name_char_def alnum_def)

lemma name_char_lower: "name_char c \<Longrightarrow> lower_char c = c"
  by (auto simp: name_char_def lower_char_def is_lower_def is_digit_def is_upper_def less_eq_char_def)

lemma normal_name_valid:
  assumes "isValid s = None"
  shows "normal_name s = s"
proof -
  note v = assms [unfolded isValid_None_iff]
  have ch: "name_char c" if "c \<in> set s" for c using v that by (simp add: list_all_iff)
  have hd: "alnum (hd s)" and last: "alnum (last s)"
    using v by (simp_all add: name_char_cases ch)
  have e: "ensure_ends s = s" using hd last v by (simp add: ensure_ends_def Let_def)
  have h: "hyphenate s = s"
    unfolding hyphenate_def by (rule map_idI) (metis ch name_char_cases)
  have "to_lower s = s"
    unfolding to_lower_def by (rule map_idI) (simp add: ch name_char_lower)
  with e h v show ?thesis by (simp add: normal_name_def squeeze_id)
qed

end
