(* ===== verification/Attributes.thy ===== *)
theory Attributes
  imports Prelude
begin

text \<open>
  Agent attributes: what an agent reports about its machine. \<open>src/pkg/data/attributes.go\<close>
  holds the internal types, \<open>src/pkg/proto\<close> the messages on the wire. The agent converts with
  \<open>ToProto\<close> (\<open>src/tink/agent/internal/transport/grpc/attributes.go\<close>), the server back with
  \<open>convert\<close> (\<open>src/tink/server/internal/grpc/proto.go\<close>). The elements of the pointer slices
  are values here: neither side puts a nil pointer into them and a decoded message has none.
\<close>


section \<open>Internal types\<close>

record data_Processor =
  dProcessor_ID :: "32 word option"
  dProcessor_Cores :: "32 word option"
  dProcessor_Threads :: "32 word option"
  dProcessor_Vendor :: "string option"
  dProcessor_Model :: "string option"
  dProcessor_Capabilities :: "string list"

record data_CPU =
  dCPU_TotalCores :: "32 word option"
  dCPU_TotalThreads :: "32 word option"
  dCPU_Processors :: "data_Processor list"

record data_Memory =
  dMemory_Total :: "string option"
  dMemory_Usable :: "string option"

record data_Block =
  dBlock_Name :: "string option"
  dBlock_ControllerType :: "string option"
  dBlock_DriveType :: "string option"
  dBlock_Size :: "string option"
  dBlock_PhysicalBlockSize :: "string option"
  dBlock_Vendor :: "string option"
  dBlock_Model :: "string option"
  dBlock_WWN :: "string option"
  dBlock_SerialNumber :: "string option"

record data_Network =
  dNetwork_Name :: "string option"
  dNetwork_Mac :: "string option"
  dNetwork_Speed :: "string option"
  dNetwork_EnabledCapabilities :: "string list"

record data_PCI =
  dPCI_Vendor :: "string option"
  dPCI_Product :: "string option"
  dPCI_Class :: "string option"
  dPCI_Driver :: "string option"

record data_GPU =
  dGPU_Vendor :: "string option"
  dGPU_Product :: "string option"
  dGPU_Class :: "string option"
  dGPU_Driver :: "string option"

record data_Chassis =
  dChassis_Serial :: "string option"
  dChassis_Vendor :: "string option"

record data_BIOS =
  dBIOS_Vendor :: "string option"
  dBIOS_Version :: "string option"
  dBIOS_ReleaseDate :: "string option"

record data_Baseboard =
  dBaseboard_Vendor :: "string option"
  dBaseboard_Product :: "string option"
  dBaseboard_Version :: "string option"
  dBaseboard_SerialNumber :: "string option"

record data_Product =
  dProduct_Name :: "string option"
  dProduct_Vendor :: "string option"
  dProduct_SerialNumber :: "string option"

record AgentAttributes =
  aa_CPU :: "data_CPU option"
  aa_Memory :: "data_Memory option"
  aa_BlockDevices :: "data_Block list"
  aa_NetworkInterfaces :: "data_Network list"
  aa_PCIDevices :: "data_PCI list"
  aa_GPUDevices :: "data_GPU list"
  aa_Chassis :: "data_Chassis option"
  aa_BIOS :: "data_BIOS option"
  aa_Baseboard :: "data_Baseboard option"
  aa_Product :: "data_Product option"


section \<open>Messages\<close>

record pb_Processor =
  pProcessor_ID :: "32 word option"
  pProcessor_Cores :: "32 word option"
  pProcessor_Threads :: "32 word option"
  pProcessor_Vendor :: "string option"
  pProcessor_Model :: "string option"
  pProcessor_Capabilities :: "string list"

record pb_CPU =
  pCPU_TotalCores :: "32 word option"
  pCPU_TotalThreads :: "32 word option"
  pCPU_Processors :: "pb_Processor list"

record pb_Memory =
  pMemory_Total :: "string option"
  pMemory_Usable :: "string option"

record pb_Block =
  pBlock_Name :: "string option"
  pBlock_ControllerType :: "string option"
  pBlock_DriveType :: "string option"
  pBlock_Size :: "string option"
  pBlock_PhysicalBlockSize :: "string option"
  pBlock_Vendor :: "string option"
  pBlock_Model :: "string option"
  pBlock_WWN :: "string option"
  pBlock_SerialNumber :: "string option"

record pb_Network =
  pNetwork_Name :: "string option"
  pNetwork_Mac :: "string option"
  pNetwork_Speed :: "string option"
  pNetwork_EnabledCapabilities :: "string list"

record pb_PCI =
  pPCI_Vendor :: "string option"
  pPCI_Product :: "string option"
  pPCI_Class :: "string option"
  pPCI_Driver :: "string option"

record pb_GPU =
  pGPU_Vendor :: "string option"
  pGPU_Product :: "string option"
  pGPU_Class :: "string option"
  pGPU_Driver :: "string option"

record pb_Chassis =
  pChassis_Serial :: "string option"
  pChassis_Vendor :: "string option"

record pb_BIOS =
  pBIOS_Vendor :: "string option"
  pBIOS_Version :: "string option"
  pBIOS_ReleaseDate :: "string option"

record pb_Baseboard =
  pBaseboard_Vendor :: "string option"
  pBaseboard_Product :: "string option"
  pBaseboard_Version :: "string option"
  pBaseboard_SerialNumber :: "string option"

record pb_Product =
  pProduct_Name :: "string option"
  pProduct_Vendor :: "string option"
  pProduct_SerialNumber :: "string option"

record pb_AgentAttributes =
  pa_Cpu :: "pb_CPU option"
  pa_Memory :: "pb_Memory option"
  pa_Block :: "pb_Block list"
  pa_Network :: "pb_Network list"
  pa_Pci :: "pb_PCI list"
  pa_Gpu :: "pb_GPU list"
  pa_Chassis :: "pb_Chassis option"
  pa_Bios :: "pb_BIOS option"
  pa_Baseboard :: "pb_Baseboard option"
  pa_Product :: "pb_Product option"


section \<open>The agent\<close>

definition toProto_Processor :: "data_Processor \<Rightarrow> pb_Processor" where
  "toProto_Processor x = \<lparr>pProcessor_ID = dProcessor_ID x, pProcessor_Cores = dProcessor_Cores x,
     pProcessor_Threads = dProcessor_Threads x, pProcessor_Vendor = dProcessor_Vendor x, pProcessor_Model =
     dProcessor_Model x, pProcessor_Capabilities = dProcessor_Capabilities x\<rparr>"

definition toProto_CPU :: "data_CPU \<Rightarrow> pb_CPU" where
  "toProto_CPU x = \<lparr>pCPU_TotalCores = dCPU_TotalCores x, pCPU_TotalThreads = dCPU_TotalThreads x,
     pCPU_Processors = map toProto_Processor (dCPU_Processors x)\<rparr>"

definition toProto_Memory :: "data_Memory \<Rightarrow> pb_Memory" where
  "toProto_Memory x = \<lparr>pMemory_Total = dMemory_Total x, pMemory_Usable = dMemory_Usable x\<rparr>"

definition toProto_Block :: "data_Block \<Rightarrow> pb_Block" where
  "toProto_Block x = \<lparr>pBlock_Name = dBlock_Name x, pBlock_ControllerType = dBlock_ControllerType x,
     pBlock_DriveType = dBlock_DriveType x, pBlock_Size = dBlock_Size x, pBlock_PhysicalBlockSize =
     dBlock_PhysicalBlockSize x, pBlock_Vendor = dBlock_Vendor x, pBlock_Model = dBlock_Model x, pBlock_WWN =
     dBlock_WWN x, pBlock_SerialNumber = dBlock_SerialNumber x\<rparr>"

definition toProto_Network :: "data_Network \<Rightarrow> pb_Network" where
  "toProto_Network x = \<lparr>pNetwork_Name = dNetwork_Name x, pNetwork_Mac = dNetwork_Mac x, pNetwork_Speed =
     dNetwork_Speed x, pNetwork_EnabledCapabilities = dNetwork_EnabledCapabilities x\<rparr>"

definition toProto_PCI :: "data_PCI \<Rightarrow> pb_PCI" where
  "toProto_PCI x = \<lparr>pPCI_Vendor = dPCI_Vendor x, pPCI_Product = dPCI_Product x, pPCI_Class = dPCI_Class x,
     pPCI_Driver = dPCI_Driver x\<rparr>"

definition toProto_GPU :: "data_GPU \<Rightarrow> pb_GPU" where
  "toProto_GPU x = \<lparr>pGPU_Vendor = dGPU_Vendor x, pGPU_Product = dGPU_Product x, pGPU_Class = dGPU_Class x,
     pGPU_Driver = dGPU_Driver x\<rparr>"

definition toProto_Chassis :: "data_Chassis \<Rightarrow> pb_Chassis" where
  "toProto_Chassis x = \<lparr>pChassis_Serial = dChassis_Serial x, pChassis_Vendor = dChassis_Vendor x\<rparr>"

definition toProto_BIOS :: "data_BIOS \<Rightarrow> pb_BIOS" where
  "toProto_BIOS x = \<lparr>pBIOS_Vendor = dBIOS_Vendor x, pBIOS_Version = dBIOS_Version x, pBIOS_ReleaseDate =
     dBIOS_ReleaseDate x\<rparr>"

definition toProto_Baseboard :: "data_Baseboard \<Rightarrow> pb_Baseboard" where
  "toProto_Baseboard x = \<lparr>pBaseboard_Vendor = dBaseboard_Vendor x, pBaseboard_Product = dBaseboard_Product x,
     pBaseboard_Version = dBaseboard_Version x, pBaseboard_SerialNumber = dBaseboard_SerialNumber x\<rparr>"

definition toProto_Product :: "data_Product \<Rightarrow> pb_Product" where
  "toProto_Product x = \<lparr>pProduct_Name = dProduct_Name x, pProduct_Vendor = dProduct_Vendor x,
     pProduct_SerialNumber = dProduct_SerialNumber x\<rparr>"

definition ToProto :: "AgentAttributes option \<Rightarrow> pb_AgentAttributes option" where
  "ToProto = map_option (\<lambda>a.
     \<lparr>pa_Cpu = map_option toProto_CPU (aa_CPU a),
      pa_Memory = map_option toProto_Memory (aa_Memory a),
      pa_Block = map toProto_Block (aa_BlockDevices a),
      pa_Network = map toProto_Network (aa_NetworkInterfaces a),
      pa_Pci = map toProto_PCI (aa_PCIDevices a),
      pa_Gpu = map toProto_GPU (aa_GPUDevices a),
      pa_Chassis = map_option toProto_Chassis (aa_Chassis a),
      pa_Bios = map_option toProto_BIOS (aa_BIOS a),
      pa_Baseboard = map_option toProto_Baseboard (aa_Baseboard a),
      pa_Product = map_option toProto_Product (aa_Product a)\<rparr>)"


section \<open>The server\<close>

definition convert_Processor :: "pb_Processor \<Rightarrow> data_Processor" where
  "convert_Processor x = \<lparr>dProcessor_ID = pProcessor_ID x, dProcessor_Cores = pProcessor_Cores x,
     dProcessor_Threads = pProcessor_Threads x, dProcessor_Vendor = pProcessor_Vendor x, dProcessor_Model =
     pProcessor_Model x, dProcessor_Capabilities = pProcessor_Capabilities x\<rparr>"

definition convert_CPU :: "pb_CPU \<Rightarrow> data_CPU" where
  "convert_CPU x = \<lparr>dCPU_TotalCores = pCPU_TotalCores x, dCPU_TotalThreads = pCPU_TotalThreads x,
     dCPU_Processors = map convert_Processor (pCPU_Processors x)\<rparr>"

definition convert_Memory :: "pb_Memory \<Rightarrow> data_Memory" where
  "convert_Memory x = \<lparr>dMemory_Total = pMemory_Total x, dMemory_Usable = pMemory_Usable x\<rparr>"

definition convert_Block :: "pb_Block \<Rightarrow> data_Block" where
  "convert_Block x = \<lparr>dBlock_Name = pBlock_Name x, dBlock_ControllerType = pBlock_ControllerType x,
     dBlock_DriveType = pBlock_DriveType x, dBlock_Size = pBlock_Size x, dBlock_PhysicalBlockSize =
     pBlock_PhysicalBlockSize x, dBlock_Vendor = pBlock_Vendor x, dBlock_Model = pBlock_Model x, dBlock_WWN =
     pBlock_WWN x, dBlock_SerialNumber = pBlock_SerialNumber x\<rparr>"

definition convert_Network :: "pb_Network \<Rightarrow> data_Network" where
  "convert_Network x = \<lparr>dNetwork_Name = pNetwork_Name x, dNetwork_Mac = pNetwork_Mac x, dNetwork_Speed =
     pNetwork_Speed x, dNetwork_EnabledCapabilities = pNetwork_EnabledCapabilities x\<rparr>"

definition convert_PCI :: "pb_PCI \<Rightarrow> data_PCI" where
  "convert_PCI x = \<lparr>dPCI_Vendor = pPCI_Vendor x, dPCI_Product = pPCI_Product x, dPCI_Class = pPCI_Class x,
     dPCI_Driver = pPCI_Driver x\<rparr>"

definition convert_GPU :: "pb_GPU \<Rightarrow> data_GPU" where
  "convert_GPU x = \<lparr>dGPU_Vendor = pGPU_Vendor x, dGPU_Product = pGPU_Product x, dGPU_Class = pGPU_Class x,
     dGPU_Driver = pGPU_Driver x\<rparr>"

definition convert_Chassis :: "pb_Chassis \<Rightarrow> data_Chassis" where
  "convert_Chassis x = \<lparr>dChassis_Serial = pChassis_Serial x, dChassis_Vendor = pChassis_Vendor x\<rparr>"

definition convert_BIOS :: "pb_BIOS \<Rightarrow> data_BIOS" where
  "convert_BIOS x = \<lparr>dBIOS_Vendor = pBIOS_Vendor x, dBIOS_Version = pBIOS_Version x, dBIOS_ReleaseDate =
     pBIOS_ReleaseDate x\<rparr>"

definition convert_Baseboard :: "pb_Baseboard \<Rightarrow> data_Baseboard" where
  "convert_Baseboard x = \<lparr>dBaseboard_Vendor = pBaseboard_Vendor x, dBaseboard_Product = pBaseboard_Product x,
     dBaseboard_Version = pBaseboard_Version x, dBaseboard_SerialNumber = pBaseboard_SerialNumber x\<rparr>"

definition convert_Product :: "pb_Product \<Rightarrow> data_Product" where
  "convert_Product x = \<lparr>dProduct_Name = pProduct_Name x, dProduct_Vendor = pProduct_Vendor x,
     dProduct_SerialNumber = pProduct_SerialNumber x\<rparr>"

definition empty_data_CPU :: data_CPU where
  "empty_data_CPU = \<lparr>dCPU_TotalCores = None, dCPU_TotalThreads = None, dCPU_Processors = []\<rparr>"

definition empty_data_Memory :: data_Memory where
  "empty_data_Memory = \<lparr>dMemory_Total = None, dMemory_Usable = None\<rparr>"

definition empty_data_Chassis :: data_Chassis where
  "empty_data_Chassis = \<lparr>dChassis_Serial = None, dChassis_Vendor = None\<rparr>"

definition empty_data_BIOS :: data_BIOS where
  "empty_data_BIOS = \<lparr>dBIOS_Vendor = None, dBIOS_Version = None, dBIOS_ReleaseDate = None\<rparr>"

definition empty_data_Baseboard :: data_Baseboard where
  "empty_data_Baseboard = \<lparr>dBaseboard_Vendor = None, dBaseboard_Product = None, dBaseboard_Version = None,
     dBaseboard_SerialNumber = None\<rparr>"

definition empty_data_Product :: data_Product where
  "empty_data_Product = \<lparr>dProduct_Name = None, dProduct_Vendor = None, dProduct_SerialNumber = None\<rparr>"

definition NewAgentAttributes :: AgentAttributes where
  "NewAgentAttributes = \<lparr>aa_CPU = Some empty_data_CPU, aa_Memory = Some empty_data_Memory, aa_BlockDevices = [],
     aa_NetworkInterfaces = [], aa_PCIDevices = [], aa_GPUDevices = [], aa_Chassis = Some empty_data_Chassis,
     aa_BIOS = Some empty_data_BIOS, aa_Baseboard = Some empty_data_Baseboard, aa_Product = Some empty_data_Product\<rparr>"

text \<open>\<open>convert\<close> starts from \<open>NewAgentAttributes\<close> and overwrites what the message has.\<close>

definition convert :: "pb_AgentAttributes option \<Rightarrow> AgentAttributes option" where
  "convert = map_option (\<lambda>m. NewAgentAttributes
     \<lparr>aa_CPU := (case pa_Cpu m of None \<Rightarrow> aa_CPU NewAgentAttributes | Some c \<Rightarrow> Some (convert_CPU c)),
      aa_Memory := (case pa_Memory m of None \<Rightarrow> aa_Memory NewAgentAttributes | Some c \<Rightarrow> Some (convert_Memory c)),
      aa_BlockDevices := map convert_Block (pa_Block m),
      aa_NetworkInterfaces := map convert_Network (pa_Network m),
      aa_PCIDevices := map convert_PCI (pa_Pci m),
      aa_GPUDevices := map convert_GPU (pa_Gpu m),
      aa_Chassis := (case pa_Chassis m of None \<Rightarrow> aa_Chassis NewAgentAttributes | Some c \<Rightarrow> Some (convert_Chassis c)),
      aa_BIOS := (case pa_Bios m of None \<Rightarrow> aa_BIOS NewAgentAttributes | Some c \<Rightarrow> Some (convert_BIOS c)),
      aa_Baseboard := (case pa_Baseboard m of None \<Rightarrow> aa_Baseboard NewAgentAttributes | Some c \<Rightarrow> Some (convert_Baseboard c)),
      aa_Product := (case pa_Product m of None \<Rightarrow> aa_Product NewAgentAttributes | Some c \<Rightarrow> Some (convert_Product c))\<rparr>)"


section \<open>Round trip\<close>

lemma convert_toProto_parts [simp]:
  "convert_Processor (toProto_Processor dProcessor) = dProcessor"
  "convert_Memory (toProto_Memory dMemory) = dMemory"
  "convert_Block (toProto_Block dBlock) = dBlock"
  "convert_Network (toProto_Network dNetwork) = dNetwork"
  "convert_PCI (toProto_PCI dPCI) = dPCI"
  "convert_GPU (toProto_GPU dGPU) = dGPU"
  "convert_Chassis (toProto_Chassis dChassis) = dChassis"
  "convert_BIOS (toProto_BIOS dBIOS) = dBIOS"
  "convert_Baseboard (toProto_Baseboard dBaseboard) = dBaseboard"
  "convert_Product (toProto_Product dProduct) = dProduct"
  by (simp_all add: convert_Processor_def toProto_Processor_def convert_Memory_def toProto_Memory_def convert_Block_def toProto_Block_def convert_Network_def toProto_Network_def convert_PCI_def toProto_PCI_def convert_GPU_def toProto_GPU_def convert_Chassis_def toProto_Chassis_def convert_BIOS_def toProto_BIOS_def convert_Baseboard_def toProto_Baseboard_def convert_Product_def toProto_Product_def)

lemma convert_toProto_lists [simp]:
  "map (convert_Block \<circ> toProto_Block) bs = bs"
  "map (convert_Network \<circ> toProto_Network) ns = ns"
  "map (convert_PCI \<circ> toProto_PCI) ps = ps"
  "map (convert_GPU \<circ> toProto_GPU) gs = gs"
  "map (convert_Processor \<circ> toProto_Processor) cs = cs"
  by (simp_all add: comp_def)

lemma convert_toProto_CPU [simp]: "convert_CPU (toProto_CPU c) = c"
  by (simp add: convert_CPU_def toProto_CPU_def)

text \<open>A component the agent did not report arrives as an empty one.\<close>

definition or_empty :: "'a \<Rightarrow> 'a option \<Rightarrow> 'a option" where
  "or_empty z x = (case x of None \<Rightarrow> Some z | Some y \<Rightarrow> Some y)"

definition with_defaults :: "AgentAttributes \<Rightarrow> AgentAttributes" where
  "with_defaults a = a
     \<lparr>aa_CPU := or_empty empty_data_CPU (aa_CPU a), aa_Memory := or_empty empty_data_Memory (aa_Memory a),
      aa_Chassis := or_empty empty_data_Chassis (aa_Chassis a), aa_BIOS := or_empty empty_data_BIOS (aa_BIOS a),
      aa_Baseboard := or_empty empty_data_Baseboard (aa_Baseboard a), aa_Product := or_empty empty_data_Product (aa_Product a)\<rparr>"

lemma attrs_convert: "convert (ToProto (Some a)) = Some (with_defaults a)"
  by (auto simp: convert_def ToProto_def with_defaults_def NewAgentAttributes_def or_empty_def split: option.splits)

text \<open>C36. The attributes an agent sends arrive at the server as they are: converting to the message
  and back is the identity, except that a component the agent left out is present and empty.\<close>

theorem attributes_roundtrip: "convert (ToProto x) = map_option with_defaults x"
  by (cases x) (simp_all add: attrs_convert, simp add: convert_def ToProto_def)

end
