(* ===== verification/Json.thy ===== *)
theory Json
  imports Attributes
begin

text \<open>
  \<open>json.Marshal\<close> of the agent attributes: the text that becomes an annotation and the event
  the enrollment rules are matched against. The encoder of package \<open>encoding/json\<close> is
  written for the values the attribute types have: objects, arrays, unsigned numbers and strings
  with the escaping \<open>Marshal\<close> uses. The field names are the tags of
  \<open>src/pkg/data/attributes.go\<close>; every field is \<open>omitempty\<close>.
\<close>


section \<open>Strings\<close>

text \<open>
  The number of bytes of the well-formed UTF-8 sequence at the front of a string that starts with
  a byte from 0x80 on; 0 when the sequence is not well formed and \<open>DecodeRune\<close> gives
  \<open>RuneError\<close> with size 1.
\<close>

definition in_range :: "nat \<Rightarrow> nat \<Rightarrow> char \<Rightarrow> bool" where
  "in_range lo hi c \<longleftrightarrow> lo \<le> of_char c \<and> of_char c \<le> hi"

abbreviation cont_byte :: "char \<Rightarrow> bool" where
  "cont_byte \<equiv> in_range 0x80 0xBF"

fun second_range :: "nat \<Rightarrow> nat \<times> nat" where
  "second_range b =
     (if b = 0xE0 then (0xA0, 0xBF) else if b = 0xED then (0x80, 0x9F)
      else if b = 0xF0 then (0x90, 0xBF) else if b = 0xF4 then (0x80, 0x8F)
      else (0x80, 0xBF))"

definition second_ok :: "char \<Rightarrow> char \<Rightarrow> bool" where
  "second_ok a b = (case second_range (of_char a) of (lo, hi) \<Rightarrow> in_range lo hi b)"

fun rune_len :: "string \<Rightarrow> nat" where
  "rune_len (a # b # s) =
     (if in_range 0xC2 0xDF a \<and> cont_byte b then 2
      else if in_range 0xE0 0xEF a \<and> second_ok a b then
        (case s of c # s' \<Rightarrow> if cont_byte c then 3 else 0 | [] \<Rightarrow> 0)
      else if in_range 0xF0 0xF4 a \<and> second_ok a b then
        (case s of c # d # s' \<Rightarrow> if cont_byte c \<and> cont_byte d then 4 else 0 | _ \<Rightarrow> 0)
      else 0)"
| "rune_len _ = 0"

abbreviation backslash :: char where
  "backslash \<equiv> CHR 0x5C"

abbreviation dquote :: char where
  "dquote \<equiv> CHR 0x22"

definition hex_digit :: "nat \<Rightarrow> char" where
  "hex_digit n = ''0123456789abcdef'' ! (n mod 16)"

text \<open>What an ASCII byte becomes inside a quoted string.\<close>

definition escape_ascii :: "char \<Rightarrow> string" where
  "escape_ascii c =
     (if c = backslash \<or> c = dquote then [backslash, c]
      else if c = CHR 0x08 then [backslash, CHR ''b'']
      else if c = CHR 0x0C then [backslash, CHR ''f'']
      else if c = CHR 0x0A then [backslash, CHR ''n'']
      else if c = CHR 0x0D then [backslash, CHR ''r'']
      else if c = CHR 0x09 then [backslash, CHR ''t'']
      else if c < CHR 0x20 \<or> c = CHR ''<'' \<or> c = CHR ''>'' \<or> c = CHR ''&''
        then backslash # ''u00'' @ [hex_digit (of_char c div 16), hex_digit (of_char c)]
      else [c])"

function escape :: "string \<Rightarrow> string" where
  "escape s =
     (case s of
        [] \<Rightarrow> []
      | c # s' \<Rightarrow>
          if c < CHR 0x80 then escape_ascii c @ escape s'
          else if rune_len s = 0 then backslash # ''ufffd'' @ escape s'
          else if take 3 s = [CHR 0xE2, CHR 0x80, CHR 0xA8] then backslash # ''u2028'' @ escape (drop 3 s)
          else if take 3 s = [CHR 0xE2, CHR 0x80, CHR 0xA9] then backslash # ''u2029'' @ escape (drop 3 s)
          else take (rune_len s) s @ escape (drop (rune_len s) s))"
  by pat_completeness auto

termination
  by (relation "measure length") auto

declare escape.simps [simp del]


section \<open>Values\<close>

datatype json = JNum nat | JStr string | JArr "json list" | JObj "(string \<times> json) list"

fun json_print :: "json \<Rightarrow> string" where
  "json_print (JNum n) = string_of_nat n"
| "json_print (JStr s) = dquote # escape s @ [dquote]"
| "json_print (JArr js) = ''['' @ join_str '','' (map json_print js) @ '']''"
| "json_print (JObj fs) =
     ''{'' @ join_str '','' (map (\<lambda>(k, j). dquote # k @ [dquote] @ '':'' @ json_print j) fs) @ ''}''"

text \<open>A field with \<open>omitempty\<close>: a nil pointer and an empty slice are left out.\<close>

definition jfield :: "string \<Rightarrow> ('a \<Rightarrow> json) \<Rightarrow> 'a option \<Rightarrow> (string \<times> json) list" where
  "jfield k f v = (case v of None \<Rightarrow> [] | Some x \<Rightarrow> [(k, f x)])"

definition jslice :: "string \<Rightarrow> ('a \<Rightarrow> json) \<Rightarrow> 'a list \<Rightarrow> (string \<times> json) list" where
  "jslice k f vs = (if vs = [] then [] else [(k, JArr (map f vs))])"

definition juint :: "32 word \<Rightarrow> json" where
  "juint n = JNum (unat n)"


section \<open>Attributes\<close>

definition json_Processor :: "data_Processor \<Rightarrow> json" where
  "json_Processor x = JObj
     (jfield ''id'' juint (dProcessor_ID x) @
      jfield ''cores'' juint (dProcessor_Cores x) @
      jfield ''threads'' juint (dProcessor_Threads x) @
      jfield ''vendor'' JStr (dProcessor_Vendor x) @
      jfield ''model'' JStr (dProcessor_Model x) @
      jslice ''capabilities'' JStr (dProcessor_Capabilities x))"

definition json_CPU :: "data_CPU \<Rightarrow> json" where
  "json_CPU x = JObj
     (jfield ''totalCores'' juint (dCPU_TotalCores x) @
      jfield ''totalThreads'' juint (dCPU_TotalThreads x) @
      jslice ''processors'' json_Processor (dCPU_Processors x))"

definition json_Memory :: "data_Memory \<Rightarrow> json" where
  "json_Memory x = JObj
     (jfield ''total'' JStr (dMemory_Total x) @
      jfield ''usable'' JStr (dMemory_Usable x))"

definition json_Block :: "data_Block \<Rightarrow> json" where
  "json_Block x = JObj
     (jfield ''name'' JStr (dBlock_Name x) @
      jfield ''controllerType'' JStr (dBlock_ControllerType x) @
      jfield ''driveType'' JStr (dBlock_DriveType x) @
      jfield ''size'' JStr (dBlock_Size x) @
      jfield ''physicalBlockSize'' JStr (dBlock_PhysicalBlockSize x) @
      jfield ''vendor'' JStr (dBlock_Vendor x) @
      jfield ''model'' JStr (dBlock_Model x) @
      jfield ''wwn'' JStr (dBlock_WWN x) @
      jfield ''serialNumber'' JStr (dBlock_SerialNumber x))"

definition json_Network :: "data_Network \<Rightarrow> json" where
  "json_Network x = JObj
     (jfield ''name'' JStr (dNetwork_Name x) @
      jfield ''mac'' JStr (dNetwork_Mac x) @
      jfield ''speed'' JStr (dNetwork_Speed x) @
      jslice ''enabledCapabilities'' JStr (dNetwork_EnabledCapabilities x))"

definition json_PCI :: "data_PCI \<Rightarrow> json" where
  "json_PCI x = JObj
     (jfield ''vendor'' JStr (dPCI_Vendor x) @
      jfield ''product'' JStr (dPCI_Product x) @
      jfield ''class'' JStr (dPCI_Class x) @
      jfield ''driver'' JStr (dPCI_Driver x))"

definition json_GPU :: "data_GPU \<Rightarrow> json" where
  "json_GPU x = JObj
     (jfield ''vendor'' JStr (dGPU_Vendor x) @
      jfield ''product'' JStr (dGPU_Product x) @
      jfield ''class'' JStr (dGPU_Class x) @
      jfield ''driver'' JStr (dGPU_Driver x))"

definition json_Chassis :: "data_Chassis \<Rightarrow> json" where
  "json_Chassis x = JObj
     (jfield ''serial'' JStr (dChassis_Serial x) @
      jfield ''vendor'' JStr (dChassis_Vendor x))"

definition json_BIOS :: "data_BIOS \<Rightarrow> json" where
  "json_BIOS x = JObj
     (jfield ''vendor'' JStr (dBIOS_Vendor x) @
      jfield ''version'' JStr (dBIOS_Version x) @
      jfield ''releaseDate'' JStr (dBIOS_ReleaseDate x))"

definition json_Baseboard :: "data_Baseboard \<Rightarrow> json" where
  "json_Baseboard x = JObj
     (jfield ''vendor'' JStr (dBaseboard_Vendor x) @
      jfield ''product'' JStr (dBaseboard_Product x) @
      jfield ''version'' JStr (dBaseboard_Version x) @
      jfield ''serialNumber'' JStr (dBaseboard_SerialNumber x))"

definition json_Product :: "data_Product \<Rightarrow> json" where
  "json_Product x = JObj
     (jfield ''name'' JStr (dProduct_Name x) @
      jfield ''vendor'' JStr (dProduct_Vendor x) @
      jfield ''serialNumber'' JStr (dProduct_SerialNumber x))"

definition json_AgentAttributes :: "AgentAttributes \<Rightarrow> json" where
  "json_AgentAttributes a = JObj
     (jfield ''cpu'' json_CPU (aa_CPU a) @
      jfield ''memory'' json_Memory (aa_Memory a) @
      jslice ''blockDevices'' json_Block (aa_BlockDevices a) @
      jslice ''networkInterfaces'' json_Network (aa_NetworkInterfaces a) @
      jslice ''pciDevices'' json_PCI (aa_PCIDevices a) @
      jslice ''gpuDevices'' json_GPU (aa_GPUDevices a) @
      jfield ''chassis'' json_Chassis (aa_Chassis a) @
      jfield ''bios'' json_BIOS (aa_BIOS a) @
      jfield ''baseboard'' json_Baseboard (aa_Baseboard a) @
      jfield ''product'' json_Product (aa_Product a))"

text \<open>No value of these types makes the encoder fail.\<close>

definition json_Marshal :: "AgentAttributes option \<Rightarrow> gerr + string" where
  "json_Marshal a = Inr (case a of None \<Rightarrow> ''null'' | Some x \<Rightarrow> json_print (json_AgentAttributes x))"

end
