(* ===== verification/Backend.thy ===== *)
theory Backend
  imports Api_Workflow Api_Hardware Api_Bmc
begin

text \<open>
  The stores the services read their objects from, \<open>src/pkg/backend\<close>, and the filters of
  \<open>src/pkg/data/data.go\<close>. The file backend holds the objects of a YAML document, the kube
  backend calls a controller-runtime client, the noop backend always fails. The client and the
  YAML decoder are parameters. Locks, tracing and the file watcher are not modelled.
\<close>


section \<open>Filters and options\<close>

record HardwareFilter =
  hf_InNamespace :: string
  hf_ByName :: string
  hf_ByAgentID :: string
  hf_ByMACAddress :: string
  hf_ByIPAddress :: string
  hf_ByInstanceID :: string

record WorkflowFilter =
  wfil_InNamespace :: string
  wfil_ByAgentID :: string

definition empty_HardwareFilter :: HardwareFilter where
  "empty_HardwareFilter = \<lparr>hf_InNamespace = [], hf_ByName = [], hf_ByAgentID = [], hf_ByMACAddress = [],
     hf_ByIPAddress = [], hf_ByInstanceID = []\<rparr>"

definition empty_WorkflowFilter :: WorkflowFilter where
  "empty_WorkflowFilter = \<lparr>wfil_InNamespace = [], wfil_ByAgentID = []\<rparr>"

text \<open>\<open>PatchFrom\<close> is of type \<open>any\<close>: one of the API objects, or something else with the name of
  its type.\<close>

datatype patch_source = FromHardware Hardware | FromWorkflow Workflow | FromOther string

record UpdateOptions =
  uo_StatusOnly :: bool
  uo_PatchFrom :: "patch_source option"
  uo_RawPatch :: "string option"
  uo_RawPatchType :: string

definition empty_UpdateOptions :: UpdateOptions where
  "empty_UpdateOptions = \<lparr>uo_StatusOnly = False, uo_PatchFrom = None, uo_RawPatch = None, uo_RawPatchType = []\<rparr>"


section \<open>The file backend\<close>

text \<open>\<open>strings.EqualFold\<close> on ASCII strings; MAC addresses are such.\<close>

definition EqualFold :: "string \<Rightarrow> string \<Rightarrow> bool" where
  "EqualFold s t \<longleftrightarrow> to_lower s = to_lower t"

definition hardwareHasMAC :: "Hardware \<Rightarrow> string \<Rightarrow> bool" where
  "hardwareHasMAC hw mac =
     list_ex (\<lambda>i. case if_DHCP i of None \<Rightarrow> False | Some d \<Rightarrow> EqualFold (dhcp_MAC d) mac)
       (hw_Interfaces (Hardware_Spec hw))"

definition hardwareHasIP :: "Hardware \<Rightarrow> string \<Rightarrow> bool" where
  "hardwareHasIP hw ip =
     list_ex (\<lambda>i. case if_DHCP i of None \<Rightarrow> False
         | Some d \<Rightarrow> (case dhcp_IP d of None \<Rightarrow> False | Some a \<Rightarrow> ip_Address a = ip))
       (hw_Interfaces (Hardware_Spec hw))"

definition hardware_instance_id :: "Hardware \<Rightarrow> string option" where
  "hardware_instance_id hw =
     (case hw_Metadata (Hardware_Spec hw) of None \<Rightarrow> None
      | Some m \<Rightarrow> (case md_Instance m of None \<Rightarrow> None | Some i \<Rightarrow> Some (mi_ID i)))"

definition matchHardware :: "Hardware \<Rightarrow> HardwareFilter \<Rightarrow> bool" where
  "matchHardware hw opts =
     (if hf_InNamespace opts \<noteq> [] \<and> Namespace hw \<noteq> hf_InNamespace opts then False
      else if hf_ByName opts \<noteq> [] \<and> Name hw \<noteq> hf_ByName opts then False
      else if hf_ByAgentID opts \<noteq> [] \<and> hw_AgentID (Hardware_Spec hw) \<noteq> hf_ByAgentID opts then False
      else if hf_ByMACAddress opts \<noteq> [] \<and> \<not> hardwareHasMAC hw (hf_ByMACAddress opts) then False
      else if hf_ByIPAddress opts \<noteq> [] \<and> \<not> hardwareHasIP hw (hf_ByIPAddress opts) then False
      else if hf_ByInstanceID opts \<noteq> [] \<and> hardware_instance_id hw \<noteq> Some (hf_ByInstanceID opts) then False
      else hf_ByName opts \<noteq> [] \<or> hf_ByAgentID opts \<noteq> [] \<or> hf_ByMACAddress opts \<noteq> [] \<or>
           hf_ByIPAddress opts \<noteq> [] \<or> hf_ByInstanceID opts \<noteq> [])"

definition errFileFormat :: gerr where
  "errFileFormat = NewError ''invalid file format''"

text \<open>The argument \<open>dec\<close> is the result of decoding the file.\<close>

definition file_ReadHardware :: "gerr + Hardware list \<Rightarrow> string \<Rightarrow> string \<Rightarrow> gerr + Hardware" where
  "file_ReadHardware dec name ns =
     (case dec of
        Inl e \<Rightarrow> Inl (WrapError [] errFileFormat ('': '' @ err_text e))
      | Inr hwList \<Rightarrow>
          (case find (\<lambda>hw. \<not> (ns \<noteq> [] \<and> Namespace hw \<noteq> ns) \<and> Name hw = name) hwList of
             Some hw \<Rightarrow> Inr hw
           | None \<Rightarrow> Inl (HardwareNotFoundError ''no matching hardware found'')))"

definition file_FilterHardware :: "gerr + Hardware list \<Rightarrow> HardwareFilter \<Rightarrow> gerr + Hardware" where
  "file_FilterHardware dec opts =
     (case dec of
        Inl e \<Rightarrow> Inl (WrapError [] errFileFormat ('': '' @ err_text e))
      | Inr hwList \<Rightarrow>
          (case filter (\<lambda>hw. matchHardware hw opts) hwList of
             [] \<Rightarrow> Inl (HardwareNotFoundError ''no matching hardware found'')
           | [hw] \<Rightarrow> Inr hw
           | ms \<Rightarrow> Inl (MultipleHardwareError
               (''found '' @ string_of_nat (length ms) @ '' hardware objects matching filter, expected 1''))))"

definition file_UpdateHardware :: "Hardware \<Rightarrow> UpdateOptions \<Rightarrow> gerr option" where
  "file_UpdateHardware hw opts = Some (NewError ''file backend does not support hardware updates'')"

definition errAlways :: gerr where
  "errAlways = NewError ''noop backend always returns an error''"

definition noop_ReadHardware :: "string \<Rightarrow> string \<Rightarrow> gerr + Hardware" where
  "noop_ReadHardware name ns = Inl errAlways"

definition noop_UpdateHardware :: "Hardware \<Rightarrow> UpdateOptions \<Rightarrow> gerr option" where
  "noop_UpdateHardware hw opts = Some errAlways"

definition noop_FilterHardware :: "HardwareFilter \<Rightarrow> gerr + Hardware" where
  "noop_FilterHardware opts = Inl errAlways"


section \<open>The kube backend\<close>

datatype ListOption = InNamespace string | MatchingFields string string

datatype client_patch = MergeFrom patch_source | RawPatch string string

record 'w kube_client =
  kc_ListHardware :: "ListOption list \<Rightarrow> 'w \<Rightarrow> (gerr + Hardware list) \<times> 'w"
  kc_GetHardware :: "string \<Rightarrow> string \<Rightarrow> 'w \<Rightarrow> (gerr + Hardware) \<times> 'w"
  kc_CreateHardware :: "Hardware \<Rightarrow> 'w \<Rightarrow> gerr option \<times> 'w"
  kc_UpdateHardware :: "bool \<Rightarrow> Hardware \<Rightarrow> 'w \<Rightarrow> gerr option \<times> 'w"
  kc_PatchHardware :: "bool \<Rightarrow> Hardware \<Rightarrow> client_patch \<Rightarrow> 'w \<Rightarrow> gerr option \<times> 'w"
  kc_ListWorkflows :: "ListOption list \<Rightarrow> 'w \<Rightarrow> (gerr + Workflow list) \<times> 'w"
  kc_GetWorkflow :: "string \<Rightarrow> string \<Rightarrow> 'w \<Rightarrow> (gerr + Workflow) \<times> 'w"
  kc_CreateWorkflow :: "Workflow \<Rightarrow> 'w \<Rightarrow> gerr option \<times> 'w"
  kc_UpdateWorkflow :: "bool \<Rightarrow> Workflow \<Rightarrow> 'w \<Rightarrow> gerr option \<times> 'w"
  kc_PatchWorkflow :: "bool \<Rightarrow> Workflow \<Rightarrow> client_patch \<Rightarrow> 'w \<Rightarrow> gerr option \<times> 'w"
  kc_ListRuleSets :: "ListOption list \<Rightarrow> 'w \<Rightarrow> (gerr + WorkflowRuleSet list) \<times> 'w"

definition MACAddrIndex :: string where "MACAddrIndex = ''.Spec.Interfaces.MAC''"
definition IPAddrIndex :: string where "IPAddrIndex = ''.Spec.Interfaces.DHCP.IP''"
definition NameIndex :: string where "NameIndex = ''.metadata.name''"
definition WorkflowAgentIDIndex :: string where "WorkflowAgentIDIndex = ''.status.agentID''"
definition HardwareAgentIDIndex :: string where "HardwareAgentIDIndex = ''.spec.agentID''"
definition InstanceIDIndex :: string where "InstanceIDIndex = ''.Spec.Metadata.Instance.ID''"

text \<open>The values the indexes extract from an object.\<close>

definition GetMACs :: "Hardware \<Rightarrow> string list" where
  "GetMACs h = concat (map (\<lambda>i. case if_DHCP i of None \<Rightarrow> []
     | Some d \<Rightarrow> if dhcp_MAC d \<noteq> [] then [dhcp_MAC d] else []) (hw_Interfaces (Hardware_Spec h)))"

definition GetIPs :: "Hardware \<Rightarrow> string list" where
  "GetIPs h = concat (map (\<lambda>i. case if_DHCP i of None \<Rightarrow> []
     | Some d \<Rightarrow> (case dhcp_IP d of None \<Rightarrow> []
       | Some a \<Rightarrow> if ip_Address a \<noteq> [] then [ip_Address a] else [])) (hw_Interfaces (Hardware_Spec h)))"

definition HardwareName :: "Hardware \<Rightarrow> string list" where
  "HardwareName h = [Name h]"

definition WorkflowAgentID :: "Workflow \<Rightarrow> string list" where
  "WorkflowAgentID wfl =
     (if st_AgentID (Workflow_Status wfl) = [] then [] else [st_AgentID (Workflow_Status wfl)])"

definition HardwareAgentID :: "Hardware \<Rightarrow> string list" where
  "HardwareAgentID h = (if hw_AgentID (Hardware_Spec h) = [] then [] else [hw_AgentID (Hardware_Spec h)])"

definition InstanceID :: "Hardware \<Rightarrow> string list" where
  "InstanceID h = (case hardware_instance_id h of None \<Rightarrow> [] | Some i \<Rightarrow> if i = [] then [] else [i])"

definition hardwareListOptions :: "HardwareFilter \<Rightarrow> ListOption list" where
  "hardwareListOptions opts =
     (if hf_InNamespace opts \<noteq> [] then [InNamespace (hf_InNamespace opts)] else []) @
     (if hf_ByAgentID opts \<noteq> [] then [MatchingFields HardwareAgentIDIndex (hf_ByAgentID opts)] else []) @
     (if hf_ByName opts \<noteq> [] then [MatchingFields NameIndex (hf_ByName opts)] else []) @
     (if hf_ByIPAddress opts \<noteq> [] then [MatchingFields IPAddrIndex (hf_ByIPAddress opts)] else []) @
     (if hf_ByMACAddress opts \<noteq> [] then [MatchingFields MACAddrIndex (hf_ByMACAddress opts)] else []) @
     (if hf_ByInstanceID opts \<noteq> [] then [MatchingFields InstanceIDIndex (hf_ByInstanceID opts)] else [])"

text \<open>The argument \<open>q\<close> is \<open>strconv.Quote\<close>.\<close>

definition filterQueryDesc :: "(string \<Rightarrow> string) \<Rightarrow> HardwareFilter \<Rightarrow> string" where
  "filterQueryDesc q opts =
     ''in '' @ (if hf_InNamespace opts = [] then ''all namespaces'' else hf_InNamespace opts) @
     (if hf_ByName opts \<noteq> [] then '' with name '' @ q (hf_ByName opts) else []) @
     (if hf_ByAgentID opts \<noteq> [] then '' with agentID '' @ q (hf_ByAgentID opts) else []) @
     (if hf_ByMACAddress opts \<noteq> [] then '' with MAC '' @ q (hf_ByMACAddress opts) else []) @
     (if hf_ByIPAddress opts \<noteq> [] then '' with IP '' @ q (hf_ByIPAddress opts) else []) @
     (if hf_ByInstanceID opts \<noteq> [] then '' with instanceID '' @ q (hf_ByInstanceID opts) else [])"

definition kube_FilterHardware ::
  "'w kube_client \<Rightarrow> (string \<Rightarrow> string) \<Rightarrow> HardwareFilter \<Rightarrow> 'w \<Rightarrow> (gerr + Hardware) \<times> 'w" where
  "kube_FilterHardware kc q opts w =
     (case kc_ListHardware kc (hardwareListOptions opts) w of
        (Inl e, w1) \<Rightarrow> (Inl (errorf (''failed to list hardware '' @ filterQueryDesc q opts @ '': '') e), w1)
      | (Inr items, w1) \<Rightarrow>
          (let nsDesc = (if hf_InNamespace opts = [] then ''all namespaces'' else hf_InNamespace opts) in
           case items of
             [] \<Rightarrow> (Inl (KubeHardwareNotFoundError
                     (''hardware not found: '' @ filterQueryDesc q opts @ '', namespace: '' @ nsDesc)), w1)
           | [hw] \<Rightarrow> (Inr hw, w1)
           | _ \<Rightarrow> (Inl (MultipleHardwareError (''found '' @ string_of_nat (length items) @
                     '' hardware objects for '' @ filterQueryDesc q opts @ '', namespace: '' @ nsDesc)), w1)))"

definition kube_ReadHardware :: "'w kube_client \<Rightarrow> string \<Rightarrow> string \<Rightarrow> 'w \<Rightarrow> (gerr + Hardware) \<times> 'w" where
  "kube_ReadHardware kc name ns w =
     (case kc_GetHardware kc name ns w of
        (Inl e, w1) \<Rightarrow> (Inl (errorf (''failed to get hardware '' @ ns @ ''/'' @ name @ '': '') e), w1)
      | (Inr hw, w1) \<Rightarrow> (Inr hw, w1))"

definition kube_ListHardware :: "'w kube_client \<Rightarrow> HardwareFilter \<Rightarrow> 'w \<Rightarrow> (gerr + Hardware list) \<times> 'w" where
  "kube_ListHardware kc opts w = kc_ListHardware kc (hardwareListOptions opts) w"

text \<open>A call that fails is wrapped, a call that succeeds is not.\<close>

definition wrap_err :: "string \<Rightarrow> gerr option \<times> 'w \<Rightarrow> gerr option \<times> 'w" where
  "wrap_err t r = (map_option (errorf t) (fst r), snd r)"

definition kube_CreateHardware :: "'w kube_client \<Rightarrow> Hardware \<Rightarrow> 'w \<Rightarrow> gerr option \<times> 'w" where
  "kube_CreateHardware kc hw w =
     wrap_err (''failed to create hardware '' @ Namespace hw @ ''/'' @ Name hw @ '': '') (kc_CreateHardware kc hw w)"

definition validPatchTypes :: "string list" where
  "validPatchTypes = [''application/json-patch+json'', ''application/merge-patch+json'',
     ''application/strategic-merge-patch+json'', ''application/apply-patch+yaml'']"

definition patchFromOpts :: "(string \<Rightarrow> string) \<Rightarrow> UpdateOptions \<Rightarrow> gerr + client_patch option" where
  "patchFromOpts q opts =
     (case uo_PatchFrom opts of
        Some (FromOther t) \<Rightarrow> Inl (NewError (''PatchFrom must be a client.Object, got '' @ t))
      | Some ob \<Rightarrow> Inr (Some (MergeFrom ob))
      | None \<Rightarrow>
          (case uo_RawPatch opts of
             Some p \<Rightarrow>
               if uo_RawPatchType opts = [] then Inl (NewError ''RawPatchType must be set when RawPatch is provided'')
               else if uo_RawPatchType opts \<notin> set validPatchTypes
                 then Inl (NewError (''unsupported RawPatchType '' @ q (uo_RawPatchType opts)))
               else Inr (Some (RawPatch (uo_RawPatchType opts) p))
           | None \<Rightarrow> Inr None))"

definition kube_UpdateHardware ::
  "'w kube_client \<Rightarrow> (string \<Rightarrow> string) \<Rightarrow> Hardware \<Rightarrow> UpdateOptions \<Rightarrow> 'w \<Rightarrow> gerr option \<times> 'w" where
  "kube_UpdateHardware kc q hw opts w =
     (let at = Namespace hw @ ''/'' @ Name hw @ '': '' in
      case patchFromOpts q opts of
        Inl e \<Rightarrow> (Some (errorf (''invalid patch options for hardware '' @ at) e), w)
      | Inr (Some p) \<Rightarrow>
          if uo_StatusOnly opts
          then wrap_err (''failed to patch hardware status '' @ at) (kc_PatchHardware kc True hw p w)
          else wrap_err (''failed to patch hardware '' @ at) (kc_PatchHardware kc False hw p w)
      | Inr None \<Rightarrow>
          if uo_StatusOnly opts
          then wrap_err (''failed to update hardware status '' @ at) (kc_UpdateHardware kc True hw w)
          else wrap_err (''failed to update hardware '' @ at) (kc_UpdateHardware kc False hw w))"

definition kube_CreateWorkflow :: "'w kube_client \<Rightarrow> Workflow \<Rightarrow> 'w \<Rightarrow> gerr option \<times> 'w" where
  "kube_CreateWorkflow kc wfl w = wrap_err (''failed to create workflow '' @ Name wfl @ '': '') (kc_CreateWorkflow kc wfl w)"

definition kube_ReadWorkflow :: "'w kube_client \<Rightarrow> string \<Rightarrow> string \<Rightarrow> 'w \<Rightarrow> (gerr + Workflow) \<times> 'w" where
  "kube_ReadWorkflow kc name ns w =
     (case kc_GetWorkflow kc name ns w of
        (Inl e, w1) \<Rightarrow> (Inl (errorf (''failed to get workflow '' @ ns @ ''/'' @ name @ '': '') e), w1)
      | (Inr wfl, w1) \<Rightarrow> (Inr wfl, w1))"

definition kube_ListWorkflows :: "'w kube_client \<Rightarrow> WorkflowFilter \<Rightarrow> 'w \<Rightarrow> (gerr + Workflow list) \<times> 'w" where
  "kube_ListWorkflows kc opts w =
     (let los = (if wfil_InNamespace opts \<noteq> [] then [InNamespace (wfil_InNamespace opts)] else []) @
                (if wfil_ByAgentID opts \<noteq> [] then [MatchingFields WorkflowAgentIDIndex (wfil_ByAgentID opts)] else []) in
      case kc_ListWorkflows kc los w of
        (Inl e, w1) \<Rightarrow>
          (Inl (errorf (''failed to list workflows in namespace '' @ wfil_InNamespace opts @ '': '') e), w1)
      | (Inr wfs, w1) \<Rightarrow> (Inr wfs, w1))"

definition kube_UpdateWorkflow ::
  "'w kube_client \<Rightarrow> (string \<Rightarrow> string) \<Rightarrow> Workflow \<Rightarrow> UpdateOptions \<Rightarrow> 'w \<Rightarrow> gerr option \<times> 'w" where
  "kube_UpdateWorkflow kc q wfl opts w =
     (let at = Name wfl @ '': '' in
      case patchFromOpts q opts of
        Inl e \<Rightarrow> (Some (errorf (''invalid patch options for workflow '' @ at) e), w)
      | Inr (Some p) \<Rightarrow>
          if uo_StatusOnly opts
          then wrap_err (''failed to patch workflow status '' @ at) (kc_PatchWorkflow kc True wfl p w)
          else wrap_err (''failed to patch workflow '' @ at) (kc_PatchWorkflow kc False wfl p w)
      | Inr None \<Rightarrow>
          if uo_StatusOnly opts
          then wrap_err (''failed to update workflow status '' @ at) (kc_UpdateWorkflow kc True wfl w)
          else wrap_err (''failed to update workflow '' @ at) (kc_UpdateWorkflow kc False wfl w))"

definition kube_ListWorkflowRuleSets ::
  "'w kube_client \<Rightarrow> WorkflowFilter \<Rightarrow> 'w \<Rightarrow> (gerr + WorkflowRuleSet list) \<times> 'w" where
  "kube_ListWorkflowRuleSets kc opts w =
     kc_ListRuleSets kc (if wfil_InNamespace opts \<noteq> [] then [InNamespace (wfil_InNamespace opts)] else []) w"


section \<open>BMC machines\<close>

text \<open>\<open>secondstar.go\<close>: the connection data of the BMC behind a Hardware object. A secret is the map
  of its data.\<close>

record 'w bmc_reader =
  br_ListMachines :: "ListOption list \<Rightarrow> 'w \<Rightarrow> (gerr + Machine list) \<times> 'w"
  br_GetSecret :: "string \<Rightarrow> string \<Rightarrow> 'w \<Rightarrow> (gerr + (string \<rightharpoonup> string)) \<times> 'w"

record BMCMachine =
  bmcm_Host :: string
  bmcm_User :: string
  bmcm_Pass :: string
  bmcm_Port :: int
  bmcm_CipherSuite :: string
  bmcm_SSHPublicKeys :: "string list"

definition defaultIPMIPort :: int where "defaultIPMIPort = 623"
definition defaultIPMICipherSuite :: string where "defaultIPMICipherSuite = ''17''"

definition filterMachine :: "'w bmc_reader \<Rightarrow> string \<Rightarrow> 'w \<Rightarrow> (gerr + Machine) \<times> 'w" where
  "filterMachine br name w =
     (if name = [] then (Inl (NewError ''BMC Machine name is required''), w)
      else (case br_ListMachines br [MatchingFields NameIndex name] w of
        (Inl e, w1) \<Rightarrow> (Inl (errorf (''failed listing bmc machine for ('' @ name @ ''): '') e), w1)
      | (Inr [], w1) \<Rightarrow> (Inl (NewError (''bmc machine not found: '' @ name)), w1)
      | (Inr [m], w1) \<Rightarrow> (Inr m, w1)
      | (Inr ms, w1) \<Rightarrow> (Inl (NewError (''got '' @ string_of_nat (length ms) @
          '' bmc machine objects for name: '' @ name @ '', expected only 1'')), w1)))"

definition ReadAuthSecret :: "'w bmc_reader \<Rightarrow> string \<Rightarrow> string \<Rightarrow> 'w \<Rightarrow> (gerr + string \<times> string) \<times> 'w" where
  "ReadAuthSecret br name ns w =
     (case br_GetSecret br name ns w of
        (Inl e, w1) \<Rightarrow> (Inl (errorf (''failed to get secret '' @ ns @ ''/'' @ name @ '': '') e), w1)
      | (Inr data, w1) \<Rightarrow>
          (case data ''username'' of
             None \<Rightarrow> (Inl (NewError ([CHR 0x27] @ ''username'' @ [CHR 0x27] @ '' required in Machine secret '' @ ns @ ''/'' @ name)), w1)
           | Some u \<Rightarrow>
               (case data ''password'' of
                  None \<Rightarrow> (Inl (NewError ([CHR 0x27] @ ''password'' @ [CHR 0x27] @ '' required in Machine secret '' @ ns @ ''/'' @ name)), w1)
                | Some p \<Rightarrow> (Inr (u, p), w1))))"

text \<open>The port and the cipher suite, with their defaults, are only filled in when the machine has
  options for ipmitool.\<close>

definition ipmi_options :: "Connection \<Rightarrow> int \<times> string" where
  "ipmi_options c =
     (case conn_ProviderOptions c of
        None \<Rightarrow> (0, [])
      | Some po \<Rightarrow>
          (case po_IPMITOOL po of
             None \<Rightarrow> (0, [])
           | Some o_ipmi \<Rightarrow>
               (if ipmi_Port o_ipmi = 0 then defaultIPMIPort else ipmi_Port o_ipmi,
                if ipmi_CipherSuite o_ipmi = [] then defaultIPMICipherSuite else ipmi_CipherSuite o_ipmi)))"

definition FilterBMCMachine ::
  "'w kube_client \<Rightarrow> 'w bmc_reader \<Rightarrow> (string \<Rightarrow> string) \<Rightarrow> HardwareFilter \<Rightarrow> 'w \<Rightarrow> (gerr + BMCMachine) \<times> 'w" where
  "FilterBMCMachine kc br q opts w =
     (case kube_FilterHardware kc q opts w of
        (Inl e, w1) \<Rightarrow> (Inl (errorf ''failed to filter hardware: '' e), w1)
      | (Inr hw, w1) \<Rightarrow>
          (case hw_BMCRef (Hardware_Spec hw) of
             None \<Rightarrow> (Inl (PanicError ''nil pointer dereference''), w1)
           | Some r \<Rightarrow>
               (case filterMachine br (tlo_Name r) w1 of
                  (Inl e, w2) \<Rightarrow> (Inl e, w2)
                | (Inr m, w2) \<Rightarrow>
                    (let conn = Machine_Connection m; po = ipmi_options conn in
                     case ReadAuthSecret br (sref_Name (conn_AuthSecretRef conn)) (sref_Namespace (conn_AuthSecretRef conn)) w2 of
                       (Inl e, w3) \<Rightarrow> (Inl e, w3)
                     | (Inr (u, p), w3) \<Rightarrow>
                         (Inr \<lparr>bmcm_Host = conn_Host conn, bmcm_User = u, bmcm_Pass = p, bmcm_Port = fst po,
                               bmcm_CipherSuite = snd po,
                               bmcm_SSHPublicKeys = (case hw_Metadata (Hardware_Spec hw) of None \<Rightarrow> []
                                 | Some md \<Rightarrow> (case md_Instance md of None \<Rightarrow> [] | Some i \<Rightarrow> mi_SSHKeys i))\<rparr>, w3)))))"


section \<open>Looking up one object\<close>

lemma call_cases:
  obtains (failed) e w where "r = (Inl e, w)" | (returned) x w where "r = (Inr x, w)"
  by (cases r; cases "fst r") auto

text \<open>
  What the callers rely on: a lookup gives the object when the store has exactly one candidate and
  an error that says which of the other cases it was. \<open>candidates\<close> is \<open>None\<close> when the
  store cannot be read.
\<close>

locale single_lookup =
  fixes lookup :: "HardwareFilter \<Rightarrow> 's \<Rightarrow> gerr + Hardware"
    and candidates :: "HardwareFilter \<Rightarrow> 's \<Rightarrow> Hardware list option"
  assumes unique: "candidates f s = Some [h] \<Longrightarrow> lookup f s = Inr h"
    and absent: "candidates f s = Some [] \<Longrightarrow> \<exists>e. lookup f s = Inl e \<and> has_not_found e \<and> \<not> has_multiple_found e"
    and several: "candidates f s = Some (a # b # hs) \<Longrightarrow>
      \<exists>e. lookup f s = Inl e \<and> has_multiple_found e \<and> \<not> has_not_found e \<and> \<not> IsNotFound e"
    and unreadable: "candidates f s = None \<Longrightarrow> \<exists>e. lookup f s = Inl e"
begin

lemma lookup_cases:
  obtains e where "candidates f s = None" "lookup f s = Inl e"
  | e where "candidates f s = Some []" "lookup f s = Inl e" "has_not_found e" "\<not> has_multiple_found e"
  | h where "candidates f s = Some [h]" "lookup f s = Inr h"
  | e a b hs where "candidates f s = Some (a # b # hs)" "lookup f s = Inl e" "has_multiple_found e" "\<not> has_not_found e"
proof (cases "candidates f s")
  case None
  with unreadable [OF None] that(1) show ?thesis by blast
next
  case (Some hs)
  consider "hs = []" | x where "hs = [x]" | a b r where "hs = a # b # r"
    by (cases hs rule: remdups_adj.cases) auto
  then show ?thesis
  proof cases
    case 1
    with Some obtain e where "lookup f s = Inl e" "has_not_found e" "\<not> has_multiple_found e"
      using absent by blast
    then show ?thesis by (rule that(2) [rotated]) (use Some 1 in simp)
  next
    case 2
    with Some have "lookup f s = Inr x" using unique by blast
    then show ?thesis by (rule that(3) [rotated]) (use Some 2 in simp)
  next
    case 3
    with Some obtain e where "lookup f s = Inl e" "has_multiple_found e" "\<not> has_not_found e"
      using several by blast
    then show ?thesis by (rule that(4) [rotated]) (use Some 3 in simp)
  qed
qed

lemma found_iff: "lookup f s = Inr h \<longleftrightarrow> candidates f s = Some [h]"
  by (cases rule: lookup_cases [of f s]) auto

lemma missing_iff:
  "candidates f s = Some hs \<Longrightarrow> lookup f s = Inl e \<Longrightarrow> has_not_found e \<longleftrightarrow> hs = []"
  by (cases rule: lookup_cases [of f s]) auto

lemma ambiguous_iff:
  "candidates f s = Some hs \<Longrightarrow> lookup f s = Inl e \<Longrightarrow> has_multiple_found e \<longleftrightarrow> 2 \<le> length hs"
  by (cases rule: lookup_cases [of f s]) auto

end

definition file_candidates :: "HardwareFilter \<Rightarrow> gerr + Hardware list \<Rightarrow> Hardware list option" where
  "file_candidates f dec =
     (case dec of Inl e \<Rightarrow> None | Inr hs \<Rightarrow> Some (filter (\<lambda>hw. matchHardware hw f) hs))"

interpretation file_lookup: single_lookup "\<lambda>f dec. file_FilterHardware dec f" file_candidates
proof
  fix f dec a b h hs
  note defs = file_FilterHardware_def file_candidates_def IsNotFound_def
  show "file_candidates f dec = Some [h] \<Longrightarrow> file_FilterHardware dec f = Inr h"
    by (cases dec) (simp_all add: defs)
  show "file_candidates f dec = Some [] \<Longrightarrow>
      \<exists>e. file_FilterHardware dec f = Inl e \<and> has_not_found e \<and> \<not> has_multiple_found e"
    by (cases dec) (simp_all add: defs)
  show "file_candidates f dec = Some (a # b # hs) \<Longrightarrow>
      \<exists>e. file_FilterHardware dec f = Inl e \<and> has_multiple_found e \<and> \<not> has_not_found e \<and> \<not> IsNotFound e"
    by (cases dec) (simp_all add: defs)
  show "file_candidates f dec = None \<Longrightarrow> \<exists>e. file_FilterHardware dec f = Inl e"
    by (cases dec) (simp_all add: defs)
qed

text \<open>A state of the kube store is a client with \<open>strconv.Quote\<close> and the world it sees.\<close>

type_synonym 'w kube_store = "'w kube_client \<times> (string \<Rightarrow> string) \<times> 'w"

definition kube_list :: "HardwareFilter \<Rightarrow> 'w kube_store \<Rightarrow> (gerr + Hardware list) \<times> 'w" where
  "kube_list f s = kc_ListHardware (fst s) (hardwareListOptions f) (snd (snd s))"

definition kube_candidates :: "HardwareFilter \<Rightarrow> 'w kube_store \<Rightarrow> Hardware list option" where
  "kube_candidates f s = (case fst (kube_list f s) of Inl e \<Rightarrow> None | Inr hs \<Rightarrow> Some hs)"

definition kube_find :: "HardwareFilter \<Rightarrow> 'w kube_store \<Rightarrow> gerr + Hardware" where
  "kube_find f s = fst (kube_FilterHardware (fst s) (fst (snd s)) f (snd (snd s)))"

interpretation kube_lookup: single_lookup kube_find kube_candidates
proof
  fix f a b h hs
  fix s :: "'w kube_store"
  note defs = kube_find_def kube_FilterHardware_def kube_candidates_def kube_list_def IsNotFound_def
  show "kube_candidates f s = Some [h] \<Longrightarrow> kube_find f s = Inr h"
    by (cases "kube_list f s" rule: call_cases) (simp_all add: defs)
  show "kube_candidates f s = Some [] \<Longrightarrow> \<exists>e. kube_find f s = Inl e \<and> has_not_found e \<and> \<not> has_multiple_found e"
    by (cases "kube_list f s" rule: call_cases) (simp_all add: defs)
  show "kube_candidates f s = Some (a # b # hs) \<Longrightarrow>
      \<exists>e. kube_find f s = Inl e \<and> has_multiple_found e \<and> \<not> has_not_found e \<and> \<not> IsNotFound e"
    by (cases "kube_list f s" rule: call_cases) (simp_all add: defs)
  show "kube_candidates f s = None \<Longrightarrow> \<exists>e. kube_find f s = Inl e"
    by (cases "kube_list f s" rule: call_cases) (simp_all add: defs)
qed

text \<open>The selectors of a filter, each with the objects it selects.\<close>

definition selectors :: "HardwareFilter \<Rightarrow> (string \<times> (Hardware \<Rightarrow> bool)) list" where
  "selectors f =
     [(hf_ByName f, \<lambda>hw. Name hw = hf_ByName f),
      (hf_ByAgentID f, \<lambda>hw. hw_AgentID (Hardware_Spec hw) = hf_ByAgentID f),
      (hf_ByMACAddress f, \<lambda>hw. hardwareHasMAC hw (hf_ByMACAddress f)),
      (hf_ByIPAddress f, \<lambda>hw. hf_ByIPAddress f \<in> set (GetIPs hw)),
      (hf_ByInstanceID f, \<lambda>hw. hf_ByInstanceID f \<in> set (InstanceID hw))]"

definition selected :: "HardwareFilter \<Rightarrow> Hardware \<Rightarrow> bool" where
  "selected f hw \<longleftrightarrow>
     list_ex (\<lambda>(v, p). v \<noteq> []) (selectors f) \<and> list_all (\<lambda>(v, p). v \<noteq> [] \<longrightarrow> p hw) (selectors f) \<and>
     (hf_InNamespace f \<noteq> [] \<longrightarrow> Namespace hw = hf_InNamespace f)"

lemma in_concat_map: "x \<in> set (concat (map g xs)) \<longleftrightarrow> list_ex (\<lambda>y. x \<in> set (g y)) xs"
  by (auto simp: list_ex_iff)

lemma GetIPs_hardwareHasIP:
  assumes "ip \<noteq> []"
  shows "ip \<in> set (GetIPs hw) \<longleftrightarrow> hardwareHasIP hw ip"
proof -
  have "ip \<in> set (case if_DHCP i of None \<Rightarrow> [] | Some d \<Rightarrow> (case dhcp_IP d of None \<Rightarrow> []
       | Some a \<Rightarrow> if ip_Address a \<noteq> [] then [ip_Address a] else [])) \<longleftrightarrow>
     (case if_DHCP i of None \<Rightarrow> False
         | Some d \<Rightarrow> (case dhcp_IP d of None \<Rightarrow> False | Some a \<Rightarrow> ip_Address a = ip))" for i :: Interface
  proof (cases "if_DHCP i")
    case (Some d)
    then show ?thesis using assms by (cases "dhcp_IP d") auto
  qed simp
  then show ?thesis
    by (simp only: GetIPs_def hardwareHasIP_def in_concat_map)
qed

lemma InstanceID_instance: "i \<noteq> [] \<Longrightarrow> i \<in> set (InstanceID hw) \<longleftrightarrow> hardware_instance_id hw = Some i"
  by (cases "hardware_instance_id hw") (simp_all add: InstanceID_def eq_commute)

lemma if_reject: "(if p then False else q) \<longleftrightarrow> \<not> p \<and> q"
  by simp

lemma matchHardware_selected: "matchHardware hw f \<longleftrightarrow> selected f hw"
proof -
  have ip: "hf_ByIPAddress f \<noteq> [] \<and> \<not> hardwareHasIP hw (hf_ByIPAddress f) \<longleftrightarrow>
      hf_ByIPAddress f \<noteq> [] \<and> hf_ByIPAddress f \<notin> set (GetIPs hw)"
    using GetIPs_hardwareHasIP [of "hf_ByIPAddress f" hw] by (cases "hf_ByIPAddress f = []"; simp)
  have id: "hf_ByInstanceID f \<noteq> [] \<and> hardware_instance_id hw \<noteq> Some (hf_ByInstanceID f) \<longleftrightarrow>
      hf_ByInstanceID f \<noteq> [] \<and> hf_ByInstanceID f \<notin> set (InstanceID hw)"
    using InstanceID_instance [of "hf_ByInstanceID f" hw] by (cases "hf_ByInstanceID f = []"; simp)
  show ?thesis
    unfolding matchHardware_def selected_def selectors_def if_reject ip id list.pred_inject list_ex_Nil_iff list_ex_Cons_iff prod.case simp_thms
    by (intro iffI conjI; elim conjE; simp; blast)
qed

text \<open>C39. The file backend finds a Hardware object exactly when it is the only one in the file that
  satisfies every selector of the filter, in the namespace the filter gives if it gives one; with no
  selector set it finds nothing. A readable file without a match gives a not-found error and one
  with several matches a multiple-found error.\<close>

theorem file_FilterHardware_spec:
  "(file_FilterHardware (Inr hs) f = Inr hw \<longleftrightarrow> filter (selected f) hs = [hw]) \<and>
   (\<forall>e. file_FilterHardware (Inr hs) f = Inl e \<longrightarrow>
      (has_not_found e \<longleftrightarrow> filter (selected f) hs = []) \<and>
      (has_multiple_found e \<longleftrightarrow> 2 \<le> length (filter (selected f) hs)))"
proof -
  have c: "file_candidates f (Inr hs) = Some (filter (selected f) hs)"
    by (simp add: file_candidates_def matchHardware_selected)
  show ?thesis
    using file_lookup.found_iff [of "Inr hs" f hw] file_lookup.missing_iff [OF c] file_lookup.ambiguous_iff [OF c]
    by (simp add: c)
qed

definition named :: "string \<Rightarrow> Hardware" where
  "named n = empty_Hardware\<lparr>Name := n\<rparr>"

theorem file_FilterHardware_spec_witness:
  "file_FilterHardware (Inr [named ''m1'', named ''m2'']) (empty_HardwareFilter\<lparr>hf_ByName := ''m2''\<rparr>) = Inr (named ''m2'') \<and>
   (\<exists>e. file_FilterHardware (Inr [named ''m1'']) (empty_HardwareFilter\<lparr>hf_ByName := ''m2''\<rparr>) = Inl e \<and> has_not_found e)"
  using file_FilterHardware_spec
      [of "[named ''m1'', named ''m2'']" "empty_HardwareFilter\<lparr>hf_ByName := ''m2''\<rparr>" "named ''m2''"]
    file_FilterHardware_spec [of "[named ''m1'']" "empty_HardwareFilter\<lparr>hf_ByName := ''m2''\<rparr>" "named ''m2''"]
  by (simp add: file_FilterHardware_def matchHardware_selected selected_def selectors_def empty_HardwareFilter_def
      named_def empty_Hardware_def)

end
