(* ===== verification/Server.thy ===== *)
theory Server
  imports Kube_Name Json Backend Net
begin

text \<open>
  The workflow service of the Tink server, \<open>src/tink/server/internal/grpc\<close>: handing out actions
  (\<open>GetAction\<close>), recording their outcome (\<open>ReportActionStatus\<close>), discovery of unknown
  hardware and enrollment of unknown agents. The backend is a record of operations on an abstract
  world, as in the workflow controller. The pattern engine \<open>quamina\<close> and the retry loop of package
  \<open>backoff\<close> are parameters of the handler. Logging and the journal are left out.

  \<open>UpdateWorkflow\<close> refreshes the object it is given from the answer of the API server; the action
  sent to the agent is built from the values that were written.
\<close>


section \<open>Messages\<close>

text \<open>A generated getter returns the zero value for a field that is not set.\<close>

definition get_str :: "string option \<Rightarrow> string" where
  "get_str s = (case s of None \<Rightarrow> [] | Some t \<Rightarrow> t)"

lemma get_str_simps [simp]: "get_str None = []" "get_str (Some s) = s"
  by (simp_all add: get_str_def)

record pb_ActionRequest =
  rq_AgentId :: "string option"
  rq_AgentAttributes :: "pb_AgentAttributes option"

record pb_Namespaces =
  pns_Network :: "string option"
  pns_Pid :: "string option"

record pb_ActionResponse =
  rs_WorkflowId :: "string option"
  rs_TaskId :: "string option"
  rs_AgentId :: "string option"
  rs_ActionId :: "string option"
  rs_Name :: "string option"
  rs_Image :: "string option"
  rs_Timeout :: "int option"
  rs_Command :: "string list"
  rs_Volumes :: "string list"
  rs_Environment :: "string list"
  rs_Pid :: "string option"
  rs_Namespaces :: "pb_Namespaces option"

datatype StateType = ST_UNSPECIFIED | ST_PENDING | ST_RUNNING | ST_FAILED | ST_TIMEOUT | ST_SUCCESS | ST_other nat

fun StateType_String :: "StateType \<Rightarrow> string" where
  "StateType_String ST_UNSPECIFIED = ''UNSPECIFIED''"
| "StateType_String ST_PENDING = ''PENDING''"
| "StateType_String ST_RUNNING = ''RUNNING''"
| "StateType_String ST_FAILED = ''FAILED''"
| "StateType_String ST_TIMEOUT = ''TIMEOUT''"
| "StateType_String ST_SUCCESS = ''SUCCESS''"
| "StateType_String (ST_other n) = string_of_nat n"

record pb_ActionStatusRequest =
  sr_WorkflowId :: "string option"
  sr_AgentId :: "string option"
  sr_TaskId :: "string option"
  sr_ActionId :: "string option"
  sr_ActionName :: "string option"
  sr_ActionState :: "StateType option"
  sr_ExecutionStart :: "time option"
  sr_ExecutionStop :: "time option"
  sr_ExecutionDuration :: "string option"
  sr_Message :: "string option option"

definition GetActionState :: "pb_ActionStatusRequest \<Rightarrow> StateType" where
  "GetActionState r = (case sr_ActionState r of None \<Rightarrow> ST_UNSPECIFIED | Some s \<Rightarrow> s)"

text \<open>\<open>AsTime\<close> of a missing timestamp is the epoch.\<close>

definition AsTime :: "time option \<Rightarrow> time" where
  "AsTime t = (case t of None \<Rightarrow> 0 | Some x \<Rightarrow> x)"

definition report_message :: "pb_ActionStatusRequest \<Rightarrow> string" where
  "report_message r = (case sr_Message r of None \<Rightarrow> [] | Some m \<Rightarrow> get_str m)"


section \<open>The handler\<close>

datatype backoff = ConstantBackOff duration | ExponentialBackOff

datatype retry_option = WithMaxElapsedTime duration | WithMaxTries nat | WithBackOff backoff

record 'w server_backend =
  sb_done :: "'w \<Rightarrow> bool"
  sb_ListWorkflows :: "WorkflowFilter \<Rightarrow> 'w \<Rightarrow> (gerr + Workflow list) \<times> 'w"
  sb_ReadWorkflow :: "string \<Rightarrow> string \<Rightarrow> 'w \<Rightarrow> (gerr + Workflow) \<times> 'w"
  sb_UpdateWorkflow :: "Workflow \<Rightarrow> UpdateOptions \<Rightarrow> 'w \<Rightarrow> gerr option \<times> 'w"
  sb_ReadHardware :: "string \<Rightarrow> string \<Rightarrow> 'w \<Rightarrow> (gerr + Hardware) \<times> 'w"
  sb_FilterHardware :: "HardwareFilter \<Rightarrow> 'w \<Rightarrow> (gerr + Hardware) \<times> 'w"
  sb_UpdateHardware :: "Hardware \<Rightarrow> UpdateOptions \<Rightarrow> 'w \<Rightarrow> gerr option \<times> 'w"
  sb_ListWorkflowRuleSets :: "WorkflowFilter \<Rightarrow> 'w \<Rightarrow> (gerr + WorkflowRuleSet list) \<times> 'w"
  sb_CreateWorkflow :: "Workflow \<Rightarrow> 'w \<Rightarrow> gerr option \<times> 'w"
  sb_CreateHardware :: "Hardware \<Rightarrow> 'w \<Rightarrow> gerr option \<times> 'w"
  sb_DiscoveryFilterHardware :: "HardwareFilter \<Rightarrow> 'w \<Rightarrow> (gerr + Hardware) \<times> 'w"

text \<open>The pattern engine: adding a named pattern to those added before, and the names of the
  patterns an event matches.\<close>

record quamina =
  qm_AddPattern :: "(string \<times> string) list \<Rightarrow> string \<times> string \<Rightarrow> gerr option"
  qm_MatchesForEvent :: "(string \<times> string) list \<Rightarrow> string \<Rightarrow> gerr + string list"

record AutoCapabilities =
  ac_EnrollmentEnabled :: bool
  ac_DiscoveryEnabled :: bool
  ac_Namespace :: string
  ac_HardwareEnrollmentEnabled :: bool

definition no_auto :: AutoCapabilities where
  "no_auto = \<lparr>ac_EnrollmentEnabled = False, ac_DiscoveryEnabled = False, ac_Namespace = [],
     ac_HardwareEnrollmentEnabled = False\<rparr>"

type_synonym 'w action_reply = "(gerr + pb_ActionResponse) \<times> 'w"
type_synonym 'w status_reply = "(gerr + unit) \<times> 'w"

record 'w Handler =
  h_Backend :: "'w server_backend"
  h_AutoCapabilities :: AutoCapabilities
  h_RetryOptions :: "retry_option list"
  h_quamina :: quamina
  h_Retry :: "retry_option list \<Rightarrow> ('w \<Rightarrow> 'w action_reply) \<Rightarrow> 'w \<Rightarrow> 'w action_reply"
  h_RetryStatus :: "retry_option list \<Rightarrow> ('w \<Rightarrow> 'w status_reply) \<Rightarrow> 'w \<Rightarrow> 'w status_reply"

definition ErrBackendRead :: gerr where
  "ErrBackendRead = NewError ''error reading from backend''"

definition ErrBackendWrite :: gerr where
  "ErrBackendWrite = NewError ''error writing to backend''"

definition maxAnnotationSize :: nat where
  "maxAnnotationSize = 64 * 1024"

definition AttributesAnnotation :: string where
  "AttributesAnnotation = ''tinkerbell.org/agent-attributes''"

definition status_only :: UpdateOptions where
  "status_only = empty_UpdateOptions\<lparr>uo_StatusOnly := True\<rparr>"


section \<open>Choosing an action\<close>

abbreviation wf_tasks :: "Workflow \<Rightarrow> Task list" where
  "wf_tasks wfl \<equiv> st_Tasks (Workflow_Status wfl)"

abbreviation wf_current :: "Workflow \<Rightarrow> CurrentState option" where
  "wf_current wfl \<equiv> st_CurrentState (Workflow_Status wfl)"

text \<open>The loop over the workflows of an agent, with the test for a workflow without tasks after it.\<close>

fun pick_workflow :: "Workflow list \<Rightarrow> gerr + Workflow" where
  "pick_workflow [] = Inl (StatusError CodeNotFound ''no Tasks found in Workflow'')"
| "pick_workflow (w # ws) =
     (if wf_tasks w = [] then pick_workflow ws
      else if bo_BootMode (ws_BootOptions (Workflow_Spec w)) \<noteq> BootModeUnset \<and> wf_state w = WSPreparing
        then Inl (StatusError CodeFailedPrecondition ''Workflow is in preparing state'')
      else if wf_state w \<noteq> WSPending \<and> wf_state w \<noteq> WSRunning
        then Inl (StatusError CodeFailedPrecondition ''Workflow not in pending or running state'')
      else Inr w)"

definition isFirstAction :: "Task \<Rightarrow> bool" where
  "isFirstAction t = (if t_Actions t = [] then False else a_State (t_Actions t ! 0) = WSPending)"

definition isTaskSuccessful :: "Task \<Rightarrow> bool" where
  "isTaskSuccessful t =
     (if t_Actions t = [] then True else a_State (t_Actions t ! (length (t_Actions t) - 1)) = WSSuccess)"

definition select_task :: "Workflow \<Rightarrow> gerr + Task" where
  "select_task wfl =
     (if isFirstAction (wf_tasks wfl ! 0) then Inr (wf_tasks wfl ! 0)
      else (case find (\<lambda>t. \<not> isTaskSuccessful t) (wf_tasks wfl) of
              None \<Rightarrow> Inl (StatusError CodeNotFound ''no Tasks found'')
            | Some t \<Rightarrow> Inr t))"

definition resolveAction :: "Task \<Rightarrow> CurrentState option \<Rightarrow> gerr + Action" where
  "resolveAction task currentState =
     (if isFirstAction task then Inr (t_Actions task ! 0)
      else (case currentState of
        None \<Rightarrow> Inl (StatusError CodeFailedPrecondition ''no current state available'')
      | Some cs \<Rightarrow>
          (if cur_State cs = WSRunning \<or> cur_State cs = WSPending then
             (case find_index (\<lambda>a. a_ID a = cur_ActionID cs) (t_Actions task) of
                Some i \<Rightarrow> Inr (t_Actions task ! i)
              | None \<Rightarrow> Inl (StatusError CodeNotFound ''in-progress Action not found in task''))
           else if cur_State cs \<noteq> WSSuccess
             then Inl (StatusError CodeFailedPrecondition ''current Action not in success state'')
           else
             (case find_index (\<lambda>a. a_ID a = cur_ActionID cs) (t_Actions task) of
                Some i \<Rightarrow>
                  if i = length (t_Actions task) - 1 then Inl (StatusError CodeNotFound ''last Action in task'')
                  else Inr (t_Actions task ! (i + 1))
              | None \<Rightarrow> Inl (StatusError CodeNotFound ''no Action found'')))))"

text \<open>From the selected task to the action that will be sent: the checks of \<open>doGetAction\<close> after the
  task is known.\<close>

definition choose_action :: "string \<Rightarrow> Task \<Rightarrow> CurrentState option \<Rightarrow> gerr + Action" where
  "choose_action agent task cs =
     (if t_Actions task = [] then Inl (StatusError CodeNotFound ''no Actions found'')
      else (case resolveAction task cs of
        Inl e \<Rightarrow> Inl e
      | Inr action \<Rightarrow>
          if t_AgentID task \<noteq> agent then Inl (StatusError CodeNotFound ''Task not assigned to Agent'')
          else Inr action))"

definition serving_state :: "string \<Rightarrow> Task \<Rightarrow> Action \<Rightarrow> CurrentState" where
  "serving_state agent task action =
     \<lparr>cur_AgentID = agent, cur_TaskID = t_ID task, cur_ActionID = a_ID action, cur_State = a_State action,
      cur_ActionName = a_Name action, cur_TaskName = t_Name task\<rparr>"

definition set_current :: "CurrentState \<Rightarrow> Workflow \<Rightarrow> Workflow" where
  "set_current cs = on_status (\<lambda>st. st\<lparr>st_CurrentState := Some cs\<rparr>)"

text \<open>The environment of the task overridden by that of the action, as sorted \<open>key=value\<close> strings.\<close>

definition joined_env :: "(string \<times> string) list \<Rightarrow> (string \<times> string) list \<Rightarrow> string \<rightharpoonup> string" where
  "joined_env task_env action_env = map_of task_env ++ map_of action_env"

definition env_strings :: "(string \<times> string) list \<Rightarrow> (string \<times> string) list \<Rightarrow> string list" where
  "env_strings task_env action_env =
     sort (map (\<lambda>k. k @ ''='' @ get_str (joined_env task_env action_env k))
       (remdups (map fst task_env @ map fst action_env)))"

definition action_response :: "string \<Rightarrow> Workflow \<Rightarrow> Task \<Rightarrow> Action \<Rightarrow> pb_ActionResponse" where
  "action_response agent wfl task action =
     \<lparr>rs_WorkflowId = Some (Namespace wfl @ ''/'' @ Name wfl), rs_TaskId = Some (t_ID task),
      rs_AgentId = Some agent, rs_ActionId = Some (a_ID action), rs_Name = Some (a_Name action),
      rs_Image = Some (a_Image action), rs_Timeout = Some (a_Timeout action), rs_Command = a_Command action,
      rs_Volumes = t_Volumes task @ a_Volumes action,
      rs_Environment = env_strings (t_Environment task) (a_Environment action),
      rs_Pid = (case a_Namespaces action of
          Some ns \<Rightarrow> if ns_PID ns \<noteq> [] then Some (ns_PID ns) else Some (a_Pid action)
        | None \<Rightarrow> Some (a_Pid action)),
      rs_Namespaces = (case a_Namespaces action of
          Some ns \<Rightarrow> Some \<lparr>pns_Network = Some (ns_Network ns), pns_Pid = Some (ns_PID ns)\<rparr>
        | None \<Rightarrow> None)\<rparr>"


section \<open>Annotating the hardware\<close>

definition updateHardwareWithAttributes ::
  "'w Handler \<Rightarrow> Hardware option \<Rightarrow> AgentAttributes option \<Rightarrow> 'w \<Rightarrow> gerr option \<times> 'w" where
  "updateHardwareWithAttributes h hw attrs w =
     (case hw of
        None \<Rightarrow> (None, w)
      | Some ob \<Rightarrow>
          if attrs = None \<or> get_str (Annotations ob AttributesAnnotation) \<noteq> [] then (None, w)
          else (case json_Marshal attrs of
            Inl e \<Rightarrow> (Some (errorf ''error marshaling attributes for annotation: '' e), w)
          | Inr a \<Rightarrow>
              if length a > maxAnnotationSize
              then (Some (NewError (''agent attributes annotation exceeds '' @ string_of_nat (maxAnnotationSize div 1024) @
                      ''KB limit ('' @ string_of_nat (length a) @ '' bytes)'')), w)
              else (case sb_UpdateHardware (h_Backend h) (ob\<lparr>Annotations := (Annotations ob)(AttributesAnnotation \<mapsto> a)\<rparr>)
                      (empty_UpdateOptions\<lparr>uo_PatchFrom := Some (FromHardware ob)\<rparr>) w of
                (Some e, w1) \<Rightarrow> (Some (errorf ''error updating Hardware with attributes annotation: '' e), w1)
              | (None, w1) \<Rightarrow> (None, w1))))"

definition resolveAndAnnotateHardware ::
  "'w Handler \<Rightarrow> Hardware option \<Rightarrow> string \<Rightarrow> string \<Rightarrow> AgentAttributes option \<Rightarrow> 'w \<Rightarrow> 'w" where
  "resolveAndAnnotateHardware h hwRef hardwareRef namespace attrs w =
     (if attrs = None then w
      else if hwRef = None \<and> hardwareRef \<noteq> [] then
        (case sb_ReadHardware (h_Backend h) hardwareRef namespace w of
           (Inl e, w1) \<Rightarrow> w1
         | (Inr hw, w1) \<Rightarrow> snd (updateHardwareWithAttributes h (Some hw) attrs w1))
      else if hwRef = None then w
      else snd (updateHardwareWithAttributes h hwRef attrs w))"


section \<open>Finding and discovering hardware\<close>

definition foundMultipleHardware :: "gerr \<Rightarrow> bool" where
  "foundMultipleHardware e = has_multiple_found e"

definition hardwareNotFound :: "gerr \<Rightarrow> bool" where
  "hardwareNotFound e = (has_not_found e \<or> IsNotFound e)"

definition hardware :: "'w Handler \<Rightarrow> string \<Rightarrow> 'w \<Rightarrow> (gerr + Hardware) \<times> 'w" where
  "hardware h agentID w =
     (let ns = ac_Namespace (h_AutoCapabilities h) in
      case sb_FilterHardware (h_Backend h) (empty_HardwareFilter\<lparr>hf_ByAgentID := agentID, hf_InNamespace := ns\<rparr>) w of
        (Inr hw, w1) \<Rightarrow> (Inr hw, w1)
      | (Inl e, w1) \<Rightarrow>
          if foundMultipleHardware e
          then (Inl (errorf (''multiple hardware objects found for ID '' @ agentID @ '' in namespace '' @ ns @ '': '') e), w1)
          else (Inl e, w1))"

definition empty_DHCP :: DHCP where
  "empty_DHCP = \<lparr>dhcp_MAC = [], dhcp_Hostname = [], dhcp_DomainName = [], dhcp_LeaseTime = 0, dhcp_NameServers = [],
     dhcp_TimeServers = [], dhcp_Arch = [], dhcp_UEFI = False, dhcp_IfaceName = [], dhcp_IP = None, dhcp_VLANID = [],
     dhcp_ClasslessStaticRoutes = [], dhcp_TFTPServerName = [], dhcp_BootFileName = []\<rparr>"

text \<open>A disk with a size and no name makes the loop dereference a nil pointer.\<close>

fun disk_devices :: "data_Block list \<Rightarrow> gerr + string list" where
  "disk_devices [] = Inr []"
| "disk_devices (d # ds) =
     (if get_str (dBlock_Size d) \<noteq> [] then
        (case dBlock_Name d of
           None \<Rightarrow> Inl (PanicError ''nil pointer dereference'')
         | Some n \<Rightarrow> (case disk_devices ds of Inl e \<Rightarrow> Inl e | Inr r \<Rightarrow> Inr ((''/dev/'' @ n) # r)))
      else disk_devices ds)"

definition mac_interfaces :: "data_Network list \<Rightarrow> Interface list" where
  "mac_interfaces ns =
     map (\<lambda>n. \<lparr>if_Netboot = None, if_Isoboot = None, if_DHCP = Some (empty_DHCP\<lparr>dhcp_MAC := get_str (dNetwork_Mac n)\<rparr>),
              if_DisableDHCP = False\<rparr>)
       (filter (\<lambda>n. get_str (dNetwork_Mac n) \<noteq> [] \<and> ParseMAC (get_str (dNetwork_Mac n)) \<noteq> None) ns)"

definition updateHardware :: "Hardware \<Rightarrow> AgentAttributes option \<Rightarrow> gerr + Hardware" where
  "updateHardware hw attrs =
     (case attrs of
        None \<Rightarrow> Inr hw
      | Some a \<Rightarrow>
          (case disk_devices (aa_BlockDevices a) of
             Inl e \<Rightarrow> Inl e
           | Inr ds \<Rightarrow>
               Inr (hw\<lparr>Hardware_Spec := (Hardware_Spec hw)
                     \<lparr>hw_Disks := hw_Disks (Hardware_Spec hw) @ ds,
                      hw_Interfaces := hw_Interfaces (Hardware_Spec hw) @ mac_interfaces (aa_NetworkInterfaces a)\<rparr>\<rparr>)))"

definition discoveryPrefix :: string where
  "discoveryPrefix = ''discovery-''"

text \<open>The object \<open>Discover\<close> builds before it fills in disks and interfaces.\<close>

definition discovered_hardware :: "AutoCapabilities \<Rightarrow> string \<Rightarrow> string \<Rightarrow> AgentAttributes option \<Rightarrow> Hardware" where
  "discovered_hardware ac hwName agentID attrs =
     empty_Hardware
       \<lparr>Name := hwName, Namespace := ac_Namespace ac, Labels := [''tinkerbell.org/auto-discovered'' \<mapsto> ''true''],
        Annotations :=
          (if attrs = None then Map.empty
           else (case json_Marshal attrs of
             Inl e \<Rightarrow> Map.empty
           | Inr a \<Rightarrow> if length a > maxAnnotationSize then Map.empty else [AttributesAnnotation \<mapsto> a])),
        Hardware_Spec := empty_HardwareSpec
          \<lparr>hw_AgentID := agentID, hw_EnrollmentEnabled := ac_HardwareEnrollmentEnabled ac\<rparr>\<rparr>"

definition enrollment_enabled :: "Hardware \<Rightarrow> Hardware" where
  "enrollment_enabled hw = hw\<lparr>Hardware_Spec := (Hardware_Spec hw)\<lparr>hw_EnrollmentEnabled := True\<rparr>\<rparr>"

definition Discover :: "'w Handler \<Rightarrow> string \<Rightarrow> AgentAttributes option \<Rightarrow> 'w \<Rightarrow> (gerr + Hardware) \<times> 'w" where
  "Discover h agentID attrs w =
     (let ac = h_AutoCapabilities h; ns = ac_Namespace ac in
      case makeValidName agentID discoveryPrefix of
        Inl e \<Rightarrow> (Inl (errorf (''failed to make discovery ID '' @ agentID @ '' a valid Kubernetes name: '') e), w)
      | Inr hwName \<Rightarrow>
          (case sb_DiscoveryFilterHardware (h_Backend h) (empty_HardwareFilter\<lparr>hf_ByAgentID := agentID\<rparr>) w of
             (Inr existing, w1) \<Rightarrow> (Inr existing, w1)
           | (Inl e, w1) \<Rightarrow>
               if foundMultipleHardware e
               then (Inl (errorf (''multiple hardware objects found for agent ID '' @ agentID @ '': '') e), w1)
               else if \<not> hardwareNotFound e
               then (Inl (errorf (''failed to check for existing hardware object '' @ ns @ ''/'' @ hwName @ '': '') e), w1)
               else
                 (case updateHardware (discovered_hardware ac hwName agentID attrs) attrs of
                    Inl e \<Rightarrow> (Inl e, w1)
                  | Inr hw \<Rightarrow>
                      (case sb_CreateHardware (h_Backend h) hw w1 of
                         (Some e, w2) \<Rightarrow>
                           (Inl (errorf (''failed to create hardware object '' @ ns @ ''/'' @ hwName @ '': '') e), w2)
                       | (None, w2) \<Rightarrow> (Inr (enrollment_enabled hw), w2)))))"


section \<open>Handing out an action\<close>

text \<open>The part of \<open>doGetAction\<close> after a workflow has been picked.\<close>

definition serve_workflow ::
  "'w Handler \<Rightarrow> string \<Rightarrow> AgentAttributes option \<Rightarrow> Hardware option \<Rightarrow> Workflow \<Rightarrow> 'w \<Rightarrow> 'w action_reply" where
  "serve_workflow h agent attrs hwRef wfl w =
     (case select_task wfl of
        Inl e \<Rightarrow> (Inl e, w)
      | Inr task \<Rightarrow>
          (let w1 = (if isFirstAction (wf_tasks wfl ! 0)
                     then resolveAndAnnotateHardware h hwRef (ws_HardwareRef (Workflow_Spec wfl)) (Namespace wfl) attrs w
                     else w) in
           case choose_action agent task (wf_current wfl) of
             Inl e \<Rightarrow> (Inl e, w1)
           | Inr action \<Rightarrow>
               (case sb_UpdateWorkflow (h_Backend h) (set_current (serving_state agent task action) wfl) status_only w1 of
                  (Some e, w2) \<Rightarrow>
                    (Inl (JoinError [ErrBackendWrite,
                       StatusError CodeInternal (''error writing current state: '' @ err_text e)]), w2)
                | (None, w2) \<Rightarrow> (Inr (action_response agent wfl task action), w2))))"

text \<open>
  \<open>doGetAction\<close> calls \<open>enroll\<close>, which calls \<open>doGetAction\<close> again with both automatic capabilities
  switched off, where \<open>enroll\<close> is not reached. The call is an argument here and the two are tied
  together below.
\<close>

definition doGetAction_with ::
  "(string \<Rightarrow> AgentAttributes option \<Rightarrow> Hardware option \<Rightarrow> 'w \<Rightarrow> 'w action_reply) \<Rightarrow>
   'w Handler \<Rightarrow> pb_ActionRequest \<Rightarrow> AutoCapabilities \<Rightarrow> 'w \<Rightarrow> 'w action_reply" where
  "doGetAction_with enr h req opts w =
     (let agent = get_str (rq_AgentId req); attrs = convert (rq_AgentAttributes req) in
      if sb_done (h_Backend h) w then (Inl (StatusError CodeUnavailable ''server shutting down''), w)
      else if agent = [] then (Inl (StatusError CodeInvalidArgument ''invalid Agent ID''), w)
      else
        (case (if ac_DiscoveryEnabled opts then
                 (case Discover h agent attrs w of
                    (Inl e, w1) \<Rightarrow> (if is_panic e then Inl e else Inr None, w1)
                  | (Inr hw, w1) \<Rightarrow> (Inr (Some hw), w1))
               else (Inr None, w)) of
           (Inl e, w1) \<Rightarrow> (Inl e, w1)
         | (Inr hwRef, w1) \<Rightarrow>
             (case sb_ListWorkflows (h_Backend h) (empty_WorkflowFilter\<lparr>wfil_ByAgentID := agent\<rparr>) w1 of
                (Inl e, w2) \<Rightarrow>
                  (Inl (JoinError [ErrBackendRead,
                     StatusError CodeInternal (''error getting workflows: '' @ err_text e)]), w2)
              | (Inr wfs, w2) \<Rightarrow>
                  if wfs = [] then
                    (if ac_EnrollmentEnabled opts then
                       (if \<not> ac_DiscoveryEnabled opts then
                          (case hardware h agent w2 of
                             (Inl e, w3) \<Rightarrow> enr agent attrs hwRef w3
                           | (Inr hw, w3) \<Rightarrow> enr agent attrs (Some hw) w3)
                        else enr agent attrs hwRef w2)
                     else (Inl (StatusError CodeNotFound ''no Workflows found''), w2))
                  else
                    (case pick_workflow wfs of
                       Inl e \<Rightarrow> (Inl e, w2)
                     | Inr wfl \<Rightarrow> serve_workflow h agent attrs hwRef wfl w2))))"


section \<open>Enrollment\<close>

definition workflowPrefix :: string where
  "workflowPrefix = ''enrollment-''"

fun add_rule_patterns :: "quamina \<Rightarrow> (string \<times> string) list \<Rightarrow> nat \<Rightarrow> string list \<Rightarrow> gerr + (string \<times> string) list" where
  "add_rule_patterns q ps idx [] = Inr ps"
| "add_rule_patterns q ps idx (r # rs) =
     (let p = (''pattern-'' @ string_of_nat idx, r) in
      case qm_AddPattern q ps p of
        Some e \<Rightarrow> Inl (errorf (''error adding Workflow matching pattern: pattern-'' @ string_of_nat idx @ '' err: '') e)
      | None \<Rightarrow> add_rule_patterns q (ps @ [p]) (idx + 1) rs)"

definition findMatch ::
  "quamina \<Rightarrow> WorkflowRuleSet \<Rightarrow> AgentAttributes option \<Rightarrow> nat \<Rightarrow> gerr + (nat \<times> WorkflowRuleSet) option" where
  "findMatch q wr attr curMatches =
     (case add_rule_patterns q [] 0 (wrs_Rules wr) of
        Inl e \<Rightarrow> Inl e
      | Inr ps \<Rightarrow>
          (case (if attr = None then Inr [] else json_Marshal attr) of
             Inl e \<Rightarrow> Inl (errorf ''error marshalling attributes to json: '' e)
           | Inr jsonEvent \<Rightarrow>
               (case qm_MatchesForEvent q ps jsonEvent of
                  Inl e \<Rightarrow> Inl (errorf ''error matching pattern: '' e)
                | Inr matches \<Rightarrow>
                    if length matches > curMatches then Inr (Some (length matches, wr)) else Inr None)))"

text \<open>The loop over the rule sets; the result is \<open>None\<close> while \<open>numMatches\<close> is 0.\<close>

fun best_match ::
  "quamina \<Rightarrow> AgentAttributes option \<Rightarrow> (nat \<times> WorkflowRuleSet) option \<Rightarrow> WorkflowRuleSet list \<Rightarrow>
   (nat \<times> WorkflowRuleSet) option" where
  "best_match q attr final [] = final"
| "best_match q attr final (wr # wrs) =
     (case findMatch q wr attr (case final of None \<Rightarrow> 0 | Some m \<Rightarrow> fst m) of
        Inr (Some m) \<Rightarrow> best_match q attr (Some m) wrs
      | _ \<Rightarrow> best_match q attr final wrs)"

text \<open>\<open>maps.Copy\<close> of one entry into an association list.\<close>

fun map_set :: "'k \<Rightarrow> 'v \<Rightarrow> ('k \<times> 'v) list \<Rightarrow> ('k \<times> 'v) list" where
  "map_set k v [] = [(k, v)]"
| "map_set k v ((k', v') # m) = (if k' = k then (k, v) # m else (k', v') # map_set k v m)"

definition maps_Copy :: "('k \<times> 'v) list \<Rightarrow> ('k \<times> 'v) list \<Rightarrow> ('k \<times> 'v) list" where
  "maps_Copy dst src = fold (\<lambda>(k, v) m. map_set k v m) src dst"

definition zero_BootOptions :: BootOptions where
  "zero_BootOptions = \<lparr>bo_ToggleAllowNetboot = False, bo_ISOURL = [], bo_BootMode = BootModeUnset,
     bo_CustombootConfig = \<lparr>cb_PreparingActions = [], cb_PostActions = []\<rparr>\<rparr>"

definition enrollment_workflow ::
  "string \<Rightarrow> string \<Rightarrow> AgentAttributes option \<Rightarrow> Hardware option \<Rightarrow> WorkflowRuleSet \<Rightarrow> Workflow" where
  "enrollment_workflow name agentID attr hw wrs =
     (let wr = wrs_Workflow wrs; tc = wrw_Template wr in
      \<lparr>APIVersion = [], Kind = [], Name = name, Namespace = wrw_Namespace wr, UID = [], DeletionTimestamp = None,
       Labels = [''tinkerbell.org/auto-enrollment'' \<mapsto> ''true''],
       Annotations = (if wrw_AddAttributes wr
         then (case json_Marshal attr of Inr a \<Rightarrow> [AttributesAnnotation \<mapsto> a] | Inl e \<Rightarrow> Map.empty) else Map.empty),
       OwnerReferences = [\<lparr>owner_APIVersion = APIVersion wrs, owner_Kind = Kind wrs, owner_Name = Name wrs,
         owner_UID = UID wrs, owner_Controller = None\<rparr>],
       Workflow_Spec = \<lparr>ws_Disabled = wrw_Disabled wr, ws_TemplateRef = tcfg_Ref tc,
         ws_HardwareRef = (case hw of None \<Rightarrow> [] | Some ob \<Rightarrow> Name ob),
         ws_HardwareMap = maps_Copy [(tcfg_AgentValue tc, agentID)] (tcfg_KVs tc),
         ws_BootOptions = zero_BootOptions\<rparr>,
       Workflow_Status = empty_WorkflowStatus\<rparr>)"

definition default_retry :: "retry_option list" where
  "default_retry = [WithMaxElapsedTime minute, WithBackOff (ConstantBackOff second)]"

definition noauto_retry :: "retry_option list" where
  "noauto_retry = [WithMaxTries 10, WithMaxElapsedTime (30 * second), WithBackOff ExponentialBackOff]"

text \<open>The options are written to the handler when it has none, and stay there.\<close>

definition with_retry :: "retry_option list \<Rightarrow> 'w Handler \<Rightarrow> 'w Handler" where
  "with_retry dflt h = (if h_RetryOptions h = [] then h\<lparr>h_RetryOptions := dflt\<rparr> else h)"

definition unreachable_enroll :: "string \<Rightarrow> AgentAttributes option \<Rightarrow> Hardware option \<Rightarrow> 'w \<Rightarrow> 'w action_reply" where
  "unreachable_enroll agent attrs hw w = (Inl (PanicError ''unreachable''), w)"

definition getActionNoAuto :: "'w Handler \<Rightarrow> pb_ActionRequest \<Rightarrow> 'w \<Rightarrow> 'w action_reply" where
  "getActionNoAuto h req w =
     (let h1 = with_retry noauto_retry h in
      h_Retry h1 (h_RetryOptions h1) (doGetAction_with unreachable_enroll h1 req no_auto) w)"

definition enroll ::
  "'w Handler \<Rightarrow> string \<Rightarrow> AgentAttributes option \<Rightarrow> Hardware option \<Rightarrow> 'w \<Rightarrow> 'w action_reply" where
  "enroll h agentID attr hw w =
     (if (case hw of None \<Rightarrow> False | Some ob \<Rightarrow> \<not> hw_EnrollmentEnabled (Hardware_Spec ob))
      then (Inl (StatusError CodeFailedPrecondition ''auto enrollment is disabled for this hardware''), w)
      else
        (case sb_ListWorkflowRuleSets (h_Backend h) empty_WorkflowFilter w of
           (Inl e, w1) \<Rightarrow>
             (Inl (JoinError [ErrBackendRead,
                StatusError CodeInternal (''error getting workflow rules: '' @ err_text e)]), w1)
         | (Inr wrs, w1) \<Rightarrow>
             (case makeValidName agentID workflowPrefix of
                Inl e \<Rightarrow>
                  (Inl (StatusError CodeInternal (''error making agentID a valid Kubernetes name: '' @ err_text e)), w1)
              | Inr name \<Rightarrow>
                  (case best_match (h_quamina h) attr None wrs of
                     None \<Rightarrow> (Inl (StatusError CodeNotFound
                         (''no Workflow Rule Sets found or matched for Agent '' @ agentID)), w1)
                   | Some (n, rs) \<Rightarrow>
                       (case sb_CreateWorkflow (h_Backend h) (enrollment_workflow name agentID attr hw rs) w1 of
                          (Some e, w2) \<Rightarrow>
                            if IsAlreadyExists e
                            then (Inl (StatusError CodeFailedPrecondition ''existing workflow found''), w2)
                            else (Inl (JoinError [ErrBackendWrite,
                                   StatusError CodeInternal (''error creating enrollment workflow: '' @ err_text e)]), w2)
                        | (None, w2) \<Rightarrow>
                            getActionNoAuto h \<lparr>rq_AgentId = Some agentID, rq_AgentAttributes = None\<rparr> w2)))))"

definition doGetAction :: "'w Handler \<Rightarrow> pb_ActionRequest \<Rightarrow> AutoCapabilities \<Rightarrow> 'w \<Rightarrow> 'w action_reply" where
  "doGetAction h = doGetAction_with (enroll h) h"

definition GetAction :: "'w Handler \<Rightarrow> pb_ActionRequest \<Rightarrow> 'w \<Rightarrow> 'w Handler \<times> 'w action_reply" where
  "GetAction h req w =
     (let h1 = with_retry default_retry h in
      (h1, h_Retry h1 (h_RetryOptions h1) (doGetAction h1 req (h_AutoCapabilities h1)) w))"


section \<open>Recording the outcome of an action\<close>

text \<open>The nested loop: the first task and action, in order, that the report is about.\<close>

fun find_action :: "string \<Rightarrow> string \<Rightarrow> nat \<Rightarrow> Task list \<Rightarrow> (nat \<times> nat) option" where
  "find_action action_id agent ti [] = None"
| "find_action action_id agent ti (t # ts) =
     (case find_index (\<lambda>a. a_ID a = action_id \<and> t_AgentID t = agent) (t_Actions t) of
        Some ai \<Rightarrow> Some (ti, ai)
      | None \<Rightarrow> find_action action_id agent (ti + 1) ts)"

definition reported_action :: "pb_ActionStatusRequest \<Rightarrow> Action \<Rightarrow> Action" where
  "reported_action req a =
     a\<lparr>a_State := WorkflowState_of (StateType_String (GetActionState req)),
       a_ExecutionStart := Some (AsTime (sr_ExecutionStart req)),
       a_ExecutionStop := Some (AsTime (sr_ExecutionStop req)),
       a_ExecutionDuration := get_str (sr_ExecutionDuration req),
       a_Message := report_message req\<rparr>"

definition update_action :: "nat \<Rightarrow> nat \<Rightarrow> (Action \<Rightarrow> Action) \<Rightarrow> Task list \<Rightarrow> Task list" where
  "update_action ti ai f ts =
     ts[ti := (ts ! ti)\<lparr>t_Actions := (t_Actions (ts ! ti))[ai := f (t_Actions (ts ! ti) ! ai)]\<rparr>]"

text \<open>The status after a report about action \<open>ai\<close> of task \<open>ti\<close>.\<close>

definition apply_report :: "pb_ActionStatusRequest \<Rightarrow> nat \<Rightarrow> nat \<Rightarrow> WorkflowStatus \<Rightarrow> WorkflowStatus" where
  "apply_report req ti ai st =
     (let ts = update_action ti ai (reported_action req) (st_Tasks st);
          new = WorkflowState_of (StateType_String (GetActionState req));
          s1 = (if GetActionState req \<noteq> ST_SUCCESS then new else st_State st);
          s2 = (if length ts = ti + 1 \<and> length (t_Actions (st_Tasks st ! ti)) = ai + 1 \<and> GetActionState req = ST_SUCCESS
                then WSPost else s1)
      in st\<lparr>st_Tasks := ts, st_State := s2,
            st_CurrentState := Some \<lparr>cur_AgentID = get_str (sr_AgentId req), cur_TaskID = get_str (sr_TaskId req),
              cur_ActionID = get_str (sr_ActionId req), cur_State = new, cur_ActionName = get_str (sr_ActionName req),
              cur_TaskName = t_Name (ts ! ti)\<rparr>\<rparr>)"

definition doReportActionStatus :: "'w Handler \<Rightarrow> pb_ActionStatusRequest \<Rightarrow> 'w \<Rightarrow> 'w status_reply" where
  "doReportActionStatus h req w =
     (if get_str (sr_WorkflowId req) = [] then (Inl (StatusError CodeInvalidArgument ''invalid workflow id''), w)
      else if get_str (sr_TaskId req) = [] then (Inl (StatusError CodeInvalidArgument ''invalid task name''), w)
      else if get_str (sr_ActionId req) = [] then (Inl (StatusError CodeInvalidArgument ''invalid action name''), w)
      else
        (case cut_char CHR ''/'' (get_str (sr_WorkflowId req)) of (namespace, name, _) \<Rightarrow>
           (case sb_ReadWorkflow (h_Backend h) name namespace w of
              (Inl e, w1) \<Rightarrow>
                (Inl (JoinError [ErrBackendRead,
                   StatusError CodeInternal (''error getting workflow: '' @ err_text e)]), w1)
            | (Inr wfl, w1) \<Rightarrow>
                (case find_action (get_str (sr_ActionId req)) (get_str (sr_AgentId req)) 0 (wf_tasks wfl) of
                   None \<Rightarrow> (Inl (StatusError CodeNotFound ''action not found''), w1)
                 | Some (ti, ai) \<Rightarrow>
                     (case sb_UpdateWorkflow (h_Backend h) (on_status (apply_report req ti ai) wfl) status_only w1 of
                        (Some e, w2) \<Rightarrow>
                          (Inl (StatusError CodeInternal (''error writing report status: '' @ err_text e)), w2)
                      | (None, w2) \<Rightarrow> (Inr (), w2))))))"

definition ReportActionStatus :: "'w Handler \<Rightarrow> pb_ActionStatusRequest \<Rightarrow> 'w \<Rightarrow> 'w Handler \<times> 'w status_reply" where
  "ReportActionStatus h req w =
     (let h1 = with_retry default_retry h in
      (h1, h_RetryStatus h1 (h_RetryOptions h1) (doReportActionStatus h1 req) w))"

end
