(* ===== verification/Server_Props.thy ===== *)
theory Server_Props
  imports Server
begin

text \<open>
  Properties of the Tink server: which action it hands out, what a report does to a workflow, how
  an enrollment rule set is chosen and what discovery creates.
\<close>


section \<open>Which action is handed out\<close>

lemma pick_workflow_Inr:
  "pick_workflow wfs = Inr wfl \<Longrightarrow>
   wfl \<in> set wfs \<and> wf_tasks wfl \<noteq> [] \<and> wf_state wfl \<in> {WSPending, WSRunning}"
  by (induction wfs rule: pick_workflow.induct) (auto split: if_splits)

text \<open>
  Action \<open>ai\<close> of task \<open>ti\<close> is the one an agent has to run next: every task before it is done, the
  task belongs to the agent, and the action is the first one and still pending, the one in
  progress, or the one after the action that last succeeded.
\<close>

definition due :: "string \<Rightarrow> Workflow \<Rightarrow> nat \<Rightarrow> nat \<Rightarrow> bool" where
  "due agent wfl ti ai \<longleftrightarrow>
     (let ts = wf_tasks wfl; as = t_Actions (ts ! ti) in
      ti < length ts \<and> ai < length as \<and> t_AgentID (ts ! ti) = agent \<and>
      (\<forall>i < ti. t_Actions (ts ! i) = [] \<or> a_State (last (t_Actions (ts ! i))) = WSSuccess) \<and>
      (ai = 0 \<and> a_State (as ! 0) = WSPending \<or>
       (\<exists>cs. wf_current wfl = Some cs \<and> cur_State cs \<in> {WSRunning, WSPending} \<and> a_ID (as ! ai) = cur_ActionID cs) \<or>
       (\<exists>cs. wf_current wfl = Some cs \<and> cur_State cs = WSSuccess \<and> 0 < ai \<and> a_ID (as ! (ai - 1)) = cur_ActionID cs)))"

lemma isTaskSuccessful_iff: "isTaskSuccessful t \<longleftrightarrow> t_Actions t = [] \<or> a_State (last (t_Actions t)) = WSSuccess"
  by (simp add: isTaskSuccessful_def last_conv_nth)

lemma find_nth:
  "find p xs = Some x \<Longrightarrow> \<exists>i < length xs. x = xs ! i \<and> p x \<and> (\<forall>j < i. \<not> p (xs ! j))"
  by (auto simp: find_Some_iff)

lemma select_task_Inr:
  assumes "select_task wfl = Inr t" and "wf_tasks wfl \<noteq> []"
  shows "\<exists>ti < length (wf_tasks wfl). t = wf_tasks wfl ! ti \<and> (\<forall>i < ti. isTaskSuccessful (wf_tasks wfl ! i))"
proof (cases "isFirstAction (wf_tasks wfl ! 0)")
  case True
  with assms have "t = wf_tasks wfl ! 0" "0 < length (wf_tasks wfl)"
    by (simp_all add: select_task_def)
  then show ?thesis by blast
next
  case False
  with assms(1) have "find (\<lambda>t. \<not> isTaskSuccessful t) (wf_tasks wfl) = Some t"
    by (simp add: select_task_def split: option.splits)
  from find_nth [OF this] show ?thesis by auto
qed

lemma resolveAction_Inr:
  assumes "resolveAction t cs = Inr a"
  shows "\<exists>ai < length (t_Actions t). a = t_Actions t ! ai \<and>
    (ai = 0 \<and> a_State a = WSPending \<or>
     (\<exists>c. cs = Some c \<and> cur_State c \<in> {WSRunning, WSPending} \<and> a_ID a = cur_ActionID c) \<or>
     (\<exists>c. cs = Some c \<and> cur_State c = WSSuccess \<and> 0 < ai \<and> a_ID (t_Actions t ! (ai - 1)) = cur_ActionID c))"
proof (cases "isFirstAction t")
  case True
  with assms have "a = t_Actions t ! 0" "t_Actions t \<noteq> []" "a_State (t_Actions t ! 0) = WSPending"
    by (auto simp: resolveAction_def isFirstAction_def split: if_splits)
  then show ?thesis by (intro exI [of _ 0]) simp
next
  case False
  with assms obtain c where c: "cs = Some c"
    by (auto simp: resolveAction_def split: option.splits)
  show ?thesis
  proof (cases "cur_State c = WSRunning \<or> cur_State c = WSPending")
    case True
    with assms \<open>\<not> isFirstAction t\<close> c obtain i where
      "find_index (\<lambda>a. a_ID a = cur_ActionID c) (t_Actions t) = Some i" "a = t_Actions t ! i"
      by (auto simp: resolveAction_def split: option.splits)
    with True c show ?thesis
      by (intro exI [of _ i]) (auto simp: find_index_Some_iff)
  next
    case run: False
    with assms \<open>\<not> isFirstAction t\<close> c obtain i where succ: "cur_State c = WSSuccess" and
      i: "find_index (\<lambda>a. a_ID a = cur_ActionID c) (t_Actions t) = Some i"
        "i \<noteq> length (t_Actions t) - 1" "a = t_Actions t ! (i + 1)"
      by (auto simp: resolveAction_def split: option.splits if_splits)
    with c show ?thesis
      by (intro exI [of _ "i + 1"]) (auto simp: find_index_Some_iff)
  qed
qed

lemma choose_action_due:
  assumes "select_task wfl = Inr t" and "wf_tasks wfl \<noteq> []" and "choose_action agent t (wf_current wfl) = Inr a"
  shows "\<exists>ti ai. due agent wfl ti ai \<and> t = wf_tasks wfl ! ti \<and> a = t_Actions t ! ai"
proof -
  from select_task_Inr [OF assms(1,2)] obtain ti where
    ti: "ti < length (wf_tasks wfl)" "t = wf_tasks wfl ! ti" "\<forall>i < ti. isTaskSuccessful (wf_tasks wfl ! i)"
    by blast
  from assms(3) have "resolveAction t (wf_current wfl) = Inr a" and ag: "t_AgentID t = agent"
    by (auto simp: choose_action_def split: if_splits sum.splits)
  from resolveAction_Inr [OF this(1)] obtain ai where
    "ai < length (t_Actions t)" "a = t_Actions t ! ai"
    "ai = 0 \<and> a_State a = WSPending \<or>
     (\<exists>c. wf_current wfl = Some c \<and> cur_State c \<in> {WSRunning, WSPending} \<and> a_ID a = cur_ActionID c) \<or>
     (\<exists>c. wf_current wfl = Some c \<and> cur_State c = WSSuccess \<and> 0 < ai \<and> a_ID (t_Actions t ! (ai - 1)) = cur_ActionID c)"
    by blast
  with ti ag show ?thesis
    by (intro exI [of _ ti] exI [of _ ai]) (auto simp: due_def Let_def isTaskSuccessful_iff)
qed

lemma serve_workflow_Inr:
  assumes "serve_workflow h agent attrs hwRef wfl w = (Inr resp, w')" and "wf_tasks wfl \<noteq> []"
  shows "\<exists>ti ai w1. due agent wfl ti ai \<and>
    (let t = wf_tasks wfl ! ti; a = t_Actions t ! ai in
     resp = action_response agent wfl t a \<and>
     sb_UpdateWorkflow (h_Backend h) (set_current (serving_state agent t a) wfl) status_only w1 = (None, w'))"
proof -
  from assms(1) obtain t a w1 where t: "select_task wfl = Inr t"
    and a: "choose_action agent t (wf_current wfl) = Inr a"
    and u: "sb_UpdateWorkflow (h_Backend h) (set_current (serving_state agent t a) wfl) status_only w1 = (None, w')"
    and r: "resp = action_response agent wfl t a"
    by (auto simp: serve_workflow_def Let_def split: sum.splits prod.splits option.splits)
  from choose_action_due [OF t assms(2) a] obtain ti ai where
    "due agent wfl ti ai" "t = wf_tasks wfl ! ti" "a = t_Actions t ! ai" by blast
  with u r show ?thesis by (metis (no_types, lifting))
qed

text \<open>C16. An agent only ever gets the action it has to run next: when the server hands out an action
  without enrolling, some workflow listed for the agent is PENDING or RUNNING, the action is due in
  it for this agent, the answer describes exactly this action, and the server has recorded it as
  the current state of the workflow before answering.\<close>

theorem doGetAction_hands_out_due:
  assumes "doGetAction h req opts w = (Inr resp, w')" and "\<not> ac_EnrollmentEnabled opts"
  shows "\<exists>w1 wfs w2 wfl ti ai w3. let agent = get_str (rq_AgentId req); t = wf_tasks wfl ! ti; a = t_Actions t ! ai in
    agent \<noteq> [] \<and>
    sb_ListWorkflows (h_Backend h) (empty_WorkflowFilter\<lparr>wfil_ByAgentID := agent\<rparr>) w1 = (Inr wfs, w2) \<and>
    wfl \<in> set wfs \<and> wf_state wfl \<in> {WSPending, WSRunning} \<and> due agent wfl ti ai \<and>
    resp = action_response agent wfl t a \<and>
    sb_UpdateWorkflow (h_Backend h) (set_current (serving_state agent t a) wfl) status_only w3 = (None, w')"
proof -
  let ?agent = "get_str (rq_AgentId req)"
  from assms obtain hwRef w1 wfs w2 wfl where ag: "?agent \<noteq> []"
    and l: "sb_ListWorkflows (h_Backend h) (empty_WorkflowFilter\<lparr>wfil_ByAgentID := ?agent\<rparr>) w1 = (Inr wfs, w2)"
    and p: "pick_workflow wfs = Inr wfl"
    and s: "serve_workflow h ?agent (convert (rq_AgentAttributes req)) hwRef wfl w2 = (Inr resp, w')"
    unfolding doGetAction_def doGetAction_with_def Let_def
    by (auto split: if_splits prod.splits sum.splits)
  from pick_workflow_Inr [OF p] have wfl: "wfl \<in> set wfs" "wf_tasks wfl \<noteq> []" "wf_state wfl \<in> {WSPending, WSRunning}"
    by auto
  from serve_workflow_Inr [OF s wfl(2)] obtain ti ai w3 where
    "due ?agent wfl ti ai"
    "let t = wf_tasks wfl ! ti; a = t_Actions t ! ai in
     resp = action_response ?agent wfl t a \<and>
     sb_UpdateWorkflow (h_Backend h) (set_current (serving_state ?agent t a) wfl) status_only w3 = (None, w')"
    by blast
  with ag l wfl show ?thesis
    unfolding Let_def by blast
qed


section \<open>What a report does\<close>

lemma find_action_Some:
  assumes "find_action aid agent n ts = Some (ti, ai)"
  shows "n \<le> ti \<and> ti - n < length ts \<and> ai < length (t_Actions (ts ! (ti - n))) \<and>
    a_ID (t_Actions (ts ! (ti - n)) ! ai) = aid \<and> t_AgentID (ts ! (ti - n)) = agent"
  using assms
proof (induction aid agent n ts rule: find_action.induct)
  case (1 aid agent n)
  then show ?case by simp
next
  case (2 aid agent n t ts)
  show ?case
  proof (cases "find_index (\<lambda>a. a_ID a = aid \<and> t_AgentID t = agent) (t_Actions t)")
    case None
    with 2 have "Suc n \<le> ti \<and> ti - Suc n < length ts \<and> ai < length (t_Actions (ts ! (ti - Suc n))) \<and>
        a_ID (t_Actions (ts ! (ti - Suc n)) ! ai) = aid \<and> t_AgentID (ts ! (ti - Suc n)) = agent"
      by simp
    moreover from this have "(t # ts) ! (ti - n) = ts ! (ti - Suc n)" by (simp add: nth_Cons')
    ultimately show ?thesis by auto
  next
    case (Some i)
    with 2 show ?thesis by (auto simp: find_index_Some_iff)
  qed
qed

lemma find_action_None:
  "find_action aid agent n ts = None \<longleftrightarrow> (\<forall>t \<in> set ts. \<forall>a \<in> set (t_Actions t). \<not> (a_ID a = aid \<and> t_AgentID t = agent))"
proof (induction ts arbitrary: n)
  case (Cons t ts)
  show ?case
  proof (cases "find_index (\<lambda>a. a_ID a = aid \<and> t_AgentID t = agent) (t_Actions t)")
    case None
    then have "\<forall>a \<in> set (t_Actions t). \<not> (a_ID a = aid \<and> t_AgentID t = agent)"
      by (simp only: find_index_None_iff)
    with None show ?thesis using Cons.IH [of "n + 1"] by simp
  next
    case (Some i)
    then show ?thesis
      using find_index_None_iff [of "\<lambda>a. a_ID a = aid \<and> t_AgentID t = agent" "t_Actions t"] by auto
  qed
qed simp

lemma update_action_frame [simp]:
  "length (update_action ti ai f ts) = length ts"
  "length (t_Actions (update_action ti ai f ts ! i)) = length (t_Actions (ts ! i))"
  "t_AgentID (update_action ti ai f ts ! i) = t_AgentID (ts ! i)"
  "t_ID (update_action ti ai f ts ! i) = t_ID (ts ! i)"
  "t_Name (update_action ti ai f ts ! i) = t_Name (ts ! i)"
  by (cases "ti < length ts"; cases "i = ti"; simp add: update_action_def list_update_beyond)+

lemma update_action_nth:
  "ti < length ts \<Longrightarrow> ai < length (t_Actions (ts ! ti)) \<Longrightarrow>
   t_Actions (update_action ti ai f ts ! i) ! j =
     (if i = ti \<and> j = ai then f (t_Actions (ts ! ti) ! ai) else t_Actions (ts ! i) ! j)"
  by (cases "i = ti"; cases "j = ai") (simp_all add: update_action_def)

lemma apply_report_fields:
  "st_Tasks (apply_report req ti ai st) = update_action ti ai (reported_action req) (st_Tasks st)"
  "st_State (apply_report req ti ai st) =
     (if GetActionState req = ST_SUCCESS
      then (if length (st_Tasks st) = ti + 1 \<and> length (t_Actions (st_Tasks st ! ti)) = ai + 1 then WSPost else st_State st)
      else WorkflowState_of (StateType_String (GetActionState req)))"
  "st_AgentID (apply_report req ti ai st) = st_AgentID st"
  "st_CurrentState (apply_report req ti ai st) =
     Some \<lparr>cur_AgentID = get_str (sr_AgentId req), cur_TaskID = get_str (sr_TaskId req),
       cur_ActionID = get_str (sr_ActionId req),
       cur_State = WorkflowState_of (StateType_String (GetActionState req)),
       cur_ActionName = get_str (sr_ActionName req), cur_TaskName = t_Name (st_Tasks st ! ti)\<rparr>"
  by (simp_all add: apply_report_def Let_def)

text \<open>The workflow a report leads to, action by action.\<close>

definition report_effect :: "pb_ActionStatusRequest \<Rightarrow> nat \<Rightarrow> nat \<Rightarrow> Workflow \<Rightarrow> Workflow \<Rightarrow> bool" where
  "report_effect req ti ai wfl wfl' \<longleftrightarrow>
     length (wf_tasks wfl') = length (wf_tasks wfl) \<and>
     (\<forall>i. length (t_Actions (wf_tasks wfl' ! i)) = length (t_Actions (wf_tasks wfl ! i))) \<and>
     (\<forall>i j. t_Actions (wf_tasks wfl' ! i) ! j =
        (if i = ti \<and> j = ai then reported_action req (t_Actions (wf_tasks wfl ! ti) ! ai)
         else t_Actions (wf_tasks wfl ! i) ! j)) \<and>
     (wf_state wfl' =
        (if GetActionState req \<noteq> ST_SUCCESS then a_State (t_Actions (wf_tasks wfl' ! ti) ! ai)
         else if ti = length (wf_tasks wfl) - 1 \<and> ai = length (t_Actions (wf_tasks wfl ! ti)) - 1 then WSPost
         else wf_state wfl)) \<and>
     (\<exists>cs. wf_current wfl' = Some cs \<and> cur_ActionID cs = a_ID (t_Actions (wf_tasks wfl ! ti) ! ai) \<and>
        cur_State cs = a_State (t_Actions (wf_tasks wfl' ! ti) ! ai)) \<and>
     Workflow_Spec wfl' = Workflow_Spec wfl \<and> Name wfl' = Name wfl \<and> Namespace wfl' = Namespace wfl"

lemma apply_report_effect:
  assumes "find_action (get_str (sr_ActionId req)) (get_str (sr_AgentId req)) 0 (wf_tasks wfl) = Some (ti, ai)"
  shows "report_effect req ti ai wfl (on_status (apply_report req ti ai) wfl)"
proof -
  from find_action_Some [OF assms] have ti: "ti < length (wf_tasks wfl)" and ai: "ai < length (t_Actions (wf_tasks wfl ! ti))"
    and id: "a_ID (t_Actions (wf_tasks wfl ! ti) ! ai) = get_str (sr_ActionId req)"
    by simp_all
  have "length (wf_tasks wfl) = Suc ti \<longleftrightarrow> ti = length (wf_tasks wfl) - 1"
    and "length (t_Actions (wf_tasks wfl ! ti)) = Suc ai \<longleftrightarrow> ai = length (t_Actions (wf_tasks wfl ! ti)) - 1"
    using ti ai by auto
  with ti ai id show ?thesis
    by (simp add: report_effect_def on_status_def apply_report_fields update_action_nth reported_action_def)
qed



section \<open>The environment of an action\<close>

lemma image_dom_map: "(\<lambda>k. f k (get_str (m k))) ` dom m = {f k v | k v. m k = Some v}"
  by (auto simp: dom_def image_def) (metis get_str_simps(2))+

text \<open>C22. The environment sent with an action is sorted, lists every variable of the task and of the
  action once, and gives the action's value where both define one.\<close>

theorem env_strings_correct:
  "sorted (env_strings te ae) \<and>
   set (env_strings te ae) = {k @ ''='' @ v | k v.
      map_of ae k = Some v \<or> map_of ae k = None \<and> map_of te k = Some v} \<and>
   length (env_strings te ae) = card (fst ` set te \<union> fst ` set ae)"
proof (intro conjI)
  show "sorted (env_strings te ae)" by (simp add: env_strings_def)
  have iff: "joined_env te ae k = Some v \<longleftrightarrow> map_of ae k = Some v \<or> map_of ae k = None \<and> map_of te k = Some v" for k v
    by (simp add: joined_env_def map_add_Some_iff)
  have dom: "fst ` set te \<union> fst ` set ae = dom (joined_env te ae)"
    by (simp add: joined_env_def dom_map_of_conv_image_fst Un_commute)
  have "set (env_strings te ae) = (\<lambda>k. k @ ''='' @ get_str (joined_env te ae k)) ` dom (joined_env te ae)"
    by (simp add: env_strings_def flip: dom)
  also have "\<dots> = {k @ ''='' @ v | k v. joined_env te ae k = Some v}"
    by (rule image_dom_map)
  finally show "set (env_strings te ae) = {k @ ''='' @ v | k v.
      map_of ae k = Some v \<or> map_of ae k = None \<and> map_of te k = Some v}"
    by (simp only: iff)
  have "length (env_strings te ae) = card (set (map fst te @ map fst ae))"
    by (simp add: env_strings_def length_remdups_card_conv)
  then show "length (env_strings te ae) = card (fst ` set te \<union> fst ` set ae)" by simp
qed


section \<open>Choosing a rule set\<close>

text \<open>How many rules of a rule set the attributes match; 0 when the engine reports an error.\<close>

definition match_count :: "quamina \<Rightarrow> AgentAttributes option \<Rightarrow> WorkflowRuleSet \<Rightarrow> nat" where
  "match_count q attr wr = (case findMatch q wr attr 0 of Inr (Some m) \<Rightarrow> fst m | _ \<Rightarrow> 0)"

lemma findMatch_count:
  "(case findMatch q wr attr n of Inr (Some m) \<Rightarrow> Some m | _ \<Rightarrow> None) =
     (if match_count q attr wr > n then Some (match_count q attr wr, wr) else None)"
  by (simp add: findMatch_def match_count_def split: sum.splits)

lemma best_match_Cons:
  "best_match q attr final (wr # wrs) =
     best_match q attr
       (if match_count q attr wr > (case final of None \<Rightarrow> 0 | Some m \<Rightarrow> fst m)
        then Some (match_count q attr wr, wr) else final) wrs"
  using findMatch_count [of q wr attr "case final of None \<Rightarrow> 0 | Some m \<Rightarrow> fst m"]
  by (auto split: sum.splits option.splits if_splits)

definition first_best :: "(WorkflowRuleSet \<Rightarrow> nat) \<Rightarrow> WorkflowRuleSet list \<Rightarrow> nat \<times> WorkflowRuleSet \<Rightarrow> bool" where
  "first_best c wrs r \<longleftrightarrow>
     (\<exists>xs ys. wrs = xs @ snd r # ys \<and> fst r = c (snd r) \<and> 0 < fst r \<and>
        (\<forall>x \<in> set xs. c x < fst r) \<and> (\<forall>y \<in> set ys. c y \<le> fst r))"

lemma first_best_new: "\<forall>y \<in> set xs. c y < c x \<Longrightarrow> first_best c (xs @ [x]) (c x, x)" if "0 < c x"
  unfolding first_best_def using that by (intro exI [of _ xs] exI [of _ "[]"]) auto

lemma first_best_snoc:
  assumes "first_best c xs r"
  shows "first_best c (xs @ [x]) (if c x > fst r then (c x, x) else r)"
proof (cases "c x > fst r")
  case True
  have "\<forall>y \<in> set xs. c y < c x"
    using assms True unfolding first_best_def
    by (metis (no_types, lifting) Un_iff le_less_trans less_trans order_refl set_ConsD set_append)
  with True show ?thesis by (simp add: first_best_new)
next
  case False
  with assms show ?thesis
    unfolding first_best_def by auto (metis append.assoc append_Cons not_less set_append Un_iff set_ConsD list.set_intros(1) empty_iff list.set(1))
qed

lemma best_match_invariant:
  "(case final of None \<Rightarrow> \<forall>x \<in> set xs. match_count q attr x = 0 | Some r \<Rightarrow> first_best (match_count q attr) xs r) \<Longrightarrow>
   (case best_match q attr final wrs of None \<Rightarrow> \<forall>x \<in> set (xs @ wrs). match_count q attr x = 0
    | Some r \<Rightarrow> first_best (match_count q attr) (xs @ wrs) r)"
proof (induction wrs arbitrary: final xs)
  case Nil
  then show ?case by (simp only: best_match.simps append_Nil2)
next
  case (Cons wr wrs)
  let ?c = "match_count q attr"
  define nxt where "nxt = (if ?c wr > (case final of None \<Rightarrow> 0 | Some m \<Rightarrow> fst m) then Some (?c wr, wr) else final)"
  have "case nxt of None \<Rightarrow> \<forall>x \<in> set (xs @ [wr]). ?c x = 0 | Some r \<Rightarrow> first_best ?c (xs @ [wr]) r"
  proof (cases final)
    case None
    with Cons.prems show ?thesis by (auto simp: nxt_def first_best_new)
  next
    case (Some r)
    with Cons.prems first_best_snoc [of ?c xs r wr] show ?thesis by (auto simp: nxt_def split: if_splits)
  qed
  from Cons.IH [OF this] show ?case
    unfolding best_match_Cons nxt_def [symmetric] append_assoc append_Cons append_Nil .
qed

text \<open>C20. Enrollment uses the first rule set with the most matching rules: the loop finds none exactly
  when no rule set matches at all, and otherwise one that matches more rules than every rule set
  before it and at least as many as every rule set after it. A rule set with a rule the engine
  rejects counts as not matching and does not stop the search.\<close>

theorem best_match_correct:
  "case best_match q attr None wrs of
     None \<Rightarrow> \<forall>wr \<in> set wrs. match_count q attr wr = 0
   | Some (n, rs) \<Rightarrow> (\<exists>xs ys. wrs = xs @ rs # ys \<and> n = match_count q attr rs \<and> 0 < n \<and>
        (\<forall>x \<in> set xs. match_count q attr x < n) \<and> (\<forall>y \<in> set ys. match_count q attr y \<le> n))"
  using best_match_invariant [of "[]" q attr None wrs]
  by (cases "best_match q attr None wrs") (simp_all add: first_best_def case_prod_unfold)


section \<open>Discovery\<close>

lemma disk_devices_correct:
  "disk_devices ds =
     (if \<exists>d \<in> set ds. get_str (dBlock_Size d) \<noteq> [] \<and> dBlock_Name d = None
      then Inl (PanicError ''nil pointer dereference'')
      else Inr (map (\<lambda>d. ''/dev/'' @ get_str (dBlock_Name d)) (filter (\<lambda>d. get_str (dBlock_Size d) \<noteq> []) ds)))"
  by (induction ds rule: disk_devices.induct) (auto split: option.splits)

lemma marshal_Inr: "\<exists>a. json_Marshal x = Inr a"
  by (simp add: json_Marshal_def)

text \<open>C21. Discovery leaves an existing Hardware object alone, and creates one only when the lookup says
  there is none. The object created carries the agent's identifier, the configured enrollment flag,
  a device for every disk with a size, an interface for every valid MAC address, and an attribute
  annotation of at most 64 KiB; the copy handed on to enrollment differs from it only in being
  enabled for enrollment.\<close>

theorem Discover_result:
  assumes "Discover h agentID attrs w = (Inr hw, w')"
    and "sb_DiscoveryFilterHardware (h_Backend h) (empty_HardwareFilter\<lparr>hf_ByAgentID := agentID\<rparr>) w = (r, w1)"
  shows "case r of
      Inr existing \<Rightarrow> hw = existing \<and> w' = w1
    | Inl e \<Rightarrow> hardwareNotFound e \<and> \<not> foundMultipleHardware e \<and>
        (\<exists>new. sb_CreateHardware (h_Backend h) new w1 = (None, w') \<and> hw = enrollment_enabled new \<and>
          makeValidName agentID discoveryPrefix = Inr (Name new) \<and> Namespace new = ac_Namespace (h_AutoCapabilities h) \<and>
          hw_AgentID (Hardware_Spec new) = agentID \<and>
          hw_EnrollmentEnabled (Hardware_Spec new) = ac_HardwareEnrollmentEnabled (h_AutoCapabilities h) \<and>
          length (get_str (Annotations new AttributesAnnotation)) \<le> 65536 \<and>
          (\<forall>a. attrs = Some a \<longrightarrow>
             hw_Disks (Hardware_Spec new) =
               map (\<lambda>d. ''/dev/'' @ get_str (dBlock_Name d)) (filter (\<lambda>d. get_str (dBlock_Size d) \<noteq> []) (aa_BlockDevices a)) \<and>
             hw_Interfaces (Hardware_Spec new) = mac_interfaces (aa_NetworkInterfaces a)))"
proof (cases r)
  case (Inr existing)
  with assms show ?thesis
    by (auto simp: Discover_def Let_def split: sum.splits)
next
  case (Inl e)
  let ?ac = "h_AutoCapabilities h"
  from assms Inl obtain n new where n: "makeValidName agentID discoveryPrefix = Inr n"
    and e: "hardwareNotFound e" "\<not> foundMultipleHardware e"
    and u: "updateHardware (discovered_hardware ?ac n agentID attrs) attrs = Inr new"
    and c: "sb_CreateHardware (h_Backend h) new w1 = (None, w')" and hw: "hw = enrollment_enabled new"
    by (auto simp: Discover_def Let_def split: sum.splits if_splits prod.splits option.splits)
  have ann: "length (get_str (Annotations (discovered_hardware ?ac n agentID attrs) AttributesAnnotation)) \<le> 65536"
    using marshal_Inr [of attrs] by (auto simp: discovered_hardware_def maxAnnotationSize_def)
  have "Name new = n \<and> Namespace new = ac_Namespace ?ac \<and> hw_AgentID (Hardware_Spec new) = agentID \<and>
      hw_EnrollmentEnabled (Hardware_Spec new) = ac_HardwareEnrollmentEnabled ?ac \<and>
      Annotations new = Annotations (discovered_hardware ?ac n agentID attrs) \<and>
      (\<forall>a. attrs = Some a \<longrightarrow>
         hw_Disks (Hardware_Spec new) =
           map (\<lambda>d. ''/dev/'' @ get_str (dBlock_Name d)) (filter (\<lambda>d. get_str (dBlock_Size d) \<noteq> []) (aa_BlockDevices a)) \<and>
         hw_Interfaces (Hardware_Spec new) = mac_interfaces (aa_NetworkInterfaces a))"
    using u
    by (cases attrs)
      (auto simp: updateHardware_def disk_devices_correct discovered_hardware_def empty_HardwareSpec_def
        empty_Hardware_def split: if_splits)
  with Inl n e c hw ann show ?thesis by auto
qed

text \<open>Discovery panics when no object exists yet and the agent reported a disk with a size but no
  name. The panic leaves \<open>doGetAction\<close>, so the agent gets no action, while an error of discovery is
  dropped in order not to disrupt workflows.\<close>

theorem discovery_panic:
  assumes "makeValidName agentID discoveryPrefix = Inr n"
    and "sb_DiscoveryFilterHardware (h_Backend h) (empty_HardwareFilter\<lparr>hf_ByAgentID := agentID\<rparr>) w = (Inl e, w1)"
    and "hardwareNotFound e" and "\<not> foundMultipleHardware e"
    and "convert (rq_AgentAttributes req) = Some a" and "d \<in> set (aa_BlockDevices a)"
    and "get_str (dBlock_Size d) \<noteq> []" and "dBlock_Name d = None"
    and "rq_AgentId req = Some agentID" and "agentID \<noteq> []" and "ac_DiscoveryEnabled opts" and "\<not> sb_done (h_Backend h) w"
  shows "doGetAction h req opts w = (Inl (PanicError ''nil pointer dereference''), w1)"
proof -
  have "updateHardware ob (Some a) = Inl (PanicError ''nil pointer dereference'')" for ob
    using assms(6-8) by (auto simp: updateHardware_def disk_devices_correct)
  then have "Discover h agentID (Some a) w = (Inl (PanicError ''nil pointer dereference''), w1)"
    using assms(1-4) by (simp add: Discover_def Let_def)
  then show ?thesis
    using assms(5,9-12) by (simp add: doGetAction_def doGetAction_with_def Let_def)
qed


section \<open>Examples\<close>

text \<open>A backend that holds one workflow and no hardware, and a workflow of two actions.\<close>

definition one_backend :: "Workflow server_backend" where
  "one_backend =
     \<lparr>sb_done = (\<lambda>w. False), sb_ListWorkflows = (\<lambda>f w. (Inr [w], w)), sb_ReadWorkflow = (\<lambda>n ns w. (Inr w, w)),
      sb_UpdateWorkflow = (\<lambda>wfl u w. (None, wfl)),
      sb_ReadHardware = (\<lambda>n ns w. (Inl (HardwareNotFoundError []), w)),
      sb_FilterHardware = (\<lambda>f w. (Inl (HardwareNotFoundError []), w)),
      sb_UpdateHardware = (\<lambda>ob u w. (None, w)), sb_ListWorkflowRuleSets = (\<lambda>f w. (Inr [], w)),
      sb_CreateWorkflow = (\<lambda>wfl w. (None, wfl)), sb_CreateHardware = (\<lambda>ob w. (None, w)),
      sb_DiscoveryFilterHardware = (\<lambda>f w. (Inl (HardwareNotFoundError []), w))\<rparr>"

definition one_handler :: "Workflow Handler" where
  "one_handler =
     \<lparr>h_Backend = one_backend, h_AutoCapabilities = no_auto, h_RetryOptions = [],
      h_quamina = \<lparr>qm_AddPattern = (\<lambda>ps p. None), qm_MatchesForEvent = (\<lambda>ps ev. Inr [])\<rparr>,
      h_Retry = (\<lambda>opts f. f), h_RetryStatus = (\<lambda>opts f. f)\<rparr>"

definition sample_action :: "string \<Rightarrow> Action" where
  "sample_action i = \<lparr>a_ID = i, a_Name = i, a_Image = ''img'', a_Timeout = 60, a_Command = [], a_Volumes = [],
     a_Pid = [], a_Namespaces = None, a_Environment = [], a_State = WSPending, a_ExecutionStart = None,
     a_ExecutionStop = None, a_ExecutionDuration = [], a_Message = []\<rparr>"

definition sample_workflow :: Workflow where
  "sample_workflow =
     \<lparr>APIVersion = [], Kind = [], Name = ''wf'', Namespace = ''ns'', UID = [], DeletionTimestamp = None,
      Labels = Map.empty, Annotations = Map.empty, OwnerReferences = [],
      Workflow_Spec = \<lparr>ws_Disabled = None, ws_TemplateRef = ''t'', ws_HardwareRef = [], ws_HardwareMap = [],
        ws_BootOptions = zero_BootOptions\<rparr>,
      Workflow_Status = empty_WorkflowStatus
        \<lparr>st_State := WSPending, st_AgentID := ''ag'',
         st_Tasks := [\<lparr>t_ID = ''t1'', t_Name = ''t1'', t_AgentID = ''ag'',
           t_Actions = [sample_action ''a1'', sample_action ''a2''], t_Volumes = [], t_Environment = []\<rparr>]\<rparr>\<rparr>"

definition sample_report :: "string \<Rightarrow> StateType \<Rightarrow> pb_ActionStatusRequest" where
  "sample_report i s = \<lparr>sr_WorkflowId = Some ''ns/wf'', sr_AgentId = Some ''ag'', sr_TaskId = Some ''t1'',
     sr_ActionId = Some i, sr_ActionName = Some i, sr_ActionState = Some s, sr_ExecutionStart = None,
     sr_ExecutionStop = None, sr_ExecutionDuration = None, sr_Message = None\<rparr>"

lemmas sample_defs = one_backend_def one_handler_def sample_action_def sample_workflow_def empty_WorkflowStatus_def
  zero_BootOptions_def no_auto_def

lemma sample_served:
  "\<exists>w'. doGetAction one_handler \<lparr>rq_AgentId = Some ''ag'', rq_AgentAttributes = None\<rparr> no_auto sample_workflow =
     (Inr (action_response ''ag'' sample_workflow (wf_tasks sample_workflow ! 0) (sample_action ''a1'')), w')"
  by (simp add: sample_defs doGetAction_def doGetAction_with_def Let_def serve_workflow_def select_task_def isFirstAction_def
      choose_action_def resolveAction_def resolveAndAnnotateHardware_def convert_def)

theorem doGetAction_hands_out_due_witness:
  "\<exists>resp w' wfl ti ai.
     doGetAction one_handler \<lparr>rq_AgentId = Some ''ag'', rq_AgentAttributes = None\<rparr> no_auto sample_workflow = (Inr resp, w') \<and>
     due ''ag'' wfl ti ai \<and> resp = action_response ''ag'' wfl (wf_tasks wfl ! ti) (t_Actions (wf_tasks wfl ! ti) ! ai)"
proof -
  obtain w' resp where s: "doGetAction one_handler \<lparr>rq_AgentId = Some ''ag'', rq_AgentAttributes = None\<rparr> no_auto sample_workflow = (Inr resp, w')"
    using sample_served by blast
  have "\<not> ac_EnrollmentEnabled no_auto" by (simp add: no_auto_def)
  from doGetAction_hands_out_due [OF s this] s show ?thesis
    by (simp add: Let_def) blast
qed


definition sample_rules :: "string list \<Rightarrow> WorkflowRuleSet" where
  "sample_rules rs = \<lparr>APIVersion = [], Kind = [], Name = [], Namespace = [], UID = [], DeletionTimestamp = None,
     Labels = Map.empty, Annotations = Map.empty, OwnerReferences = [], wrs_Rules = rs,
     wrs_Workflow = \<lparr>wrw_Disabled = None, wrw_Namespace = [], wrw_AddAttributes = False,
       wrw_Template = \<lparr>tcfg_AgentValue = [], tcfg_KVs = [], tcfg_Ref = []\<rparr>\<rparr>\<rparr>"

definition match_all :: quamina where
  "match_all = \<lparr>qm_AddPattern = (\<lambda>ps p. None), qm_MatchesForEvent = (\<lambda>ps ev. Inr (map fst ps))\<rparr>"

lemma sample_match_counts:
  "match_count match_all None (sample_rules [''a'']) = 1" "match_count match_all None (sample_rules [''a'', ''b'']) = 2"
  by (simp_all add: match_count_def match_all_def findMatch_def sample_rules_def Let_def)

theorem best_match_correct_witness:
  "\<exists>n rs. best_match match_all None None [sample_rules [''a''], sample_rules [''a'', ''b'']] = Some (n, rs) \<and>
     n = match_count match_all None rs \<and> 0 < n"
  using best_match_correct [where q = match_all and attr = None and wrs = "[sample_rules [''a''], sample_rules [''a'', ''b'']]"] sample_match_counts
  by (auto split: option.splits)

lemma sample_name: "makeValidName ''ag'' discoveryPrefix = Inr ''discovery-ag''"
proof -
  have trim: "TrimSpace ''ag'' = ''ag''"
    by (simp add: TrimSpace_def trim_front.simps space_at_def unicode_spaces_def has_prefix_def)
  have ends: "ensure_ends ''discovery-ag'' = ''discovery-ag''" by (simp add: ensure_ends_def char_class_defs)
  have hy: "hyphenate ''discovery-ag'' = ''discovery-ag''" by (simp add: hyphenate_def char_class_defs)
  have sq: "squeeze ''discovery-ag'' = ''discovery-ag''" by simp
  have th: "trim_hyphens ''discovery-ag'' = ''discovery-ag''" by (simp add: trim_hyphens_def)
  have low: "to_lower ''discovery-ag'' = ''discovery-ag''" by (simp add: to_lower_def lower_char_def char_class_defs)
  have ok: "isValid ''discovery-ag'' = None" by (simp add: isValid_def char_class_defs has_prefix_def)
  show ?thesis
    by (simp add: makeValidName_def discoveryPrefix_def trim ends hy sq th low ok del: squeeze.simps)
qed

lemma sample_lookup:
  "sb_DiscoveryFilterHardware (h_Backend one_handler) f w = (Inl (HardwareNotFoundError []), w)"
  by (simp add: sample_defs)

lemma sample_lookup_kind: "hardwareNotFound (HardwareNotFoundError [])" "\<not> foundMultipleHardware (HardwareNotFoundError [])"
  by (simp_all add: hardwareNotFound_def foundMultipleHardware_def)

theorem Discover_result_witness:
  "\<exists>hw. Discover one_handler ''ag'' None sample_workflow = (Inr hw, sample_workflow) \<and>
     (\<exists>new. hw = enrollment_enabled new \<and> hw_AgentID (Hardware_Spec new) = ''ag'')"
proof -
  have "\<exists>hw. Discover one_handler ''ag'' None sample_workflow = (Inr hw, sample_workflow)"
    by (simp add: Discover_def Let_def sample_name sample_lookup sample_lookup_kind updateHardware_def)
      (simp add: sample_defs)
  then obtain hw where d: "Discover one_handler ''ag'' None sample_workflow = (Inr hw, sample_workflow)" by blast
  from Discover_result [OF d sample_lookup] d show ?thesis by auto
qed

definition sized_disk :: data_Block where
  "sized_disk = \<lparr>dBlock_Name = None, dBlock_ControllerType = None, dBlock_DriveType = None, dBlock_Size = Some ''1GB'',
     dBlock_PhysicalBlockSize = None, dBlock_Vendor = None, dBlock_Model = None, dBlock_WWN = None, dBlock_SerialNumber = None\<rparr>"

theorem discovery_panic_witness:
  "doGetAction one_handler
     \<lparr>rq_AgentId = Some ''ag'', rq_AgentAttributes = ToProto (Some (NewAgentAttributes\<lparr>aa_BlockDevices := [sized_disk]\<rparr>))\<rparr>
     (no_auto\<lparr>ac_DiscoveryEnabled := True\<rparr>) sample_workflow =
   (Inl (PanicError ''nil pointer dereference''), sample_workflow)"
proof (rule discovery_panic [OF sample_name sample_lookup sample_lookup_kind])
  let ?a = "NewAgentAttributes\<lparr>aa_BlockDevices := [sized_disk]\<rparr>"
  show "convert (rq_AgentAttributes \<lparr>rq_AgentId = Some ''ag'', rq_AgentAttributes = ToProto (Some ?a)\<rparr>) = Some (with_defaults ?a)"
    unfolding pb_ActionRequest.simps by (rule attrs_convert)
  show "sized_disk \<in> set (aa_BlockDevices (with_defaults ?a))" by (simp add: with_defaults_def)
  show "get_str (dBlock_Size sized_disk) \<noteq> []" "dBlock_Name sized_disk = None" by (simp_all add: sized_disk_def)
qed (simp_all add: one_handler_def one_backend_def)

end
