(* ===== verification/Agent.thy ===== *)
theory Agent
  imports Server
begin

text \<open>
  The Tink agent, \<open>src/tink/agent\<close>: the loop that reads an action, runs it and reports its outcome
  (\<open>agent.go\<close>), the gRPC transport with its conversions (\<open>internal/transport/grpc\<close>), the container
  name and environment of an action (\<open>internal/pkg/conv\<close>) and the flag values. Transport and
  runtime are records of operations on an abstract world, as the interfaces of the source are.
\<close>


section \<open>Actions and events\<close>

record spec_Env =
  se_Key :: string
  se_Value :: string

record spec_Namespaces =
  sn_Network :: string
  sn_PID :: string

record spec_Action =
  sa_AgentID :: string
  sa_TaskID :: string
  sa_WorkflowID :: string
  sa_ID :: string
  sa_Name :: string
  sa_Image :: string
  sa_Cmd :: string
  sa_Args :: "string list"
  sa_Env :: "spec_Env list"
  sa_Volumes :: "string list"
  sa_Namespaces :: spec_Namespaces
  sa_Retries :: int
  sa_TimeoutSeconds :: int
  sa_ExecutionStart :: time
  sa_ExecutionStop :: time
  sa_ExecutionDuration :: string

datatype spec_State = StateSuccess | StateFailure | StateRunning | StateTimeout | StateUnknown

record spec_Event =
  ev_Action :: spec_Action
  ev_Message :: string
  ev_State :: spec_State


section \<open>The gRPC transport\<close>

record 'w tink_client =
  tc_GetAction :: "pb_ActionRequest \<Rightarrow> 'w \<Rightarrow> (gerr + pb_ActionResponse) \<times> 'w"
  tc_ReportActionStatus :: "pb_ActionStatusRequest \<Rightarrow> 'w \<Rightarrow> gerr option \<times> 'w"

text \<open>\<open>strings.SplitN\<close> at the first \<open>=\<close>.\<close>

definition parse_env :: "string \<Rightarrow> spec_Env" where
  "parse_env v = (case cut_char CHR ''='' v of (k, r, found) \<Rightarrow>
     if found then \<lparr>se_Key = k, se_Value = r\<rparr> else \<lparr>se_Key = v, se_Value = []\<rparr>)"

definition spec_action :: "pb_ActionResponse \<Rightarrow> spec_Action" where
  "spec_action r =
     \<lparr>sa_AgentID = get_str (rs_AgentId r), sa_TaskID = get_str (rs_TaskId r), sa_WorkflowID = get_str (rs_WorkflowId r),
      sa_ID = get_str (rs_ActionId r), sa_Name = get_str (rs_Name r), sa_Image = get_str (rs_Image r), sa_Cmd = [],
      sa_Args = rs_Command r, sa_Env = map parse_env (rs_Environment r), sa_Volumes = rs_Volumes r,
      sa_Namespaces = (case rs_Namespaces r of
          None \<Rightarrow> \<lparr>sn_Network = [], sn_PID = get_str (rs_Pid r)\<rparr>
        | Some ns \<Rightarrow> \<lparr>sn_Network = get_str (pns_Network ns),
            sn_PID = (if get_str (pns_Pid ns) \<noteq> [] then get_str (pns_Pid ns) else get_str (rs_Pid r))\<rparr>),
      sa_Retries = 0, sa_TimeoutSeconds = (case rs_Timeout r of None \<Rightarrow> 0 | Some t \<Rightarrow> t),
      sa_ExecutionStart = zero_time, sa_ExecutionStop = zero_time, sa_ExecutionDuration = []\<rparr>"

text \<open>No server of this repository attaches details to a status, so only the code is looked at.\<close>

definition isPFVNoActionsAvailable :: "gerr \<Rightarrow> bool" where
  "isPFVNoActionsAvailable e \<longleftrightarrow> status_code e = CodeFailedPrecondition"

definition doRead :: "'w tink_client \<Rightarrow> string \<Rightarrow> AgentAttributes option \<Rightarrow> 'w \<Rightarrow> (gerr + spec_Action) \<times> 'w" where
  "doRead c agentID attrs w =
     (case tc_GetAction c \<lparr>rq_AgentId = Some agentID, rq_AgentAttributes = ToProto attrs\<rparr> w of
        (Inl e, w1) \<Rightarrow>
          if status_code e = CodeNotFound then (Inl NoWorkflowError, w1)
          else if isPFVNoActionsAvailable e then (Inl (NoActionsError ''no actions available'' e), w1)
          else (Inl (errorf ''error getting action: '' e), w1)
      | (Inr r, w1) \<Rightarrow> (Inr (spec_action r), w1))"

fun specToProto :: "spec_State \<Rightarrow> StateType" where
  "specToProto StateRunning = ST_RUNNING"
| "specToProto StateSuccess = ST_SUCCESS"
| "specToProto StateFailure = ST_FAILED"
| "specToProto StateTimeout = ST_TIMEOUT"
| "specToProto StateUnknown = ST_UNSPECIFIED"

definition status_request :: "spec_Event \<Rightarrow> pb_ActionStatusRequest" where
  "status_request ev =
     (let a = ev_Action ev in
      \<lparr>sr_WorkflowId = Some (sa_WorkflowID a), sr_AgentId = Some (sa_AgentID a), sr_TaskId = Some (sa_TaskID a),
       sr_ActionId = Some (sa_ID a), sr_ActionName = Some (sa_Name a),
       sr_ActionState = Some (specToProto (ev_State ev)), sr_ExecutionStart = Some (sa_ExecutionStart a),
       sr_ExecutionStop = Some (sa_ExecutionStop a), sr_ExecutionDuration = Some (sa_ExecutionDuration a),
       sr_Message = Some (Some (ev_Message ev))\<rparr>)"

text \<open>The argument \<open>pr\<close> prints the request, for the text of an error.\<close>

definition doWrite ::
  "(pb_ActionStatusRequest \<Rightarrow> string) \<Rightarrow> 'w tink_client \<Rightarrow> spec_Event \<Rightarrow> 'w \<Rightarrow> gerr option \<times> 'w" where
  "doWrite pr c ev w =
     (case tc_ReportActionStatus c (status_request ev) w of
        (None, w1) \<Rightarrow> (None, w1)
      | (Some e, w1) \<Rightarrow>
          if status_code e \<in> {CodeNotFound, CodeInvalidArgument, CodeFailedPrecondition}
          then (Some (PermanentError e), w1)
          else (Some (errorf (''error reporting action: '' @ pr (status_request ev) @ '': '') e), w1))"


section \<open>Durations\<close>

definition add_part :: "int \<Rightarrow> int \<Rightarrow> string \<Rightarrow> string list \<Rightarrow> string list" where
  "add_part precision n unit parts =
     (if n > 0 \<and> int (length parts) < precision then parts @ [string_of_int n @ unit] else parts)"

definition humanDuration :: "duration \<Rightarrow> int \<Rightarrow> string" where
  "humanDuration nanos precision =
     (let hours = go_quot nanos 3600000000000; r1 = go_rem nanos 3600000000000;
          minutes = go_quot r1 60000000000; r2 = go_rem r1 60000000000;
          seconds = go_quot r2 1000000000; r3 = go_rem r2 1000000000;
          milliseconds = go_quot r3 1000000; r4 = go_rem r3 1000000;
          microseconds = go_quot r4 1000; nanoseconds = go_rem r4 1000
      in join_str [] (add_part precision nanoseconds ''ns'' (add_part precision microseconds ''us''
           (add_part precision milliseconds ''ms'' (add_part precision seconds ''s''
             (add_part precision minutes ''m'' (add_part precision hours ''h'' [])))))))"


section \<open>The loop\<close>

record 'w agent_env =
  ae_Done :: "'w \<Rightarrow> bool"
  ae_Now :: "'w \<Rightarrow> time"
  ae_Sleep :: "'w \<Rightarrow> 'w"
  ae_Read :: "'w \<Rightarrow> (gerr + spec_Action) \<times> 'w"
  ae_Write :: "spec_Event \<Rightarrow> 'w \<Rightarrow> gerr option \<times> 'w"
  ae_Execute :: "time \<Rightarrow> spec_Action \<Rightarrow> 'w \<Rightarrow> gerr option \<times> 'w"
  ae_RetryWrite :: "('w \<Rightarrow> gerr option \<times> 'w) \<Rightarrow> 'w \<Rightarrow> gerr option \<times> 'w"

fun isNoAction :: "gerr \<Rightarrow> bool" where
  "isNoAction (NoActionsError t e) = True"
| "isNoAction e = False"

text \<open>The attempts that are left after the current one are counted down.\<close>

fun execute_loop :: "'w agent_env \<Rightarrow> time \<Rightarrow> spec_Action \<Rightarrow> nat \<Rightarrow> 'w \<Rightarrow> spec_State \<times> 'w" where
  "execute_loop env deadline a 0 w = (StateSuccess, w)"
| "execute_loop env deadline a (Suc k) w =
     (case ae_Execute env deadline a w of
        (None, w1) \<Rightarrow> (StateSuccess, w1)
      | (Some e, w1) \<Rightarrow>
          if errors_Is DeadlineExceeded e then (StateTimeout, w1)
          else if k = 0 then (StateFailure, w1)
          else execute_loop env deadline a k w1)"

definition retries_of :: "spec_Action \<Rightarrow> nat" where
  "retries_of a = nat (if sa_Retries a = 0 then 1 else sa_Retries a)"

text \<open>What an iteration leaves behind: the loop has returned, or goes on with or without backing off
  first.\<close>

datatype agent_next = Returned | Again bool

definition report_event :: "spec_Action \<Rightarrow> string \<Rightarrow> spec_State \<Rightarrow> spec_Event" where
  "report_event a m s = \<lparr>ev_Action = a, ev_Message = m, ev_State = s\<rparr>"

text \<open>Running the action and reporting its outcome, after the agent has reported that it started.\<close>

definition run_action :: "'w agent_env \<Rightarrow> spec_Action \<Rightarrow> 'w \<Rightarrow> agent_next \<times> 'w" where
  "run_action env action w =
     (let start = ae_Now env w;
          a1 = action\<lparr>sa_ExecutionStart := start\<rparr>;
          deadline = start + i64 (sa_TimeoutSeconds a1 * second) in
      case execute_loop env deadline a1 (retries_of a1) w of (state, w1) \<Rightarrow>
        (let stop = ae_Now env w1;
             a2 = a1\<lparr>sa_ExecutionStop := stop, sa_ExecutionDuration := humanDuration (sat64 (stop - start)) 2\<rparr> in
         case ae_RetryWrite env (ae_Write env (report_event a2 ''action completed'' state)) w1 of
           (Some e, w2) \<Rightarrow> (Returned, w2)
         | (None, w2) \<Rightarrow> (Again False, w2)))"

definition agent_iteration :: "'w agent_env \<Rightarrow> bool \<Rightarrow> 'w \<Rightarrow> agent_next \<times> 'w" where
  "agent_iteration env backing_off w =
     (if ae_Done env w then (Returned, w)
      else
        (let w1 = (if backing_off then ae_Sleep env w else w) in
         if backing_off \<and> ae_Done env w1 then (Returned, w1)
         else
           (case ae_Read env w1 of
              (Inl e, w2) \<Rightarrow> if errors_Is ContextCanceled e then (Returned, w2) else (Again True, w2)
            | (Inr action, w2) \<Rightarrow>
                (case ae_Write env (report_event action ''running action'' StateRunning) w2 of
                   (Some e, w3) \<Rightarrow> if errors_Is ContextCanceled e then (Returned, w3) else (Again True, w3)
                 | (None, w3) \<Rightarrow> run_action env action w3))))"

text \<open>The loop itself runs until it returns; \<open>n\<close> bounds the number of iterations looked at.\<close>

fun agent_run :: "nat \<Rightarrow> 'w agent_env \<Rightarrow> bool \<Rightarrow> 'w \<Rightarrow> agent_next \<times> 'w" where
  "agent_run 0 env b w = (Again b, w)"
| "agent_run (Suc n) env b w =
     (case agent_iteration env b w of
        (Returned, w1) \<Rightarrow> (Returned, w1)
      | (Again b', w1) \<Rightarrow> agent_run n env b' w1)"

text \<open>The operations of \<open>Config\<close> for the gRPC transport.\<close>

definition grpc_env ::
  "'w agent_env \<Rightarrow> (pb_ActionStatusRequest \<Rightarrow> string) \<Rightarrow> 'w tink_client \<Rightarrow> string \<Rightarrow> AgentAttributes option \<Rightarrow> 'w agent_env" where
  "grpc_env env pr c agentID attrs = env\<lparr>ae_Read := doRead c agentID attrs, ae_Write := doWrite pr c\<rparr>"


section \<open>Container names and flags\<close>

definition container_char :: "char \<Rightarrow> bool" where
  "container_char c \<longleftrightarrow> is_lower c \<or> is_upper c \<or> is_digit c \<or> c = CHR ''_'' \<or> c = CHR ''.'' \<or> c = CHR ''-''"

text \<open>Every character outside the class becomes one underscore; a byte that is not part of a
  well-formed character counts as one.\<close>

function replace_invalid :: "string \<Rightarrow> string" where
  "replace_invalid s =
     (case s of
        [] \<Rightarrow> []
      | c # s' \<Rightarrow>
          if container_char c then c # replace_invalid s'
          else CHR ''_'' # replace_invalid (drop (if c < CHR 0x80 then 1 else max 1 (rune_len s)) s))"
  by pat_completeness auto

termination
  by (relation "measure length") auto

declare replace_invalid.simps [simp del]

definition ParseName :: "string \<Rightarrow> string \<Rightarrow> string" where
  "ParseName actionID name = ''tinkerbell_'' @ replace_invalid name @ ''_'' @ replace_invalid actionID"

definition ParseEnv :: "spec_Env list \<Rightarrow> string list" where
  "ParseEnv envs = map (\<lambda>e. se_Key e @ ''='' @ se_Value e) envs"

definition transport_types :: "string list" where
  "transport_types = [''grpc'', ''nats'', ''file'']"

definition runtime_types :: "string list" where
  "runtime_types = [''docker'', ''containerd'', ''kubernetes'']"

definition TransportType_Set :: "(string \<Rightarrow> string) \<Rightarrow> string \<Rightarrow> gerr + string" where
  "TransportType_Set q s =
     (if to_lower s \<in> set transport_types then Inr s
      else Inl (NewError (''invalid Transport type: '' @ q s @ '', must be one of [grpc, nats, file]'')))"

definition RuntimeType_Set :: "(string \<Rightarrow> string) \<Rightarrow> string \<Rightarrow> gerr + string" where
  "RuntimeType_Set q s =
     (if to_lower s \<in> set runtime_types then Inr (to_lower s)
      else Inl (NewError (''invalid Runtime type: '' @ q s @ '', must be one of [docker, containerd, kubernetes]'')))"

text \<open>Which transport and runtime \<open>ConfigureAndRun\<close> uses for a flag value.\<close>

definition selected_transport :: "string \<Rightarrow> string" where
  "selected_transport t = (if t = ''file'' then ''file'' else if t = ''nats'' then ''nats'' else ''grpc'')"

definition selected_runtime :: "string \<Rightarrow> string" where
  "selected_runtime t =
     (if t = ''kubernetes'' then ''kubernetes'' else if t = ''containerd'' then ''containerd'' else ''docker'')"

end
