(* ===== verification/Agent_Props.thy ===== *)
theory Agent_Props
  imports Agent
begin

text \<open>
  Properties of the agent: how the outcome of an action is determined, that its environment reaches
  the container as the server sent it, how durations are printed and which flag values take effect.
\<close>


section \<open>The outcome of an action\<close>

text \<open>The results of the attempts the loop makes, in order.\<close>

fun attempts :: "'w agent_env \<Rightarrow> time \<Rightarrow> spec_Action \<Rightarrow> nat \<Rightarrow> 'w \<Rightarrow> gerr option list" where
  "attempts env d a 0 w = []"
| "attempts env d a (Suc k) w =
     (case ae_Execute env d a w of
        (None, w1) \<Rightarrow> [None]
      | (Some e, w1) \<Rightarrow> Some e # (if errors_Is DeadlineExceeded e then [] else attempts env d a k w1))"

definition outcome_of :: "gerr option \<Rightarrow> spec_State" where
  "outcome_of r = (case r of None \<Rightarrow> StateSuccess
     | Some e \<Rightarrow> if errors_Is DeadlineExceeded e then StateTimeout else StateFailure)"

lemma execute_loop_Suc:
  "execute_loop env d a (Suc k) w =
     (case ae_Execute env d a w of
        (None, w1) \<Rightarrow> (StateSuccess, w1)
      | (Some e, w1) \<Rightarrow>
          if errors_Is DeadlineExceeded e then (StateTimeout, w1)
          else if k = 0 then (StateFailure, w1) else execute_loop env d a k w1)"
  by simp

lemma attempts_nonempty: "0 < n \<Longrightarrow> attempts env d a n w \<noteq> []"
  by (cases n) (auto split: prod.splits option.splits)

lemma attempts_bound: "length (attempts env d a n w) \<le> n"
  by (induction n arbitrary: w) (auto split: prod.splits option.splits)

lemma attempts_retried:
  "r \<in> set (butlast (attempts env d a n w)) \<Longrightarrow> outcome_of r = StateFailure"
proof (induction n arbitrary: w)
  case 0
  then show ?case by simp
next
  case (Suc n)
  obtain x w1 where x: "ae_Execute env d a w = (x, w1)" by fastforce
  show ?case
    using Suc.prems Suc.IH [of w1]
    by (cases x) (auto simp: x outcome_of_def split: if_splits)
qed

lemma execute_loop_state:
  "0 < n \<Longrightarrow> fst (execute_loop env d a n w) = outcome_of (last (attempts env d a n w))"
proof (induction n arbitrary: w)
  case 0
  then show ?case by simp
next
  case (Suc n)
  obtain x w1 where x: "ae_Execute env d a w = (x, w1)" by fastforce
  show ?case
  proof (cases "n = 0")
    case True
    with x show ?thesis by (cases x) (auto simp: outcome_of_def)
  next
    case False
    then show ?thesis
      using Suc.IH [of w1] attempts_nonempty [of n env d a w1] x
      by (cases x) (auto simp: outcome_of_def)
  qed
qed

lemma attempts_exhausted:
  "outcome_of (last (attempts env d a n w)) = StateFailure \<Longrightarrow> 0 < n \<Longrightarrow> length (attempts env d a n w) = n"
proof (induction n arbitrary: w)
  case 0
  then show ?case by simp
next
  case (Suc n)
  obtain x w1 where x: "ae_Execute env d a w = (x, w1)" by fastforce
  show ?case
    using Suc.prems Suc.IH [of w1] attempts_nonempty [of n env d a w1] x
    by (cases x; cases n) (auto simp: outcome_of_def split: if_splits)
qed

text \<open>C18. The state an agent reports is decided by its last attempt: SUCCESS if it succeeded, TIMEOUT
  if it ran into the deadline, FAILED otherwise, and FAILED only after all retries are used up. Every
  attempt before the last one failed without reaching the deadline, so nothing runs again after a
  success or a timeout.\<close>

theorem execute_loop_outcome:
  assumes "0 < n"
  shows "let rs = attempts env d a n w in
     rs \<noteq> [] \<and> length rs \<le> n \<and>
     fst (execute_loop env d a n w) = outcome_of (last rs) \<and>
     (fst (execute_loop env d a n w) = StateFailure \<longrightarrow> length rs = n) \<and>
     (\<forall>r \<in> set (butlast rs). \<exists>e. r = Some e \<and> \<not> errors_Is DeadlineExceeded e)"
proof -
  have "\<exists>e. r = Some e \<and> \<not> errors_Is DeadlineExceeded e" if "r \<in> set (butlast (attempts env d a n w))" for r
    using attempts_retried [OF that] by (auto simp: outcome_of_def split: option.splits if_splits)
  then show ?thesis
    using assms attempts_nonempty [OF assms, of env d a w] attempts_bound [of env d a n w]
      execute_loop_state [OF assms, of env d a w] attempts_exhausted [of env d a n w]
    unfolding Let_def by metis
qed

text \<open>An action with a negative retry count is reported as successful without having been run: the
  loop makes no attempt and the world stays as it is.\<close>

theorem negative_retries_succeed:
  assumes "sa_Retries a < 0"
  shows "attempts env d a (retries_of a) w = [] \<and> execute_loop env d a (retries_of a) w = (StateSuccess, w)"
  using assms by (simp add: retries_of_def)


section \<open>Order of reports\<close>



section \<open>The environment of the container\<close>

lemma cut_char_join:
  "cut_char sep s = (a, b, True) \<Longrightarrow> a @ sep # b = s"
  by (induction s arbitrary: a) (auto split: if_splits prod.splits)

lemma cut_char_contains: "sep \<in> set s \<Longrightarrow> snd (snd (cut_char sep s))"
  by (induction s) (auto split: prod.splits)

lemma parse_env_print:
  assumes "CHR ''='' \<in> set v"
  shows "se_Key (parse_env v) @ ''='' @ se_Value (parse_env v) = v"
proof -
  obtain k r f where c: "cut_char CHR ''='' v = (k, r, f)" by (cases "cut_char CHR ''='' v")
  with cut_char_contains [OF assms] have f: "f = True" by simp
  with c have "k @ CHR ''='' # r = v" using cut_char_join by blast
  with c f show ?thesis by (simp add: parse_env_def)
qed

text \<open>C40. The environment of an action reaches the container unchanged: the server prints each variable
  as \<open>key=value\<close>, the agent splits it at the first equals sign, and the runtime prints it again. The
  strings are the ones sent, whatever characters keys and values contain.\<close>

theorem environment_roundtrip:
  "ParseEnv (sa_Env (spec_action (action_response agent wfl t a))) = env_strings (t_Environment t) (a_Environment a)"
proof -
  have "CHR ''='' \<in> set v" if "v \<in> set (env_strings (t_Environment t) (a_Environment a))" for v
    using that by (auto simp: env_strings_def)
  then have "map (\<lambda>v. se_Key (parse_env v) @ ''='' @ se_Value (parse_env v)) (env_strings (t_Environment t) (a_Environment a)) =
      env_strings (t_Environment t) (a_Environment a)"
    by (intro map_idI parse_env_print)
  then show ?thesis
    by (simp add: ParseEnv_def spec_action_def action_response_def comp_def)
qed


section \<open>Durations\<close>

text \<open>The units of a duration, from hours to nanoseconds, with their size.\<close>

definition units :: "int \<Rightarrow> (int \<times> string) list" where
  "units d =
     [(d div 3600000000000, ''h''), (d div 60000000000 mod 60, ''m''), (d div 1000000000 mod 60, ''s''),
      (d div 1000000 mod 1000, ''ms''), (d div 1000 mod 1000, ''us''), (d mod 1000, ''ns'')]"

lemma go_quot_pos: "0 \<le> a \<Longrightarrow> 0 < b \<Longrightarrow> go_quot a b = a div b"
  by (cases "a = 0") (simp_all add: go_quot_def)

lemma go_rem_pos: "0 \<le> a \<Longrightarrow> 0 < b \<Longrightarrow> go_rem a b = a mod b"
  by (simp add: go_rem_def go_quot_pos minus_mult_div_eq_mod)

lemma add_part_take:
  "0 \<le> p \<Longrightarrow> add_part p n u (take (nat p) xs) =
     take (nat p) (xs @ (if n > 0 then [string_of_int n @ u] else []))"
proof -
  assume "0 \<le> p"
  then have "int (length (take (nat p) xs)) < p \<longleftrightarrow> length xs < nat p" by auto
  then show ?thesis by (auto simp: add_part_def)
qed

lemma join_str_Nil: "join_str [] xs = concat xs"
proof (induction xs)
  case (Cons x xs)
  then show ?case by (cases xs) auto
qed simp

lemma mod_div_int: "0 < b \<Longrightarrow> 0 \<le> c \<Longrightarrow> a mod (b * c) div b = a div b mod c" for a b c :: int
  by (simp add: zmod_zmult2_eq)

lemma split_quot:
  assumes "x = b * c" and "0 < b" and "0 \<le> c"
  shows "d mod x div b = d div b mod (c :: int)"
  using assms by (simp add: mod_div_int)

lemma split_duration:
  "d mod 3600000000000 div 60000000000 = d div 60000000000 mod 60"
  "d mod 60000000000 div 1000000000 = d div 1000000000 mod 60"
  "d mod 1000000000 div 1000000 = d div 1000000 mod 1000"
  "d mod 1000000 div 1000 = d div 1000 mod 1000"
  "d mod 3600000000000 mod 60000000000 = d mod 60000000000"
  "d mod 60000000000 mod 1000000000 = d mod 1000000000"
  "d mod 1000000000 mod 1000000 = d mod 1000000"
  "d mod 1000000 mod 1000 = d mod 1000" for d :: int
  by (rule split_quot mod_mod_cancel; simp)+

lemma nested_mod: "b dvd x \<Longrightarrow> b * (d mod x div b) + d mod b = d mod x" for b d x :: int
  by (metis mod_mod_cancel mult_div_mod_eq)

lemma compose_units:
  fixes d :: int
  assumes "A * h + r1 = d" and "B * m + r2 = r1" and "C * s + r3 = r2" and "D * ms + r4 = r3" and "E * us + ns = r4"
  shows "A * h + (B * m + (C * s + (D * ms + (E * us + (1 * ns + 0))))) = d"
  using assms by simp

lemma units_value:
  "sum_list (map2 (*) [3600000000000, 60000000000, 1000000000, 1000000, 1000, 1] (map fst (units d))) = d"
proof -
  have "3600000000000 * (d div 3600000000000) + (60000000000 * (d mod 3600000000000 div 60000000000) +
      (1000000000 * (d mod 60000000000 div 1000000000) + (1000000 * (d mod 1000000000 div 1000000) +
       (1000 * (d mod 1000000 div 1000) + (1 * (d mod 1000) + 0))))) = d"
    by (rule compose_units [where ?r1.0 = "d mod 3600000000000" and ?r2.0 = "d mod 60000000000"
          and ?r3.0 = "d mod 1000000000" and ?r4.0 = "d mod 1000000"])
      (rule mult_div_mod_eq, (rule nested_mod, simp)+)
  then show ?thesis
    unfolding units_def split_duration by (simp only: list.map zip_Cons_Cons zip_Nil prod.case fst_conv sum_list.Cons sum_list.Nil)
qed

definition print_unit :: "int \<times> string \<Rightarrow> string" where
  "print_unit = (\<lambda>(n, u). string_of_int n @ u)"

lemma humanDuration_parts:
  assumes "0 \<le> p" and "0 \<le> d"
  shows "humanDuration d p = concat (take (nat p) (map print_unit (filter (\<lambda>(n, u). 0 < n) (units d))))"
proof -
  have part: "add_part p n u (take (nat p) (map print_unit xs)) =
      take (nat p) (map print_unit (xs @ filter (\<lambda>(n, u). 0 < n) [(n, u)]))" for n u xs
    using add_part_take [OF assms(1), of n u "map print_unit xs"] by (simp add: print_unit_def)
  have start: "[] = take (nat p) (map print_unit [])" by simp
  have nonneg: "0 \<le> d mod 3600000000000" "0 \<le> d mod 60000000000" "0 \<le> d mod 1000000000" "0 \<le> d mod 1000000"
    by simp_all
  have "humanDuration d p =
      join_str [] (add_part p (d mod 1000) ''ns'' (add_part p (d div 1000 mod 1000) ''us''
        (add_part p (d div 1000000 mod 1000) ''ms'' (add_part p (d div 1000000000 mod 60) ''s''
          (add_part p (d div 60000000000 mod 60) ''m'' (add_part p (d div 3600000000000) ''h'' []))))))"
    by (simp add: humanDuration_def Let_def go_quot_pos go_rem_pos assms(2) nonneg split_duration)
  also have "\<dots> = concat (take (nat p) (map print_unit (filter (\<lambda>(n, u). 0 < n) (units d))))"
    unfolding join_str_Nil units_def
    by (subst start) (simp only: part append_assoc flip: filter_append, simp only: append.simps)
  finally show ?thesis .
qed

lemma humanDuration_negative:
  assumes "d < 0"
  shows "humanDuration d p = []"
proof -
  have q: "go_quot a b \<le> 0" if "a \<le> 0" "0 < b" for a b
    using that by (cases "a = 0") (simp_all add: go_quot_def pos_imp_zdiv_nonneg_iff)
  have r: "go_rem a b \<le> 0" if "a \<le> 0" "0 < b" for a b
  proof (cases "a = 0")
    case False
    with that have "go_rem a b = - ((- a) mod b)"
      by (simp add: go_rem_def go_quot_def minus_mult_div_eq_mod [symmetric])
    with that show ?thesis by simp
  qed (simp add: go_rem_def go_quot_def)
  have none: "n \<le> 0 \<Longrightarrow> add_part p n u xs = xs" for n u xs
    by (simp add: add_part_def)
  from assms have "d \<le> 0" by simp
  then show ?thesis
    by (simp add: humanDuration_def Let_def none q r)
qed

text \<open>A duration prints its non-zero units from the largest down, at most as many as the precision
  asks for, and a negative duration prints nothing. The units are exact: together they make up the
  duration.\<close>

theorem humanDuration_correct:
  assumes "0 \<le> p"
  shows "humanDuration d p =
      (if d < 0 then [] else concat (take (nat p) (map print_unit (filter (\<lambda>(n, u). 0 < n) (units d))))) \<and>
    sum_list (map2 (*) [3600000000000, 60000000000, 1000000000, 1000000, 1000, 1] (map fst (units d))) = d"
  using humanDuration_parts [OF assms, of d] humanDuration_negative [of d p] units_value by simp


section \<open>Flags\<close>

lemma to_lower_grpc: "to_lower ''grpc'' = ''grpc''" "to_lower ''nats'' = ''nats''" "to_lower ''file'' = ''file''"
  by (simp_all add: to_lower_def lower_char_def is_upper_def less_eq_char_def)

text \<open>The runtime flag accepts its values in any case and always selects the runtime named. The
  transport flag accepts the same spellings but keeps the spelling, so a value that is not in lower
  case selects gRPC whatever it names.\<close>

theorem flag_spelling:
  "(RuntimeType_Set q s = Inr t \<longrightarrow> selected_runtime t = to_lower s) \<and>
   (TransportType_Set q s = Inr t \<longrightarrow>
      selected_transport t = (if s = to_lower s then to_lower s else ''grpc''))"
proof (intro conjI impI)
  assume "RuntimeType_Set q s = Inr t"
  then show "selected_runtime t = to_lower s"
    by (auto simp: RuntimeType_Set_def runtime_types_def selected_runtime_def split: if_splits)
next
  assume "TransportType_Set q s = Inr t"
  then have t: "t = s" and low: "to_lower s \<in> {''grpc'', ''nats'', ''file''}"
    by (auto simp: TransportType_Set_def transport_types_def split: if_splits)
  show "selected_transport t = (if s = to_lower s then to_lower s else ''grpc'')"
  proof (cases "s = to_lower s")
    case True
    with low t show ?thesis by (auto simp: selected_transport_def)
  next
    case False
    then have "s \<noteq> ''file''" "s \<noteq> ''nats''" using to_lower_grpc by auto
    with False t show ?thesis by (simp add: selected_transport_def)
  qed
qed


section \<open>Examples\<close>

text \<open>A runtime that fails once and then succeeds; the world counts its calls.\<close>

definition flaky_env :: "nat agent_env" where
  "flaky_env =
     \<lparr>ae_Done = (\<lambda>w. False), ae_Now = (\<lambda>w. int w), ae_Sleep = (\<lambda>w. w), ae_Read = (\<lambda>w. (Inl NoWorkflowError, w)),
      ae_Write = (\<lambda>ev w. (None, w)), ae_Execute = (\<lambda>d a w. (if w = 0 then Some (NewError ''exit'') else None, Suc w)),
      ae_RetryWrite = (\<lambda>f. f)\<rparr>"

definition some_action :: spec_Action where
  "some_action = \<lparr>sa_AgentID = ''ag'', sa_TaskID = ''t1'', sa_WorkflowID = ''ns/wf'', sa_ID = ''a1'', sa_Name = [],
     sa_Image = [], sa_Cmd = [], sa_Args = [], sa_Env = [], sa_Volumes = [],
     sa_Namespaces = \<lparr>sn_Network = [], sn_PID = []\<rparr>, sa_Retries = 0, sa_TimeoutSeconds = 60,
     sa_ExecutionStart = 0, sa_ExecutionStop = 0, sa_ExecutionDuration = []\<rparr>"

theorem execute_loop_outcome_witness:
  "attempts flaky_env 0 some_action 3 0 = [Some (NewError ''exit''), None] \<and>
   fst (execute_loop flaky_env 0 some_action 3 0) = StateSuccess"
proof -
  have rs: "attempts flaky_env 0 some_action 3 0 = [Some (NewError ''exit''), None]"
    by (simp add: flaky_env_def numeral_3_eq_3)
  show ?thesis
    using execute_loop_outcome [of 3 flaky_env 0 some_action 0] by (simp add: rs Let_def outcome_of_def)
qed

theorem negative_retries_succeed_witness:
  "execute_loop flaky_env 0 (some_action\<lparr>sa_Retries := - 1\<rparr>) (retries_of (some_action\<lparr>sa_Retries := - 1\<rparr>)) 0 =
   (StateSuccess, 0)"
  using negative_retries_succeed [of "some_action\<lparr>sa_Retries := - 1\<rparr>" flaky_env 0 0] by simp

definition reading_env :: "nat agent_env" where
  "reading_env = flaky_env\<lparr>ae_Read := (\<lambda>w. (Inr some_action, w))\<rparr>"


theorem humanDuration_correct_witness: "humanDuration 3723000000000 2 = ''1h2m''"
proof -
  have "filter (\<lambda>(n, u). 0 < n) (units 3723000000000) = [(1, ''h''), (2, ''m''), (3, ''s'')]"
    by (simp add: units_def)
  then show ?thesis
    using humanDuration_correct [of 2 3723000000000]
    by (simp add: print_unit_def string_of_int_def string_of_nat.simps digit_chars numeral_2_eq_2)
qed

theorem flag_spelling_witness: "selected_transport ''FILE'' = ''grpc'' \<and> selected_runtime ''docker'' = ''docker''"
proof -
  have low: "to_lower ''FILE'' = ''file''" by code_simp
  have d: "to_lower ''Docker'' = ''docker''" by code_simp
  show ?thesis
    using flag_spelling [of id "''FILE''" "''FILE''"] flag_spelling [of id "''Docker''" "''docker''"] low d
    by (simp add: TransportType_Set_def transport_types_def RuntimeType_Set_def runtime_types_def)
qed

end
