(* ===== verification/Workflow_Run.thy ===== *)
theory Workflow_Run
  imports Server_Props Agent_Props
begin

text \<open>
  The agent and the server together: an agent whose transport is the server's handler runs every
  action of a workflow once, in order, and the workflow ends in POST. The store, the retry loops and
  the container runtime are parameters with the behaviour they document.
\<close>


section \<open>Putting the two together\<close>

text \<open>The gRPC client calls the handler; a status error keeps its code on the way.\<close>

definition rpc_client :: "'w Handler \<Rightarrow> 'w tink_client" where
  "rpc_client h =
     \<lparr>tc_GetAction = (\<lambda>req w. snd (GetAction h req w)),
      tc_ReportActionStatus = (\<lambda>req w. case snd (ReportActionStatus h req w) of
         (Inl e, w1) \<Rightarrow> (Some e, w1) | (Inr u, w1) \<Rightarrow> (None, w1))\<rparr>"

text \<open>
  A store with one workflow, read and written consistently. \<open>get\<close> is the workflow in the store and
  \<open>log\<close> the actions the runtime has executed; neither listing nor annotating hardware changes them.
\<close>

definition one_workflow_store :: "'w server_backend \<Rightarrow> ('w \<Rightarrow> Workflow) \<Rightarrow> ('w \<Rightarrow> string list) \<Rightarrow> bool" where
  "one_workflow_store b get log \<longleftrightarrow>
     (\<forall>w. \<not> sb_done b w \<and>
        (\<forall>f. \<exists>w'. sb_ListWorkflows b f w = (Inr [get w], w') \<and> get w' = get w \<and> log w' = log w) \<and>
        (\<exists>w'. sb_ReadWorkflow b (Name (get w)) (Namespace (get w)) w = (Inr (get w), w') \<and> get w' = get w \<and> log w' = log w) \<and>
        (\<forall>wfl. \<exists>w'. sb_UpdateWorkflow b wfl status_only w = (None, w') \<and> get w' = wfl \<and> log w' = log w) \<and>
        (\<forall>n ns. get (snd (sb_ReadHardware b n ns w)) = get w \<and> log (snd (sb_ReadHardware b n ns w)) = log w) \<and>
        (\<forall>ob u. get (snd (sb_UpdateHardware b ob u w)) = get w \<and> log (snd (sb_UpdateHardware b ob u w)) = log w))"

text \<open>A retry loop returns what its operation returns when that succeeds at the first attempt.\<close>

definition retry_returns :: "'w Handler \<Rightarrow> 'w agent_env \<Rightarrow> bool" where
  "retry_returns h env \<longleftrightarrow>
     (\<forall>opts f w r w'. f w = (Inr r, w') \<longrightarrow> h_Retry h opts f w = (Inr r, w')) \<and>
     (\<forall>opts f w r w'. f w = (Inr r, w') \<longrightarrow> h_RetryStatus h opts f w = (Inr r, w')) \<and>
     (\<forall>f w w'. f w = (None, w') \<longrightarrow> ae_RetryWrite env f w = (None, w'))"

text \<open>A runtime that executes every action successfully, and a context that is not cancelled.\<close>

definition runtime_succeeds :: "'w agent_env \<Rightarrow> ('w \<Rightarrow> Workflow) \<Rightarrow> ('w \<Rightarrow> string list) \<Rightarrow> bool" where
  "runtime_succeeds env get log \<longleftrightarrow>
     (\<forall>w. \<not> ae_Done env w \<and> get (ae_Sleep env w) = get w \<and> log (ae_Sleep env w) = log w \<and>
        (\<forall>d a. \<exists>w'. ae_Execute env d a w = (None, w') \<and> get w' = get w \<and> log w' = log w @ [sa_ID a]))"


section \<open>Positions in a workflow\<close>

abbreviation action_at :: "Workflow \<Rightarrow> nat \<Rightarrow> nat \<Rightarrow> Action" where
  "action_at wfl i j \<equiv> t_Actions (wf_tasks wfl ! i) ! j"

definition action_ids :: "Task list \<Rightarrow> string list" where
  "action_ids ts = concat (map (\<lambda>t. map a_ID (t_Actions t)) ts)"

text \<open>What stays the same while the workflow runs.\<close>

definition runnable :: "string \<Rightarrow> Workflow \<Rightarrow> bool" where
  "runnable agent wfl \<longleftrightarrow>
     agent \<noteq> [] \<and> CHR ''/'' \<notin> set (Namespace wfl) \<and> wf_tasks wfl \<noteq> [] \<and>
     (\<forall>i < length (wf_tasks wfl). t_AgentID (wf_tasks wfl ! i) = agent \<and> t_ID (wf_tasks wfl ! i) \<noteq> [] \<and>
        t_Actions (wf_tasks wfl ! i) \<noteq> []) \<and>
     distinct (action_ids (wf_tasks wfl)) \<and> [] \<notin> set (action_ids (wf_tasks wfl))"

definition all_before :: "Workflow \<Rightarrow> nat \<Rightarrow> nat \<Rightarrow> bool" where
  "all_before wfl ti ai \<longleftrightarrow>
     (\<forall>i < length (wf_tasks wfl). \<forall>j < length (t_Actions (wf_tasks wfl ! i)).
        a_State (action_at wfl i j) = (if i < ti \<or> i = ti \<and> j < ai then WSSuccess else WSPending))"

definition at_position :: "string \<Rightarrow> Workflow \<Rightarrow> nat \<Rightarrow> nat \<Rightarrow> bool" where
  "at_position agent wfl ti ai \<longleftrightarrow>
     runnable agent wfl \<and> ti < length (wf_tasks wfl) \<and> ai < length (t_Actions (wf_tasks wfl ! ti)) \<and>
     all_before wfl ti ai \<and> wf_state wfl \<in> {WSPending, WSRunning} \<and>
     (0 < ai \<longrightarrow> (\<exists>cs. wf_current wfl = Some cs \<and> cur_State cs = WSSuccess \<and> cur_ActionID cs = a_ID (action_at wfl ti (ai - 1))))"

lemma runnable_position:
  "runnable agent wfl \<Longrightarrow> i < length (wf_tasks wfl) \<Longrightarrow>
   t_AgentID (wf_tasks wfl ! i) = agent \<and> t_ID (wf_tasks wfl ! i) \<noteq> [] \<and> t_Actions (wf_tasks wfl ! i) \<noteq> []"
  by (simp add: runnable_def)

lemma action_id_in:
  "i < length ts \<Longrightarrow> j < length (t_Actions (ts ! i)) \<Longrightarrow> a_ID (t_Actions (ts ! i) ! j) \<in> set (action_ids ts)"
  by (force simp: action_ids_def in_set_conv_nth)

lemma distinct_ids_within:
  assumes "distinct (action_ids ts)" and "i < length ts" and "j < length (t_Actions (ts ! i))"
    and "k < length (t_Actions (ts ! i))" and "a_ID (t_Actions (ts ! i) ! j) = a_ID (t_Actions (ts ! i) ! k)"
  shows "j = k"
proof -
  have "distinct (map a_ID (t_Actions (ts ! i)))"
    using assms(1,2) by (auto simp: action_ids_def distinct_concat_iff)
  with assms(3-5) show ?thesis by (metis length_map nth_eq_iff_index_eq nth_map)
qed

lemma find_id_within:
  assumes "distinct (action_ids ts)" and "i < length ts" and "j < length (t_Actions (ts ! i))"
  shows "find_index (\<lambda>a. a_ID a = a_ID (t_Actions (ts ! i) ! j)) (t_Actions (ts ! i)) = Some j"
proof -
  have "a_ID (t_Actions (ts ! i) ! k) \<noteq> a_ID (t_Actions (ts ! i) ! j)" if "k < j" for k
    using distinct_ids_within [OF assms(1,2), of k j] assms(3) that by fastforce
  then show ?thesis
    using assms(3) by (simp add: find_index_Some_iff)
qed

lemma find_action_unique:
  assumes "distinct (action_ids ts)" and "i < length ts" and "j < length (t_Actions (ts ! i))"
    and "t_AgentID (ts ! i) = agent"
  shows "find_action (a_ID (t_Actions (ts ! i) ! j)) agent n ts = Some (n + i, j)"
  using assms
proof (induction ts arbitrary: i n)
  case Nil
  then show ?case by simp
next
  case (Cons t ts)
  let ?id = "a_ID (t_Actions ((t # ts) ! i) ! j)"
  show ?case
  proof (cases i)
    case 0
    have "find_index (\<lambda>a. a_ID a = ?id) (t_Actions t) = Some j"
      using find_id_within [OF Cons.prems(1), of 0 j] Cons.prems 0 by simp
    with 0 Cons.prems(4) show ?thesis by simp
  next
    case (Suc k)
    have d: "distinct (action_ids ts)" and disj: "set (map a_ID (t_Actions t)) \<inter> set (action_ids ts) = {}"
      using Cons.prems(1) by (simp_all add: action_ids_def)
    have k: "k < length ts" "j < length (t_Actions (ts ! k))" "t_AgentID (ts ! k) = agent"
      using Cons.prems Suc by simp_all
    have "?id \<notin> set (map a_ID (t_Actions t))"
      using action_id_in [OF k(1,2)] disj Suc by auto
    then have "\<forall>a \<in> set (t_Actions t). \<not> (a_ID a = ?id \<and> t_AgentID t = agent)" by (metis imageI set_map)
    then have "find_index (\<lambda>a. a_ID a = ?id \<and> t_AgentID t = agent) (t_Actions t) = None"
      by (simp only: find_index_None_iff)
    with Cons.IH [OF d k] Suc show ?thesis by simp
  qed
qed


section \<open>Serving at a position\<close>

lemma at_position_pick:
  assumes "at_position agent wfl ti ai"
  shows "pick_workflow [wfl] = Inr wfl"
  using assms by (auto simp: at_position_def runnable_def)

lemma at_position_state:
  assumes "at_position agent wfl ti ai" and "i < length (wf_tasks wfl)" and "j < length (t_Actions (wf_tasks wfl ! i))"
  shows "a_State (action_at wfl i j) = (if i < ti \<or> i = ti \<and> j < ai then WSSuccess else WSPending)"
  using assms by (simp add: at_position_def all_before_def)

lemma at_position_nonempty:
  "at_position agent wfl ti ai \<Longrightarrow> i < length (wf_tasks wfl) \<Longrightarrow> t_Actions (wf_tasks wfl ! i) \<noteq> []"
  using runnable_position by (auto simp: at_position_def)

lemma at_position_successful:
  assumes "at_position agent wfl ti ai" and "i < length (wf_tasks wfl)"
  shows "isTaskSuccessful (wf_tasks wfl ! i) \<longleftrightarrow> i < ti"
proof -
  let ?n = "length (t_Actions (wf_tasks wfl ! i))"
  have ne: "t_Actions (wf_tasks wfl ! i) \<noteq> []"
    by (rule at_position_nonempty [OF assms])
  then have "?n - 1 < ?n" by simp
  from at_position_state [OF assms this] show ?thesis
    using assms ne by (auto simp: isTaskSuccessful_def at_position_def)
qed

lemma at_position_first:
  assumes "at_position agent wfl ti ai" and "i < length (wf_tasks wfl)"
  shows "isFirstAction (wf_tasks wfl ! i) \<longleftrightarrow> \<not> (i < ti \<or> i = ti \<and> 0 < ai)"
proof -
  have ne: "t_Actions (wf_tasks wfl ! i) \<noteq> []"
    by (rule at_position_nonempty [OF assms])
  then have "0 < length (t_Actions (wf_tasks wfl ! i))" by simp
  from at_position_state [OF assms this] ne show ?thesis
    by (auto simp: isFirstAction_def)
qed

lemma find_first_nth:
  assumes "i < length xs" and "p (xs ! i)" and "\<forall>j < i. \<not> p (xs ! j)"
  shows "find p xs = Some (xs ! i)"
  using assms by (auto simp: find_Some_iff)

lemma at_position_select:
  assumes "at_position agent wfl ti ai"
  shows "select_task wfl = Inr (wf_tasks wfl ! ti)"
proof -
  have ti: "ti < length (wf_tasks wfl)" and len: "0 < length (wf_tasks wfl)"
    using assms by (auto simp: at_position_def)
  show ?thesis
  proof (cases "isFirstAction (wf_tasks wfl ! 0)")
    case True
    with at_position_first [OF assms len] have "ti = 0" by simp
    with True show ?thesis by (simp add: select_task_def)
  next
    case False
    have "find (\<lambda>t. \<not> isTaskSuccessful t) (wf_tasks wfl) = Some (wf_tasks wfl ! ti)"
      using ti by (intro find_first_nth) (simp_all add: at_position_successful [OF assms])
    with False show ?thesis by (simp add: select_task_def)
  qed
qed

lemma at_position_choose:
  assumes "at_position agent wfl ti ai"
  shows "choose_action agent (wf_tasks wfl ! ti) (wf_current wfl) = Inr (action_at wfl ti ai)"
proof -
  let ?t = "wf_tasks wfl ! ti"
  have ti: "ti < length (wf_tasks wfl)" and ai: "ai < length (t_Actions ?t)" and run: "runnable agent wfl"
    using assms by (simp_all add: at_position_def)
  have "resolveAction ?t (wf_current wfl) = Inr (action_at wfl ti ai)"
  proof (cases "ai = 0")
    case True
    with at_position_first [OF assms ti] show ?thesis by (simp add: resolveAction_def)
  next
    case False
    then obtain cs where cs: "wf_current wfl = Some cs" "cur_State cs = WSSuccess"
      "cur_ActionID cs = a_ID (action_at wfl ti (ai - 1))"
      using assms by (auto simp: at_position_def)
    have "find_index (\<lambda>a. a_ID a = cur_ActionID cs) (t_Actions ?t) = Some (ai - 1)"
      unfolding cs(3) using run ti ai by (intro find_id_within) (simp_all add: runnable_def)
    with False cs ai at_position_first [OF assms ti] show ?thesis by (simp add: resolveAction_def)
  qed
  with run ti ai runnable_position [OF run ti] show ?thesis by (simp add: choose_action_def)
qed


section \<open>Reports at a position\<close>

abbreviation id_lists :: "Task list \<Rightarrow> string list list" where
  "id_lists ts \<equiv> map (\<lambda>t. map a_ID (t_Actions t)) ts"

lemma update_action_id_lists:
  assumes "\<And>a. a_ID (f a) = a_ID a"
  shows "id_lists (update_action ti ai f ts) = id_lists ts"
proof (cases "ti < length ts \<and> ai < length (t_Actions (ts ! ti))")
  case True
  then show ?thesis
    unfolding update_action_def using assms
    by (intro map_list_update_same) (simp add: map_list_update_same)
next
  case False
  then have "update_action ti ai f ts = ts"
    by (cases "ti < length ts") (simp_all add: update_action_def list_update_beyond)
  then show ?thesis by simp
qed

lemma update_action_ids:
  "(\<And>a. a_ID (f a) = a_ID a) \<Longrightarrow> action_ids (update_action ti ai f ts) = action_ids ts"
  by (simp add: action_ids_def update_action_id_lists)

lemma reported_action_id [simp]: "a_ID (reported_action req a) = a_ID a"
  by (simp add: reported_action_def)

lemma runnable_same:
  assumes "runnable agent wfl" and "Namespace wfl' = Namespace wfl" and "length (wf_tasks wfl') = length (wf_tasks wfl)"
    and "action_ids (wf_tasks wfl') = action_ids (wf_tasks wfl)"
    and "\<And>i. t_AgentID (wf_tasks wfl' ! i) = t_AgentID (wf_tasks wfl ! i) \<and> t_ID (wf_tasks wfl' ! i) = t_ID (wf_tasks wfl ! i) \<and>
      length (t_Actions (wf_tasks wfl' ! i)) = length (t_Actions (wf_tasks wfl ! i))"
  shows "runnable agent wfl'"
proof -
  have "t_Actions (wf_tasks wfl' ! i) \<noteq> []" if "t_Actions (wf_tasks wfl ! i) \<noteq> []" for i
    using assms(5) [of i] that by (metis length_0_conv)
  moreover have "wf_tasks wfl' \<noteq> []" using assms(1,3) by (auto simp: runnable_def)
  ultimately show ?thesis
    using assms by (simp add: runnable_def)
qed

definition reported :: "pb_ActionStatusRequest \<Rightarrow> nat \<Rightarrow> nat \<Rightarrow> Workflow \<Rightarrow> Workflow" where
  "reported req ti ai wfl = on_status (apply_report req ti ai) wfl"

lemma reported_frame [simp]:
  "Name (reported req ti ai wfl) = Name wfl" "Namespace (reported req ti ai wfl) = Namespace wfl"
  "wf_tasks (reported req ti ai wfl) = update_action ti ai (reported_action req) (wf_tasks wfl)"
  by (simp_all add: reported_def on_status_def apply_report_fields)

lemma reported_runnable: "runnable agent wfl \<Longrightarrow> runnable agent (reported req ti ai wfl)"
  by (rule runnable_same) (simp_all add: update_action_ids)

lemma set_current_frame [simp]:
  "Name (set_current cs wfl) = Name wfl" "Namespace (set_current cs wfl) = Namespace wfl"
  "wf_tasks (set_current cs wfl) = wf_tasks wfl" "wf_state (set_current cs wfl) = wf_state wfl"
  by (simp_all add: set_current_def on_status_def)

lemma set_current_runnable: "runnable agent wfl \<Longrightarrow> runnable agent (set_current cs wfl)"
  by (rule runnable_same) simp_all

text \<open>A report about an action of a runnable workflow is accepted and writes the reported workflow.\<close>

lemma report_accepted:
  assumes store: "one_workflow_store (h_Backend h) get log" and run: "runnable agent (get w)"
    and ti: "ti < length (wf_tasks (get w))" and ai: "ai < length (t_Actions (wf_tasks (get w) ! ti))"
    and req: "sr_WorkflowId req = Some (Namespace (get w) @ ''/'' @ Name (get w))" "get_str (sr_TaskId req) \<noteq> []"
      "get_str (sr_ActionId req) = a_ID (action_at (get w) ti ai)" "get_str (sr_AgentId req) = agent"
  shows "\<exists>w'. doReportActionStatus h req w = (Inr (), w') \<and> get w' = reported req ti ai (get w) \<and> log w' = log w"
proof -
  have cut: "cut_char CHR ''/'' (Namespace (get w) @ ''/'' @ Name (get w)) = (Namespace (get w), Name (get w), True)"
    using cut_char_found [of "CHR ''/''" "Namespace (get w)" "Name (get w)"] run by (simp add: runnable_def)
  have id: "a_ID (action_at (get w) ti ai) \<noteq> []"
    using action_id_in [OF ti ai] run by (auto simp: runnable_def)
  have find: "find_action (a_ID (action_at (get w) ti ai)) agent 0 (wf_tasks (get w)) = Some (ti, ai)"
    using find_action_unique [of "wf_tasks (get w)" ti ai agent 0] run ti ai runnable_position [OF run ti]
    by (simp add: runnable_def)
  obtain w1 where w1: "sb_ReadWorkflow (h_Backend h) (Name (get w)) (Namespace (get w)) w = (Inr (get w), w1)" "log w1 = log w"
    using store unfolding one_workflow_store_def by blast
  obtain w2 where w2: "sb_UpdateWorkflow (h_Backend h) (reported req ti ai (get w)) status_only w1 = (None, w2)"
      "get w2 = reported req ti ai (get w)" "log w2 = log w1"
    using store unfolding one_workflow_store_def by blast
  have "doReportActionStatus h req w = (Inr (), w2)"
    using req cut id find w1(1) w2(1) by (simp add: doReportActionStatus_def reported_def)
  with w1 w2 show ?thesis by simp
qed


section \<open>One iteration\<close>

lemma status_request_fields:
  "sr_WorkflowId (status_request (report_event a m s)) = Some (sa_WorkflowID a)"
  "sr_TaskId (status_request (report_event a m s)) = Some (sa_TaskID a)"
  "sr_ActionId (status_request (report_event a m s)) = Some (sa_ID a)"
  "sr_AgentId (status_request (report_event a m s)) = Some (sa_AgentID a)"
  "GetActionState (status_request (report_event a m s)) = specToProto s"
  by (simp_all add: status_request_def report_event_def Let_def GetActionState_def)

lemma served_action_fields:
  "sa_WorkflowID (spec_action (action_response agent wfl t a)) = Namespace wfl @ ''/'' @ Name wfl"
  "sa_TaskID (spec_action (action_response agent wfl t a)) = t_ID t"
  "sa_ID (spec_action (action_response agent wfl t a)) = a_ID a"
  "sa_AgentID (spec_action (action_response agent wfl t a)) = agent"
  "sa_Retries (spec_action (action_response agent wfl t a)) = 0"
  by (simp_all add: spec_action_def action_response_def)

lemma annotate_keeps:
  assumes "one_workflow_store (h_Backend h) get log"
  shows "get (resolveAndAnnotateHardware h hw r ns attrs w) = get w \<and> log (resolveAndAnnotateHardware h hw r ns attrs w) = log w"
proof -
  have u: "get (snd (updateHardwareWithAttributes h x attrs v)) = get v \<and> log (snd (updateHardwareWithAttributes h x attrs v)) = log v" for x v
  proof (cases x)
    case (Some ob)
    obtain a where "json_Marshal attrs = Inr a" using marshal_Inr by blast
    moreover have "get (snd (sb_UpdateHardware (h_Backend h) ob' u v)) = get v \<and> log (snd (sb_UpdateHardware (h_Backend h) ob' u v)) = log v" for ob' u
      using assms unfolding one_workflow_store_def by blast
    ultimately show ?thesis
      using Some by (auto simp: updateHardwareWithAttributes_def split: prod.splits option.splits) (metis snd_conv)+
  qed (simp add: updateHardwareWithAttributes_def)
  have r: "get (snd (sb_ReadHardware (h_Backend h) r ns w)) = get w \<and> log (snd (sb_ReadHardware (h_Backend h) r ns w)) = log w"
    using assms unfolding one_workflow_store_def by blast
  obtain rr w1 where rd: "sb_ReadHardware (h_Backend h) r ns w = (rr, w1)" by fastforce
  show ?thesis
    using u r rd by (cases rr) (simp_all add: resolveAndAnnotateHardware_def)
qed

lemma served_at_position:
  assumes store: "one_workflow_store (h_Backend h) get log" and pos: "at_position agent (get w) ti ai"
    and opts: "\<not> ac_DiscoveryEnabled opts" and req: "rq_AgentId req = Some agent"
  defines "t \<equiv> wf_tasks (get w) ! ti" and "a \<equiv> action_at (get w) ti ai"
  shows "\<exists>w'. doGetAction h req opts w = (Inr (action_response agent (get w) t a), w') \<and>
     get w' = set_current (serving_state agent t a) (get w) \<and> log w' = log w"
proof -
  have ag: "agent \<noteq> []" and dn: "\<not> sb_done (h_Backend h) w"
    using pos store by (simp_all add: at_position_def runnable_def one_workflow_store_def)
  obtain w1 where w1: "sb_ListWorkflows (h_Backend h) (empty_WorkflowFilter\<lparr>wfil_ByAgentID := agent\<rparr>) w = (Inr [get w], w1)"
      "get w1 = get w" "log w1 = log w"
    using store unfolding one_workflow_store_def by blast
  let ?attrs = "convert (rq_AgentAttributes req)"
  define w2 where "w2 = (if isFirstAction (wf_tasks (get w) ! 0)
      then resolveAndAnnotateHardware h None (ws_HardwareRef (Workflow_Spec (get w))) (Namespace (get w)) ?attrs w1 else w1)"
  have w2: "log w2 = log w" using annotate_keeps [OF store] w1 by (simp add: w2_def)
  obtain w3 where w3: "sb_UpdateWorkflow (h_Backend h) (set_current (serving_state agent t a) (get w)) status_only w2 = (None, w3)"
      "get w3 = set_current (serving_state agent t a) (get w)" "log w3 = log w2"
    using store unfolding one_workflow_store_def by blast
  have "serve_workflow h agent ?attrs None (get w) w1 = (Inr (action_response agent (get w) t a), w3)"
    using at_position_select [OF pos] at_position_choose [OF pos] w3(1)
    by (simp add: serve_workflow_def t_def a_def w2_def [symmetric] Let_def)
  then have "doGetAction h req opts w = (Inr (action_response agent (get w) t a), w3)"
    using ag dn opts req w1(1) at_position_pick [OF pos]
    by (simp add: doGetAction_def doGetAction_with_def Let_def del: pick_workflow.simps)
  with w2 w3 show ?thesis by auto
qed


lemma with_retry_frame [simp]:
  "h_Backend (with_retry o1 h) = h_Backend h" "h_AutoCapabilities (with_retry o1 h) = h_AutoCapabilities h"
  "h_Retry (with_retry o1 h) = h_Retry h" "h_RetryStatus (with_retry o1 h) = h_RetryStatus h"
  by (simp_all add: with_retry_def)

lemma read_at_position:
  assumes store: "one_workflow_store (h_Backend h) get log" and retry: "retry_returns h env"
    and pos: "at_position agent (get w) ti ai" and opts: "\<not> ac_DiscoveryEnabled (h_AutoCapabilities h)"
  defines "t \<equiv> wf_tasks (get w) ! ti" and "a \<equiv> action_at (get w) ti ai"
  shows "\<exists>w'. doRead (rpc_client h) agent attrs w = (Inr (spec_action (action_response agent (get w) t a)), w') \<and>
     get w' = set_current (serving_state agent t a) (get w) \<and> log w' = log w"
proof -
  let ?h = "with_retry default_retry h"
  let ?req = "\<lparr>rq_AgentId = Some agent, rq_AgentAttributes = ToProto attrs\<rparr>"
  obtain w' where w': "doGetAction ?h ?req (h_AutoCapabilities h) w = (Inr (action_response agent (get w) t a), w')"
      "get w' = set_current (serving_state agent t a) (get w)" "log w' = log w"
    using served_at_position [of ?h get log agent w ti ai "h_AutoCapabilities h" ?req] store pos opts
    by (auto simp: t_def a_def)
  from w'(1) retry have "tc_GetAction (rpc_client h) ?req w = (Inr (action_response agent (get w) t a), w')"
    by (simp add: rpc_client_def GetAction_def Let_def retry_returns_def)
  with w'(2,3) show ?thesis by (simp add: doRead_def)
qed

lemma write_at_position:
  assumes store: "one_workflow_store (h_Backend h) get log" and retry: "retry_returns h env"
    and run: "runnable agent (get w)" and ti: "ti < length (wf_tasks (get w))"
    and ai: "ai < length (t_Actions (wf_tasks (get w) ! ti))"
    and act: "sa_WorkflowID a = Namespace (get w) @ ''/'' @ Name (get w)" "sa_TaskID a = t_ID (wf_tasks (get w) ! ti)"
      "sa_ID a = a_ID (action_at (get w) ti ai)" "sa_AgentID a = agent"
  shows "\<exists>w'. doWrite pr (rpc_client h) (report_event a m s) w = (None, w') \<and>
     get w' = reported (status_request (report_event a m s)) ti ai (get w) \<and> log w' = log w"
proof -
  let ?h = "with_retry default_retry h" and ?req = "status_request (report_event a m s)"
  obtain w' where w': "doReportActionStatus ?h ?req w = (Inr (), w')" "get w' = reported ?req ti ai (get w)" "log w' = log w"
    using report_accepted [of ?h get log agent w ti ai ?req] store run ti ai act runnable_position [OF run ti]
    by (auto simp: status_request_fields)
  from w'(1) retry have "snd (ReportActionStatus h ?req w) = (Inr (), w')"
    by (simp add: ReportActionStatus_def Let_def retry_returns_def)
  with w'(2,3) show ?thesis by (simp add: doWrite_def rpc_client_def)
qed

text \<open>The workflow after one iteration: served, reported as running, reported as successful.\<close>

lemma iteration_at_position:
  assumes store: "one_workflow_store (h_Backend h) get log" and retry: "retry_returns h env"
    and rt: "runtime_succeeds env get log" and opts: "\<not> ac_DiscoveryEnabled (h_AutoCapabilities h)"
    and pos: "at_position agent (get w) ti ai"
  shows "\<exists>w' r1 r2 cs. agent_iteration (grpc_env env pr (rpc_client h) agent attrs) False w = (Again False, w') \<and>
     log w' = log w @ [a_ID (action_at (get w) ti ai)] \<and>
     get w' = reported r2 ti ai (reported r1 ti ai (set_current cs (get w))) \<and>
     GetActionState r1 = ST_RUNNING \<and> GetActionState r2 = ST_SUCCESS \<and>
     get_str (sr_ActionId r2) = a_ID (action_at (get w) ti ai)"
proof -
  let ?env = "grpc_env env pr (rpc_client h) agent attrs"
  let ?t = "wf_tasks (get w) ! ti" and ?a = "action_at (get w) ti ai"
  let ?sa = "spec_action (action_response agent (get w) ?t ?a)" and ?cs = "serving_state agent ?t ?a"
  have run: "runnable agent (get w)" and ti: "ti < length (wf_tasks (get w))" and ai: "ai < length (t_Actions ?t)"
    using pos by (simp_all add: at_position_def)
  obtain w1 where w1: "doRead (rpc_client h) agent attrs w = (Inr ?sa, w1)" "get w1 = set_current ?cs (get w)" "log w1 = log w"
    using read_at_position [OF store retry pos opts] by blast
  let ?e1 = "report_event ?sa ''running action'' StateRunning"
  obtain w2 where w2: "doWrite pr (rpc_client h) ?e1 w1 = (None, w2)"
      "get w2 = reported (status_request ?e1) ti ai (get w1)" "log w2 = log w1"
    using write_at_position [OF store retry, of agent w1 ti ai ?sa pr "''running action''" StateRunning]
      set_current_runnable [OF run] ti ai w1(2) by (auto simp: served_action_fields)
  let ?start = "ae_Now env w2"
  let ?a1 = "?sa\<lparr>sa_ExecutionStart := ?start\<rparr>"
  obtain w3 where w3: "ae_Execute env (?start + i64 (sa_TimeoutSeconds ?sa * second)) ?a1 w2 = (None, w3)"
      "get w3 = get w2" "log w3 = log w2 @ [sa_ID ?a1]"
    using rt unfolding runtime_succeeds_def by blast
  let ?a2 = "?a1\<lparr>sa_ExecutionStop := ae_Now env w3, sa_ExecutionDuration := humanDuration (sat64 (ae_Now env w3 - ?start)) 2\<rparr>"
  let ?e2 = "report_event ?a2 ''action completed'' StateSuccess"
  have "runnable agent (get w3)"
    unfolding w3(2) w2(2) w1(2) by (intro reported_runnable set_current_runnable run)
  then obtain w4 where w4: "doWrite pr (rpc_client h) ?e2 w3 = (None, w4)"
      "get w4 = reported (status_request ?e2) ti ai (get w3)" "log w4 = log w3"
    using write_at_position [OF store retry, of agent w3 ti ai ?a2 pr "''action completed''" StateSuccess] ti ai
    unfolding w3(2) w2(2) w1(2)
    by (auto simp: served_action_fields update_action_nth)
  have retries: "retries_of ?a1 = Suc 0" by (simp add: retries_of_def served_action_fields)
  have "ae_RetryWrite env (doWrite pr (rpc_client h) ?e2) w3 = (None, w4)"
    using retry w4(1) unfolding retry_returns_def by blast
  then have "run_action ?env ?sa w2 = (Again False, w4)"
    using w3(1) retries by (simp add: run_action_def grpc_env_def Let_def)
  then have "agent_iteration ?env False w = (Again False, w4)"
    using w1(1) w2(1) rt by (simp add: agent_iteration_def grpc_env_def runtime_succeeds_def)
  moreover have "log w4 = log w @ [a_ID ?a]"
    using w1(3) w2(3) w3(3) w4(3) by (simp add: served_action_fields)
  moreover have "get w4 = reported (status_request ?e2) ti ai (reported (status_request ?e1) ti ai (set_current ?cs (get w)))"
    using w1(2) w2(2) w3(2) w4(2) by simp
  ultimately show ?thesis
    by (intro exI [of _ w4] exI [of _ "status_request ?e1"] exI [of _ "status_request ?e2"] exI [of _ ?cs])
      (simp add: status_request_fields served_action_fields)
qed


section \<open>To the end\<close>

definition finished :: "string \<Rightarrow> Workflow \<Rightarrow> bool" where
  "finished agent wfl \<longleftrightarrow> runnable agent wfl \<and> all_before wfl (length (wf_tasks wfl)) 0 \<and> wf_state wfl = WSPost"

lemma after_iteration:
  assumes pos: "at_position agent wfl ti ai" and r1: "GetActionState r1 = ST_RUNNING"
    and r2: "GetActionState r2 = ST_SUCCESS" "get_str (sr_ActionId r2) = a_ID (action_at wfl ti ai)"
    and wfl_eq: "wfl' = reported r2 ti ai (reported r1 ti ai (set_current cs wfl))"
  shows "if ai + 1 < length (t_Actions (wf_tasks wfl ! ti)) then at_position agent wfl' ti (ai + 1)
         else if ti + 1 < length (wf_tasks wfl) then at_position agent wfl' (ti + 1) 0
         else finished agent wfl'"
proof -
  have run: "runnable agent wfl" and ti: "ti < length (wf_tasks wfl)" and ai: "ai < length (t_Actions (wf_tasks wfl ! ti))"
    using pos by (simp_all add: at_position_def)
  have run': "runnable agent wfl'"
    unfolding wfl_eq by (intro reported_runnable set_current_runnable run)
  have len: "length (wf_tasks wfl') = length (wf_tasks wfl)"
    "\<And>i. length (t_Actions (wf_tasks wfl' ! i)) = length (t_Actions (wf_tasks wfl ! i))"
    by (simp_all add: wfl_eq)
  have act: "action_at wfl' i j =
      (if i = ti \<and> j = ai then reported_action r2 (reported_action r1 (action_at wfl ti ai)) else action_at wfl i j)" for i j
    using ti ai by (simp add: wfl_eq update_action_nth)
  have st: "a_State (action_at wfl' i j) = (if i = ti \<and> j = ai then WSSuccess else a_State (action_at wfl i j))" for i j
    by (simp add: act reported_action_def r2 WorkflowState_of_def)
  have id: "a_ID (action_at wfl' ti ai) = a_ID (action_at wfl ti ai)" by (simp add: act)
  have state: "wf_state wfl' =
      (if ti + 1 = length (wf_tasks wfl) \<and> ai + 1 = length (t_Actions (wf_tasks wfl ! ti)) then WSPost else WSRunning)"
    using ti ai by (auto simp: wfl_eq reported_def on_status_def apply_report_fields r1 r2 WorkflowState_of_def set_current_def)
  have cur: "\<exists>c. wf_current wfl' = Some c \<and> cur_State c = WSSuccess \<and> cur_ActionID c = a_ID (action_at wfl' ti ai)"
    unfolding id by (simp add: wfl_eq reported_def on_status_def apply_report_fields r2 WorkflowState_of_def)
  have before: "all_before wfl' ti (ai + 1)"
    unfolding all_before_def len st
  proof (intro allI impI)
    fix i j assume "i < length (wf_tasks wfl)" "j < length (t_Actions (wf_tasks wfl ! i))"
    from at_position_state [OF pos this]
    show "(if i = ti \<and> j = ai then WSSuccess else a_State (action_at wfl i j)) =
        (if i < ti \<or> i = ti \<and> j < ai + 1 then WSSuccess else WSPending)"
      by auto
  qed
  have next_task: "all_before wfl' (ti + 1) 0" if "ai + 1 = length (t_Actions (wf_tasks wfl ! ti))"
    unfolding all_before_def
  proof (intro allI impI)
    fix i j assume ij: "i < length (wf_tasks wfl')" "j < length (t_Actions (wf_tasks wfl' ! i))"
    with that have "(i < ti + 1 \<or> i = ti + 1 \<and> j < 0) \<longleftrightarrow> (i < ti \<or> i = ti \<and> j < ai + 1)"
      by (auto simp: len less_Suc_eq)
    with before ij show "a_State (action_at wfl' i j) = (if i < ti + 1 \<or> i = ti + 1 \<and> j < 0 then WSSuccess else WSPending)"
      by (simp add: all_before_def)
  qed
  consider "ai + 1 < length (t_Actions (wf_tasks wfl ! ti))"
    | "ai + 1 = length (t_Actions (wf_tasks wfl ! ti))" "ti + 1 < length (wf_tasks wfl)"
    | "ai + 1 = length (t_Actions (wf_tasks wfl ! ti))" "ti + 1 = length (wf_tasks wfl)"
    using ti ai by linarith
  then show ?thesis
  proof cases
    case 1
    then show ?thesis using run' ti len before state cur by (simp add: at_position_def)
  next
    case 2
    have "0 < length (t_Actions (wf_tasks wfl ! (ti + 1)))"
      using runnable_position [OF run 2(2)] by simp
    with 2 show ?thesis using run' len next_task state by (simp add: at_position_def)
  next
    case 3
    then show ?thesis using run' len next_task state by (simp add: finished_def)
  qed
qed


text \<open>The actions still to run, from a position on.\<close>

definition rest :: "nat \<Rightarrow> nat \<Rightarrow> Task list \<Rightarrow> string list" where
  "rest ti ai ts = drop ai (map a_ID (t_Actions (ts ! ti))) @ action_ids (drop (Suc ti) ts)"

lemma rest_step:
  assumes "ti < length ts" and "ai < length (t_Actions (ts ! ti))"
  shows "rest ti ai ts = a_ID (t_Actions (ts ! ti) ! ai) #
     (if ai + 1 < length (t_Actions (ts ! ti)) then rest ti (ai + 1) ts
      else if ti + 1 < length ts then rest (ti + 1) 0 ts else [])"
proof -
  have "drop ai (map a_ID (t_Actions (ts ! ti))) = a_ID (t_Actions (ts ! ti) ! ai) # drop (ai + 1) (map a_ID (t_Actions (ts ! ti)))"
    using assms(2) by (simp add: Cons_nth_drop_Suc [symmetric])
  moreover have "action_ids (drop (Suc ti) ts) = (if ti + 1 < length ts then rest (ti + 1) 0 ts else [])"
    by (auto simp: rest_def action_ids_def Cons_nth_drop_Suc [symmetric])
  ultimately show ?thesis using assms(2) by (simp add: rest_def)
qed

lemma rest_all: "ts \<noteq> [] \<Longrightarrow> rest 0 0 ts = action_ids ts"
  by (cases ts) (simp_all add: rest_def action_ids_def)

lemma rest_same:
  assumes "id_lists ts' = id_lists ts" and "ti < length ts"
  shows "rest ti ai ts' = rest ti ai ts"
proof -
  have "map a_ID (t_Actions (ts' ! ti)) = map a_ID (t_Actions (ts ! ti))"
    using assms by (metis (no_types, lifting) length_map nth_map)
  moreover have "action_ids (drop (Suc ti) ts') = action_ids (drop (Suc ti) ts)"
    using assms(1) unfolding action_ids_def by (metis drop_map)
  ultimately show ?thesis by (simp add: rest_def)
qed

lemma run_from_position:
  assumes store: "one_workflow_store (h_Backend h) get log" and retry: "retry_returns h env"
    and rt: "runtime_succeeds env get log" and opts: "\<not> ac_DiscoveryEnabled (h_AutoCapabilities h)"
    and pos: "at_position agent (get w) ti ai" and ids: "rest ti ai (wf_tasks (get w)) = ids"
  shows "\<exists>w'. agent_run (length ids) (grpc_env env pr (rpc_client h) agent attrs) False w = (Again False, w') \<and>
     log w' = log w @ ids \<and> finished agent (get w') \<and> id_lists (wf_tasks (get w')) = id_lists (wf_tasks (get w))"
  using pos ids
proof (induction ids arbitrary: w ti ai)
  case Nil
  then show ?case by (auto simp: at_position_def rest_step)
next
  case (Cons x xs)
  let ?env = "grpc_env env pr (rpc_client h) agent attrs" and ?ts = "wf_tasks (get w)"
  have ti: "ti < length ?ts" and ai: "ai < length (t_Actions (?ts ! ti))"
    using Cons.prems(1) by (simp_all add: at_position_def)
  have x: "x = a_ID (action_at (get w) ti ai)"
    and xs: "xs = (if ai + 1 < length (t_Actions (?ts ! ti)) then rest ti (ai + 1) ?ts
      else if ti + 1 < length ?ts then rest (ti + 1) 0 ?ts else [])"
    using Cons.prems(2) rest_step [OF ti ai] by simp_all
  obtain w1 r1 r2 cs where it: "agent_iteration ?env False w = (Again False, w1)" "log w1 = log w @ [x]"
      "get w1 = reported r2 ti ai (reported r1 ti ai (set_current cs (get w)))"
      "GetActionState r1 = ST_RUNNING" "GetActionState r2 = ST_SUCCESS" "get_str (sr_ActionId r2) = x"
    using iteration_at_position [OF store retry rt opts Cons.prems(1)] unfolding x by blast
  have same: "id_lists (wf_tasks (get w1)) = id_lists ?ts"
    unfolding it(3) by (simp add: update_action_id_lists)
  have rest: "rest i j (wf_tasks (get w1)) = rest i j ?ts" if "i < length ?ts" for i j
    by (rule rest_same [OF same that])
  have next_pos: "if ai + 1 < length (t_Actions (?ts ! ti)) then at_position agent (get w1) ti (ai + 1)
      else if ti + 1 < length ?ts then at_position agent (get w1) (ti + 1) 0 else finished agent (get w1)"
    using after_iteration [OF Cons.prems(1) it(4,5) it(6) [unfolded x] it(3)] .
  have "\<exists>w'. agent_run (length xs) ?env False w1 = (Again False, w') \<and> log w' = log w1 @ xs \<and>
      finished agent (get w') \<and> id_lists (wf_tasks (get w')) = id_lists (wf_tasks (get w1))"
  proof (cases "ai + 1 < length (t_Actions (?ts ! ti))")
    case True
    with next_pos xs rest [OF ti] show ?thesis by (intro Cons.IH) simp_all
  next
    case False
    show ?thesis
    proof (cases "ti + 1 < length ?ts")
      case True
      with False next_pos xs rest [OF True] show ?thesis by (intro Cons.IH) simp_all
    next
      case last: False
      with False next_pos xs show ?thesis by simp
    qed
  qed
  with it(1,2) same show ?case by simp
qed


section \<open>A workflow runs to its end\<close>

text \<open>C1. A workflow that is pending with every action pending, all of whose tasks are for one agent and whose
  action identifiers are distinct, is completed by that agent talking to the server: after as many
  iterations of the agent's loop as the workflow has actions, the runtime has executed every action
  exactly once in the template's order, every action is recorded as SUCCESS, and the workflow's
  state is POST. The store holds the workflow consistently, the retry loops return the first success,
  the runtime succeeds, and automatic discovery is off.\<close>

theorem workflow_completes:
  assumes "one_workflow_store (h_Backend h) get log" and "retry_returns h env" and "runtime_succeeds env get log"
    and "\<not> ac_DiscoveryEnabled (h_AutoCapabilities h)"
    and "runnable agent (get w)" and "wf_state (get w) = WSPending" and "all_before (get w) 0 0"
  shows "\<exists>w'. agent_run (length (action_ids (wf_tasks (get w)))) (grpc_env env pr (rpc_client h) agent attrs) False w =
       (Again False, w') \<and>
     log w' = log w @ action_ids (wf_tasks (get w)) \<and>
     action_ids (wf_tasks (get w')) = action_ids (wf_tasks (get w)) \<and>
     (\<forall>t \<in> set (wf_tasks (get w')). \<forall>a \<in> set (t_Actions t). a_State a = WSSuccess) \<and>
     wf_state (get w') = WSPost"
proof -
  have ne: "wf_tasks (get w) \<noteq> []" "t_Actions (wf_tasks (get w) ! 0) \<noteq> []"
    using assms(5) by (auto simp: runnable_def)
  then have "at_position agent (get w) 0 0"
    using assms(5-7) by (simp add: at_position_def)
  from run_from_position [OF assms(1-4) this rest_all [OF ne(1)], of pr attrs]
  obtain w' where w': "agent_run (length (action_ids (wf_tasks (get w)))) (grpc_env env pr (rpc_client h) agent attrs) False w =
       (Again False, w')" "log w' = log w @ action_ids (wf_tasks (get w))" "finished agent (get w')"
       "id_lists (wf_tasks (get w')) = id_lists (wf_tasks (get w))"
    by blast
  have "a_State a = WSSuccess" if "t \<in> set (wf_tasks (get w'))" "a \<in> set (t_Actions t)" for t a
    using w'(3) that by (auto simp: finished_def all_before_def in_set_conv_nth)
  with w' show ?thesis by (intro exI [of _ w']) (simp add: action_ids_def finished_def)
qed

text \<open>The two-action workflow, on a store that is the workflow itself beside the log of the runtime.\<close>

definition pair_backend :: "(Workflow \<times> string list) server_backend" where
  "pair_backend =
     \<lparr>sb_done = (\<lambda>w. False), sb_ListWorkflows = (\<lambda>f w. (Inr [fst w], w)), sb_ReadWorkflow = (\<lambda>n ns w. (Inr (fst w), w)),
      sb_UpdateWorkflow = (\<lambda>wfl u w. (None, (wfl, snd w))),
      sb_ReadHardware = (\<lambda>n ns w. (Inl (HardwareNotFoundError []), w)),
      sb_FilterHardware = (\<lambda>f w. (Inl (HardwareNotFoundError []), w)),
      sb_UpdateHardware = (\<lambda>ob u w. (None, w)), sb_ListWorkflowRuleSets = (\<lambda>f w. (Inr [], w)),
      sb_CreateWorkflow = (\<lambda>wfl w. (None, (wfl, snd w))), sb_CreateHardware = (\<lambda>ob w. (None, w)),
      sb_DiscoveryFilterHardware = (\<lambda>f w. (Inl (HardwareNotFoundError []), w))\<rparr>"

definition pair_handler :: "(Workflow \<times> string list) Handler" where
  "pair_handler =
     \<lparr>h_Backend = pair_backend, h_AutoCapabilities = no_auto, h_RetryOptions = [],
      h_quamina = \<lparr>qm_AddPattern = (\<lambda>ps p. None), qm_MatchesForEvent = (\<lambda>ps ev. Inr [])\<rparr>,
      h_Retry = (\<lambda>opts f. f), h_RetryStatus = (\<lambda>opts f. f)\<rparr>"

definition pair_env :: "(Workflow \<times> string list) agent_env" where
  "pair_env =
     \<lparr>ae_Done = (\<lambda>w. False), ae_Now = (\<lambda>w. 0), ae_Sleep = (\<lambda>w. w),
      ae_Read = (\<lambda>w. (Inl ContextCanceled, w)), ae_Write = (\<lambda>e w. (None, w)),
      ae_Execute = (\<lambda>d a w. (None, (fst w, snd w @ [sa_ID a]))), ae_RetryWrite = (\<lambda>f. f)\<rparr>"

lemma pair_laws:
  "one_workflow_store (h_Backend pair_handler) fst snd" "retry_returns pair_handler pair_env"
  "runtime_succeeds pair_env fst snd" "\<not> ac_DiscoveryEnabled (h_AutoCapabilities pair_handler)"
  by (simp_all add: one_workflow_store_def retry_returns_def runtime_succeeds_def pair_handler_def pair_backend_def pair_env_def
      no_auto_def)

lemma sample_runnable:
  "runnable ''ag'' sample_workflow" "wf_state sample_workflow = WSPending" "all_before sample_workflow 0 0"
  "action_ids (wf_tasks sample_workflow) = [''a1'', ''a2'']"
  by (simp_all add: runnable_def all_before_def action_ids_def sample_defs nth_Cons split: nat.split)

theorem workflow_completes_witness:
  "\<exists>w'. agent_run 2 (grpc_env pair_env (\<lambda>r. []) (rpc_client pair_handler) ''ag'' None) False (sample_workflow, []) =
       (Again False, w') \<and> snd w' = [''a1'', ''a2''] \<and> wf_state (fst w') = WSPost"
  using workflow_completes [OF pair_laws, of "''ag''" "(sample_workflow, [])" "\<lambda>r. []" None] sample_runnable
  by (auto simp: numeral_2_eq_2)

end
