(* ===== verification/Rufio_Device.thy ===== *)
theory Rufio_Device
  imports Api_Hardware "HOL-Library.Product_Lexorder" "HOL-Library.Multiset"
begin

text \<open>
  BMC inventories, \<open>src/rufio/internal/controller/inventory.go\<close>: bringing the lists of a device
  into a canonical order and mapping the device onto the attributes of a Hardware object. The
  device types are those of the BMC library, with the fields the source reads; a nil element of a
  list is \<open>None\<close>.
\<close>


section \<open>Devices\<close>

record common_Status =
  cst_Health :: string
  cst_State :: string
  cst_PostCode :: int
  cst_PostCodeStatus :: string

record common_Common =
  cc_Vendor :: string
  cc_Model :: string
  cc_ProductName :: string
  cc_Serial :: string
  cc_Description :: string
  cc_Firmware :: "string option"
  cc_Status :: "common_Status option"

record common_CPU = common_Common +
  ccpu_ID :: string
  ccpu_Slot :: string
  ccpu_Cores :: int
  ccpu_Threads :: int
  ccpu_ClockSpeedHz :: int

record common_Memory = common_Common +
  cmem_ID :: string
  cmem_Slot :: string
  cmem_PartNumber :: string
  cmem_SizeBytes :: int
  cmem_ClockSpeedHz :: int
  cmem_FormFactor :: string

record common_NICPort = common_Common +
  cport_ID :: string
  cport_PhysicalID :: string
  cport_MacAddress :: string
  cport_SpeedBits :: int
  cport_MTUSize :: int
  cport_LinkStatus :: string

record common_NIC = common_Common +
  cnic_ID :: string
  cnic_NICPorts :: "common_NICPort option list"

record common_Drive = common_Common +
  cdrv_ID :: string
  cdrv_WWN :: string
  cdrv_CapacityBytes :: int
  cdrv_Type :: string
  cdrv_SmartStatus :: string

record common_StorageController = common_Common +
  csc_ID :: string

record common_PSU = common_Common +
  cpsu_ID :: string
  cpsu_PowerCapacityWatts :: int

record common_TPM = common_Common +
  ctpm_InterfaceType :: string

record common_BMC = common_Common +
  cbmc_NIC :: "common_NIC option"

record common_Device = common_Common +
  dev_BIOS :: "common_Common option"
  dev_BMC :: "common_BMC option"
  dev_Mainboard :: "common_Common option"
  dev_CPUs :: "common_CPU option list"
  dev_Memory :: "common_Memory option list"
  dev_NICs :: "common_NIC option list"
  dev_Drives :: "common_Drive option list"
  dev_StorageControllers :: "common_StorageController option list"
  dev_PSUs :: "common_PSU option list"
  dev_TPMs :: "common_TPM option list"
  dev_GPUs :: "common_Common option list"


section \<open>A canonical order\<close>

text \<open>\<open>cmp.Or\<close>: the first string that is not empty.\<close>

fun cmp_Or :: "string list \<Rightarrow> string" where
  "cmp_Or [] = []"
| "cmp_Or (s # ss) = (if s \<noteq> [] then s else cmp_Or ss)"

definition nil_key :: "('a \<Rightarrow> string) \<Rightarrow> 'a option \<Rightarrow> string" where
  "nil_key f x = (case x of None \<Rightarrow> [] | Some y \<Rightarrow> f y)"

definition cpuKey :: "common_CPU option \<Rightarrow> string" where
  "cpuKey = nil_key (\<lambda>c. cmp_Or [ccpu_ID c, ccpu_Slot c, cc_Serial c])"

definition memoryKey :: "common_Memory option \<Rightarrow> string" where
  "memoryKey = nil_key (\<lambda>m. cmp_Or [cmem_ID m, cmem_Slot m, cc_Serial m])"

definition nicKey :: "common_NIC option \<Rightarrow> string" where
  "nicKey = nil_key (\<lambda>n. cmp_Or [cnic_ID n, cc_Serial n])"

definition nicPortKey :: "common_NICPort option \<Rightarrow> string" where
  "nicPortKey = nil_key (\<lambda>p. cmp_Or [cport_PhysicalID p, cport_ID p, cport_MacAddress p])"

definition driveKey :: "common_Drive option \<Rightarrow> string" where
  "driveKey = nil_key (\<lambda>d. cmp_Or [cdrv_ID d, cc_Serial d, cdrv_WWN d])"

definition storageControllerKey :: "common_StorageController option \<Rightarrow> string" where
  "storageControllerKey = nil_key (\<lambda>c. cmp_Or [csc_ID c, cc_Serial c])"

definition psuKey :: "common_PSU option \<Rightarrow> string" where
  "psuKey = nil_key (\<lambda>p. cmp_Or [cpsu_ID p, cc_Serial p])"

definition tpmKey :: "common_TPM option \<Rightarrow> string" where
  "tpmKey = nil_key cc_Serial"

definition gpuKey :: "common_Common option \<Rightarrow> string" where
  "gpuKey = nil_key (\<lambda>g. cmp_Or [cc_Serial g, cc_Model g, cc_ProductName g])"

text \<open>\<open>pr\<close> is what \<open>%+v\<close> prints. Elements that agree in key and print keep their order here;
  \<open>sort.Slice\<close> leaves that open.\<close>

definition sortByKeyThenContent :: "('a \<Rightarrow> string) \<Rightarrow> ('a \<Rightarrow> string) \<Rightarrow> 'a list \<Rightarrow> 'a list" where
  "sortByKeyThenContent pr key s = sort_key (\<lambda>x. (key x, pr x)) s"

text \<open>What \<open>%+v\<close> prints for each of the element types.\<close>

record content_printer =
  pr_CPU :: "common_CPU option \<Rightarrow> string"
  pr_Memory :: "common_Memory option \<Rightarrow> string"
  pr_NIC :: "common_NIC option \<Rightarrow> string"
  pr_NICPort :: "common_NICPort option \<Rightarrow> string"
  pr_Drive :: "common_Drive option \<Rightarrow> string"
  pr_StorageController :: "common_StorageController option \<Rightarrow> string"
  pr_PSU :: "common_PSU option \<Rightarrow> string"
  pr_TPM :: "common_TPM option \<Rightarrow> string"
  pr_GPU :: "common_Common option \<Rightarrow> string"

definition sort_ports :: "content_printer \<Rightarrow> common_NIC \<Rightarrow> common_NIC" where
  "sort_ports pr n = n\<lparr>cnic_NICPorts := sortByKeyThenContent (pr_NICPort pr) nicPortKey (cnic_NICPorts n)\<rparr>"

text \<open>The cards are sorted before their ports are.\<close>

definition sortDevice :: "content_printer \<Rightarrow> common_Device \<Rightarrow> common_Device" where
  "sortDevice pr d =
     d\<lparr>dev_CPUs := sortByKeyThenContent (pr_CPU pr) cpuKey (dev_CPUs d),
       dev_Memory := sortByKeyThenContent (pr_Memory pr) memoryKey (dev_Memory d),
       dev_NICs := map (map_option (sort_ports pr)) (sortByKeyThenContent (pr_NIC pr) nicKey (dev_NICs d)),
       dev_Drives := sortByKeyThenContent (pr_Drive pr) driveKey (dev_Drives d),
       dev_StorageControllers := sortByKeyThenContent (pr_StorageController pr) storageControllerKey (dev_StorageControllers d),
       dev_PSUs := sortByKeyThenContent (pr_PSU pr) psuKey (dev_PSUs d),
       dev_TPMs := sortByKeyThenContent (pr_TPM pr) tpmKey (dev_TPMs d),
       dev_GPUs := sortByKeyThenContent (pr_GPU pr) gpuKey (dev_GPUs d),
       dev_BMC := map_option (\<lambda>b. b\<lparr>cbmc_NIC := map_option (sort_ports pr) (cbmc_NIC b)\<rparr>) (dev_BMC d)\<rparr>"


section \<open>Attributes\<close>

text \<open>\<open>u32\<close> and \<open>i32\<close> are the values \<open>safecast.Convert\<close> returns for the two widths, its error being
  ignored.\<close>

record safecast =
  u32 :: "int \<Rightarrow> 32 word"
  i32 :: "int \<Rightarrow> int"

definition firmwareVersion :: "string option \<Rightarrow> string" where
  "firmwareVersion f = (case f of None \<Rightarrow> [] | Some v \<Rightarrow> v)"

definition statusFromCommon :: "common_Status option \<Rightarrow> ComponentStatus option" where
  "statusFromCommon s = (case s of None \<Rightarrow> None
     | Some s \<Rightarrow> Some \<lparr>cs_Health = cst_Health s, cs_State = cst_State s, cs_PostCode = None, cs_PostCodeStatus = []\<rparr>)"

definition postStatusFromCommon :: "safecast \<Rightarrow> common_Status option \<Rightarrow> ComponentStatus option" where
  "postStatusFromCommon sf s =
     (case (s, statusFromCommon s) of
        (Some s, Some cs) \<Rightarrow>
          Some (if cst_PostCodeStatus s \<noteq> []
            then cs\<lparr>cs_PostCode := Some (i32 sf (cst_PostCode s)), cs_PostCodeStatus := cst_PostCodeStatus s\<rparr> else cs)
      | _ \<Rightarrow> None)"

definition productFromCommon :: "safecast \<Rightarrow> 'a common_Common_scheme \<Rightarrow> Product option" where
  "productFromCommon sf c =
     (let status = postStatusFromCommon sf (cc_Status c) in
      if cc_Vendor c = [] \<and> cc_Model c = [] \<and> cc_ProductName c = [] \<and> cc_Serial c = [] \<and> status = None then None
      else Some \<lparr>prod_Name = cc_ProductName c, prod_Vendor = cc_Vendor c, prod_Model = cc_Model c,
        prod_SerialNumber = cc_Serial c, prod_Status = status\<rparr>)"

definition biosFromCommon :: "common_Common option \<Rightarrow> BIOS option" where
  "biosFromCommon b = map_option (\<lambda>b. \<lparr>bios_Vendor = cc_Vendor b, bios_Model = cc_Model b, bios_SerialNumber = cc_Serial b,
     bios_FirmwareVersion = firmwareVersion (cc_Firmware b), bios_ReleaseDate = [], bios_Status = statusFromCommon (cc_Status b)\<rparr>) b"

definition port_of :: "safecast \<Rightarrow> common_NICPort \<Rightarrow> NetworkPort" where
  "port_of sf p = \<lparr>port_PortID = cmp_Or [cport_PhysicalID p, cport_ID p], port_MAC = cport_MacAddress p,
     port_SpeedMbps = u32 sf (go_quot (cport_SpeedBits p) 1000000), port_MTU = u32 sf (cport_MTUSize p),
     port_LinkStatus = cport_LinkStatus p, port_EnabledCapabilities = []\<rparr>"

definition nic_of :: "safecast \<Rightarrow> common_NIC \<Rightarrow> NetworkInterface" where
  "nic_of sf n = \<lparr>nif_Name = [], nif_Vendor = cc_Vendor n, nif_Model = cc_Model n, nif_SerialNumber = cc_Serial n,
     nif_FirmwareVersion = firmwareVersion (cc_Firmware n), nif_Ports = map (port_of sf) (List.map_filter id (cnic_NICPorts n))\<rparr>"

definition networkInterfaceFromCommon :: "safecast \<Rightarrow> common_NIC option \<Rightarrow> NetworkInterface option" where
  "networkInterfaceFromCommon sf n = map_option (nic_of sf) n"

definition bmcFromCommon :: "safecast \<Rightarrow> common_BMC option \<Rightarrow> BMC option" where
  "bmcFromCommon sf b = map_option (\<lambda>b. \<lparr>bmc_Vendor = cc_Vendor b, bmc_Model = cc_Model b, bmc_SerialNumber = cc_Serial b,
     bmc_FirmwareVersion = firmwareVersion (cc_Firmware b), bmc_NIC = networkInterfaceFromCommon sf (cbmc_NIC b),
     bmc_Status = statusFromCommon (cc_Status b)\<rparr>) b"

definition baseboardFromMainboard :: "common_Common option \<Rightarrow> Baseboard option" where
  "baseboardFromMainboard m = map_option (\<lambda>m. \<lparr>bb_Vendor = cc_Vendor m, bb_Model = cc_Model m, bb_SerialNumber = cc_Serial m,
     bb_Description = cc_Description m, bb_FirmwareVersion = firmwareVersion (cc_Firmware m),
     bb_Status = statusFromCommon (cc_Status m)\<rparr>) m"

definition socket_of :: "safecast \<Rightarrow> common_CPU \<Rightarrow> CPUSocket" where
  "socket_of sf c = \<lparr>sock_Slot = ccpu_Slot c, sock_Vendor = cc_Vendor c, sock_Model = cc_Model c,
     sock_Cores = u32 sf (ccpu_Cores c), sock_Threads = u32 sf (ccpu_Threads c),
     sock_ClockSpeedMHz = u32 sf (go_quot (ccpu_ClockSpeedHz c) 1000000), sock_SerialNumber = cc_Serial c,
     sock_Capabilities = [], sock_FirmwareVersion = firmwareVersion (cc_Firmware c)\<rparr>"

definition module_of :: "safecast \<Rightarrow> common_Memory \<Rightarrow> MemoryModule" where
  "module_of sf m = \<lparr>mem_Slot = cmem_Slot m, mem_Vendor = cc_Vendor m, mem_Model = cc_Model m, mem_SerialNumber = cc_Serial m,
     mem_PartNumber = cmem_PartNumber m, mem_SizeBytes = cmem_SizeBytes m,
     mem_SpeedMHz = u32 sf (go_quot (cmem_ClockSpeedHz m) 1000000), mem_FormFactor = cmem_FormFactor m,
     mem_FirmwareVersion = firmwareVersion (cc_Firmware m)\<rparr>"

definition block_of :: "common_Drive \<Rightarrow> BlockDevice" where
  "block_of d = \<lparr>blk_Name = [], blk_ControllerType = [], blk_DriveType = cdrv_Type d, blk_Vendor = cc_Vendor d,
     blk_Model = cc_Model d, blk_SerialNumber = cc_Serial d, blk_WWN = cdrv_WWN d, blk_SizeBytes = cdrv_CapacityBytes d,
     blk_PhysicalBlockSizeBytes = 0, blk_SmartStatus = cdrv_SmartStatus d,
     blk_FirmwareVersion = firmwareVersion (cc_Firmware d), blk_Status = statusFromCommon (cc_Status d)\<rparr>"

definition storage_of :: "common_StorageController \<Rightarrow> StorageController" where
  "storage_of c = \<lparr>sc_Vendor = cc_Vendor c, sc_Model = cc_Model c, sc_SerialNumber = cc_Serial c,
     sc_Description = cc_Description c, sc_FirmwareVersion = firmwareVersion (cc_Firmware c),
     sc_Status = statusFromCommon (cc_Status c)\<rparr>"

definition psu_of :: "common_PSU \<Rightarrow> PSU" where
  "psu_of p = \<lparr>psu_Vendor = cc_Vendor p, psu_Model = cc_Model p, psu_SerialNumber = cc_Serial p,
     psu_Description = cc_Description p, psu_FirmwareVersion = firmwareVersion (cc_Firmware p),
     psu_PowerCapacityWatts = cpsu_PowerCapacityWatts p, psu_Status = statusFromCommon (cc_Status p)\<rparr>"

definition tpm_of :: "common_TPM \<Rightarrow> TPM" where
  "tpm_of t = \<lparr>tpm_Vendor = cc_Vendor t, tpm_Model = cc_Model t, tpm_SerialNumber = cc_Serial t,
     tpm_InterfaceType = ctpm_InterfaceType t, tpm_FirmwareVersion = firmwareVersion (cc_Firmware t),
     tpm_Status = statusFromCommon (cc_Status t)\<rparr>"

definition gpu_of :: "common_Common \<Rightarrow> GPUDevice" where
  "gpu_of g = \<lparr>gpu_Vendor = cc_Vendor g, gpu_Model = cc_Model g, gpu_SerialNumber = cc_Serial g,
     gpu_Description = cc_Description g, gpu_Class = [], gpu_Driver = [],
     gpu_FirmwareVersion = firmwareVersion (cc_Firmware g), gpu_Status = statusFromCommon (cc_Status g)\<rparr>"

text \<open>Nil elements are skipped; processors and memory only appear when there is one.\<close>

definition attributesFromDevice :: "safecast \<Rightarrow> common_Device option \<Rightarrow> string \<Rightarrow> time \<Rightarrow> Attributes option" where
  "attributesFromDevice sf device collectionMethod t =
     (case device of None \<Rightarrow> None
      | Some d \<Rightarrow>
          (let sockets = map (socket_of sf) (List.map_filter id (dev_CPUs d));
               modules = map (module_of sf) (List.map_filter id (dev_Memory d))
           in Some (empty_Attributes
                \<lparr>at_LastUpdated := Some t, at_CollectionMethod := collectionMethod,
                 at_Product := productFromCommon sf d, at_BIOS := biosFromCommon (dev_BIOS d),
                 at_BMC := bmcFromCommon sf (dev_BMC d), at_Baseboard := baseboardFromMainboard (dev_Mainboard d),
                 at_CPU := (if sockets = [] then None
                   else Some \<lparr>cpu_TotalCores = 0, cpu_TotalThreads = 0, cpu_Sockets = sockets\<rparr>),
                 at_Memory := (if modules = [] then None
                   else Some \<lparr>memory_TotalBytes = 0, memory_UsableBytes = 0, memory_Modules = modules\<rparr>),
                 at_NetworkInterfaces := List.map_filter (networkInterfaceFromCommon sf) (dev_NICs d),
                 at_BlockDevices := map block_of (List.map_filter id (dev_Drives d)),
                 at_StorageControllers := map storage_of (List.map_filter id (dev_StorageControllers d)),
                 at_PSUs := map psu_of (List.map_filter id (dev_PSUs d)),
                 at_TPMs := map tpm_of (List.map_filter id (dev_TPMs d)),
                 at_GPUDevices := map gpu_of (List.map_filter id (dev_GPUs d))\<rparr>)))"

end
