(* ===== verification/Rufio.thy ===== *)
theory Rufio
  imports Api_Bmc Rufio_Device
begin

text \<open>
  Rufio, the BMC controller, \<open>src/rufio/internal/controller\<close>: the reconcilers of jobs
  (\<open>job.go\<close>) and tasks (\<open>task.go\<close>), the credentials and power states they share (\<open>kube.go\<close>) and
  the options of a BMC connection (\<open>client.go\<close>). The API client and the BMC library are records of
  operations on an abstract world. Logging and the providers' metadata are left out.
\<close>


section \<open>The API client and the BMC library\<close>

text \<open>\<open>Patch\<close> gets the object before and after the change, as \<open>MergeFrom\<close> keeps the first.\<close>

record 'w rufio_client =
  rk_now :: "'w \<Rightarrow> time"
  rk_GetJob :: "string \<Rightarrow> string \<Rightarrow> 'w \<Rightarrow> (gerr + Job) \<times> 'w"
  rk_GetTask :: "string \<Rightarrow> string \<Rightarrow> 'w \<Rightarrow> (gerr + bmc_Task) \<times> 'w"
  rk_GetMachine :: "string \<Rightarrow> string \<Rightarrow> 'w \<Rightarrow> (gerr + Machine) \<times> 'w"
  rk_GetSecret :: "string \<Rightarrow> string \<Rightarrow> 'w \<Rightarrow> (gerr + (string \<rightharpoonup> string)) \<times> 'w"
  rk_ListTasks :: "string \<Rightarrow> string \<Rightarrow> 'w \<Rightarrow> (gerr + bmc_Task list) \<times> 'w"
  rk_CreateTask :: "bmc_Task \<Rightarrow> 'w \<Rightarrow> gerr option \<times> 'w"
  rk_PatchJob :: "Job \<Rightarrow> Job \<Rightarrow> 'w \<Rightarrow> gerr option \<times> 'w"
  rk_PatchTask :: "bmc_Task \<Rightarrow> bmc_Task \<Rightarrow> 'w \<Rightarrow> gerr option \<times> 'w"

record 'w bmc_conn =
  bc_SetPowerState :: "string \<Rightarrow> 'w \<Rightarrow> (gerr + bool) \<times> 'w"
  bc_GetPowerState :: "'w \<Rightarrow> (gerr + string) \<times> 'w"
  bc_SetBootDevice :: "string \<Rightarrow> bool \<Rightarrow> bool \<Rightarrow> 'w \<Rightarrow> (bool \<times> gerr option) \<times> 'w"
  bc_SetVirtualMedia :: "string \<Rightarrow> string \<Rightarrow> 'w \<Rightarrow> (gerr + bool) \<times> 'w"
  bc_Inventory :: "'w \<Rightarrow> (gerr + common_Device option) \<times> 'w"
  bc_SuccessfulProvider :: "'w \<Rightarrow> string"
  bc_Close :: "'w \<Rightarrow> gerr option \<times> 'w"

definition named :: "string \<Rightarrow> string \<Rightarrow> string" where
  "named ns name = ns @ ''/'' @ name"


section \<open>Credentials and power states\<close>

definition quoted :: "string \<Rightarrow> string" where
  "quoted s = [CHR 0x27] @ s @ [CHR 0x27]"

text \<open>The argument \<open>ref\<close> prints a secret reference the way \<open>%s\<close> prints that struct.\<close>

definition resolveAuthSecretRef ::
  "'w rufio_client \<Rightarrow> (SecretReference \<Rightarrow> string) \<Rightarrow> SecretReference \<Rightarrow> 'w \<Rightarrow> (gerr + string \<times> string) \<times> 'w" where
  "resolveAuthSecretRef k ref secretRef w =
     (case rk_GetSecret k (sref_Namespace secretRef) (sref_Name secretRef) w of
        (Inl e, w1) \<Rightarrow>
          (Inl (if IsNotFound e
             then WrapError (''secret '' @ named (sref_Namespace secretRef) (sref_Name secretRef) @ '' not found: '') e []
             else WrapError (''failed to retrieve secret '' @ ref secretRef @ '' : '') e []), w1)
      | (Inr data, w1) \<Rightarrow>
          (case data ''username'' of
             None \<Rightarrow> (Inl (NewError (quoted ''username'' @ '' required in Machine secret'')), w1)
           | Some u \<Rightarrow>
               (case data ''password'' of
                  None \<Rightarrow> (Inl (NewError (quoted ''password'' @ '' required in Machine secret'')), w1)
                | Some p \<Rightarrow> (Inr (u, p), w1))))"

definition toPowerState :: "string \<Rightarrow> PowerState" where
  "toPowerState raw =
     (let s = to_lower raw in
      if contains_str ''on'' s then On else if contains_str ''off'' s then Off else PowerUnknown)"

text \<open>The secrets of one algorithm are collected in order; \<open>acc\<close> is the map built so far. A secret
  without the key \<open>secret\<close> contributes the empty string.\<close>

type_synonym rpc_secrets = "(string \<times> string list) list"

fun add_secret :: "string \<Rightarrow> string \<Rightarrow> rpc_secrets \<Rightarrow> rpc_secrets" where
  "add_secret alg s [] = [(alg, [s])]"
| "add_secret alg s ((a, xs) # rest) = (if a = alg then (a, xs @ [s]) # rest else (a, xs) # add_secret alg s rest)"

fun hmac_refs ::
  "'w rufio_client \<Rightarrow> (SecretReference \<Rightarrow> string) \<Rightarrow> string \<Rightarrow> SecretReference list \<Rightarrow> rpc_secrets \<Rightarrow> 'w \<Rightarrow>
   (gerr + rpc_secrets) \<times> 'w" where
  "hmac_refs k ref alg [] acc w = (Inr acc, w)"
| "hmac_refs k ref alg (s # ss) acc w =
     (case rk_GetSecret k (sref_Namespace s) (sref_Name s) w of
        (Inl e, w1) \<Rightarrow>
          (Inl (if IsNotFound e
             then WrapError (''secret '' @ named (sref_Namespace s) (sref_Name s) @ '' not found: '') e []
             else WrapError (''failed to retrieve secret '' @ ref s @ '' : '') e []), w1)
      | (Inr data, w1) \<Rightarrow>
          hmac_refs k ref alg ss (add_secret alg (case data ''secret'' of None \<Rightarrow> [] | Some d \<Rightarrow> d) acc) w1)"

fun hmac_algorithms ::
  "'w rufio_client \<Rightarrow> (SecretReference \<Rightarrow> string) \<Rightarrow> HMACSecrets \<Rightarrow> rpc_secrets \<Rightarrow> 'w \<Rightarrow> (gerr + rpc_secrets) \<times> 'w" where
  "hmac_algorithms k ref [] acc w = (Inr acc, w)"
| "hmac_algorithms k ref ((alg, refs) # rest) acc w =
     (case hmac_refs k ref alg refs acc w of
        (Inl e, w1) \<Rightarrow> (Inl e, w1)
      | (Inr acc', w1) \<Rightarrow> hmac_algorithms k ref rest acc' w1)"

definition retrieveHMACSecrets ::
  "'w rufio_client \<Rightarrow> (SecretReference \<Rightarrow> string) \<Rightarrow> HMACSecrets \<Rightarrow> 'w \<Rightarrow> (gerr + rpc_secrets) \<times> 'w" where
  "retrieveHMACSecrets k ref secrets w = hmac_algorithms k ref secrets [] w"


section \<open>Connection options\<close>

text \<open>The configuration types of the BMC library that \<open>client.go\<close> fills in, and its options.\<close>

record rpc_RequestOpts =
  rro_HTTPContentType :: string
  rro_HTTPMethod :: string
  rro_StaticHeaders :: "(string \<times> string list) list"
  rro_TimestampFormat :: string
  rro_TimestampHeader :: string

record rpc_SignatureOpts =
  rso_HeaderName :: string
  rso_AppendAlgoToHeaderDisabled :: bool
  rso_IncludedPayloadHeaders :: "string list"

record rpc_HMACOpts =
  rho_PrefixSigDisabled :: bool
  rho_Secrets :: rpc_secrets

record rpc_Experimental =
  rex_CustomRequestPayload :: string
  rex_DotPath :: string

record rpc_Opts =
  ro_Request :: rpc_RequestOpts
  ro_Signature :: rpc_SignatureOpts
  ro_HMAC :: rpc_HMACOpts
  ro_Experimental :: rpc_Experimental

record rpc_Provider =
  rp_ConsumerURL :: string
  rp_Host :: string
  rp_Opts :: rpc_Opts

datatype bmclib_option =
    WithRedfishPort string
  | WithRedfishUseBasicAuth bool
  | WithRedfishSystemName string
  | WithIpmitoolPort string
  | WithIpmitoolCipherSuite string
  | WithIntelAMTPort "32 word"
  | WithIntelAMTHostScheme string
  | WithRPCOpt rpc_Provider
  | WithHomeAssistantOpt string "32 word"

record BMCOptions =
  bo_ProviderOptions :: "ProviderOptions option"
  bo_rpcSecrets :: rpc_secrets

definition empty_RequestOpts :: rpc_RequestOpts where
  "empty_RequestOpts = \<lparr>rro_HTTPContentType = [], rro_HTTPMethod = [], rro_StaticHeaders = [], rro_TimestampFormat = [],
     rro_TimestampHeader = []\<rparr>"

definition toRequestOpts :: "RequestOpts option \<Rightarrow> rpc_RequestOpts" where
  "toRequestOpts r = (case r of None \<Rightarrow> empty_RequestOpts
     | Some r \<Rightarrow> \<lparr>rro_HTTPContentType = req_HTTPContentType r, rro_HTTPMethod = req_HTTPMethod r,
         rro_StaticHeaders = req_StaticHeaders r, rro_TimestampFormat = req_TimestampFormat r,
         rro_TimestampHeader = req_TimestampHeader r\<rparr>)"

definition empty_SignatureOpts :: rpc_SignatureOpts where
  "empty_SignatureOpts = \<lparr>rso_HeaderName = [], rso_AppendAlgoToHeaderDisabled = False, rso_IncludedPayloadHeaders = []\<rparr>"

definition toSignatureOpts :: "SignatureOpts option \<Rightarrow> rpc_SignatureOpts" where
  "toSignatureOpts s = (case s of None \<Rightarrow> empty_SignatureOpts
     | Some s \<Rightarrow> \<lparr>rso_HeaderName = sig_HeaderName s, rso_AppendAlgoToHeaderDisabled = sig_AppendAlgoToHeaderDisabled s,
         rso_IncludedPayloadHeaders = sig_IncludedPayloadHeaders s\<rparr>)"

definition toHMACOpts :: "HMACOpts option \<Rightarrow> rpc_HMACOpts" where
  "toHMACOpts h = (case h of None \<Rightarrow> \<lparr>rho_PrefixSigDisabled = False, rho_Secrets = []\<rparr>
     | Some h \<Rightarrow> \<lparr>rho_PrefixSigDisabled = hmac_PrefixSigDisabled h, rho_Secrets = []\<rparr>)"

definition toExperimentalOpts :: "ExperimentalOpts option \<Rightarrow> rpc_Experimental" where
  "toExperimentalOpts e = (case e of None \<Rightarrow> \<lparr>rex_CustomRequestPayload = [], rex_DotPath = []\<rparr>
     | Some e \<Rightarrow> \<lparr>rex_CustomRequestPayload = exp_CustomRequestPayload e, rex_DotPath = exp_DotPath e\<rparr>)"

definition toRPCOpts :: "RPCOptions \<Rightarrow> rpc_Opts" where
  "toRPCOpts r = \<lparr>ro_Request = toRequestOpts (rpc_Request r), ro_Signature = toSignatureOpts (rpc_Signature r),
     ro_HMAC = toHMACOpts (rpc_HMAC r), ro_Experimental = toExperimentalOpts (rpc_Experimental r)\<rparr>"

definition rpc_defaults :: rpc_Provider where
  "rpc_defaults =
     \<lparr>rp_ConsumerURL = [], rp_Host = [],
      rp_Opts = \<lparr>ro_Request = empty_RequestOpts\<lparr>rro_TimestampHeader := ''X-Rufio-Timestamp''\<rparr>,
        ro_Signature = \<lparr>rso_HeaderName = ''X-Rufio-Signature'', rso_AppendAlgoToHeaderDisabled = False,
          rso_IncludedPayloadHeaders = [''X-Rufio-Timestamp'']\<rparr>,
        ro_HMAC = toHMACOpts None, ro_Experimental = toExperimentalOpts None\<rparr>\<rparr>"

text \<open>\<open>merge\<close> is \<open>mergo.Merge\<close> with the options of the call.\<close>

definition translateRPC :: "(rpc_Provider \<Rightarrow> rpc_Provider \<Rightarrow> rpc_Provider) \<Rightarrow> BMCOptions \<Rightarrow> RPCOptions \<Rightarrow> string \<Rightarrow> rpc_Provider" where
  "translateRPC merge b r host =
     (let opts = toRPCOpts r;
          opts1 = (if bo_rpcSecrets b \<noteq> []
            then opts\<lparr>ro_HMAC := (ro_HMAC opts)\<lparr>rho_Secrets := bo_rpcSecrets b\<rparr>\<rparr> else opts)
      in merge \<lparr>rp_ConsumerURL = rpc_ConsumerURL r, rp_Host = host, rp_Opts = opts1\<rparr> rpc_defaults)"

text \<open>\<open>safecast.Convert\<close> to an unsigned 32-bit integer.\<close>

definition to_uint32 :: "int \<Rightarrow> 32 word option" where
  "to_uint32 i = (if 0 \<le> i \<and> i < 2 ^ 32 then Some (word_of_int i) else None)"

definition translateHomeAssistant :: "HomeAssistantOptions \<Rightarrow> bmclib_option" where
  "translateHomeAssistant h = WithHomeAssistantOpt (ha_SwitchEntityID h) (ha_PowerOperationDelaySeconds h)"

definition redfish_options :: "RedfishOptions \<Rightarrow> bmclib_option list" where
  "redfish_options r =
     (if redfish_Port r \<noteq> 0 then [WithRedfishPort (string_of_int (redfish_Port r))] else []) @
     (if redfish_UseBasicAuth r then [WithRedfishUseBasicAuth True] else []) @
     (if redfish_SystemName r \<noteq> [] then [WithRedfishSystemName (redfish_SystemName r)] else [])"

definition ipmitool_options :: "IPMITOOLOptions \<Rightarrow> bmclib_option list" where
  "ipmitool_options i =
     (if ipmi_Port i \<noteq> 0 then [WithIpmitoolPort (string_of_int (ipmi_Port i))] else []) @
     (if ipmi_CipherSuite i \<noteq> [] then [WithIpmitoolCipherSuite (ipmi_CipherSuite i)] else [])"

definition intelamt_options :: "IntelAMTOptions \<Rightarrow> bmclib_option list" where
  "intelamt_options a =
     [WithIntelAMTPort (case to_uint32 (amt_Port a) of Some p \<Rightarrow> p | None \<Rightarrow> 16992), WithIntelAMTHostScheme (amt_HostScheme a)]"

definition Translate :: "(rpc_Provider \<Rightarrow> rpc_Provider \<Rightarrow> rpc_Provider) \<Rightarrow> BMCOptions \<Rightarrow> string \<Rightarrow> bmclib_option list" where
  "Translate merge b host =
     (case bo_ProviderOptions b of None \<Rightarrow> []
      | Some po \<Rightarrow>
          (case po_Redfish po of None \<Rightarrow> [] | Some r \<Rightarrow> redfish_options r) @
          (case po_IPMITOOL po of None \<Rightarrow> [] | Some i \<Rightarrow> ipmitool_options i) @
          (case po_IntelAMT po of None \<Rightarrow> [] | Some a \<Rightarrow> intelamt_options a) @
          (case po_RPC po of None \<Rightarrow> [] | Some r \<Rightarrow> [WithRPCOpt (translateRPC merge b r host)]) @
          (case po_HomeAssistant po of None \<Rightarrow> [] | Some h \<Rightarrow> [translateHomeAssistant h]))"

text \<open>The library: a client for a host with its credentials, options and preferred drivers, opened
  with a timeout.\<close>

record bmclib_config =
  lc_Host :: string
  lc_Username :: string
  lc_Password :: string
  lc_Options :: "bmclib_option list"
  lc_PreferDriver :: "string list"

type_synonym 'w ClientFunc = "string \<Rightarrow> string \<Rightarrow> string \<Rightarrow> BMCOptions \<Rightarrow> 'w \<Rightarrow> (gerr + 'w bmc_conn) \<times> 'w"

definition NewClientFunc ::
  "(rpc_Provider \<Rightarrow> rpc_Provider \<Rightarrow> rpc_Provider) \<Rightarrow> (bmclib_config \<Rightarrow> 'w \<Rightarrow> (gerr + 'w bmc_conn) \<times> 'w) \<Rightarrow> 'w ClientFunc" where
  "NewClientFunc merge lib_open host username password opts w =
     (case lib_open \<lparr>lc_Host = host, lc_Username = username, lc_Password = password, lc_Options = Translate merge opts host,
         lc_PreferDriver = (case bo_ProviderOptions opts of None \<Rightarrow> [] | Some po \<Rightarrow> po_PreferredOrder po)\<rparr> w of
        (Inl e, w1) \<Rightarrow> (Inl (errorf ''failed to open connection to BMC: '' e), w1)
      | (Inr c, w1) \<Rightarrow> (Inr c, w1))"

text \<open>What the task and machine reconcilers do before they open the connection: the credentials come
  from the secret of the connection, or are HMAC secrets when the provider is RPC.\<close>

definition connection_options ::
  "'w rufio_client \<Rightarrow> (SecretReference \<Rightarrow> string) \<Rightarrow> (gerr \<Rightarrow> gerr) \<Rightarrow> Connection \<Rightarrow> 'w \<Rightarrow>
   (gerr + string \<times> string \<times> BMCOptions) \<times> 'w" where
  "connection_options k ref ctx conn w =
     (let opts = \<lparr>bo_ProviderOptions = conn_ProviderOptions conn, bo_rpcSecrets = []\<rparr> in
      case conn_ProviderOptions conn of
        Some po \<Rightarrow>
          (case po_RPC po of
             Some r \<Rightarrow>
               (case rpc_HMAC r of
                  Some h \<Rightarrow>
                    (if hmac_Secrets h \<noteq> [] then
                       (case retrieveHMACSecrets k ref (hmac_Secrets h) w of
                          (Inl e, w1) \<Rightarrow> (Inl (errorf ''unable to get hmac secrets: '' e), w1)
                        | (Inr se, w1) \<Rightarrow> (Inr ([], [], opts\<lparr>bo_rpcSecrets := se\<rparr>), w1))
                     else (Inr ([], [], opts), w))
                | None \<Rightarrow> (Inr ([], [], opts), w))
           | None \<Rightarrow>
               (case resolveAuthSecretRef k ref (conn_AuthSecretRef conn) w of
                  (Inl e, w1) \<Rightarrow> (Inl (ctx e), w1)
                | (Inr (u, p), w1) \<Rightarrow> (Inr (u, p, opts), w1)))
      | None \<Rightarrow>
          (case resolveAuthSecretRef k ref (conn_AuthSecretRef conn) w of
             (Inl e, w1) \<Rightarrow> (Inl (ctx e), w1)
           | (Inr (u, p), w1) \<Rightarrow> (Inr (u, p, opts), w1)))"


section \<open>Jobs\<close>

definition rufio_getMachine :: "'w rufio_client \<Rightarrow> MachineRef \<Rightarrow> 'w \<Rightarrow> (gerr + Machine) \<times> 'w" where
  "rufio_getMachine k r w =
     (case rk_GetMachine k (mref_Namespace r) (mref_Name r) w of
        (Inl e, w1) \<Rightarrow>
          (Inl (if IsNotFound e
             then WrapError (''machine '' @ named (mref_Namespace r) (mref_Name r) @ '' not found: '') e []
             else errorf (''failed to get Machine '' @ named (mref_Namespace r) (mref_Name r) @ '': '') e), w1)
      | (Inr m, w1) \<Rightarrow> (Inr m, w1))"

definition new_task :: "Job \<Rightarrow> nat \<Rightarrow> Connection \<Rightarrow> bmc_Task" where
  "new_task job i conn =
     \<lparr>APIVersion = [], Kind = [], Name = FormatTaskName job i, Namespace = Namespace job, UID = [], DeletionTimestamp = None,
      Labels = [''owner-name'' \<mapsto> Name job], Annotations = Map.empty,
      OwnerReferences = [\<lparr>owner_APIVersion = APIVersion job, owner_Kind = Kind job, owner_Name = Name job,
        owner_UID = UID job, owner_Controller = Some True\<rparr>],
      Task_Spec = \<lparr>ts_Task = js_Tasks (Job_Spec job) ! i, ts_Connection = conn\<rparr>,
      Task_Status = \<lparr>ts_Conditions = [], ts_StartTime = None, ts_CompletionTime = None\<rparr>\<rparr>"

text \<open>An index past the end of the job's list panics.\<close>

definition createTaskWithOwner :: "'w rufio_client \<Rightarrow> Job \<Rightarrow> nat \<Rightarrow> Connection \<Rightarrow> 'w \<Rightarrow> gerr option \<times> 'w" where
  "createTaskWithOwner k job i conn w =
     (if length (js_Tasks (Job_Spec job)) \<le> i then (Some (PanicError ''index out of range''), w)
      else (case rk_CreateTask k (new_task job i conn) w of
        (Some e, w1) \<Rightarrow>
          (Some (errorf (''failed to create Task '' @ named (Namespace job) (FormatTaskName job i) @ '': '') e), w1)
      | (None, w1) \<Rightarrow> (None, w1)))"

definition job_patchStatus :: "'w rufio_client \<Rightarrow> Job \<Rightarrow> Job \<Rightarrow> 'w \<Rightarrow> gerr option \<times> 'w" where
  "job_patchStatus k old job w =
     (case rk_PatchJob k old job w of
        (Some e, w1) \<Rightarrow> (Some (errorf (''failed to patch Job '' @ named (Namespace job) (Name job) @ '' status: '') e), w1)
      | (None, w1) \<Rightarrow> (None, w1))"

text \<open>What the loop over the owned tasks finds: all completed, a failed one, or one still running.\<close>

datatype task_scan = AllCompleted nat | FoundFailed bmc_Task | FoundRunning

fun scan_tasks :: "nat \<Rightarrow> bmc_Task list \<Rightarrow> task_scan" where
  "scan_tasks n [] = AllCompleted n"
| "scan_tasks n (t # ts) =
     (if Task_HasCondition t TaskCompleted ConditionTrue then scan_tasks (Suc n) ts
      else if Task_HasCondition t TaskFailed ConditionTrue then FoundFailed t
      else FoundRunning)"

text \<open>Marking the job as failed and patching it; both errors are reported.\<close>

definition fail_job :: "'w rufio_client \<Rightarrow> Job \<Rightarrow> Job \<Rightarrow> gerr \<Rightarrow> 'w \<Rightarrow> outcome \<times> 'w" where
  "fail_job k old job e w =
     (case job_patchStatus k old (Job_SetCondition JobFailed ConditionTrue [WithJobConditionMessage (err_text e)] job) w of
        (Some pe, w1) \<Rightarrow> ((NoRequeue, Some (AggregateError [pe, e])), w1)
      | (None, w1) \<Rightarrow> ((NoRequeue, Some e), w1))"

definition start_job :: "time \<Rightarrow> Job \<Rightarrow> Job" where
  "start_job now job =
     (if Job_HasCondition job JobRunning ConditionTrue then job
      else Job_SetCondition JobRunning ConditionTrue [] (job\<lparr>Job_Status := (Job_Status job)\<lparr>js_StartTime := Some now\<rparr>\<rparr>))"

definition complete_job :: "time \<Rightarrow> Job \<Rightarrow> Job" where
  "complete_job now job =
     (let j = Job_SetCondition JobCompleted ConditionTrue [] job
      in j\<lparr>Job_Status := (Job_Status j)\<lparr>js_CompletionTime := Some now\<rparr>\<rparr>)"

definition job_doReconcile :: "'w rufio_client \<Rightarrow> Job \<Rightarrow> 'w \<Rightarrow> outcome \<times> 'w" where
  "job_doReconcile k old w =
     (let job = start_job (rk_now k w) old in
      case rufio_getMachine k (js_MachineRef (Job_Spec job)) w of
        (Inl e, w1) \<Rightarrow> ((NoRequeue, Some (errorf (''get Job '' @ named (Namespace job) (Name job) @ '' MachineRef: '') e)), w1)
      | (Inr machine, w1) \<Rightarrow>
          (case rk_ListTasks k (Namespace job) (Name job) w1 of
             (Inl e, w2) \<Rightarrow>
               ((NoRequeue, Some (errorf (''failed to list owned Tasks for Job '' @ named (Namespace job) (Name job) @ '': '') e)), w2)
           | (Inr tasks, w2) \<Rightarrow>
               (case scan_tasks 0 tasks of
                  FoundFailed t \<Rightarrow>
                    fail_job k old job (NewError (''task '' @ named (Namespace t) (Name t) @ '' failed'')) w2
                | FoundRunning \<Rightarrow> ((NoRequeue, None), w2)
                | AllCompleted n \<Rightarrow>
                    (if n = length (js_Tasks (Job_Spec job)) then
                       (case job_patchStatus k old (complete_job (rk_now k w2) job) w2 of (e, w3) \<Rightarrow> ((NoRequeue, e), w3))
                     else
                       (case createTaskWithOwner k job n (Machine_Connection machine) w2 of
                          (Some e, w3) \<Rightarrow> if is_panic e then ((NoRequeue, Some e), w3) else fail_job k old job e w3
                        | (None, w3) \<Rightarrow> (case job_patchStatus k old job w3 of (e, w4) \<Rightarrow> ((NoRequeue, e), w4)))))))"

definition job_Reconcile :: "'w rufio_client \<Rightarrow> string \<Rightarrow> string \<Rightarrow> 'w \<Rightarrow> outcome \<times> 'w" where
  "job_Reconcile k ns name w =
     (case rk_GetJob k ns name w of
        (Inl e, w1) \<Rightarrow> ((NoRequeue, if IsNotFound e then None else Some e), w1)
      | (Inr job, w1) \<Rightarrow>
          (if \<not> meta_IsZero (DeletionTimestamp job) then ((NoRequeue, None), w1)
           else if Job_HasCondition job JobCompleted ConditionTrue \<or> Job_HasCondition job JobFailed ConditionTrue
             then ((NoRequeue, None), w1)
           else job_doReconcile k job w1))"

text \<open>The index by which the tasks of a job are listed.\<close>

definition TaskOwnerIndexFunc :: "bmc_Task \<Rightarrow> string list" where
  "TaskOwnerIndexFunc task =
     (case GetControllerOf task of None \<Rightarrow> []
      | Some owner \<Rightarrow>
          if owner_Kind owner \<noteq> ''Job'' \<or> owner_APIVersion owner \<noteq> ''bmc.tinkerbell.org/v1alpha1'' then []
          else [owner_Name owner])"


section \<open>Tasks\<close>

definition powerActionRequeueAfter :: duration where
  "powerActionRequeueAfter = 3 * second"

definition task_timeout :: duration where
  "task_timeout = 10 * minute"

definition runTask :: "'w bmc_conn \<Rightarrow> bmc_Action \<Rightarrow> 'w \<Rightarrow> gerr option \<times> 'w" where
  "runTask c task w =
     (case act_PowerAction task of
        Some p \<Rightarrow>
          (case bc_SetPowerState c (PowerAction_String p) w of
             (Inl e, w1) \<Rightarrow> (Some (errorf ''failed to perform PowerAction: '' e), w1)
           | (Inr _, w1) \<Rightarrow> (None, w1))
      | None \<Rightarrow>
      (case act_OneTimeBootDevice task of
        Some a \<Rightarrow>
          (case otbd_Devices a of
             [] \<Rightarrow> (Some (PanicError ''index out of range''), w)
           | d # _ \<Rightarrow>
               (case bc_SetBootDevice c d False (otbd_EFIBoot a) w of
                  ((_, Some e), w1) \<Rightarrow> (Some (errorf ''failed to perform OneTimeBootDeviceAction: '' e), w1)
                | ((_, None), w1) \<Rightarrow> (None, w1)))
      | None \<Rightarrow>
      (case act_BootDevice task of
        Some b \<Rightarrow>
          (case bc_SetBootDevice c (bd_Device b) (bd_Persistent b) (bd_EFIBoot b) w of
             ((ok, Some e), w1) \<Rightarrow>
               (Some (errorf (''failed to set BootDevice, ok: '' @ string_of_bool ok @ '', err: '') e), w1)
           | ((ok, None), w1) \<Rightarrow>
               (if ok then (None, w1)
                else (Some (NewError ''failed to set BootDevice, ok: false, err: %!w(<nil>)''), w1)))
      | None \<Rightarrow>
      (case act_VirtualMedia task of
        Some v \<Rightarrow>
          (case bc_SetVirtualMedia c (vm_Kind v) (vm_MediaURL v) w of
             (Inl e, w1) \<Rightarrow> (Some (errorf ''failed to perform SetVirtualMedia: '' e), w1)
           | (Inr _, w1) \<Rightarrow> (None, w1))
      | None \<Rightarrow> (Some (NewError ''no action specified in Task, nothing to do''), w)))))"

definition checkTaskStatus :: "'w bmc_conn \<Rightarrow> bmc_Action \<Rightarrow> 'w \<Rightarrow> outcome \<times> 'w" where
  "checkTaskStatus c task w =
     (case act_PowerAction task of
        None \<Rightarrow> ((NoRequeue, None), w)
      | Some p \<Rightarrow>
          (case bc_GetPowerState c w of
             (Inl e, w1) \<Rightarrow> ((NoRequeue, Some (errorf ''failed to get power state: '' e)), w1)
           | (Inr raw, w1) \<Rightarrow>
               (if p = PowerOn \<and> toPowerState raw \<noteq> On then ((RequeueIn powerActionRequeueAfter, None), w1)
                else if (p = PowerHardOff \<or> p = PowerSoftOff) \<and> toPowerState raw \<noteq> Off
                  then ((RequeueIn powerActionRequeueAfter, None), w1)
                else ((NoRequeue, None), w1))))"

definition task_patchStatus :: "'w rufio_client \<Rightarrow> bmc_Task \<Rightarrow> bmc_Task \<Rightarrow> 'w \<Rightarrow> gerr option \<times> 'w" where
  "task_patchStatus k old task w =
     (case rk_PatchTask k old task w of
        (Some e, w1) \<Rightarrow> (Some (errorf (''failed to patch Task '' @ named (Namespace task) (Name task) @ '' status: '') e), w1)
      | (None, w1) \<Rightarrow> (None, w1))"

definition fail_task :: "'w rufio_client \<Rightarrow> bmc_Task \<Rightarrow> bmc_Task \<Rightarrow> string \<Rightarrow> gerr \<Rightarrow> 'w \<Rightarrow> outcome \<times> 'w" where
  "fail_task k old task msg e w =
     (case task_patchStatus k old (Task_SetCondition TaskFailed ConditionTrue [WithTaskConditionMessage msg] task) w of
        (Some pe, w1) \<Rightarrow> ((NoRequeue, Some (AggregateError [pe, e])), w1)
      | (None, w1) \<Rightarrow> ((NoRequeue, Some e), w1))"

definition start_task :: "time \<Rightarrow> bmc_Task \<Rightarrow> bmc_Task" where
  "start_task now t = t\<lparr>Task_Status := (Task_Status t)\<lparr>ts_StartTime := Some now\<rparr>\<rparr>"

definition complete_task :: "time \<Rightarrow> bmc_Task \<Rightarrow> bmc_Task" where
  "complete_task now t =
     Task_SetCondition TaskCompleted ConditionTrue [] (t\<lparr>Task_Status := (Task_Status t)\<lparr>ts_CompletionTime := Some now\<rparr>\<rparr>)"

text \<open>A task that has been started: time out, check, complete.\<close>

definition check_started :: "'w rufio_client \<Rightarrow> 'w bmc_conn \<Rightarrow> bmc_Task \<Rightarrow> 'w \<Rightarrow> outcome \<times> 'w" where
  "check_started k c task w =
     (let running = sat64 (rk_now k w - (case ts_StartTime (Task_Status task) of Some t \<Rightarrow> t | None \<Rightarrow> zero_time)) in
      if running \<ge> task_timeout then
        (let e = NewError (''bmc task timeout: '' @ string_of_int running) in fail_task k task task (err_text e) e w)
      else
        (case checkTaskStatus c (ts_Task (Task_Spec task)) w of
           ((r, Some e), w1) \<Rightarrow> ((r, Some (errorf ''bmc task status check: '' e)), w1)
         | ((r, None), w1) \<Rightarrow>
             (if \<not> Result_IsZero r then ((r, None), w1)
              else (case task_patchStatus k task (complete_task (rk_now k w1) task) w1 of (e, w2) \<Rightarrow> ((r, e), w2)))))"

text \<open>A new task: run its action once. A panic leaves the reconciler before the patch.\<close>

definition run_new :: "'w rufio_client \<Rightarrow> 'w bmc_conn \<Rightarrow> bmc_Task \<Rightarrow> 'w \<Rightarrow> outcome \<times> 'w" where
  "run_new k c old w =
     (let task = start_task (rk_now k w) old in
      case runTask c (ts_Task (Task_Spec task)) w of
        (Some e, w1) \<Rightarrow> if is_panic e then ((NoRequeue, Some e), w1) else fail_task k old task (err_text e) e w1
      | (None, w1) \<Rightarrow> (case task_patchStatus k old task w1 of (e, w2) \<Rightarrow> ((NoRequeue, e), w2)))"

text \<open>The connection is closed on every way out; an error of \<open>Close\<close> is only logged.\<close>

definition task_doReconcile ::
  "'w rufio_client \<Rightarrow> (SecretReference \<Rightarrow> string) \<Rightarrow> 'w ClientFunc \<Rightarrow> bmc_Task \<Rightarrow> 'w \<Rightarrow> outcome \<times> 'w" where
  "task_doReconcile k ref factory task w =
     (let conn = ts_Connection (Task_Spec task) in
      case connection_options k ref (\<lambda>e. errorf (''resolving connection secret for task '' @ named (Namespace task) (Name task) @ '': '') e) conn w of
        (Inl e, w1) \<Rightarrow> ((NoRequeue, Some e), w1)
      | (Inr (username, password, opts), w1) \<Rightarrow>
          (case factory (conn_Host conn) username password opts w1 of
             (Inl e, w2) \<Rightarrow> fail_task k task task (''Failed to connect to BMC: '' @ err_text e) e w2
           | (Inr c, w2) \<Rightarrow>
               (case (if \<not> meta_IsZero (ts_StartTime (Task_Status task)) then check_started k c task w2 else run_new k c task w2) of
                  (out, w3) \<Rightarrow> (out, snd (bc_Close c w3)))))"

definition task_Reconcile ::
  "'w rufio_client \<Rightarrow> (SecretReference \<Rightarrow> string) \<Rightarrow> 'w ClientFunc \<Rightarrow> string \<Rightarrow> string \<Rightarrow> 'w \<Rightarrow> outcome \<times> 'w" where
  "task_Reconcile k ref factory ns name w =
     (case rk_GetTask k ns name w of
        (Inl e, w1) \<Rightarrow> ((NoRequeue, if IsNotFound e then None else Some e), w1)
      | (Inr task, w1) \<Rightarrow>
          (if \<not> meta_IsZero (DeletionTimestamp task) then ((NoRequeue, None), w1)
           else if Task_HasCondition task TaskFailed ConditionTrue \<or> Task_HasCondition task TaskCompleted ConditionTrue
             then ((NoRequeue, None), w1)
           else task_doReconcile k ref factory task w1))"

end
