(* ===== verification/Rufio_Props.thy ===== *)
theory Rufio_Props
  imports Rufio Net
begin

text \<open>
  A BMC job and its tasks under any interleaving of the two reconcilers. The laws of the API server
  are those of a store that may refuse any call: a read returns what is stored, a refused write
  changes nothing, an accepted write stores the object, a name is created at most once.
\<close>


section \<open>The store\<close>

text \<open>\<open>jobv\<close> is the job and \<open>tasksv\<close> the tasks it owns, in the order of their creation.\<close>

definition same_store :: "('w \<Rightarrow> Job) \<Rightarrow> ('w \<Rightarrow> bmc_Task list) \<Rightarrow> 'w \<Rightarrow> 'w \<Rightarrow> bool" where
  "same_store jobv tasksv w w' \<longleftrightarrow> jobv w' = jobv w \<and> tasksv w' = tasksv w"

definition replace_task :: "bmc_Task \<Rightarrow> bmc_Task list \<Rightarrow> bmc_Task list" where
  "replace_task t ts = map (\<lambda>u. if Name u = Name t then t else u) ts"

definition job_store :: "'w rufio_client \<Rightarrow> ('w \<Rightarrow> Job) \<Rightarrow> ('w \<Rightarrow> bmc_Task list) \<Rightarrow> bool" where
  "job_store k jobv tasksv \<longleftrightarrow>
     (\<forall>w ns n. same_store jobv tasksv w (snd (rk_GetJob k ns n w)) \<and>
        (\<forall>j. fst (rk_GetJob k ns n w) = Inr j \<longrightarrow> j = jobv w)) \<and>
     (\<forall>w ns n. same_store jobv tasksv w (snd (rk_GetTask k ns n w)) \<and>
        (\<forall>t. fst (rk_GetTask k ns n w) = Inr t \<longrightarrow> t \<in> set (tasksv w))) \<and>
     (\<forall>w ns n. same_store jobv tasksv w (snd (rk_GetMachine k ns n w))) \<and>
     (\<forall>w ns n. same_store jobv tasksv w (snd (rk_GetSecret k ns n w))) \<and>
     (\<forall>w ns n. same_store jobv tasksv w (snd (rk_ListTasks k ns n w)) \<and>
        (\<forall>ts. fst (rk_ListTasks k ns n w) = Inr ts \<longrightarrow> ts = tasksv w)) \<and>
     (\<forall>w t. same_store jobv tasksv w (snd (rk_CreateTask k t w)) \<and> fst (rk_CreateTask k t w) \<noteq> None \<or>
        fst (rk_CreateTask k t w) = None \<and> Name t \<notin> Name ` set (tasksv w) \<and>
        jobv (snd (rk_CreateTask k t w)) = jobv w \<and> tasksv (snd (rk_CreateTask k t w)) = tasksv w @ [t]) \<and>
     (\<forall>w old j. same_store jobv tasksv w (snd (rk_PatchJob k old j w)) \<and> fst (rk_PatchJob k old j w) \<noteq> None \<or>
        fst (rk_PatchJob k old j w) = None \<and>
        jobv (snd (rk_PatchJob k old j w)) = j \<and> tasksv (snd (rk_PatchJob k old j w)) = tasksv w) \<and>
     (\<forall>w old t. same_store jobv tasksv w (snd (rk_PatchTask k old t w)) \<and> fst (rk_PatchTask k old t w) \<noteq> None \<or>
        fst (rk_PatchTask k old t w) = None \<and>
        jobv (snd (rk_PatchTask k old t w)) = jobv w \<and> tasksv (snd (rk_PatchTask k old t w)) = replace_task t (tasksv w))"


lemma same_store_refl [simp]: "same_store jobv tasksv w w"
  by (simp add: same_store_def)

lemma same_store_trans: "same_store jobv tasksv w w1 \<Longrightarrow> same_store jobv tasksv w1 w2 \<Longrightarrow> same_store jobv tasksv w w2"
  by (simp add: same_store_def)

lemma store_read:
  assumes "job_store k jobv tasksv"
  shows "rk_GetJob k ns n w = (r, w') \<Longrightarrow> same_store jobv tasksv w w'"
    and "rk_GetTask k ns n w = (r2, w') \<Longrightarrow> same_store jobv tasksv w w'"
    and "rk_GetMachine k ns n w = (r3, w') \<Longrightarrow> same_store jobv tasksv w w'"
    and "rk_GetSecret k ns n w = (r4, w') \<Longrightarrow> same_store jobv tasksv w w'"
    and "rk_ListTasks k ns n w = (r5, w') \<Longrightarrow> same_store jobv tasksv w w'"
    and "rk_GetJob k ns n w = (Inr j, w') \<Longrightarrow> j = jobv w"
    and "rk_GetTask k ns n w = (Inr t, w') \<Longrightarrow> t \<in> set (tasksv w)"
    and "rk_ListTasks k ns n w = (Inr ts, w') \<Longrightarrow> ts = tasksv w"
  using assms unfolding job_store_def by (metis fst_conv snd_conv)+

lemma store_create:
  assumes "job_store k jobv tasksv" and "rk_CreateTask k t w = (r, w')"
  shows "r \<noteq> None \<and> same_store jobv tasksv w w' \<or> r = None \<and> jobv w' = jobv w \<and> tasksv w' = tasksv w @ [t]"
  using assms unfolding job_store_def by (metis fst_conv snd_conv)

lemma store_patch_job:
  assumes "job_store k jobv tasksv" and "rk_PatchJob k old j w = (r, w')"
  shows "same_store jobv tasksv w w' \<or> jobv w' = j \<and> tasksv w' = tasksv w"
  using assms unfolding job_store_def by (metis fst_conv snd_conv)

lemma store_patch_task:
  assumes "job_store k jobv tasksv" and "rk_PatchTask k old t w = (r, w')"
  shows "same_store jobv tasksv w w' \<or> jobv w' = jobv w \<and> tasksv w' = replace_task t (tasksv w)"
  using assms unfolding job_store_def by (metis fst_conv snd_conv)

text \<open>The BMC does not touch the store.\<close>

definition conn_separate :: "('w \<Rightarrow> Job) \<Rightarrow> ('w \<Rightarrow> bmc_Task list) \<Rightarrow> 'w bmc_conn \<Rightarrow> bool" where
  "conn_separate jobv tasksv c \<longleftrightarrow>
     (\<forall>w. (\<forall>s. same_store jobv tasksv w (snd (bc_SetPowerState c s w))) \<and>
        same_store jobv tasksv w (snd (bc_GetPowerState c w)) \<and>
        (\<forall>d p e. same_store jobv tasksv w (snd (bc_SetBootDevice c d p e w))) \<and>
        (\<forall>a b. same_store jobv tasksv w (snd (bc_SetVirtualMedia c a b w))) \<and>
        same_store jobv tasksv w (snd (bc_Close c w)))"

definition bmc_separate :: "('w \<Rightarrow> Job) \<Rightarrow> ('w \<Rightarrow> bmc_Task list) \<Rightarrow> 'w ClientFunc \<Rightarrow> bool" where
  "bmc_separate jobv tasksv factory \<longleftrightarrow>
     (\<forall>h u p b w. same_store jobv tasksv w (snd (factory h u p b w)) \<and>
        (\<forall>c. fst (factory h u p b w) = Inr c \<longrightarrow> conn_separate jobv tasksv c))"

lemma conn_same:
  assumes "conn_separate jobv tasksv c"
  shows "bc_SetPowerState c s w = (r, w') \<Longrightarrow> same_store jobv tasksv w w'"
    and "bc_GetPowerState c w = (r2, w') \<Longrightarrow> same_store jobv tasksv w w'"
    and "bc_SetBootDevice c d p e w = (r3, w') \<Longrightarrow> same_store jobv tasksv w w'"
    and "bc_SetVirtualMedia c a b w = (r, w') \<Longrightarrow> same_store jobv tasksv w w'"
    and "same_store jobv tasksv w (snd (bc_Close c w))"
  using assms unfolding conn_separate_def by (metis snd_conv)+

lemma runTask_same:
  assumes "conn_separate jobv tasksv c" and "runTask c a w = (r, w')"
  shows "same_store jobv tasksv w w'"
  using assms(2) conn_same [OF assms(1)]
  by (auto simp: runTask_def split: option.splits prod.splits sum.splits list.splits if_splits)

lemma checkTaskStatus_same:
  assumes "conn_separate jobv tasksv c" and "checkTaskStatus c a w = (r, w')"
  shows "same_store jobv tasksv w w'"
  using assms(2) conn_same [OF assms(1)]
  by (auto simp: checkTaskStatus_def split: option.splits prod.splits sum.splits if_splits)


section \<open>What a reconciliation does to the store\<close>

abbreviation completed :: "bmc_Task \<Rightarrow> bool" where
  "completed t \<equiv> Task_HasCondition t TaskCompleted ConditionTrue"

abbreviation job_completed :: "Job \<Rightarrow> bool" where
  "job_completed j \<equiv> Job_HasCondition j JobCompleted ConditionTrue"

lemma scan_AllCompleted: "scan_tasks n ts = AllCompleted m \<longleftrightarrow> m = n + length ts \<and> (\<forall>t \<in> set ts. completed t)"
  by (induction ts arbitrary: n) auto

text \<open>The job's status changes without completing it, the job is completed with its last task, or the
  next task is created after every earlier one has completed.\<close>

definition same_job :: "Job \<Rightarrow> Job \<Rightarrow> bool" where
  "same_job j j' \<longleftrightarrow> Name j' = Name j \<and> Job_Spec j' = Job_Spec j"

definition job_effect :: "('w \<Rightarrow> Job) \<Rightarrow> ('w \<Rightarrow> bmc_Task list) \<Rightarrow> 'w \<Rightarrow> 'w \<Rightarrow> bool" where
  "job_effect jobv tasksv w w' \<longleftrightarrow>
     same_job (jobv w) (jobv w') \<and>
     (tasksv w' = tasksv w \<and> (job_completed (jobv w') \<longrightarrow> job_completed (jobv w) \<or>
         length (tasksv w) = length (js_Tasks (Job_Spec (jobv w))) \<and> (\<forall>t \<in> set (tasksv w). completed t)) \<or>
      (job_completed (jobv w') \<longrightarrow> job_completed (jobv w)) \<and> (\<forall>t \<in> set (tasksv w). completed t) \<and>
      length (tasksv w) < length (js_Tasks (Job_Spec (jobv w))) \<and>
      (\<exists>j conn. same_job (jobv w) j \<and> tasksv w' = tasksv w @ [new_task j (length (tasksv w)) conn]))"

lemma same_job_refl [simp]: "same_job j j"
  by (simp add: same_job_def)

lemma Job_HasCondition_times [simp]:
  "Job_HasCondition (j\<lparr>Job_Status := (Job_Status j)\<lparr>js_StartTime := x\<rparr>\<rparr>) t s = Job_HasCondition j t s"
  "Job_HasCondition (j\<lparr>Job_Status := (Job_Status j)\<lparr>js_CompletionTime := x\<rparr>\<rparr>) t s = Job_HasCondition j t s"
  by (simp_all add: Job_HasCondition_def)

lemma start_job_frame [simp]:
  "same_job j (start_job now j)" "job_completed (start_job now j) \<longleftrightarrow> job_completed j"
  "Namespace (start_job now j) = Namespace j" "Name (start_job now j) = Name j" "Job_Spec (start_job now j) = Job_Spec j"
  by (auto simp: same_job_def start_job_def)

lemma complete_job_frame [simp]: "same_job j (complete_job now j)"
  by (simp add: same_job_def complete_job_def Let_def)

lemma same_store_effect: "same_store jobv tasksv w w' \<Longrightarrow> job_effect jobv tasksv w w'"
  by (simp add: same_store_def job_effect_def)

lemma job_effect_shift:
  "same_store jobv tasksv w w1 \<Longrightarrow> job_effect jobv tasksv w1 w' \<Longrightarrow> job_effect jobv tasksv w w'"
  by (simp add: same_store_def job_effect_def)

lemma patch_status_effect:
  assumes "job_store k jobv tasksv" and "job_patchStatus k old j w = (r, w')"
    and "same_job (jobv w) j" and "job_completed j \<longrightarrow> job_completed (jobv w) \<or>
      length (tasksv w) = length (js_Tasks (Job_Spec (jobv w))) \<and> (\<forall>t \<in> set (tasksv w). completed t)"
  shows "job_effect jobv tasksv w w'"
proof -
  obtain r1 where "rk_PatchJob k old j w = (r1, w')"
    using assms(2) by (auto simp: job_patchStatus_def split: prod.splits option.splits)
  from store_patch_job [OF assms(1) this] show ?thesis
    using assms(3,4) by (auto simp: job_effect_def same_store_def)
qed

lemma fail_job_effect:
  assumes "job_store k jobv tasksv" and "fail_job k old j e w = (r, w')" and "same_job (jobv w) j"
    and "job_completed j \<longrightarrow> job_completed (jobv w)"
  shows "job_effect jobv tasksv w w'"
proof -
  obtain r1 where "job_patchStatus k old (Job_SetCondition JobFailed ConditionTrue [WithJobConditionMessage (err_text e)] j) w = (r1, w')"
    using assms(2) by (auto simp: fail_job_def split: prod.splits option.splits)
  from patch_status_effect [OF assms(1) this] show ?thesis
    using assms(3,4) by (simp add: same_job_def)
qed

lemma create_effect:
  assumes store: "job_store k jobv tasksv" and create: "createTaskWithOwner k (start_job now (jobv w)) n conn w = (None, w1)"
    and patch: "job_patchStatus k old (start_job now (jobv w)) w1 = (r, w')"
    and n: "n = length (tasksv w)" and all: "\<forall>t \<in> set (tasksv w). completed t"
  shows "job_effect jobv tasksv w w'"
proof -
  let ?j = "start_job now (jobv w)"
  have len: "n < length (js_Tasks (Job_Spec (jobv w)))" and mk: "rk_CreateTask k (new_task ?j n conn) w = (None, w1)"
    using create by (auto simp: createTaskWithOwner_def split: if_splits prod.splits option.splits)
  from store_create [OF store mk] have w1: "jobv w1 = jobv w" "tasksv w1 = tasksv w @ [new_task ?j n conn]" by auto
  obtain r1 where "rk_PatchJob k old ?j w1 = (r1, w')"
    using patch by (auto simp: job_patchStatus_def split: prod.splits option.splits)
  from store_patch_job [OF store this] w1
  have w': "jobv w' = jobv w \<or> jobv w' = ?j" "tasksv w' = tasksv w @ [new_task ?j n conn]"
    by (auto simp: same_store_def)
  have "same_job (jobv w) (jobv w')" "job_completed (jobv w') \<longrightarrow> job_completed (jobv w)"
    using w'(1) by auto
  with w'(2) len all n show ?thesis
    unfolding job_effect_def by (intro conjI disjI2) (auto intro!: exI [of _ ?j])
qed

lemma create_failed:
  assumes "job_store k jobv tasksv" and "createTaskWithOwner k j n conn w = (Some e, w1)"
  shows "same_store jobv tasksv w w1"
  using assms(2) store_create [OF assms(1)]
  by (fastforce simp: createTaskWithOwner_def split: if_splits prod.splits option.splits)

lemma job_doReconcile_effect:
  assumes store: "job_store k jobv tasksv" and run: "job_doReconcile k (jobv w) w = (out, w')"
  shows "job_effect jobv tasksv w w'"
proof -
  let ?j = "start_job (rk_now k w) (jobv w)"
  obtain r1 w1 where gm: "rufio_getMachine k (js_MachineRef (Job_Spec ?j)) w = (r1, w1)" by fastforce
  have s1: "same_store jobv tasksv w w1"
    using gm store_read(3) [OF store] by (auto simp: rufio_getMachine_def split: prod.splits sum.splits)
  obtain r2 w2 where ls: "rk_ListTasks k (Namespace (jobv w)) (Name (jobv w)) w1 = (r2, w2)" by fastforce
  have s2: "same_store jobv tasksv w w2"
    using same_store_trans [OF s1 store_read(5) [OF store ls]] .
  show ?thesis
  proof (cases "\<exists>m ts. r1 = Inr m \<and> r2 = Inr ts")
    case False
    then show ?thesis
      using run gm ls s1 s2
      by (cases r1; cases r2) (auto simp: job_doReconcile_def Let_def intro: same_store_effect)
  next
    case True
    then obtain m ts where r: "r1 = Inr m" "r2 = Inr ts" by blast
    have ts: "ts = tasksv w2" using store_read(8) [OF store ls [unfolded r]] s1 s2 by (simp add: same_store_def)
    have j2: "jobv w2 = jobv w" using s2 by (simp add: same_store_def)
    note run' = run [unfolded job_doReconcile_def Let_def gm r, simplified, unfolded ls [unfolded r], simplified]
    have "job_effect jobv tasksv w2 w'"
    proof (cases "scan_tasks 0 ts")
      case (FoundFailed t)
      with run' fail_job_effect [OF store] j2 show ?thesis by auto
    next
      case FoundRunning
      with run' show ?thesis by (auto intro: same_store_effect)
    next
      case (AllCompleted n)
      then have n: "n = length (tasksv w2)" and all: "\<forall>t \<in> set (tasksv w2). completed t"
        by (auto simp: scan_AllCompleted ts)
      show ?thesis
      proof (cases "n = length (js_Tasks (Job_Spec (jobv w)))")
        case True
        obtain r3 where "job_patchStatus k (jobv w) (complete_job (rk_now k w2) ?j) w2 = (r3, w')"
          using run' AllCompleted True by (auto split: prod.splits)
        from patch_status_effect [OF store this] show ?thesis
          using n all True j2 by (simp add: same_job_def complete_job_def Let_def)
      next
        case less: False
        obtain c w3 where c: "createTaskWithOwner k ?j n (Machine_Connection m) w2 = (c, w3)" by fastforce
        show ?thesis
        proof (cases c)
          case None
          then obtain r4 where "job_patchStatus k (jobv w) ?j w3 = (r4, w')"
            using run' AllCompleted less c by (auto split: prod.splits)
          with create_effect [OF store] c None n all j2 show ?thesis by metis
        next
          case (Some e)
          from create_failed [OF store c [unfolded Some]] have s3: "same_store jobv tasksv w2 w3" .
          have "w' = w3 \<or> (\<exists>r. fail_job k (jobv w) ?j e w3 = (r, w'))"
            using run' AllCompleted less c Some by (auto split: if_splits)
          then show ?thesis
            using fail_job_effect [OF store] s3 j2
            by (metis job_effect_shift same_store_def same_store_effect start_job_frame(1,2))
        qed
      qed
    qed
    with s2 show ?thesis by (rule job_effect_shift)
  qed
qed

lemma job_Reconcile_effect:
  assumes store: "job_store k jobv tasksv" and run: "job_Reconcile k ns n w = (out, w')"
  shows "job_effect jobv tasksv w w'"
proof -
  obtain r w1 where g: "rk_GetJob k ns n w = (r, w1)" by fastforce
  have s1: "same_store jobv tasksv w w1" by (rule store_read(1) [OF store g])
  show ?thesis
  proof (cases r)
    case (Inl e)
    with run g s1 show ?thesis by (auto simp: job_Reconcile_def intro: same_store_effect)
  next
    case (Inr j)
    have j: "j = jobv w1" using store_read(6) [OF store g [unfolded Inr]] s1 by (simp add: same_store_def)
    have "w' = w1 \<or> job_doReconcile k (jobv w1) w1 = (out, w')"
      using run g Inr j by (auto simp: job_Reconcile_def split: if_splits)
    with job_doReconcile_effect [OF store] s1 show ?thesis
      by (metis job_effect_shift same_store_effect)
  qed
qed

text \<open>A task reconciliation rewrites at most the task it is about, which is not completed yet, and keeps
  its name and specification.\<close>

definition task_effect :: "('w \<Rightarrow> Job) \<Rightarrow> ('w \<Rightarrow> bmc_Task list) \<Rightarrow> 'w \<Rightarrow> 'w \<Rightarrow> bool" where
  "task_effect jobv tasksv w w' \<longleftrightarrow>
     jobv w' = jobv w \<and>
     (tasksv w' = tasksv w \<or>
      (\<exists>t t'. t \<in> set (tasksv w) \<and> \<not> completed t \<and> Name t' = Name t \<and> Task_Spec t' = Task_Spec t \<and>
         tasksv w' = replace_task t' (tasksv w)))"

lemma same_store_task: "same_store jobv tasksv w w' \<Longrightarrow> task_effect jobv tasksv w w'"
  by (simp add: same_store_def task_effect_def)

lemma task_effect_shift:
  "same_store jobv tasksv w w1 \<Longrightarrow> task_effect jobv tasksv w1 w2 \<Longrightarrow> same_store jobv tasksv w2 w' \<Longrightarrow> task_effect jobv tasksv w w'"
  by (simp add: same_store_def task_effect_def)

lemma task_patch_effect:
  assumes "job_store k jobv tasksv" and "task_patchStatus k old t' w = (r, w')"
    and "t \<in> set (tasksv w)" "\<not> completed t" "Name t' = Name t" "Task_Spec t' = Task_Spec t"
  shows "task_effect jobv tasksv w w'"
proof -
  obtain r1 where "rk_PatchTask k old t' w = (r1, w')"
    using assms(2) by (auto simp: task_patchStatus_def split: prod.splits option.splits)
  from store_patch_task [OF assms(1) this] show ?thesis
    using assms(3-6) unfolding task_effect_def same_store_def by blast
qed

lemma fail_task_effect:
  assumes "job_store k jobv tasksv" and "fail_task k old t' m e w = (r, w')"
    and "t \<in> set (tasksv w)" "\<not> completed t" "Name t' = Name t" "Task_Spec t' = Task_Spec t"
  shows "task_effect jobv tasksv w w'"
proof -
  obtain r1 where "task_patchStatus k old (Task_SetCondition TaskFailed ConditionTrue [WithTaskConditionMessage m] t') w = (r1, w')"
    using assms(2) by (auto simp: fail_task_def split: prod.splits option.splits)
  from task_patch_effect [OF assms(1) this assms(3,4)] show ?thesis using assms(5,6) by simp
qed

lemma task_times_frame [simp]:
  "Name (start_task now t) = Name t" "Task_Spec (start_task now t) = Task_Spec t"
  "Name (complete_task now t) = Name t" "Task_Spec (complete_task now t) = Task_Spec t"
  by (simp_all add: start_task_def complete_task_def)

lemma check_started_effect:
  assumes store: "job_store k jobv tasksv" and sep: "conn_separate jobv tasksv c"
    and t: "t \<in> set (tasksv w)" "\<not> completed t" and run: "check_started k c t w = (out, w')"
  shows "task_effect jobv tasksv w w'"
proof -
  obtain r e w1 where ck: "checkTaskStatus c (ts_Task (Task_Spec t)) w = ((r, e), w1)"
    by (metis prod.collapse)
  have s: "same_store jobv tasksv w w1" by (rule checkTaskStatus_same [OF sep ck])
  then have t1: "t \<in> set (tasksv w1)" using t(1) by (simp add: same_store_def)
  consider m e' where "fail_task k t t m e' w = (out, w')" | "w' = w1"
    | r1 where "task_patchStatus k t (complete_task (rk_now k w1) t) w1 = (r1, w')"
    using run ck by (cases e) (auto simp: check_started_def Let_def split: if_splits prod.splits)
  then show ?thesis
  proof cases
    case 1
    from fail_task_effect [OF store this t] show ?thesis by simp
  next
    case 2
    with s show ?thesis by (simp add: same_store_task)
  next
    case 3
    from task_patch_effect [OF store this t1 t(2)] s show ?thesis
      by (auto intro: task_effect_shift)
  qed
qed

lemma run_new_effect:
  assumes store: "job_store k jobv tasksv" and sep: "conn_separate jobv tasksv c"
    and t: "t \<in> set (tasksv w)" "\<not> completed t" and run: "run_new k c t w = (out, w')"
  shows "task_effect jobv tasksv w w'"
proof -
  let ?t = "start_task (rk_now k w) t"
  obtain e w1 where rt: "runTask c (ts_Task (Task_Spec t)) w = (e, w1)" by fastforce
  have s: "same_store jobv tasksv w w1" by (rule runTask_same [OF sep rt])
  then have t1: "t \<in> set (tasksv w1)" using t(1) by (simp add: same_store_def)
  consider "w' = w1" | m e' where "fail_task k t ?t m e' w1 = (out, w')" | r1 where "task_patchStatus k t ?t w1 = (r1, w')"
    using run rt by (cases e) (auto simp: run_new_def Let_def split: if_splits prod.splits)
  then show ?thesis
  proof cases
    case 1
    with s show ?thesis by (simp add: same_store_task)
  next
    case 2
    from fail_task_effect [OF store this t1 t(2)] s show ?thesis by (auto intro: task_effect_shift)
  next
    case 3
    from task_patch_effect [OF store this t1 t(2)] s show ?thesis by (auto intro: task_effect_shift)
  qed
qed

lemma hmac_refs_same:
  assumes "job_store k jobv tasksv" and "hmac_refs k ref alg ss acc w = (r, w')"
  shows "same_store jobv tasksv w w'"
  using assms(2)
proof (induction ss arbitrary: acc w)
  case (Cons s ss)
  obtain r1 w1 where g: "rk_GetSecret k (sref_Namespace s) (sref_Name s) w = (r1, w1)" by fastforce
  with Cons store_read(4) [OF assms(1) g] show ?case
    by (cases r1) (auto intro: same_store_trans)
qed simp

lemma hmac_algorithms_same:
  assumes "job_store k jobv tasksv" and "hmac_algorithms k ref as acc w = (r, w')"
  shows "same_store jobv tasksv w w'"
  using assms(2)
proof (induction as arbitrary: acc w)
  case (Cons a as)
  obtain alg refs where a: "a = (alg, refs)" by fastforce
  obtain r1 w1 where g: "hmac_refs k ref alg refs acc w = (r1, w1)" by fastforce
  with Cons a hmac_refs_same [OF assms(1) g] show ?case
    by (cases r1) (auto intro: same_store_trans)
qed simp

lemma resolveAuthSecretRef_same:
  assumes "job_store k jobv tasksv" and "resolveAuthSecretRef k ref sr w = (r, w')"
  shows "same_store jobv tasksv w w'"
  using assms(2) store_read(4) [OF assms(1)]
  by (auto simp: resolveAuthSecretRef_def split: prod.splits sum.splits option.splits)

lemma connection_options_same:
  assumes "job_store k jobv tasksv" and "connection_options k ref ctx conn w = (r, w')"
  shows "same_store jobv tasksv w w'"
  using assms(2) resolveAuthSecretRef_same [OF assms(1)] hmac_algorithms_same [OF assms(1)]
  by (auto simp: connection_options_def Let_def retrieveHMACSecrets_def split: option.splits prod.splits sum.splits if_splits)

lemma task_doReconcile_effect:
  assumes store: "job_store k jobv tasksv" and sep: "bmc_separate jobv tasksv factory"
    and t: "t \<in> set (tasksv w)" "\<not> completed t" and run: "task_doReconcile k ref factory t w = (out, w')"
  shows "task_effect jobv tasksv w w'"
proof -
  let ?ctx = "\<lambda>e. errorf (''resolving connection secret for task '' @ named (Namespace t) (Name t) @ '': '') e"
  obtain r1 w1 where co: "connection_options k ref ?ctx (ts_Connection (Task_Spec t)) w = (r1, w1)" by fastforce
  have s1: "same_store jobv tasksv w w1" by (rule connection_options_same [OF store co])
  show ?thesis
  proof (cases r1)
    case (Inl e)
    with run co s1 show ?thesis by (simp add: task_doReconcile_def Let_def same_store_task)
  next
    case (Inr o1)
    then obtain u p b where o1: "r1 = Inr (u, p, b)" by (metis prod.collapse)
    obtain r2 w2 where f: "factory (conn_Host (ts_Connection (Task_Spec t))) u p b w1 = (r2, w2)" by fastforce
    have s2: "same_store jobv tasksv w w2"
      using sep f s1 unfolding bmc_separate_def by (metis same_store_trans snd_conv)
    then have t2: "t \<in> set (tasksv w2)" using t(1) by (simp add: same_store_def)
    show ?thesis
    proof (cases r2)
      case (Inl e)
      then have "fail_task k t t (''Failed to connect to BMC: '' @ err_text e) e w2 = (out, w')"
        using run co o1 f by (simp add: task_doReconcile_def Let_def)
      from fail_task_effect [OF store this t2 t(2)] s2 show ?thesis by (auto intro: task_effect_shift)
    next
      case (Inr c)
      have sc: "conn_separate jobv tasksv c"
        using sep f Inr unfolding bmc_separate_def by (metis fst_conv)
      obtain out1 w3 where b: "(if \<not> meta_IsZero (ts_StartTime (Task_Status t)) then check_started k c t w2 else run_new k c t w2) = (out1, w3)"
        by (metis prod.collapse)
      have w': "w' = snd (bc_Close c w3)"
        using run co o1 f Inr b by (simp add: task_doReconcile_def Let_def)
      have "task_effect jobv tasksv w2 w3"
        using b check_started_effect [OF store sc t2 t(2)] run_new_effect [OF store sc t2 t(2)] by (auto split: if_splits)
      from task_effect_shift [OF s2 this conn_same(5) [OF sc]] show ?thesis by (simp add: w')
    qed
  qed
qed

lemma task_Reconcile_effect:
  assumes store: "job_store k jobv tasksv" and sep: "bmc_separate jobv tasksv factory"
    and run: "task_Reconcile k ref factory ns n w = (out, w')"
  shows "task_effect jobv tasksv w w'"
proof -
  obtain r w1 where g: "rk_GetTask k ns n w = (r, w1)" by fastforce
  have s1: "same_store jobv tasksv w w1" by (rule store_read(2) [OF store g])
  show ?thesis
  proof (cases r)
    case (Inl e)
    with run g s1 show ?thesis by (auto simp: task_Reconcile_def intro: same_store_task)
  next
    case (Inr t)
    have t: "t \<in> set (tasksv w1)" using store_read(7) [OF store g [unfolded Inr]] s1 by (simp add: same_store_def)
    have "w' = w1 \<or> \<not> completed t \<and> task_doReconcile k ref factory t w1 = (out, w')"
      using run g Inr by (auto simp: task_Reconcile_def split: if_splits)
    with task_doReconcile_effect [OF store sep t] s1 show ?thesis
      by (metis same_store_refl same_store_task task_effect_shift)
  qed
qed



section \<open>Every interleaving\<close>

text \<open>One step is one call of one of the two reconcilers, for any object; the steps of a run may
  come in any order, may fail, and may find the BMC in any state.\<close>

inductive rufio_step :: "'w rufio_client \<Rightarrow> (SecretReference \<Rightarrow> string) \<Rightarrow> 'w ClientFunc \<Rightarrow> 'w \<Rightarrow> 'w \<Rightarrow> bool"
  for k ref factory where
  job_step: "job_Reconcile k ns n w = (out, w') \<Longrightarrow> rufio_step k ref factory w w'"
| task_step: "task_Reconcile k ref factory ns n w = (out, w') \<Longrightarrow> rufio_step k ref factory w w'"

text \<open>The tasks are the first actions of the job in order, all of them completed except possibly the
  last, and a completed job has all its tasks completed.\<close>

definition in_order :: "Job \<Rightarrow> bmc_Task list \<Rightarrow> bool" where
  "in_order j ts \<longleftrightarrow>
     length ts \<le> length (js_Tasks (Job_Spec j)) \<and>
     (\<forall>i < length ts. Name (ts ! i) = FormatTaskName j i \<and> ts_Task (Task_Spec (ts ! i)) = js_Tasks (Job_Spec j) ! i) \<and>
     (\<forall>i. Suc i < length ts \<longrightarrow> completed (ts ! i)) \<and>
     (job_completed j \<longrightarrow> length ts = length (js_Tasks (Job_Spec j)) \<and> (\<forall>t \<in> set ts. completed t))"

lemma FormatTaskName_inj: "FormatTaskName j m = FormatTaskName j n \<longleftrightarrow> m = n"
  by (simp add: FormatTaskName_def inj_string_of_nat)

lemma FormatTaskName_same: "same_job j j' \<Longrightarrow> FormatTaskName j' n = FormatTaskName j n"
  by (simp add: FormatTaskName_def same_job_def)

lemma new_task_fields [simp]:
  "Name (new_task j i conn) = FormatTaskName j i" "ts_Task (Task_Spec (new_task j i conn)) = js_Tasks (Job_Spec j) ! i"
  by (simp_all add: new_task_def)

lemma in_order_append:
  assumes "in_order j ts" and "same_job j j'" and "job_completed j' \<longrightarrow> job_completed j"
    and "\<forall>t \<in> set ts. completed t" and "length ts < length (js_Tasks (Job_Spec j))"
    and "same_job j j1"
  shows "in_order j' (ts @ [new_task j1 (length ts) conn])"
proof -
  have eq: "Job_Spec j' = Job_Spec j" "Job_Spec j1 = Job_Spec j" "\<And>n. FormatTaskName j' n = FormatTaskName j n"
      "\<And>n. FormatTaskName j1 n = FormatTaskName j n"
    using assms(2,6) by (simp_all add: same_job_def FormatTaskName_def)
  have "\<not> job_completed j'" using assms(1,3,5) by (auto simp: in_order_def)
  moreover have "completed ((ts @ [new_task j1 (length ts) conn]) ! i)" if "i < length ts" for i
    using assms(4) that by (simp add: nth_append)
  ultimately show ?thesis
    using assms(1,5) unfolding in_order_def eq by (auto simp: nth_append less_Suc_eq eq)
qed

lemma job_effect_in_order:
  assumes "job_effect jobv tasksv w w'" and "in_order (jobv w) (tasksv w)"
  shows "in_order (jobv w') (tasksv w')"
proof -
  have same: "same_job (jobv w) (jobv w')" using assms(1) by (simp add: job_effect_def)
  from assms(1) consider "tasksv w' = tasksv w" "job_completed (jobv w') \<longrightarrow> job_completed (jobv w) \<or>
         length (tasksv w) = length (js_Tasks (Job_Spec (jobv w))) \<and> (\<forall>t \<in> set (tasksv w). completed t)"
    | j conn where "job_completed (jobv w') \<longrightarrow> job_completed (jobv w)" "\<forall>t \<in> set (tasksv w). completed t"
        "length (tasksv w) < length (js_Tasks (Job_Spec (jobv w)))" "same_job (jobv w) j"
        "tasksv w' = tasksv w @ [new_task j (length (tasksv w)) conn]"
    unfolding job_effect_def by blast
  then show ?thesis
  proof cases
    case 1
    have "Job_Spec (jobv w') = Job_Spec (jobv w)" using same by (simp add: same_job_def)
    with 1 assms(2) FormatTaskName_same [OF same] show ?thesis by (auto simp: in_order_def)
  next
    case 2
    with in_order_append [OF assms(2) same] show ?thesis by simp
  qed
qed

lemma in_order_replace:
  assumes "in_order j ts" and "t \<in> set ts" and "\<not> completed t" and "Name t' = Name t" and "Task_Spec t' = Task_Spec t"
  shows "in_order j (replace_task t' ts)"
proof -
  obtain i where i: "i < length ts" "ts ! i = t" using assms(2) by (auto simp: in_set_conv_nth)
  have last: "Suc i = length ts"
    using assms(1,3) i by (metis Suc_lessI in_order_def)
  have names: "Name (ts ! n) = FormatTaskName j n" if "n < length ts" for n
    using assms(1) that by (simp add: in_order_def)
  have eq: "replace_task t' ts = ts[i := t']"
  proof (rule nth_equalityI)
    fix n assume "n < length (replace_task t' ts)"
    then have n: "n < length ts" by (simp add: replace_task_def)
    have "Name (ts ! n) = Name t' \<longleftrightarrow> n = i"
      using names [OF n] names [OF i(1)] i(2) assms(4) by (simp add: FormatTaskName_inj)
    with n show "replace_task t' ts ! n = ts[i := t'] ! n" by (simp add: replace_task_def)
  qed (simp add: replace_task_def)
  have "\<not> job_completed j" using assms(1-3) by (auto simp: in_order_def)
  moreover have "completed (ts[i := t'] ! n)" if "Suc n < length ts" for n
    using assms(1) that last by (simp add: in_order_def)
  ultimately show ?thesis
    using assms(1,4,5) i unfolding eq in_order_def by (auto simp: nth_list_update)
qed

lemma rufio_step_in_order:
  assumes "job_store k jobv tasksv" and "bmc_separate jobv tasksv factory"
    and "rufio_step k ref factory w w'" and "in_order (jobv w) (tasksv w)"
  shows "in_order (jobv w') (tasksv w') \<and> same_job (jobv w) (jobv w')"
  using assms(3)
proof cases
  case (job_step ns n out)
  from job_Reconcile_effect [OF assms(1) this] job_effect_in_order [of jobv tasksv w w'] assms(4) show ?thesis
    by (auto simp: job_effect_def)
next
  case (task_step ns n out)
  from task_Reconcile_effect [OF assms(1,2) this] in_order_replace [OF assms(4)] assms(4) show ?thesis
    unfolding task_effect_def by auto
qed

text \<open>C4. Under any interleaving of job and task reconciliations, with an API server and a BMC that may
  fail at any call, the tasks of a BMC job run one after the other in the order of the job's list:
  the next task is created only after all earlier ones have completed, no task is created twice or
  out of order, a failed task stops the job, and the job is marked completed only when the list
  is exhausted and every task has completed.\<close>

theorem rufio_job_order:
  assumes "job_store k jobv tasksv" and "bmc_separate jobv tasksv factory"
    and "tasksv w = []" and "\<not> Job_HasCondition (jobv w) JobCompleted ConditionTrue"
    and "(rufio_step k ref factory)\<^sup>*\<^sup>* w w'"
  shows "in_order (jobv w') (tasksv w') \<and> Job_Spec (jobv w') = Job_Spec (jobv w)"
  using assms(5)
proof (induction rule: rtranclp_induct)
  case base
  show ?case using assms(3,4) by (simp add: in_order_def)
next
  case (step w1 w2)
  then show ?case
    using rufio_step_in_order [OF assms(1,2), of ref w1 w2] by (simp add: same_job_def)
qed

text \<open>A store that accepts every call, with a job that powers a machine on.\<close>

definition mem_client :: "(Job \<times> bmc_Task list) rufio_client" where
  "mem_client =
     \<lparr>rk_now = (\<lambda>w. 0), rk_GetJob = (\<lambda>ns n w. (Inr (fst w), w)),
      rk_GetTask = (\<lambda>ns n w. (case find (\<lambda>t. Name t = n) (snd w) of Some t \<Rightarrow> Inr t | None \<Rightarrow> Inl (ApiError ReasonNotFound []), w)),
      rk_GetMachine = (\<lambda>ns n w. (Inr \<lparr>APIVersion = [], Kind = [], Name = n, Namespace = ns, UID = [], DeletionTimestamp = None,
         Labels = Map.empty, Annotations = Map.empty, OwnerReferences = [],
         Machine_Connection = \<lparr>conn_Host = [], conn_Port = 0, conn_AuthSecretRef = \<lparr>sref_Name = [], sref_Namespace = []\<rparr>,
           conn_InsecureTLS = False, conn_ProviderOptions = None\<rparr>,
         Machine_Status = \<lparr>ms_Power = On, ms_Conditions = []\<rparr>\<rparr>, w)),
      rk_GetSecret = (\<lambda>ns n w. (Inr [''username'' \<mapsto> [], ''password'' \<mapsto> []], w)),
      rk_ListTasks = (\<lambda>ns n w. (Inr (snd w), w)),
      rk_CreateTask = (\<lambda>t w. if Name t \<in> Name ` set (snd w) then (Some (ApiError ReasonAlreadyExists []), w)
         else (None, (fst w, snd w @ [t]))),
      rk_PatchJob = (\<lambda>old j w. (None, (j, snd w))),
      rk_PatchTask = (\<lambda>old t w. (None, (fst w, replace_task t (snd w))))\<rparr>"

definition mem_bmc :: "'w ClientFunc" where
  "mem_bmc h u p b w =
     (Inr \<lparr>bc_SetPowerState = (\<lambda>s w. (Inr True, w)), bc_GetPowerState = (\<lambda>w. (Inr ''on'', w)),
        bc_SetBootDevice = (\<lambda>d p e w. ((True, None), w)), bc_SetVirtualMedia = (\<lambda>a b w. (Inr True, w)),
        bc_Inventory = (\<lambda>w. (Inr None, w)), bc_SuccessfulProvider = (\<lambda>w. []), bc_Close = (\<lambda>w. (None, w))\<rparr>, w)"

definition on_job :: Job where
  "on_job = \<lparr>APIVersion = [], Kind = ''Job'', Name = ''j'', Namespace = ''ns'', UID = [], DeletionTimestamp = None,
     Labels = Map.empty, Annotations = Map.empty, OwnerReferences = [],
     Job_Spec = \<lparr>js_MachineRef = \<lparr>mref_Name = ''m'', mref_Namespace = ''ns''\<rparr>,
       js_Tasks = [empty_action\<lparr>act_PowerAction := Some PowerOn\<rparr>]\<rparr>,
     Job_Status = \<lparr>js_Conditions = [], js_StartTime = None, js_CompletionTime = None\<rparr>\<rparr>"

lemma mem_laws: "job_store mem_client fst snd" "bmc_separate fst snd mem_bmc"
  by (auto simp: job_store_def mem_client_def same_store_def bmc_separate_def conn_separate_def mem_bmc_def
      split: option.splits dest: find_Some_iff [THEN iffD1])

theorem rufio_job_order_witness:
  "\<exists>w'. (rufio_step mem_client sref_Name mem_bmc)\<^sup>*\<^sup>* (on_job, []) w' \<and> in_order (fst w') (snd w') \<and> length (snd w') = 1"
proof -
  let ?r = "job_Reconcile mem_client ''ns'' ''j'' (on_job, [])"
  have "rufio_step mem_client sref_Name mem_bmc (on_job, []) (snd ?r)"
    by (rule job_step [of _ _ _ _ "fst ?r"]) simp
  then have r: "(rufio_step mem_client sref_Name mem_bmc)\<^sup>*\<^sup>* (on_job, []) (snd ?r)" by simp
  have "length (snd (snd ?r)) = 1"
    by (simp add: job_Reconcile_def mem_client_def on_job_def job_doReconcile_def Let_def Job_HasCondition_def
        rufio_getMachine_def createTaskWithOwner_def job_patchStatus_def meta_IsZero_def)
  moreover have "\<not> Job_HasCondition (fst (on_job, [])) JobCompleted ConditionTrue"
    by (simp add: on_job_def Job_HasCondition_def)
  ultimately show ?thesis
    using r rufio_job_order [OF mem_laws _ _ r] by (intro exI [of _ "snd ?r"]) simp
qed

end
