(* ===== verification/Float64.thy ===== *)
theory Float64
  imports Prelude "HOL-Library.Log_Nat"
begin

text \<open>
  Double precision arithmetic of Go on the numbers the sources compute with: a result is the
  exact rational number rounded to 53 significant bits, ties to the even mantissa. The exponent is
  unbounded, as no value of the sources comes near the limits of the format.
\<close>


section \<open>Rounding\<close>

definition round_even :: "rat \<Rightarrow> int" where
  "round_even y =
     (let n = \<lfloor>y\<rfloor>; d = y - of_int n in
      if d < 1 / 2 then n else if d > 1 / 2 then n + 1 else if even n then n else n + 1)"

text \<open>The exponent of a positive number: \<open>2 ^ e \<le> x < 2 ^ (e + 1)\<close>.\<close>

definition exponent :: "rat \<Rightarrow> int" where
  "exponent x =
     (let (p, q) = quotient_of x; e = bitlen p - bitlen q in
      if power_int 2 e \<le> x then e else e - 1)"

definition f64_pos :: "rat \<Rightarrow> rat" where
  "f64_pos x = (let s = power_int 2 (exponent x - 52) in of_int (round_even (x / s)) * s)"

definition f64 :: "rat \<Rightarrow> rat" where
  "f64 x = (if x = 0 then 0 else if x > 0 then f64_pos x else - f64_pos (- x))"

text \<open>Conversion of a float to an integer type truncates.\<close>

definition trunc_rat :: "rat \<Rightarrow> int" where
  "trunc_rat x = (if x \<ge> 0 then \<lfloor>x\<rfloor> else \<lceil>x\<rceil>)"


section \<open>Rounding is monotone and keeps the numbers of the format\<close>

lemma round_even_bounds: "\<lfloor>y\<rfloor> \<le> round_even y \<and> round_even y \<le> \<lfloor>y\<rfloor> + 1"
  by (simp add: round_even_def Let_def)

lemma round_even_int [simp]: "round_even (of_int n) = n"
  by (simp add: round_even_def Let_def)

lemma round_even_mono:
  assumes "x \<le> y"
  shows "round_even x \<le> round_even y"
proof (cases "\<lfloor>x\<rfloor> = \<lfloor>y\<rfloor>")
  case True
  with assms show ?thesis by (auto simp: round_even_def Let_def)
next
  case False
  with floor_mono [OF assms] have "\<lfloor>x\<rfloor> + 1 \<le> \<lfloor>y\<rfloor>" by linarith
  with round_even_bounds [of x] round_even_bounds [of y] show ?thesis by linarith
qed

lemma pow2_add: "power_int (2 :: rat) (a + b) = power_int 2 a * power_int 2 b"
  by (simp add: power_int_add)

lemma pow2_pos [simp]: "power_int (2 :: rat) e > 0"
  by simp

lemma bitlen_bounds_rat:
  assumes "p > 0"
  shows "power_int (2 :: rat) (bitlen p - 1) \<le> of_int p \<and> of_int p < power_int (2 :: rat) (bitlen p)"
proof -
  from bitlen_bounds [OF assms] have b: "2 ^ nat (bitlen p - 1) \<le> p" "p < 2 ^ nat (bitlen p)" by auto
  have pos: "bitlen p - 1 \<ge> 0" using assms by (simp add: bitlen_eq_zero_iff order_antisym_conv) (metis bitlen_eq_zero_iff bitlen_nonneg assms int_one_le_iff_zero_less less_le not_less)
  have "power_int (2 :: rat) (bitlen p - 1) = of_int (2 ^ nat (bitlen p - 1))"
    using pos by (simp add: power_int_def)
  moreover have "power_int (2 :: rat) (bitlen p) = of_int (2 ^ nat (bitlen p))"
    using pos by (simp add: power_int_def)
  ultimately show ?thesis using b by (simp only: of_int_le_iff of_int_less_iff)
qed

lemma exponent_bounds:
  assumes "x > 0"
  shows "power_int 2 (exponent x) \<le> x \<and> x < power_int 2 (exponent x + 1)"
proof -
  obtain p q where pq: "quotient_of x = (p, q)" by fastforce
  have q: "q > 0" and x: "x = of_int p / of_int q"
    using pq quotient_of_denom_pos quotient_of_div by auto
  have p: "p > 0" using assms q x by (simp add: zero_less_divide_iff)
  let ?e = "bitlen p - bitlen q"
  note bp = bitlen_bounds_rat [OF p] and bq = bitlen_bounds_rat [OF q]
  have up: "x < power_int 2 (?e + 1)"
  proof -
    have "of_int p < power_int 2 (?e + 1) * power_int (2 :: rat) (bitlen q - 1)"
      using bp by (simp add: pow2_add [symmetric])
    also have "\<dots> \<le> power_int 2 (?e + 1) * of_int q" using bq by (intro mult_left_mono) auto
    finally show ?thesis using q x by (simp add: divide_less_eq)
  qed
  have low: "power_int 2 (?e - 1) \<le> x"
  proof -
    have "power_int 2 (?e - 1) * of_int q \<le> power_int 2 (?e - 1) * power_int (2 :: rat) (bitlen q)"
      using bq by (intro mult_left_mono) auto
    also have "\<dots> = power_int 2 (bitlen p - 1)" by (simp add: pow2_add [symmetric])
    also have "\<dots> \<le> of_int p" using bp by simp
    finally show ?thesis using q x by (simp add: le_divide_eq)
  qed
  show ?thesis
    using up low by (auto simp: exponent_def pq Let_def not_le)
qed

lemma pow2_less_cancel: "power_int (2 :: rat) a < power_int 2 b \<Longrightarrow> a < b"
  by (metis linorder_not_less one_le_numeral power_int_increasing)

lemma exponent_mono:
  assumes "0 < x" and "x \<le> y"
  shows "exponent x \<le> exponent y"
proof -
  have "power_int 2 (exponent x) < power_int (2 :: rat) (exponent y + 1)"
    using exponent_bounds [of x] exponent_bounds [of y] assms by linarith
  then have "exponent x < exponent y + 1" by (rule pow2_less_cancel)
  then show ?thesis by simp
qed

lemma mantissa_bounds:
  assumes "x > 0"
  shows "2 ^ 52 \<le> x / power_int 2 (exponent x - 52) \<and> x / power_int 2 (exponent x - 52) < 2 ^ 53"
proof -
  have "power_int 2 (exponent x) = 2 ^ 52 * power_int (2 :: rat) (exponent x - 52)"
    "power_int 2 (exponent x + 1) = 2 ^ 53 * power_int (2 :: rat) (exponent x - 52)"
    using pow2_add [of 52 "exponent x - 52"] pow2_add [of 53 "exponent x - 52"] by (simp_all add: add.commute)
  with exponent_bounds [OF assms] show ?thesis by (simp add: le_divide_eq divide_less_eq)
qed

lemma f64_pos_bounds:
  assumes "x > 0"
  shows "power_int 2 (exponent x) \<le> f64_pos x \<and> f64_pos x \<le> power_int 2 (exponent x + 1)"
proof -
  let ?s = "power_int (2 :: rat) (exponent x - 52)"
  let ?n = "round_even (x / ?s)"
  have "round_even (of_int (2 ^ 52)) \<le> ?n" "?n \<le> round_even (of_int (2 ^ 53))"
    using mantissa_bounds [OF assms] by (auto intro!: round_even_mono simp del: round_even_int)
  then have n: "2 ^ 52 \<le> ?n" "?n \<le> 2 ^ 53" by (simp_all only: round_even_int)
  then have r: "(2 :: rat) ^ 52 \<le> of_int ?n" "of_int ?n \<le> (2 :: rat) ^ 53"
    by (metis of_int_le_iff of_int_numeral of_int_power)+
  have "power_int 2 (exponent x) = 2 ^ 52 * ?s" "power_int 2 (exponent x + 1) = 2 ^ 53 * ?s"
    using pow2_add [of 52 "exponent x - 52"] pow2_add [of 53 "exponent x - 52"] by (simp_all add: add.commute)
  with r show ?thesis by (simp add: f64_pos_def Let_def)
qed

lemma f64_pos_mono:
  assumes "0 < x" and "x \<le> y"
  shows "f64_pos x \<le> f64_pos y"
proof (cases "exponent x = exponent y")
  case True
  let ?s = "power_int (2 :: rat) (exponent y - 52)"
  have "round_even (x / ?s) \<le> round_even (y / ?s)"
    using assms(2) by (intro round_even_mono divide_right_mono) simp_all
  with True show ?thesis by (simp add: f64_pos_def Let_def)
next
  case False
  with exponent_mono [OF assms] have "exponent x + 1 \<le> exponent y" by simp
  then have "power_int 2 (exponent x + 1) \<le> power_int (2 :: rat) (exponent y)"
    by (intro power_int_increasing) simp_all
  with f64_pos_bounds [OF assms(1)] f64_pos_bounds [of y] assms show ?thesis by linarith
qed

lemma f64_pos_positive: "x > 0 \<Longrightarrow> f64_pos x > 0"
  using f64_pos_bounds [of x] pow2_pos [of "exponent x"] by linarith

lemma f64_mono:
  assumes "x \<le> y"
  shows "f64 x \<le> f64 y"
proof -
  consider "0 < x" | "x = 0" | "x < 0" "0 < y" | "x < 0" "y = 0" | "y < 0" using assms by linarith
  then show ?thesis
  proof cases
    case 1
    with assms f64_pos_mono show ?thesis by (simp add: f64_def)
  next
    case 2
    with assms f64_pos_positive [of y] show ?thesis by (auto simp: f64_def)
  next
    case 3
    with f64_pos_positive [of "- x"] f64_pos_positive [of y] show ?thesis by (simp add: f64_def)
  next
    case 4
    with f64_pos_positive [of "- x"] show ?thesis by (simp add: f64_def)
  next
    case 5
    with assms f64_pos_mono [of "- y" "- x"] show ?thesis by (simp add: f64_def)
  qed
qed

lemma f64_minus: "f64 (- x) = - f64 x"
  by (simp add: f64_def)

lemma f64_nonneg: "0 \<le> x \<Longrightarrow> 0 \<le> f64 x"
  using f64_mono [of 0 x] by (simp add: f64_def)

text \<open>A number with at most 53 significant bits is its own rounding.\<close>

lemma f64_exact_pos:
  assumes "0 < m" and "m < 2 ^ 53"
  shows "f64 (of_int m * power_int 2 e) = of_int m * power_int 2 e"
proof -
  let ?x = "of_int m * power_int (2 :: rat) e"
  have pos: "?x > 0" using assms(1) by simp
  have "(of_int m :: rat) < 2 ^ 53"
    using assms(2) by (metis of_int_less_iff of_int_numeral of_int_power)
  then have "?x < 2 ^ 53 * power_int 2 e" by simp
  also have "\<dots> = power_int 2 (e + 53)" using pow2_add [of e 53] by simp
  finally have "power_int (2 :: rat) (exponent ?x) < power_int 2 (e + 53)"
    using exponent_bounds [OF pos] by linarith
  then have k: "exponent ?x \<le> e + 52" using pow2_less_cancel by fastforce
  define t where "t = exponent ?x - 52"
  let ?k = "nat (e - t)"
  have e: "power_int (2 :: rat) e = 2 ^ ?k * power_int 2 t"
    using k pow2_add [of "e - t" t] by (simp add: power_int_def t_def)
  have q: "?x / power_int 2 t = of_int (m * 2 ^ ?k)" unfolding e by simp
  have "f64_pos ?x = of_int (m * 2 ^ ?k) * power_int 2 t"
    unfolding f64_pos_def Let_def t_def [symmetric] q round_even_int by simp
  then have "f64_pos ?x = ?x" using q by (metis nonzero_mult_div_cancel_right nonzero_eq_divide_eq pow2_pos less_irrefl)
  with pos show ?thesis by (simp add: f64_def)
qed

lemma f64_exact:
  assumes "\<bar>m\<bar> < 2 ^ 53"
  shows "f64 (of_int m * power_int 2 e) = of_int m * power_int 2 e"
proof (cases "m < 0")
  case True
  then have "f64 (of_int (- m) * power_int 2 e) = of_int (- m) * power_int 2 e"
    using assms by (intro f64_exact_pos) auto
  then show ?thesis using f64_minus [of "of_int (- m) * power_int 2 e"] by simp
next
  case False
  then show ?thesis
    using assms f64_exact_pos [of m e] by (cases "m = 0") (auto simp: f64_def)
qed

lemma f64_int: "\<bar>m\<bar> < 2 ^ 53 \<Longrightarrow> f64 (of_int m) = of_int m"
  using f64_exact [of m 0] by simp

lemma exponent_unique:
  assumes "power_int 2 e \<le> x" and "x < power_int 2 (e + 1)"
  shows "exponent x = e"
proof -
  have "x > 0" using assms(1) pow2_pos [of e] by linarith
  from exponent_bounds [OF this] assms
  have "power_int (2 :: rat) (exponent x) < power_int 2 (e + 1)" "power_int (2 :: rat) e < power_int 2 (exponent x + 1)"
    by linarith+
  then show ?thesis using pow2_less_cancel [of "exponent x" "e + 1"] pow2_less_cancel [of e "exponent x + 1"] by linarith
qed

lemma f64_pos_scale:
  assumes "x > 0"
  shows "f64_pos (x * power_int 2 k) = f64_pos x * power_int 2 k"
proof -
  have "power_int (2 :: rat) (exponent x + k) \<le> x * power_int 2 k" "x * power_int 2 k < power_int (2 :: rat) (exponent x + k + 1)"
    using exponent_bounds [OF assms] pow2_add [of "exponent x" k] pow2_add [of "exponent x + 1" k]
    by (simp_all add: add.commute add.left_commute)
  then have e: "exponent (x * power_int 2 k) = exponent x + k" by (rule exponent_unique)
  have s: "power_int (2 :: rat) (exponent x + k - 52) = power_int 2 (exponent x - 52) * power_int 2 k"
    by (simp add: pow2_add [symmetric] algebra_simps)
  show ?thesis by (simp add: f64_pos_def Let_def e s)
qed

lemma f64_scale: "f64 (x * power_int 2 k) = f64 x * power_int 2 k"
proof (cases x "0 :: rat" rule: linorder_cases)
  case less
  then have "x * power_int 2 k < 0" by (simp add: mult_neg_pos)
  then show ?thesis using less f64_pos_scale [of "- x" k] by (simp add: f64_def)
next
  case equal
  then show ?thesis by (simp add: f64_def)
next
  case greater
  then have "x * power_int 2 k > 0" by simp
  then show ?thesis using greater f64_pos_scale [of x k] by (simp add: f64_def)
qed

lemma f64_double: "f64 (2 * x) = 2 * f64 x"
  using f64_scale [of x 1] by (simp add: mult.commute)

lemma f64_pos_idem:
  assumes "x > 0"
  shows "f64 (f64_pos x) = f64_pos x"
proof -
  let ?s = "power_int (2 :: rat) (exponent x - 52)" and ?n = "round_even (x / power_int (2 :: rat) (exponent x - 52))"
  have eq: "f64_pos x = of_int ?n * ?s" by (simp add: f64_pos_def Let_def)
  have "round_even (of_int 0) \<le> ?n" "?n \<le> round_even (of_int (2 ^ 53))"
    using mantissa_bounds [OF assms] assms by (auto intro!: round_even_mono simp del: round_even_int)
  then have n: "0 \<le> ?n" "?n \<le> 2 ^ 53" by (simp_all only: round_even_int)
  show ?thesis
  proof (cases "?n = 2 ^ 53")
    case True
    have "of_int ?n * ?s = of_int 1 * power_int (2 :: rat) (exponent x + 1)"
      unfolding True using pow2_add [of 53 "exponent x - 52"] by (simp add: add.commute)
    then show ?thesis unfolding eq using f64_exact [of 1 "exponent x + 1"] by simp
  next
    case False
    with n show ?thesis unfolding eq by (intro f64_exact) simp
  qed
qed

lemma f64_idem [simp]: "f64 (f64 x) = f64 x"
proof (cases x "0 :: rat" rule: linorder_cases)
  case less
  then show ?thesis using f64_pos_idem [of "- x"] f64_minus [of "f64_pos (- x)"] by (simp add: f64_def [of x])
next
  case equal
  then show ?thesis by (simp add: f64_def)
next
  case greater
  then show ?thesis using f64_pos_idem [of x] by (simp add: f64_def [of x])
qed

text \<open>An integer below \<open>2 ^ 53\<close> that bounds a number bounds its rounding.\<close>

lemma f64_le_int: "x \<le> of_int m \<Longrightarrow> \<bar>m\<bar> < 2 ^ 53 \<Longrightarrow> f64 x \<le> of_int m"
  using f64_mono [of x "of_int m"] by (simp add: f64_int)

lemma trunc_abs: "\<bar>x\<bar> \<le> of_int m \<Longrightarrow> \<bar>trunc_rat x\<bar> \<le> m"
  by (cases "x \<ge> 0") (simp_all add: trunc_rat_def floor_le_iff le_floor_iff ceiling_le_iff le_ceiling_iff abs_le_iff, linarith+)

text \<open>The relative error is at most \<open>2 ^ -53\<close>.\<close>

lemma round_even_error: "\<bar>of_int (round_even y) - y\<bar> \<le> 1 / 2"
proof -
  have "of_int \<lfloor>y\<rfloor> \<le> y" "y < of_int \<lfloor>y\<rfloor> + 1" by linarith+
  then show ?thesis by (auto simp: round_even_def Let_def abs_le_iff)
qed

lemma f64_upper:
  assumes "x > 0"
  shows "f64 x \<le> x * (1 + 1 / 2 ^ 53)"
proof -
  let ?s = "power_int (2 :: rat) (exponent x - 52)"
  have "of_int (round_even (x / ?s)) \<le> x / ?s + 1 / 2" using round_even_error [of "x / ?s"] by linarith
  then have "of_int (round_even (x / ?s)) * ?s \<le> (x / ?s + 1 / 2) * ?s" by (intro mult_right_mono) simp_all
  also have "\<dots> = x + ?s / 2" by (simp add: algebra_simps)
  also have "x + ?s / 2 = x + power_int 2 (exponent x) / 2 ^ 52 / 2"
    using pow2_add [of "exponent x" "- 52"] by (simp add: power_int_minus field_simps)
  also have "x + power_int 2 (exponent x) / 2 ^ 52 / 2 \<le> x + x / 2 ^ 52 / 2"
    using exponent_bounds [OF assms] by (intro add_left_mono divide_right_mono) simp_all
  also have "\<dots> = x * (1 + 1 / 2 ^ 53)" by (simp add: algebra_simps)
  finally show ?thesis using assms by (simp add: f64_def f64_pos_def Let_def)
qed

end
