(* ===== verification/Rufio_Machine.thy ===== *)
theory Rufio_Machine
  imports Rufio Float64
begin

text \<open>
  The machine reconciler, \<open>src/rufio/internal/controller/machine.go\<close>, with the refresh of BMC
  inventories (\<open>inventory.go\<close>): when an inventory is due, with a jitter computed in double
  precision, and what is written to the linked Hardware object.
\<close>

unbundle bit_operations_syntax


section \<open>When an inventory is due\<close>

definition defaultInventoryRefreshInterval :: duration where
  "defaultInventoryRefreshInterval = 24 * 60 * minute"

definition machineRequeueInterval :: duration where
  "machineRequeueInterval = 3 * minute"

definition refreshInventoryAnnotation :: string where
  "refreshInventoryAnnotation = ''tinkerbell.org/refresh-inventory''"

definition disableOutOfBandInventoryAnnotation :: string where
  "disableOutOfBandInventoryAnnotation = ''tinkerbell.org/disable-outofband-inventory''"

definition inventoryJitterFraction :: rat where
  "inventoryJitterFraction = f64 (1 / 10)"

definition hardwareBMCRefIndexFunc :: "Hardware \<Rightarrow> string list" where
  "hardwareBMCRefIndexFunc hw = (case hw_BMCRef (Hardware_Spec hw) of None \<Rightarrow> [] | Some r \<Rightarrow> [tlo_Name r])"

definition outOfBandAttributes :: "Hardware option \<Rightarrow> Attributes option" where
  "outOfBandAttributes hw =
     (case hw of None \<Rightarrow> None
      | Some h \<Rightarrow> (case hws_Attributes (Hardware_Status h) of None \<Rightarrow> None | Some a \<Rightarrow> ha_OutOfBand a))"

text \<open>The 32-bit FNV-1a hash.\<close>

definition fnv32a :: "string \<Rightarrow> 32 word" where
  "fnv32a s = fold (\<lambda>c h. (h XOR of_char c) * 16777619) s 2166136261"

definition inventoryJitter :: "Machine \<Rightarrow> duration \<Rightarrow> duration" where
  "inventoryJitter bm interval =
     (let maxJitter = f64 (f64 (of_int interval) * inventoryJitterFraction) in
      if maxJitter \<le> 0 then 0
      else
        (let frac = f64 (f64 (of_nat (unat (fnv32a (Namespace bm @ ''/'' @ Name bm)))) / 4294967296)
         in trunc_rat (f64 (f64 (f64 (frac * 2) * maxJitter) - maxJitter))))"

definition dueForInventoryRefresh :: "time \<Rightarrow> Hardware \<Rightarrow> Machine \<Rightarrow> duration \<Rightarrow> bool" where
  "dueForInventoryRefresh now hw bm interval =
     (if Annotations bm refreshInventoryAnnotation = Some ''true'' then True
      else (case outOfBandAttributes (Some hw) of
        None \<Rightarrow> True
      | Some attrs \<Rightarrow>
          (case at_LastUpdated attrs of
             None \<Rightarrow> True
           | Some t \<Rightarrow> sat64 (now - t) > i64 (interval + inventoryJitter bm interval))))"


section \<open>The reconciler\<close>

text \<open>\<open>mr_Event\<close> records an event of a given reason; \<open>mr_Retry\<close> is \<open>retry.Do\<close> with three attempts.
  \<open>mr_ApplyHardware\<close> is the server-side apply of the out-of-band attributes. \<open>mr_PatchMachine\<close>
  returns the object the server answers with, which replaces the one in memory.\<close>

record 'w MachineReconciler =
  mr_client :: "'w rufio_client"
  mr_PatchStatus :: "Machine \<Rightarrow> Machine \<Rightarrow> 'w \<Rightarrow> gerr option \<times> 'w"
  mr_PatchMachine :: "Machine \<Rightarrow> Machine \<Rightarrow> 'w \<Rightarrow> (gerr + Machine) \<times> 'w"
  mr_ListHardware :: "string \<Rightarrow> string \<Rightarrow> 'w \<Rightarrow> (gerr + Hardware list) \<times> 'w"
  mr_ApplyHardware :: "string \<Rightarrow> string \<Rightarrow> Attributes \<Rightarrow> 'w \<Rightarrow> gerr option \<times> 'w"
  mr_Event :: "string \<Rightarrow> string \<Rightarrow> 'w \<Rightarrow> 'w"
  mr_Retry :: "('w \<Rightarrow> (gerr + Machine) \<times> 'w) \<Rightarrow> 'w \<Rightarrow> (gerr + Machine) \<times> 'w"
  mr_bmcClient :: "'w ClientFunc"
  mr_ref :: "SecretReference \<Rightarrow> string"
  mr_printer :: content_printer
  mr_safecast :: safecast
  mr_powerCheckInterval :: duration
  mr_inventoryRefreshInterval :: duration
  mr_inventoryCollectionEnabled :: bool

text \<open>\<open>NewMachineReconciler\<close>: intervals that are not positive get their defaults.\<close>

definition NewMachineReconciler :: "'w MachineReconciler \<Rightarrow> duration \<Rightarrow> duration \<Rightarrow> bool \<Rightarrow> 'w MachineReconciler" where
  "NewMachineReconciler base check refresh enabled =
     base\<lparr>mr_powerCheckInterval := (if check > 0 then check else machineRequeueInterval),
          mr_inventoryRefreshInterval := (if refresh > 0 then refresh else defaultInventoryRefreshInterval),
          mr_inventoryCollectionEnabled := enabled\<rparr>"

definition machine_patchStatus :: "'w MachineReconciler \<Rightarrow> Machine \<Rightarrow> Machine \<Rightarrow> 'w \<Rightarrow> gerr option \<times> 'w" where
  "machine_patchStatus r old bm w =
     (case mr_PatchStatus r old bm w of
        (Some e, w1) \<Rightarrow> (Some (errorf (''failed to patch Machine '' @ named (Namespace bm) (Name bm) @ '' status: '') e), w1)
      | (None, w1) \<Rightarrow> (None, w1))"

definition set_power :: "PowerState \<Rightarrow> Machine \<Rightarrow> Machine" where
  "set_power p bm = bm\<lparr>Machine_Status := (Machine_Status bm)\<lparr>ms_Power := p\<rparr>\<rparr>"

definition updatePowerState :: "'w MachineReconciler \<Rightarrow> 'w bmc_conn \<Rightarrow> Machine \<Rightarrow> 'w \<Rightarrow> gerr option \<times> Machine \<times> 'w" where
  "updatePowerState r c bm w =
     (case bc_GetPowerState c w of
        (Inl e, w1) \<Rightarrow>
          (Some (errorf ''get power state: '' e), set_power PowerUnknown bm,
           mr_Event r ''GetPowerStateFailed'' (''get power state: '' @ err_text e) w1)
      | (Inr raw, w1) \<Rightarrow> (None, set_power (toPowerState raw) bm, w1))"

definition findLinkedHardware :: "'w MachineReconciler \<Rightarrow> Machine \<Rightarrow> 'w \<Rightarrow> (gerr + Hardware option) \<times> 'w" where
  "findLinkedHardware r bm w =
     (case mr_ListHardware r (Namespace bm) (Name bm) w of
        (Inl e, w1) \<Rightarrow>
          (Inl (errorf (''failed to list Hardware for Machine '' @ named (Namespace bm) (Name bm) @ '': '') e), w1)
      | (Inr items, w1) \<Rightarrow>
          (case items of
             [] \<Rightarrow> (Inr None, w1)
           | [hw] \<Rightarrow> (Inr (Some hw), w1)
           | _ \<Rightarrow> (Inl (NewError (''ambiguous Hardware link for Machine '' @ named (Namespace bm) (Name bm) @ '': '' @
               string_of_nat (length items) @ '' Hardware objects reference it via spec.bmcRef, want at most 1'')), w1)))"

definition applyHardwareOutOfBand :: "'w MachineReconciler \<Rightarrow> Hardware \<Rightarrow> Attributes \<Rightarrow> 'w \<Rightarrow> gerr option \<times> 'w" where
  "applyHardwareOutOfBand r hw attrs w =
     (case mr_ApplyHardware r (Namespace hw) (Name hw) attrs w of
        (Some e, w1) \<Rightarrow>
          (Some (errorf (''failed to apply Hardware '' @ named (Namespace hw) (Name hw) @ '' status.attributes.outOfBand: '') e), w1)
      | (None, w1) \<Rightarrow> (None, w1))"

definition unstamped :: "Attributes \<Rightarrow> Attributes" where
  "unstamped a = a\<lparr>at_LastUpdated := None\<rparr>"

text \<open>No device: the old attributes with a new time stamp. Otherwise the write is skipped when only
  the time stamp would change.\<close>

definition applyOutOfBandAttributes ::
  "'w MachineReconciler \<Rightarrow> Hardware \<Rightarrow> common_Device option \<Rightarrow> string \<Rightarrow> 'w \<Rightarrow> gerr option \<times> 'w" where
  "applyOutOfBandAttributes r hw device collectionMethod w =
     (let now = rk_now (mr_client r) w; existing = outOfBandAttributes (Some hw) in
      case attributesFromDevice (mr_safecast r) device collectionMethod now of
        None \<Rightarrow>
          applyHardwareOutOfBand r hw
            ((case existing of None \<Rightarrow> empty_Attributes | Some a \<Rightarrow> a)
               \<lparr>at_LastUpdated := Some now, at_CollectionMethod := collectionMethod\<rparr>) w
      | Some new \<Rightarrow>
          (if map_option unstamped existing = Some (unstamped new) then (None, w)
           else applyHardwareOutOfBand r hw new w))"

definition reconcileInventory :: "'w MachineReconciler \<Rightarrow> 'w bmc_conn \<Rightarrow> Hardware \<Rightarrow> 'w \<Rightarrow> gerr option \<times> 'w" where
  "reconcileInventory r c hw w =
     (case bc_Inventory c w of
        (Inl e, w1) \<Rightarrow> (Some (errorf ''get BMC inventory: '' e), w1)
      | (Inr device, w1) \<Rightarrow>
          applyOutOfBandAttributes r hw (map_option (sortDevice (mr_printer r)) device) (bc_SuccessfulProvider c w1) w1)"

text \<open>The annotation is removed from the machine in memory as well. A successful patch overwrites that
  machine with the server's answer.\<close>

definition clearRefreshInventoryAnnotation :: "'w MachineReconciler \<Rightarrow> Machine \<Rightarrow> 'w \<Rightarrow> Machine \<times> 'w" where
  "clearRefreshInventoryAnnotation r bm w =
     (if Annotations bm refreshInventoryAnnotation \<noteq> Some ''true'' then (bm, w)
      else
        (let bm1 = bm\<lparr>Annotations := (Annotations bm)(refreshInventoryAnnotation := None)\<rparr> in
         case mr_Retry r (mr_PatchMachine r bm bm1) w of
           (Inl e, w1) \<Rightarrow>
             (bm1, mr_Event r ''ClearRefreshAnnotationFailed'' (''clear refresh-inventory annotation: '' @ err_text e) w1)
         | (Inr answer, w1) \<Rightarrow> (answer, w1)))"

definition reconcileInventoryIfDue :: "'w MachineReconciler \<Rightarrow> 'w bmc_conn \<Rightarrow> Machine \<Rightarrow> 'w \<Rightarrow> Machine \<times> 'w" where
  "reconcileInventoryIfDue r c bm w =
     (if \<not> mr_inventoryCollectionEnabled r then (bm, w)
      else
        (case findLinkedHardware r bm w of
           (Inl e, w1) \<Rightarrow> (bm, mr_Event r ''HardwareLookupFailed'' (''find linked Hardware: '' @ err_text e) w1)
         | (Inr None, w1) \<Rightarrow> (bm, w1)
         | (Inr (Some hw), w1) \<Rightarrow>
             (if Annotations hw disableOutOfBandInventoryAnnotation = Some ''true'' \<or>
                 \<not> dueForInventoryRefresh (rk_now (mr_client r) w1) hw bm (mr_inventoryRefreshInterval r) then (bm, w1)
              else
                (case reconcileInventory r c hw w1 of
                   (Some e, w2) \<Rightarrow> (bm, mr_Event r ''InventoryUnreachable'' (''get BMC inventory: '' @ err_text e) w2)
                 | (None, w2) \<Rightarrow> clearRefreshInventoryAnnotation r bm w2))))"

definition set_contactable :: "time \<Rightarrow> gerr option \<Rightarrow> Machine \<Rightarrow> Machine" where
  "set_contactable now e bm =
     Machine_SetCondition now Contactable (if e = None then ConditionTrue else ConditionFalse)
       [WithMachineConditionMessage (case e of None \<Rightarrow> [] | Some x \<Rightarrow> err_text x)] bm"

definition machine_doReconcile :: "'w MachineReconciler \<Rightarrow> Machine \<Rightarrow> 'w \<Rightarrow> outcome \<times> 'w" where
  "machine_doReconcile r bm w =
     (let conn = Machine_Connection bm in
      case connection_options (mr_client r) (mr_ref r)
          (\<lambda>e. errorf (''resolving Machine '' @ named (Namespace bm) (Name bm) @ '' SecretReference: '') e) conn w of
        (Inl e, w1) \<Rightarrow> ((NoRequeue, Some e), w1)
      | (Inr (username, password, opts), w1) \<Rightarrow>
          (case mr_bmcClient r (conn_Host conn) username password opts w1 of
             (Inl e, w2) \<Rightarrow>
               (case machine_patchStatus r bm (set_power PowerUnknown (set_contactable (rk_now (mr_client r) w2) (Some e) bm)) w2 of
                  (Some pe, w3) \<Rightarrow> ((NoRequeue, Some (AggregateError [pe, e])), w3)
                | (None, w3) \<Rightarrow> ((RequeueIn (mr_powerCheckInterval r), None), w3))
           | (Inr c, w2) \<Rightarrow>
               (case updatePowerState r c bm w2 of (pErr, bm1, w3) \<Rightarrow>
                (case reconcileInventoryIfDue r c (set_contactable (rk_now (mr_client r) w3) pErr bm1) w3 of (bm2, w4) \<Rightarrow>
                 (case machine_patchStatus r bm bm2 w4 of
                    (Some e, w5) \<Rightarrow>
                      ((NoRequeue, Some (AggregateError ((case pErr of None \<Rightarrow> [] | Some p \<Rightarrow> [p]) @ [e]))), snd (bc_Close c w5))
                  | (None, w5) \<Rightarrow> ((RequeueIn (mr_powerCheckInterval r), None), snd (bc_Close c w5)))))))"

definition machine_Reconcile :: "'w MachineReconciler \<Rightarrow> string \<Rightarrow> string \<Rightarrow> 'w \<Rightarrow> outcome \<times> 'w" where
  "machine_Reconcile r ns name w =
     (case rk_GetMachine (mr_client r) ns name w of
        (Inl e, w1) \<Rightarrow> ((NoRequeue, if IsNotFound e then None else Some e), w1)
      | (Inr bm, w1) \<Rightarrow>
          (if \<not> meta_IsZero (DeletionTimestamp bm) then ((NoRequeue, None), w1) else machine_doReconcile r bm w1))"

end
