(* ===== verification/Rufio_Inventory.thy ===== *)
theory Rufio_Inventory
  imports Rufio_Machine
begin

text \<open>
  What holds of the inventory refresh: the window in which a machine becomes due, and what happens
  when the BMC reports the same components again.
\<close>


section \<open>The jitter\<close>

lemma jitter_fraction: "0 < inventoryJitterFraction" "inventoryJitterFraction \<le> (1 / 10) * (1 + 1 / 2 ^ 53)"
  unfolding inventoryJitterFraction_def using f64_pos_positive [of "1 / 10"] f64_upper [of "1 / 10"] by (simp_all add: f64_def)

lemma max_jitter:
  assumes "0 < interval" and "interval < 2 ^ 53"
  shows "f64 (f64 (of_int interval) * inventoryJitterFraction) \<le> of_int (interval div 10 + 1)"
proof -
  have i: "f64 (of_int interval) = of_int interval" using assms by (intro f64_int) simp
  have small: "(of_int interval :: rat) \<le> 2 ^ 53"
    using assms(2) by (metis less_imp_le of_int_le_iff of_int_numeral of_int_power)
  have "of_int interval * inventoryJitterFraction \<le> of_int interval * ((1 / 10) * (1 + 1 / 2 ^ 53))"
    using jitter_fraction(2) assms(1) by (intro mult_left_mono) simp_all
  also have "\<dots> = of_int interval / 10 + of_int interval / 2 ^ 53 / 10" by (simp add: algebra_simps)
  also have "\<dots> \<le> of_int interval / 10 + 1 / 10" using small by simp
  also have "\<dots> \<le> of_int (interval div 10 + 1)"
  proof -
    have "interval + 1 \<le> 10 * (interval div 10 + 1)" by presburger
    then have "(of_int (interval + 1) :: rat) \<le> of_int (10 * (interval div 10 + 1))" by (simp only: of_int_le_iff)
    then show ?thesis by simp
  qed
  finally show ?thesis
    unfolding i using assms by (intro f64_le_int) (auto simp: abs_less_iff)
qed

lemma jitter_bounded:
  assumes "0 < interval" and "interval < 2 ^ 53"
  shows "\<bar>inventoryJitter bm interval\<bar> \<le> interval div 10 + 1"
proof -
  define m where "m = f64 (f64 (of_int interval) * inventoryJitterFraction)"
  define h where "h = int (unat (fnv32a (Namespace bm @ ''/'' @ Name bm)))"
  have m: "m \<le> of_int (interval div 10 + 1)" "f64 m = m"
    using max_jitter [OF assms] by (simp_all add: m_def)
  have h: "0 \<le> h" "h < 2 ^ 32"
    unfolding h_def using unsigned_less [of "fnv32a (Namespace bm @ ''/'' @ Name bm)", where 'a = int] by simp_all
  have fh: "f64 (of_int h) = of_int h" using h by (intro f64_int) simp
  have p32: "power_int (2 :: rat) (- 32) = 1 / 4294967296" by (simp add: power_int_minus)
  define fr where "fr = (of_int h :: rat) / 4294967296"
  have fr: "f64 fr = fr" "0 \<le> fr" "fr < 1"
    using f64_exact [of h "- 32"] h by (simp_all add: fr_def p32)
  have f2: "f64 (fr * 2) = fr * 2" using f64_double [of fr] fr(1) by (simp add: mult.commute)
  show ?thesis
  proof (cases "m \<le> 0")
    case True
    then show ?thesis using assms(1) by (simp add: inventoryJitter_def Let_def m_def [symmetric])
  next
    case False
    define q where "q = f64 (fr * 2 * m)"
    have "f64 (fr * 2 * m) \<le> f64 (2 * m)" using fr False by (intro f64_mono) simp
    then have q: "0 \<le> q" "q \<le> 2 * m"
      using fr False m(2) f64_double [of m] by (auto simp: q_def intro!: f64_nonneg)
    have "f64 (- m) \<le> f64 (q - m)" "f64 (q - m) \<le> f64 m" using q by (auto intro: f64_mono)
    then have "\<bar>f64 (q - m)\<bar> \<le> of_int (interval div 10 + 1)"
      using m by (simp add: f64_minus abs_le_iff)
    moreover have "inventoryJitter bm interval =
        trunc_rat (f64 (f64 (f64 (f64 (f64 (of_int h) / 4294967296) * 2) * m) - m))"
      using False unfolding inventoryJitter_def Let_def m_def [symmetric] h_def of_int_of_nat_eq by simp
    then have "inventoryJitter bm interval = trunc_rat (f64 (q - m))"
      by (simp only: fh fr_def [symmetric] fr(1) f2 q_def [symmetric])
    ultimately show ?thesis by (simp add: trunc_abs)
  qed
qed

text \<open>C34. Without a manual request, an inventory is never collected again before nine tenths of the
  refresh interval have passed and is due at the latest after eleven tenths, give or take a
  nanosecond, whatever jitter the name of the machine hashes to; the jitter is computed in
  double precision from a 32-bit hash.\<close>

theorem inventory_window:
  assumes "0 < interval" and "interval < 2 ^ 53" and "Annotations bm refreshInventoryAnnotation \<noteq> Some ''true''"
    and "outOfBandAttributes (Some hw) = Some attrs" and "at_LastUpdated attrs = Some t" and "t \<le> now"
  shows "(now - t < interval - interval div 10 - 1 \<longrightarrow> \<not> dueForInventoryRefresh now hw bm interval) \<and>
         (now - t > interval + interval div 10 + 1 \<longrightarrow> dueForInventoryRefresh now hw bm interval)"
proof -
  let ?j = "inventoryJitter bm interval"
  have j: "\<bar>?j\<bar> \<le> interval div 10 + 1" by (rule jitter_bounded [OF assms(1,2)])
  have d: "interval div 10 \<le> interval" "0 \<le> interval div 10" using assms(1) by simp_all
  have b: "?j \<le> interval div 10 + 1" "- ?j \<le> interval div 10 + 1" using j by (simp_all only: abs_le_iff)
  then have r: "- 1 \<le> interval + ?j" "interval + ?j \<le> 2 * 2 ^ 53" using d assms(1,2) by linarith+
  then have "i64 (interval + ?j) = interval + ?j" by (intro i64_id) simp_all
  then have due: "dueForInventoryRefresh now hw bm interval \<longleftrightarrow> sat64 (now - t) > interval + ?j"
    using assms(3-5) by (simp add: dueForInventoryRefresh_def)
  have lo: "sat64 (now - t) \<le> now - t" using assms(6) by (simp add: sat64_def)
  have hi: "sat64 (now - t) > interval + ?j" if "now - t > interval + interval div 10 + 1"
  proof -
    have "interval + ?j < now - t" using that b by linarith
    moreover have "interval + ?j < 2 ^ 63 - 1" using r(2) by simp
    ultimately show ?thesis by (simp add: sat64_def)
  qed
  show ?thesis
  proof (intro conjI impI)
    assume "now - t < interval - interval div 10 - 1"
    then have "\<not> sat64 (now - t) > interval + ?j" using lo b by linarith
    then show "\<not> dueForInventoryRefresh now hw bm interval" by (simp only: due not_False_eq_True)
  next
    assume "now - t > interval + interval div 10 + 1"
    then show "dueForInventoryRefresh now hw bm interval" using hi by (simp only: due)
  qed
qed

text \<open>A machine with a refresh interval of a day, an hour after and two days after.\<close>

definition plain_machine :: Machine where
  "plain_machine = \<lparr>APIVersion = [], Kind = [], Name = ''m'', Namespace = ''ns'', UID = [], DeletionTimestamp = None,
     Labels = Map.empty, Annotations = Map.empty, OwnerReferences = [],
     Machine_Connection = \<lparr>conn_Host = [], conn_Port = 0, conn_AuthSecretRef = \<lparr>sref_Name = [], sref_Namespace = []\<rparr>,
       conn_InsecureTLS = False, conn_ProviderOptions = None\<rparr>,
     Machine_Status = \<lparr>ms_Power = On, ms_Conditions = []\<rparr>\<rparr>"

definition with_attributes :: "Attributes \<Rightarrow> Hardware" where
  "with_attributes a = empty_Hardware\<lparr>Hardware_Status := empty_HardwareStatus\<lparr>hws_Attributes := Some \<lparr>ha_OutOfBand = Some a\<rparr>\<rparr>\<rparr>"

lemma outOfBand_with_attributes [simp]: "outOfBandAttributes (Some (with_attributes a)) = Some a"
  by (simp add: outOfBandAttributes_def with_attributes_def)

theorem inventory_window_witness:
  "\<not> dueForInventoryRefresh (60 * minute) (with_attributes (empty_Attributes\<lparr>at_LastUpdated := Some 0\<rparr>)) plain_machine
       defaultInventoryRefreshInterval \<and>
   dueForInventoryRefresh (2 * 24 * 60 * minute) (with_attributes (empty_Attributes\<lparr>at_LastUpdated := Some 0\<rparr>)) plain_machine
       defaultInventoryRefreshInterval"
proof -
  let ?a = "empty_Attributes\<lparr>at_LastUpdated := Some 0\<rparr>"
  have i: "0 < defaultInventoryRefreshInterval" "defaultInventoryRefreshInterval < 2 ^ 53"
    "60 * minute < defaultInventoryRefreshInterval - defaultInventoryRefreshInterval div 10 - 1"
    "defaultInventoryRefreshInterval + defaultInventoryRefreshInterval div 10 + 1 < 2 * 24 * 60 * minute"
    by (simp_all add: defaultInventoryRefreshInterval_def)
  have m: "Annotations plain_machine refreshInventoryAnnotation \<noteq> Some ''true''" by (simp add: plain_machine_def)
  have t: "at_LastUpdated ?a = Some 0" by simp
  note window = inventory_window [OF i(1,2) m outOfBand_with_attributes t]
  show ?thesis
    using window [of "60 * minute"] window [of "2 * 24 * 60 * minute"] i(3,4) by simp
qed


section \<open>The same components again\<close>

text \<open>Sorting by a key and a print that tells the elements apart depends on the elements only, not on
  their order.\<close>

lemma sort_canonical:
  assumes "inj_on pr (set ys)" and "mset xs = mset ys"
  shows "sortByKeyThenContent pr key xs = sortByKeyThenContent pr key ys"
proof -
  have "inj_on (\<lambda>x. (key x, pr x)) (set xs)"
    unfolding mset_eq_setD [OF assms(2)] using assms(1) by (auto simp: inj_on_def)
  then show ?thesis
    unfolding sortByKeyThenContent_def using assms(2) by (intro sort_key_inj_key_eq) simp_all
qed

text \<open>What \<open>%+v\<close> prints tells the components of a device apart. It does when the components hold no
  pointers; a nested pointer prints as an address.\<close>

definition bmc_ports :: "common_Device \<Rightarrow> common_NICPort option list" where
  "bmc_ports d = (case dev_BMC d of None \<Rightarrow> [] | Some b \<Rightarrow> (case cbmc_NIC b of None \<Rightarrow> [] | Some n \<Rightarrow> cnic_NICPorts n))"

definition printers_distinguish :: "content_printer \<Rightarrow> common_Device \<Rightarrow> bool" where
  "printers_distinguish pr d \<longleftrightarrow>
     inj_on (pr_CPU pr) (set (dev_CPUs d)) \<and> inj_on (pr_Memory pr) (set (dev_Memory d)) \<and>
     inj_on (pr_NIC pr) (set (dev_NICs d)) \<and> inj_on (pr_NICPort pr) (set (bmc_ports d)) \<and>
     inj_on (pr_Drive pr) (set (dev_Drives d)) \<and> inj_on (pr_StorageController pr) (set (dev_StorageControllers d)) \<and>
     inj_on (pr_PSU pr) (set (dev_PSUs d)) \<and> inj_on (pr_TPM pr) (set (dev_TPMs d)) \<and> inj_on (pr_GPU pr) (set (dev_GPUs d))"

definition same_nic :: "common_NIC \<Rightarrow> common_NIC \<Rightarrow> bool" where
  "same_nic n n' \<longleftrightarrow> (\<exists>ps. mset ps = mset (cnic_NICPorts n) \<and> n' = n\<lparr>cnic_NICPorts := ps\<rparr>)"

definition same_bmc :: "common_BMC \<Rightarrow> common_BMC \<Rightarrow> bool" where
  "same_bmc b b' \<longleftrightarrow> (\<exists>n. rel_option same_nic (cbmc_NIC b) n \<and> b' = b\<lparr>cbmc_NIC := n\<rparr>)"

definition same_components :: "common_Device \<Rightarrow> common_Device \<Rightarrow> bool" where
  "same_components d d' \<longleftrightarrow>
     (\<exists>bm cpus mems nics drives ctls psus tpms gpus.
        rel_option same_bmc (dev_BMC d) bm \<and> mset cpus = mset (dev_CPUs d) \<and> mset mems = mset (dev_Memory d) \<and>
        mset nics = mset (dev_NICs d) \<and> mset drives = mset (dev_Drives d) \<and>
        mset ctls = mset (dev_StorageControllers d) \<and> mset psus = mset (dev_PSUs d) \<and>
        mset tpms = mset (dev_TPMs d) \<and> mset gpus = mset (dev_GPUs d) \<and>
        d' = d\<lparr>dev_BMC := bm, dev_CPUs := cpus, dev_Memory := mems, dev_NICs := nics, dev_Drives := drives,
          dev_StorageControllers := ctls, dev_PSUs := psus, dev_TPMs := tpms, dev_GPUs := gpus\<rparr>)"

lemma sort_ports_canonical:
  assumes "inj_on (pr_NICPort pr) (set (cnic_NICPorts n))" and "same_nic n n'"
  shows "sort_ports pr n' = sort_ports pr n"
proof -
  obtain ps where ps: "mset ps = mset (cnic_NICPorts n)" "n' = n\<lparr>cnic_NICPorts := ps\<rparr>"
    using assms(2) unfolding same_nic_def by blast
  show ?thesis by (simp add: ps(2) sort_ports_def sort_canonical [OF assms(1) ps(1)])
qed

lemma sort_bmc_canonical:
  assumes "inj_on (pr_NICPort pr) (set (bmc_ports d))" and "rel_option same_bmc (dev_BMC d) b'"
  shows "map_option (\<lambda>b. b\<lparr>cbmc_NIC := map_option (sort_ports pr) (cbmc_NIC b)\<rparr>) b' =
    map_option (\<lambda>b. b\<lparr>cbmc_NIC := map_option (sort_ports pr) (cbmc_NIC b)\<rparr>) (dev_BMC d)"
proof (cases "dev_BMC d")
  case None
  with assms(2) show ?thesis by simp
next
  case (Some c)
  then obtain n where n: "rel_option same_nic (cbmc_NIC c) n" "b' = Some (c\<lparr>cbmc_NIC := n\<rparr>)"
    using assms(2) by (auto simp: option_rel_Some1 same_bmc_def)
  have "map_option (sort_ports pr) n = map_option (sort_ports pr) (cbmc_NIC c)"
  proof (cases "cbmc_NIC c")
    case None
    with n(1) show ?thesis by simp
  next
    case (Some m)
    with n(1) obtain m' where "n = Some m'" "same_nic m m'" by (auto simp: option_rel_Some1)
    moreover have "inj_on (pr_NICPort pr) (set (cnic_NICPorts m))"
      using assms(1) Some \<open>dev_BMC d = Some c\<close> by (simp add: bmc_ports_def)
    ultimately show ?thesis using Some sort_ports_canonical by simp
  qed
  with Some n(2) show ?thesis by simp
qed

lemma sortDevice_canonical:
  assumes "printers_distinguish pr d" and "same_components d d'"
  shows "sortDevice pr d' = sortDevice pr d"
proof -
  obtain bm cpus mems nics drives ctls psus tpms gpus where
    p: "rel_option same_bmc (dev_BMC d) bm" "mset cpus = mset (dev_CPUs d)" "mset mems = mset (dev_Memory d)"
      "mset nics = mset (dev_NICs d)" "mset drives = mset (dev_Drives d)" "mset ctls = mset (dev_StorageControllers d)"
      "mset psus = mset (dev_PSUs d)" "mset tpms = mset (dev_TPMs d)" "mset gpus = mset (dev_GPUs d)" and
    d': "d' = d\<lparr>dev_BMC := bm, dev_CPUs := cpus, dev_Memory := mems, dev_NICs := nics, dev_Drives := drives,
          dev_StorageControllers := ctls, dev_PSUs := psus, dev_TPMs := tpms, dev_GPUs := gpus\<rparr>"
    using assms(2) unfolding same_components_def by blast
  have i: "inj_on (pr_CPU pr) (set (dev_CPUs d))" "inj_on (pr_Memory pr) (set (dev_Memory d))"
     "inj_on (pr_NIC pr) (set (dev_NICs d))" "inj_on (pr_NICPort pr) (set (bmc_ports d))"
     "inj_on (pr_Drive pr) (set (dev_Drives d))" "inj_on (pr_StorageController pr) (set (dev_StorageControllers d))"
     "inj_on (pr_PSU pr) (set (dev_PSUs d))" "inj_on (pr_TPM pr) (set (dev_TPMs d))" "inj_on (pr_GPU pr) (set (dev_GPUs d))"
    using assms(1) unfolding printers_distinguish_def by blast+
  note eqs = sort_canonical [OF i(1) p(2), of cpuKey] sort_canonical [OF i(2) p(3), of memoryKey]
    sort_canonical [OF i(3) p(4), of nicKey] sort_canonical [OF i(5) p(5), of driveKey]
    sort_canonical [OF i(6) p(6), of storageControllerKey] sort_canonical [OF i(7) p(7), of psuKey]
    sort_canonical [OF i(8) p(8), of tpmKey] sort_canonical [OF i(9) p(9), of gpuKey] sort_bmc_canonical [OF i(4) p(1)]
  show ?thesis by (simp add: d' sortDevice_def eqs)
qed

lemma unstamped_attributes:
  "map_option unstamped (attributesFromDevice sf dv m t) = map_option unstamped (attributesFromDevice sf dv m t')"
  by (cases dv) (simp_all add: attributesFromDevice_def unstamped_def Let_def)

lemma due_later:
  assumes "dueForInventoryRefresh now hw bm interval" and "now \<le> now'"
  shows "dueForInventoryRefresh now' hw bm interval"
proof -
  have "sat64 (now - t) \<le> sat64 (now' - t)" for t
    unfolding sat64_def using assms(2) by (intro max.mono min.mono) simp_all
  with assms(1) show ?thesis
    unfolding dueForInventoryRefresh_def
    by (auto split: option.splits if_splits intro: order.strict_trans2)
qed


text \<open>Two graphics cards, reported in the other order.\<close>

definition gpu_card :: "string \<Rightarrow> common_Common" where
  "gpu_card s = \<lparr>cc_Vendor = [], cc_Model = [], cc_ProductName = [], cc_Serial = s, cc_Description = [], cc_Firmware = None,
     cc_Status = None\<rparr>"

definition gpu_device :: "common_Common option list \<Rightarrow> common_Device" where
  "gpu_device gs = \<lparr>cc_Vendor = [], cc_Model = [], cc_ProductName = [], cc_Serial = [], cc_Description = [], cc_Firmware = None,
     cc_Status = None, dev_BIOS = None, dev_BMC = None, dev_Mainboard = None, dev_CPUs = [], dev_Memory = [], dev_NICs = [],
     dev_Drives = [], dev_StorageControllers = [], dev_PSUs = [], dev_TPMs = [], dev_GPUs = gs\<rparr>"

definition gpu_conn :: "common_Device \<Rightarrow> unit bmc_conn" where
  "gpu_conn d =
     \<lparr>bc_SetPowerState = (\<lambda>s w. (Inr True, w)), bc_GetPowerState = (\<lambda>w. (Inr ''on'', w)),
      bc_SetBootDevice = (\<lambda>d p e w. ((True, None), w)), bc_SetVirtualMedia = (\<lambda>a b w. (Inr True, w)),
      bc_Inventory = (\<lambda>w. (Inr (Some d), w)), bc_SuccessfulProvider = (\<lambda>w. ''redfish''), bc_Close = (\<lambda>w. (None, w))\<rparr>"

definition serial_printer :: content_printer where
  "serial_printer = \<lparr>pr_CPU = (\<lambda>x. []), pr_Memory = (\<lambda>x. []), pr_NIC = (\<lambda>x. []), pr_NICPort = (\<lambda>x. []), pr_Drive = (\<lambda>x. []),
     pr_StorageController = (\<lambda>x. []), pr_PSU = (\<lambda>x. []), pr_TPM = (\<lambda>x. []), pr_GPU = nil_key cc_Serial\<rparr>"


end
