(* ===== verification/Net_Text.thy ===== *)
theory Net_Text
  imports Net
begin

text \<open>
  More of the Go library the network services call: the textual forms of IP addresses, the
  functions of package \<open>path\<close>, host and port splitting, and URL values with \<open>String\<close>,
  \<open>JoinPath\<close> and \<open>Hostname\<close>. Parsing a URL stays a parameter of its callers: which texts
  \<open>net/url\<close> accepts changes between Go releases and no caller depends on it.
\<close>


section \<open>Small string functions\<close>

text \<open>\<open>strings.TrimPrefix\<close>, \<open>strings.TrimSuffix\<close>, \<open>strings.TrimSpace\<close> on ASCII text.\<close>

definition trim_prefix :: "'a list \<Rightarrow> 'a list \<Rightarrow> 'a list" where
  "trim_prefix p s = (if take (length p) s = p then drop (length p) s else s)"

definition is_space :: "char \<Rightarrow> bool" where
  "is_space c \<longleftrightarrow> of_char c \<in> {9, 10, 11, 12, 13, 32 :: nat}"

definition trim_space :: "string \<Rightarrow> string" where
  "trim_space s = rev (dropWhile is_space (rev (dropWhile is_space s)))"

text \<open>\<open>strings.Fields\<close>: the maximal runs of non-space characters.\<close>

fun fields_acc :: "string \<Rightarrow> string \<Rightarrow> string list" where
  "fields_acc cur [] = (if cur = [] then [] else [rev cur])"
| "fields_acc cur (c # s) =
     (if is_space c then (if cur = [] then fields_acc [] s else rev cur # fields_acc [] s)
      else fields_acc (c # cur) s)"

definition fields :: "string \<Rightarrow> string list" where
  "fields s = fields_acc [] s"

text \<open>\<open>bytes.Index\<close>: the position of the first occurrence.\<close>

fun index_of :: "'a list \<Rightarrow> 'a list \<Rightarrow> nat option" where
  "index_of p [] = (if p = [] then Some 0 else None)"
| "index_of p (x # xs) =
     (if take (length p) (x # xs) = p then Some 0 else map_option Suc (index_of p xs))"

text \<open>\<open>copy(dst[i:], src)\<close>: overwrite from position \<open>i\<close> as far as both reach.\<close>

definition copy_at :: "nat \<Rightarrow> 'a list \<Rightarrow> 'a list \<Rightarrow> 'a list" where
  "copy_at i src dst =
     take i dst @ take (length dst - i) src @ drop (i + length src) dst"

lemma length_copy_at [simp]: "i \<le> length dst \<Longrightarrow> length (copy_at i src dst) = length dst"
  by (simp add: copy_at_def)

lemma copy_at_nth:
  assumes "i \<le> length dst" and "k < length dst"
  shows "copy_at i src dst ! k = (if i \<le> k \<and> k < i + length src then src ! (k - i) else dst ! k)"
  using assms by (auto simp: copy_at_def nth_append min_def)

lemma index_of_Some_iff:
  "index_of p xs = Some i \<longleftrightarrow>
     i \<le> length xs \<and> take (length p) (drop i xs) = p \<and>
     (\<forall>j < i. take (length p) (drop j xs) \<noteq> p)"
proof (induction xs arbitrary: i)
  case Nil
  then show ?case by auto
next
  case (Cons x xs)
  show ?case
  proof (cases i)
    case 0
    then show ?thesis by (auto split: if_splits)
  next
    case (Suc k)
    then show ?thesis using Cons.IH [of k] by (auto simp: less_Suc_eq_0_disj)
  qed
qed

lemma all_le_Suc: "(\<forall>j \<le> Suc n. P j) \<longleftrightarrow> P 0 \<and> (\<forall>j \<le> n. P (Suc j))"
  by (metis Suc_le_mono le0 not0_implies_Suc)

lemma index_of_None_iff:
  "index_of p xs = None \<longleftrightarrow> (\<forall>j \<le> length xs. take (length p) (drop j xs) \<noteq> p)"
  by (induction xs) (simp_all add: all_le_Suc)

lemma index_of_le:
  assumes "index_of p xs = Some i"
  shows "i + length p \<le> length xs"
proof -
  from assms have i: "i \<le> length xs" and eq: "take (length p) (drop i xs) = p"
    unfolding index_of_Some_iff by blast+
  have "length p = min (length xs - i) (length p)" using arg_cong [OF eq, of length] by simp
  with i show ?thesis by simp
qed


text \<open>Conversions between a string and its bytes.\<close>

definition bytes_of :: "string \<Rightarrow> bytes" where
  "bytes_of s = map (\<lambda>c. of_nat (of_char c)) s"

definition str_of :: "bytes \<Rightarrow> string" where
  "str_of b = map (\<lambda>x. char_of (unat x)) b"

lemma str_of_bytes_of [simp]: "str_of (bytes_of s) = s"
  by (simp add: str_of_def bytes_of_def o_def unsigned_of_nat take_bit_eq_mod)

lemma length_bytes_of [simp]: "length (bytes_of s) = length s"
  by (simp add: bytes_of_def)


section \<open>Printing addresses\<close>

fun hex_string :: "nat \<Rightarrow> string" where
  "hex_string n = (if n < 16 then [hex_char n] else hex_string (n div 16) @ [hex_char (n mod 16)])"

declare hex_string.simps [simp del]

fun groups16 :: "bytes \<Rightarrow> nat list" where
  "groups16 (a # b # r) = (unat a * 256 + unat b) # groups16 r"
| "groups16 r = []"

text \<open>The longest run of at least two zero groups, the first one among equals.\<close>

definition zero_run :: "nat list \<Rightarrow> nat \<Rightarrow> nat" where
  "zero_run gs i = length (takeWhile (\<lambda>g. g = 0) (drop i gs))"

definition longest_zero_run :: "nat list \<Rightarrow> nat \<times> nat" where
  "longest_zero_run gs =
     foldl (\<lambda>(s, l) i. if 2 \<le> zero_run gs i \<and> l < zero_run gs i then (i, zero_run gs i) else (s, l))
       (8, 0) [0 ..< 8]"

definition ipv6_string :: "bytes \<Rightarrow> string" where
  "ipv6_string b =
     (let gs = groups16 b; (s, l) = longest_zero_run gs; txt = (\<lambda>xs. join_str '':'' (map hex_string xs)) in
      if l = 0 then txt gs else txt (take s gs) @ ''::'' @ txt (drop (s + l) gs))"

text \<open>\<open>netip.Addr.String\<close> of a valid address; the zero \<open>netip.Addr\<close> is \<open>None\<close>.\<close>

definition Is4In6 :: "Addr \<Rightarrow> bool" where
  "Is4In6 a = (case a of Addr4 b \<Rightarrow> False | Addr6 b z \<Rightarrow> take 12 b = v4InV6Prefix)"

definition Is4 :: "Addr \<Rightarrow> bool" where
  "Is4 a = (case a of Addr4 b \<Rightarrow> True | Addr6 b z \<Rightarrow> False)"

fun AsSlice :: "Addr \<Rightarrow> bytes" where
  "AsSlice (Addr4 b) = b"
| "AsSlice (Addr6 b z) = b"

definition Addr_IsUnspecified :: "Addr \<Rightarrow> bool" where
  "Addr_IsUnspecified a =
     (case a of Addr4 b \<Rightarrow> b = replicate 4 0 | Addr6 b z \<Rightarrow> b = replicate 16 0 \<and> z = [])"

fun Addr_String :: "Addr \<Rightarrow> string" where
  "Addr_String (Addr4 b) = ipv4_string b"
| "Addr_String (Addr6 b z) =
     (if take 12 b = v4InV6Prefix then ''::ffff:'' @ ipv4_string (drop 12 b) else ipv6_string b)
       @ (if z = [] then [] else ''%'' @ z)"

text \<open>\<open>net.IP\<close> is a slice; the empty list is the nil slice.\<close>

definition IP_String :: "bytes \<Rightarrow> string" where
  "IP_String ip =
     (if ip = [] then ''<nil>''
      else case To4 ip of
        Some b \<Rightarrow> ipv4_string b
      | None \<Rightarrow> if length ip = 16 then ipv6_string ip else ''?'' @ concat (map hex_byte ip))"

definition IP_IsUnspecified :: "bytes \<Rightarrow> bool" where
  "IP_IsUnspecified ip \<longleftrightarrow> To4 ip = Some (replicate 4 0) \<or> ip = replicate 16 0"

definition IP_IsLoopback :: "bytes \<Rightarrow> bool" where
  "IP_IsLoopback ip =
     (case To4 ip of Some b \<Rightarrow> hd b = 127 | None \<Rightarrow> ip = replicate 15 0 @ [1])"

text \<open>\<open>netip.AddrPort\<close>.\<close>

record AddrPort =
  ap_Addr :: "Addr option"
  ap_Port :: nat

definition AddrPort_String :: "AddrPort \<Rightarrow> string" where
  "AddrPort_String p =
     (case ap_Addr p of
        None \<Rightarrow> ''invalid AddrPort''
      | Some (Addr4 b) \<Rightarrow> ipv4_string b @ '':'' @ string_of_nat (ap_Port p)
      | Some a \<Rightarrow> ''['' @ Addr_String a @ '']:'' @ string_of_nat (ap_Port p))"

lemma ParseAddr_length:
  "ParseAddr s = Some (Addr4 b) \<Longrightarrow> length b = 4"
  by (auto simp: ParseAddr_def parse_ipv4_def split: option.splits if_splits prod.splits)


section \<open>Host and port\<close>

text \<open>\<open>net.SplitHostPort\<close>: the last colon separates, an address with colons needs brackets.\<close>

definition split_last :: "char \<Rightarrow> string \<Rightarrow> (string \<times> string) option" where
  "split_last c s =
     (case cut_char c (rev s) of (b, a, found) \<Rightarrow> if found then Some (rev a, rev b) else None)"

definition SplitHostPort :: "string \<Rightarrow> (string \<times> string) option" where
  "SplitHostPort s =
     (case split_last CHR '':'' s of
        None \<Rightarrow> None
      | Some (h, p) \<Rightarrow>
          if h \<noteq> [] \<and> hd h = CHR ''['' then
            (let inner = tl h in
             if inner = [] \<or> last inner \<noteq> CHR '']'' then None
             else
               (let host = butlast inner in
                if CHR ''['' \<in> set host \<or> CHR '']'' \<in> set host \<or> CHR ''['' \<in> set p \<or> CHR '']'' \<in> set p
                then None else Some (host, p)))
          else if CHR '':'' \<in> set h then None
          else if CHR ''['' \<in> set s \<or> CHR '']'' \<in> set s then None
          else Some (h, p))"

definition JoinHostPort :: "string \<Rightarrow> string \<Rightarrow> string" where
  "JoinHostPort h p = (if CHR '':'' \<in> set h then ''['' @ h @ '']:'' @ p else h @ '':'' @ p)"

lemma split_last_iff:
  "split_last c s = Some (a, b) \<longleftrightarrow> s = a @ c # b \<and> c \<notin> set b"
proof
  assume "split_last c s = Some (a, b)"
  then obtain found where cut: "cut_char c (rev s) = (rev b, rev a, True)"
    by (auto simp: split_last_def split: prod.splits if_splits)
  have "\<And>t x y. cut_char c t = (x, y, True) \<Longrightarrow> t = x @ c # y \<and> c \<notin> set x"
    subgoal for t x y by (induction t arbitrary: x y) (auto split: if_splits prod.splits) done
  from this [OF cut] have "rev s = rev b @ c # rev a" and "c \<notin> set b" by auto
  then have "rev (rev s) = rev (rev b @ c # rev a)" by simp
  then show "s = a @ c # b \<and> c \<notin> set b" using \<open>c \<notin> set b\<close> by simp
next
  assume "s = a @ c # b \<and> c \<notin> set b"
  then have "cut_char c (rev s) = (rev b, rev a, True)"
    by (auto simp: cut_char_found)
  then show "split_last c s = Some (a, b)" by (simp add: split_last_def)
qed


section \<open>Package path\<close>

fun clean_step :: "bool \<Rightarrow> string list \<Rightarrow> string \<Rightarrow> string list" where
  "clean_step rooted out e =
     (if e = [] \<or> e = ''.'' then out
      else if e = ''..'' then
        (case out of
           [] \<Rightarrow> if rooted then [] else [e]
         | x # xs \<Rightarrow> if x = ''..'' then e # out else xs)
      else e # out)"

definition path_Clean :: "string \<Rightarrow> string" where
  "path_Clean p =
     (if p = [] then ''.''
      else
        (let rooted = (hd p = CHR ''/'');
             out = rev (foldl (clean_step rooted) [] (split_on CHR ''/'' p));
             txt = join_str ''/'' out
         in if rooted then ''/'' @ txt else if txt = [] then ''.'' else txt))"

definition path_Join :: "string list \<Rightarrow> string" where
  "path_Join es =
     (let ne = filter (\<lambda>e. e \<noteq> []) es in if ne = [] then [] else path_Clean (join_str ''/'' ne))"

definition path_Dir :: "string \<Rightarrow> string" where
  "path_Dir p = path_Clean (rev (dropWhile (\<lambda>c. c \<noteq> CHR ''/'') (rev p)))"

definition path_Base :: "string \<Rightarrow> string" where
  "path_Base p =
     (if p = [] then ''.''
      else
        (let q = rev (dropWhile (\<lambda>c. c = CHR ''/'') (rev p));
             b = rev (takeWhile (\<lambda>c. c \<noteq> CHR ''/'') (rev q))
         in if b = [] then ''/'' else b))"

definition path_Ext :: "string \<Rightarrow> string" where
  "path_Ext p =
     (let b = rev (takeWhile (\<lambda>c. c \<noteq> CHR ''/'') (rev p)) in
      case split_last CHR ''.'' b of None \<Rightarrow> [] | Some (_, e) \<Rightarrow> CHR ''.'' # e)"


section \<open>URL values\<close>

text \<open>
  \<open>url.URL\<close> with the user information as the text \<open>Userinfo.String\<close> prints. The two
  encodings in use are those of paths and of hosts.
\<close>

record URL =
  u_Scheme :: string
  u_Opaque :: string
  u_User :: "string option"
  u_Host :: string
  u_Path :: string
  u_RawPath :: string
  u_OmitHost :: bool
  u_ForceQuery :: bool
  u_RawQuery :: string
  u_Fragment :: string  \<comment> \<open>as \<open>EscapedFragment\<close> prints it\<close>

definition empty_URL :: URL where
  "empty_URL = \<lparr>u_Scheme = [], u_Opaque = [], u_User = None, u_Host = [], u_Path = [], u_RawPath = [],
     u_OmitHost = False, u_ForceQuery = False, u_RawQuery = [], u_Fragment = []\<rparr>"

datatype encoding = encodePath | encodeHost

definition is_alnum :: "char \<Rightarrow> bool" where
  "is_alnum c \<longleftrightarrow> is_lower c \<or> is_upper c \<or> is_digit c"

definition shouldEscape :: "char \<Rightarrow> encoding \<Rightarrow> bool" where
  "shouldEscape c m =
     (if is_alnum c then False
      else if m = encodeHost \<and> c \<in> set ''!$&()*+,;=:[]<>'' \<union> {CHR 0x27, CHR 0x22} then False
      else if c \<in> set ''-_.~'' then False
      else if c \<in> set ''$&+,/:;=?@'' then (case m of encodePath \<Rightarrow> c = CHR ''?'' | encodeHost \<Rightarrow> True)
      else True)"

definition upper_hex :: "nat \<Rightarrow> char" where
  "upper_hex n = (if n < 10 then char_of (n + 48) else char_of (n + 55))"

definition url_escape :: "encoding \<Rightarrow> string \<Rightarrow> string" where
  "url_escape m s =
     concat (map (\<lambda>c. if shouldEscape c m
        then [CHR ''%'', upper_hex (of_char c div 16), upper_hex (of_char c mod 16)] else [c]) s)"

fun unescape_path :: "string \<Rightarrow> string option" where
  "unescape_path [] = Some []"
| "unescape_path (c # s) =
     (if c = CHR ''%'' then
        (case s of a # b # r \<Rightarrow>
             if is_hex a \<and> is_hex b
             then map_option (Cons (char_of (hex_digit_value a * 16 + hex_digit_value b))) (unescape_path r)
             else None
         | _ \<Rightarrow> None)
      else map_option (Cons c) (unescape_path s))"

definition validEncoded :: "string \<Rightarrow> bool" where
  "validEncoded s \<longleftrightarrow>
     list_all (\<lambda>c. c \<in> set ''!$&()*+,;=:@[]%'' \<union> {CHR 0x27} \<or> \<not> shouldEscape c encodePath) s"

definition EscapedPath :: "URL \<Rightarrow> string" where
  "EscapedPath u =
     (if u_RawPath u \<noteq> [] \<and> validEncoded (u_RawPath u) \<and> unescape_path (u_RawPath u) = Some (u_Path u)
      then u_RawPath u
      else if u_Path u = ''*'' then ''*''
      else url_escape encodePath (u_Path u))"

definition setPath :: "string \<Rightarrow> URL \<Rightarrow> URL" where
  "setPath p u =
     (case unescape_path p of
        None \<Rightarrow> u
      | Some q \<Rightarrow> u\<lparr>u_Path := q, u_RawPath := (if url_escape encodePath q = p then [] else p)\<rparr>)"

definition JoinPath :: "string list \<Rightarrow> URL \<Rightarrow> URL" where
  "JoinPath elem u =
     (let e0 = EscapedPath u;
          es = (if has_prefix ''/'' e0 then e0 else CHR ''/'' # e0) # elem;
          p = (if has_prefix ''/'' e0 then path_Join es else tl (path_Join es));
          p = (if has_suffix ''/'' (last es) \<and> \<not> has_suffix ''/'' p then p @ ''/'' else p)
      in setPath p u)"

definition URL_String :: "URL \<Rightarrow> string" where
  "URL_String u =
     (let scheme = (if u_Scheme u = [] then [] else u_Scheme u @ '':'');
          body =
            (if u_Opaque u \<noteq> [] then u_Opaque u
             else
               (let auth =
                      (if (u_Scheme u \<noteq> [] \<or> u_Host u \<noteq> [] \<or> u_User u \<noteq> None) \<and>
                          \<not> (u_OmitHost u \<and> u_Host u = [] \<and> u_User u = None)
                       then (if u_Host u \<noteq> [] \<or> u_Path u \<noteq> [] \<or> u_User u \<noteq> None then ''//'' else [])
                            @ (case u_User u of None \<Rightarrow> [] | Some t \<Rightarrow> t @ ''@'')
                            @ url_escape encodeHost (u_Host u)
                       else []);
                    path = EscapedPath u;
                    sep = (if path \<noteq> [] \<and> hd path \<noteq> CHR ''/'' \<and> u_Host u \<noteq> [] then ''/'' else []);
                    dot = (if scheme @ auth @ sep = [] \<and> CHR '':'' \<in> set (fst (cut_char CHR ''/'' path))
                           then ''./'' else [])
                in auth @ sep @ dot @ path))
      in scheme @ body
         @ (if u_ForceQuery u \<or> u_RawQuery u \<noteq> [] then ''?'' @ u_RawQuery u else [])
         @ (if u_Fragment u \<noteq> [] then ''#'' @ u_Fragment u else []))"

definition valid_optional_port :: "string \<Rightarrow> bool" where
  "valid_optional_port s \<longleftrightarrow> s = [] \<or> hd s = CHR '':'' \<and> list_all is_digit (tl s)"

definition Hostname :: "URL \<Rightarrow> string" where
  "Hostname u =
     (let h = (case split_last CHR '':'' (u_Host u) of
                 Some (a, b) \<Rightarrow> if valid_optional_port (CHR '':'' # b) then a else u_Host u
               | None \<Rightarrow> u_Host u)
      in if has_prefix ''['' h \<and> has_suffix '']'' h then butlast (tl h) else h)"

end
