(* ===== verification/Smee_Data.thy ===== *)
theory Smee_Data
  imports Net_Text Backend
begin

unbundle bit_operations_syntax

text \<open>
  The data Smee's services work on (\<open>src/smee/internal/dhcp/data.go\<close>), the conversion of a
  Hardware object into it (\<open>conv.go\<close>), the textual forms of a MAC address (\<open>format.go\<close>) and
  the lookups of \<open>src/smee/internal/hardware\<close>. A nil slice is the empty list, the zero
  \<open>netip.Addr\<close> is \<open>None\<close>. URL parsing, integer conversion of the safecast package and \<open>%q\<close>
  are operations of the record \<open>smee_lib\<close>; the text of an address parse error is shortened
  to the call that failed.
\<close>


section \<open>Data\<close>

record SmeeDHCP =
  sd_MACAddress :: bytes
  sd_IPAddress :: "Addr option"
  sd_SubnetMask :: bytes
  sd_DefaultGateway :: "Addr option"
  sd_NameServers :: "bytes list"
  sd_Hostname :: string
  sd_DomainName :: string
  sd_BroadcastAddress :: "Addr option"
  sd_NTPServers :: "bytes list"
  sd_VLANID :: string
  sd_LeaseTime :: "32 word"
  sd_TFTPServerName :: string
  sd_BootFileName :: string
  sd_Arch :: string
  sd_DomainSearch :: "string list"
  sd_ClasslessStaticRoutes :: "(IPNet \<times> bytes) list"
  sd_Disabled :: bool

record SmeeOSIE =
  so_BaseURL :: "URL option"
  so_Kernel :: string
  so_Initrd :: string
  so_KernelParams :: "string list"

record SmeeNetboot =
  sn_AllowNetboot :: bool
  sn_IPXEScriptURL :: "URL option"
  sn_IPXEScript :: string
  sn_IPXEBinary :: string
  sn_Console :: string
  sn_Facility :: string
  sn_OSIE :: SmeeOSIE
  sn_PXELINUX :: PXELINUX
  sn_RPI :: RPI

record SmeeIsoboot =
  si_SourceISO :: "URL option"

record SmeeHardware =
  sh_AgentID :: string
  sh_DHCP :: "SmeeDHCP option"
  sh_Netboot :: "SmeeNetboot option"
  sh_Isoboot :: "SmeeIsoboot option"

definition empty_SmeeDHCP :: SmeeDHCP where
  "empty_SmeeDHCP = \<lparr>sd_MACAddress = [], sd_IPAddress = None, sd_SubnetMask = [], sd_DefaultGateway = None,
     sd_NameServers = [], sd_Hostname = [], sd_DomainName = [], sd_BroadcastAddress = None, sd_NTPServers = [],
     sd_VLANID = [], sd_LeaseTime = 0, sd_TFTPServerName = [], sd_BootFileName = [], sd_Arch = [],
     sd_DomainSearch = [], sd_ClasslessStaticRoutes = [], sd_Disabled = False\<rparr>"

definition empty_SmeeOSIE :: SmeeOSIE where
  "empty_SmeeOSIE = \<lparr>so_BaseURL = None, so_Kernel = [], so_Initrd = [], so_KernelParams = []\<rparr>"

definition empty_PXELINUX :: PXELINUX where
  "empty_PXELINUX = \<lparr>pxelinux_Config = []\<rparr>"

definition empty_RPI :: RPI where
  "empty_RPI = \<lparr>rpi_ConfigTxt = [], rpi_FirmwarePath = [], rpi_SerialNum = []\<rparr>"

definition empty_SmeeNetboot :: SmeeNetboot where
  "empty_SmeeNetboot = \<lparr>sn_AllowNetboot = False, sn_IPXEScriptURL = None, sn_IPXEScript = [], sn_IPXEBinary = [],
     sn_Console = [], sn_Facility = [], sn_OSIE = empty_SmeeOSIE, sn_PXELINUX = empty_PXELINUX, sn_RPI = empty_RPI\<rparr>"

definition empty_SmeeHardware :: SmeeHardware where
  "empty_SmeeHardware = \<lparr>sh_AgentID = [], sh_DHCP = None, sh_Netboot = None, sh_Isoboot = None\<rparr>"

record smee_lib =
  sl_Parse :: "string \<Rightarrow> gerr + URL"
  sl_ParseRequestURI :: "string \<Rightarrow> gerr + URL"
  sl_ToUint32 :: "int \<Rightarrow> 32 word option"
  sl_Quote :: "string \<Rightarrow> string"

text \<open>What the safecast package documents: a conversion succeeds exactly on the values the
  target type can hold.\<close>

definition safecast_u32 :: "smee_lib \<Rightarrow> bool" where
  "safecast_u32 L \<longleftrightarrow> (\<forall>v. sl_ToUint32 L v = (if 0 \<le> v \<and> v < 2 ^ 32 then Some (of_int v) else None))"


section \<open>MAC address notations\<close>

text \<open>The three loops of \<open>format.go\<close>: position, delimiter, two digits.\<close>

definition hexDigit :: string where
  "hexDigit = ''0123456789abcdef''"

definition hex_pair :: "8 word \<Rightarrow> string" where
  "hex_pair b = [hexDigit ! unat (drop_bit 4 b), hexDigit ! unat (b AND 0xF)]"

fun dash_loop :: "nat \<Rightarrow> bytes \<Rightarrow> string" where
  "dash_loop i [] = []"
| "dash_loop i (b # bs) = (if 0 < i then ''-'' else []) @ hex_pair b @ dash_loop (Suc i) bs"

definition dashNotation :: "bytes \<Rightarrow> string" where
  "dashNotation a = (if a = [] then [] else dash_loop 0 a)"

fun dot_loop :: "nat \<Rightarrow> bytes \<Rightarrow> string" where
  "dot_loop i [] = []"
| "dot_loop i (b # bs) = (if 0 < i \<and> i mod 2 = 0 then ''.'' else []) @ hex_pair b @ dot_loop (Suc i) bs"

definition dotNotation :: "bytes \<Rightarrow> string" where
  "dotNotation a = (if a = [] then [] else dot_loop 0 a)"

definition noDelimiter :: "bytes \<Rightarrow> string" where
  "noDelimiter a = concat (map hex_pair a)"

definition MacAddrFormatColon :: string where "MacAddrFormatColon = ''colon''"
definition MacAddrFormatDot :: string where "MacAddrFormatDot = ''dot''"
definition MacAddrFormatDash :: string where "MacAddrFormatDash = ''dash''"
definition MacAddrFormatNoDelimiter :: string where "MacAddrFormatNoDelimiter = ''no-delimiter''"
definition MacAddrFormatEmpty :: string where "MacAddrFormatEmpty = ''empty''"

definition macAddrFormat :: "bytes \<Rightarrow> string \<Rightarrow> string" where
  "macAddrFormat mac f =
     (if f = MacAddrFormatColon then HardwareAddr_String mac
      else if f = MacAddrFormatDot then dotNotation mac
      else if f = MacAddrFormatDash then dashNotation mac
      else if f = MacAddrFormatNoDelimiter then noDelimiter mac
      else if f = MacAddrFormatEmpty then []
      else HardwareAddr_String mac)"


section \<open>Conversion of Hardware objects\<close>

definition mac_error :: "string \<Rightarrow> gerr" where
  "mac_error s = NewError (''address '' @ s @ '': invalid MAC address'')"

definition addr_error :: "string \<Rightarrow> gerr" where
  "addr_error s = NewError (''ParseAddr('' @ s @ '')'')"

text \<open>The address and the netmask: the mask is required for IPv4 and refused for IPv6.\<close>

definition convert_ip :: "IP \<Rightarrow> gerr + Addr \<times> bytes" where
  "convert_ip ip =
     (case ParseAddr (ip_Address ip) of
        None \<Rightarrow> Inl (addr_error (ip_Address ip))
      | Some a \<Rightarrow>
          if Is4 a \<or> Is4In6 a then
            (case ParseIP (ip_Netmask ip) of
               None \<Rightarrow> Inl (NewError ''no netmask'')
             | Some sm \<Rightarrow>
                 (case To4 sm of
                    None \<Rightarrow> Inl (NewError ''netmask must be an IPv4 address'')
                  | Some m \<Rightarrow> Inr (a, m)))
          else if ip_Netmask ip \<noteq> [] then Inl (NewError ''netmask is not applicable for IPv6 addresses'')
          else Inr (a, []))"

definition convert_gateway :: "IP option \<Rightarrow> gerr + Addr option" where
  "convert_gateway ip =
     (case ip of
        None \<Rightarrow> Inr None
      | Some i \<Rightarrow>
          if ip_Gateway i = [] then Inr None
          else (case ParseAddr (ip_Gateway i) of
                  None \<Rightarrow> Inl (addr_error (ip_Gateway i))
                | Some g \<Rightarrow> Inr (Some g)))"

definition parse_ips :: "string list \<Rightarrow> bytes list" where
  "parse_ips ss = List.map_filter ParseIP ss"

text \<open>\<open>ip4[i] | ^mask[i]\<close> for the four bytes.\<close>

definition broadcast_of :: "Addr option \<Rightarrow> bytes \<Rightarrow> Addr option" where
  "broadcast_of a m =
     (case a of
        Some (Addr4 b) \<Rightarrow> if m \<noteq> [] then Some (Addr4 (map2 (\<lambda>x y. x OR NOT y) b m)) else None
      | _ \<Rightarrow> None)"

definition defaultLeaseTime :: "32 word" where
  "defaultLeaseTime = 604800"

definition convert_lease :: "smee_lib \<Rightarrow> int \<Rightarrow> 32 word" where
  "convert_lease L t = (case sl_ToUint32 L t of Some v \<Rightarrow> v | None \<Rightarrow> defaultLeaseTime)"

fun convert_routes :: "smee_lib \<Rightarrow> ClasslessStaticRoute list \<Rightarrow> gerr + (IPNet \<times> bytes) list" where
  "convert_routes L [] = Inr []"
| "convert_routes L (r # rs) =
     (case ParseCIDR (csr_DestinationDescriptor r) of
        None \<Rightarrow> Inl (NewError (''invalid CIDR address: '' @ csr_DestinationDescriptor r))
      | Some (_, n) \<Rightarrow>
          (case ParseIP (csr_Router r) of
             None \<Rightarrow> Inl (NewError (''failed to parse router IP '' @ sl_Quote L (csr_Router r)))
           | Some ip \<Rightarrow>
               (case convert_routes L rs of Inl e \<Rightarrow> Inl e | Inr xs \<Rightarrow> Inr ((n, ip) # xs))))"

definition convert_mac :: "string \<Rightarrow> gerr + bytes" where
  "convert_mac s =
     (if s = [] then Inr []
      else case ParseMAC s of None \<Rightarrow> Inl (mac_error s) | Some m \<Rightarrow> Inr m)"

definition toDHCPData :: "smee_lib \<Rightarrow> DHCP option \<Rightarrow> gerr + SmeeDHCP" where
  "toDHCPData L h0 =
     (case h0 of
        None \<Rightarrow> Inl (NewError ''no DHCP data'')
      | Some h \<Rightarrow>
          (case convert_mac (dhcp_MAC h) of
             Inl e \<Rightarrow> Inl e
           | Inr mac \<Rightarrow>
          (case (case dhcp_IP h of None \<Rightarrow> Inr (None, [])
                 | Some ip \<Rightarrow> map_sum id (\<lambda>(a, m). (Some a, m)) (convert_ip ip)) of
             Inl e \<Rightarrow> Inl e
           | Inr (addr, sm) \<Rightarrow>
          (case convert_gateway (dhcp_IP h) of
             Inl e \<Rightarrow> Inl e
           | Inr gw \<Rightarrow>
          (case convert_routes L (dhcp_ClasslessStaticRoutes h) of
             Inl e \<Rightarrow> Inl e
           | Inr routes \<Rightarrow>
               Inr \<lparr>sd_MACAddress = mac, sd_IPAddress = addr, sd_SubnetMask = sm, sd_DefaultGateway = gw,
                    sd_NameServers = parse_ips (dhcp_NameServers h), sd_Hostname = dhcp_Hostname h,
                    sd_DomainName = dhcp_DomainName h, sd_BroadcastAddress = broadcast_of addr sm,
                    sd_NTPServers = parse_ips (dhcp_TimeServers h), sd_VLANID = dhcp_VLANID h,
                    sd_LeaseTime = convert_lease L (dhcp_LeaseTime h),
                    sd_TFTPServerName = dhcp_TFTPServerName h, sd_BootFileName = dhcp_BootFileName h,
                    sd_Arch = dhcp_Arch h,
                    sd_DomainSearch = (if dhcp_DomainName h = [] then [] else [dhcp_DomainName h]),
                    sd_ClasslessStaticRoutes = routes, sd_Disabled = False\<rparr>)))))"

definition toNetbootData :: "smee_lib \<Rightarrow> Netboot option \<Rightarrow> string \<Rightarrow> gerr + SmeeNetboot" where
  "toNetbootData L i0 facility =
     (case i0 of
        None \<Rightarrow> Inl (NewError ''no netboot data'')
      | Some i \<Rightarrow>
          (case (case nb_IPXE i of
                   None \<Rightarrow> Inr None
                 | Some x \<Rightarrow> if ipxe_URL x = [] then Inr None else map_sum id Some (sl_ParseRequestURI L (ipxe_URL x))) of
             Inl e \<Rightarrow> Inl e
           | Inr script_url \<Rightarrow>
               Inr \<lparr>sn_AllowNetboot = (nb_AllowPXE i = Some True), sn_IPXEScriptURL = script_url,
                    sn_IPXEScript = (case nb_IPXE i of None \<Rightarrow> [] | Some x \<Rightarrow> ipxe_Contents x),
                    sn_IPXEBinary = (case nb_IPXE i of None \<Rightarrow> [] | Some x \<Rightarrow> ipxe_Binary x),
                    sn_Console = [], sn_Facility = facility,
                    sn_OSIE =
                      (case nb_OSIE i of
                         None \<Rightarrow> empty_SmeeOSIE
                       | Some o1 \<Rightarrow>
                           \<lparr>so_BaseURL = (case sl_Parse L (osie_BaseURL o1) of Inl e \<Rightarrow> None | Inr b \<Rightarrow> Some b),
                            so_Kernel = osie_Kernel o1, so_Initrd = osie_Initrd o1,
                            so_KernelParams = osie_KernelParams o1\<rparr>),
                    sn_PXELINUX = (case nb_PXELINUX i of None \<Rightarrow> empty_PXELINUX | Some p \<Rightarrow> p),
                    sn_RPI = (case nb_RPI i of None \<Rightarrow> empty_RPI | Some r \<Rightarrow> r)\<rparr>))"

definition facility_of :: "HardwareMetadata option \<Rightarrow> string" where
  "facility_of m =
     (case m of None \<Rightarrow> []
      | Some md \<Rightarrow> (case md_Facility md of None \<Rightarrow> [] | Some f \<Rightarrow> mf_FacilityCode f))"

definition transform :: "smee_lib \<Rightarrow> Interface \<Rightarrow> HardwareMetadata option \<Rightarrow> gerr + SmeeDHCP \<times> SmeeNetboot" where
  "transform L i m =
     (case toDHCPData L (if_DHCP i) of
        Inl e \<Rightarrow> Inl (errorf ''failed to convert hardware to DHCP data: '' e)
      | Inr d \<Rightarrow>
          (case toNetbootData L (if_Netboot i) (facility_of m) of
             Inl e \<Rightarrow> Inl (errorf ''failed to convert hardware to netboot data: '' e)
           | Inr n \<Rightarrow> Inr (d\<lparr>sd_Disabled := if_DisableDHCP i\<rparr>, n)))"

definition empty_Interface :: Interface where
  "empty_Interface = \<lparr>if_Netboot = None, if_Isoboot = None, if_DHCP = None, if_DisableDHCP = False\<rparr>"

text \<open>\<open>ConvertByMac\<close> and \<open>ConvertByIP\<close> differ in the interface they pick.\<close>

definition mac_interface :: "bytes \<Rightarrow> Interface \<Rightarrow> bool" where
  "mac_interface mac i = (case if_DHCP i of None \<Rightarrow> False | Some d \<Rightarrow> dhcp_MAC d = HardwareAddr_String mac)"

definition ip_interface :: "bytes \<Rightarrow> Interface \<Rightarrow> bool" where
  "ip_interface ip i =
     (case if_DHCP i of None \<Rightarrow> False
      | Some d \<Rightarrow> (case dhcp_IP d of None \<Rightarrow> False | Some a \<Rightarrow> ip_Address a = IP_String ip))"

definition convert_interface :: "smee_lib \<Rightarrow> Interface \<Rightarrow> Hardware \<Rightarrow> gerr + SmeeHardware" where
  "convert_interface L i hw =
     (case transform L i (hw_Metadata (Hardware_Spec hw)) of
        Inl e \<Rightarrow> Inl e
      | Inr (d, n) \<Rightarrow>
          let r = \<lparr>sh_AgentID = hw_AgentID (Hardware_Spec hw), sh_DHCP = Some d, sh_Netboot = Some n, sh_Isoboot = None\<rparr> in
          (case if_Isoboot i of
             None \<Rightarrow> Inr r
           | Some s \<Rightarrow>
               if iso_SourceISO s = [] then Inr r
               else (case sl_Parse L (iso_SourceISO s) of
                  Inl e \<Rightarrow> Inl (errorf (''failed to parse source ISO as a URL '' @ sl_Quote L (iso_SourceISO s) @ '': '') e)
                | Inr u \<Rightarrow> Inr (r\<lparr>sh_Isoboot := Some \<lparr>si_SourceISO = Some u\<rparr>\<rparr>))))"

definition first_interface :: "(Interface \<Rightarrow> bool) \<Rightarrow> Hardware \<Rightarrow> Interface" where
  "first_interface p hw =
     (case find p (hw_Interfaces (Hardware_Spec hw)) of Some i \<Rightarrow> i | None \<Rightarrow> empty_Interface)"

definition ConvertByMac :: "smee_lib \<Rightarrow> bytes \<Rightarrow> Hardware option \<Rightarrow> gerr + SmeeHardware" where
  "ConvertByMac L mac hw =
     (case hw of None \<Rightarrow> Inl (NewError ''hardware is nil'')
      | Some h \<Rightarrow> convert_interface L (first_interface (mac_interface mac) h) h)"

definition ConvertByIP :: "smee_lib \<Rightarrow> bytes \<Rightarrow> Hardware option \<Rightarrow> gerr + SmeeHardware" where
  "ConvertByIP L ip hw =
     (case hw of None \<Rightarrow> Inl (NewError ''hardware is nil'')
      | Some h \<Rightarrow> convert_interface L (first_interface (ip_interface ip) h) h)"


section \<open>Lookups\<close>

text \<open>\<open>BackendReader\<close> with one operation; \<open>None\<close> is the nil interface.\<close>

type_synonym reader = "(HardwareFilter \<Rightarrow> gerr + Hardware) option"

record HwInfo =
  hi_AllowNetboot :: bool
  hi_Console :: string
  hi_MACAddress :: bytes
  hi_Arch :: string
  hi_VLANID :: string
  hi_AgentID :: string
  hi_Facility :: string
  hi_IPXEScript :: string
  hi_IPXEScriptURL :: "URL option"
  hi_OSIE :: SmeeOSIE
  hi_PXELINUX :: PXELINUX
  hi_RPI :: RPI

definition info_of :: "SmeeHardware \<Rightarrow> gerr + HwInfo" where
  "info_of hw =
     (case sh_DHCP hw of
        None \<Rightarrow> Inl (NewError ''no dhcp data'')
      | Some d \<Rightarrow>
          (case sh_Netboot hw of
             None \<Rightarrow> Inl (NewError ''no netboot data'')
           | Some n \<Rightarrow>
               Inr \<lparr>hi_AllowNetboot = sn_AllowNetboot n, hi_Console = [], hi_MACAddress = sd_MACAddress d,
                    hi_Arch = sd_Arch d, hi_VLANID = sd_VLANID d, hi_AgentID = sh_AgentID hw,
                    hi_Facility = sn_Facility n, hi_IPXEScript = sn_IPXEScript n,
                    hi_IPXEScriptURL = sn_IPXEScriptURL n, hi_OSIE = sn_OSIE n,
                    hi_PXELINUX = sn_PXELINUX n, hi_RPI = sn_RPI n\<rparr>))"

definition GetByMac :: "smee_lib \<Rightarrow> bytes \<Rightarrow> reader \<Rightarrow> gerr + HwInfo" where
  "GetByMac L mac br =
     (case br of
        None \<Rightarrow> Inl (NewError ''backend is nil'')
      | Some rd \<Rightarrow>
          (case rd (empty_HardwareFilter\<lparr>hf_ByMACAddress := HardwareAddr_String mac\<rparr>) of
             Inl e \<Rightarrow> Inl e
           | Inr spec \<Rightarrow>
               (case ConvertByMac L mac (Some spec) of
                  Inl e \<Rightarrow> Inl (errorf ''failed to convert hardware data: '' e)
                | Inr hw \<Rightarrow> info_of hw)))"

definition GetByIP :: "smee_lib \<Rightarrow> bytes \<Rightarrow> reader \<Rightarrow> gerr + HwInfo" where
  "GetByIP L ip br =
     (case br of
        None \<Rightarrow> Inl (NewError ''backend is nil'')
      | Some rd \<Rightarrow>
          (case rd (empty_HardwareFilter\<lparr>hf_ByIPAddress := IP_String ip\<rparr>) of
             Inl e \<Rightarrow> Inl e
           | Inr spec \<Rightarrow>
               (case ConvertByIP L ip (Some spec) of
                  Inl e \<Rightarrow> Inl (errorf ''failed to convert hardware data: '' e)
                | Inr hw \<Rightarrow> info_of hw)))"

end
