(* ===== verification/Smee_Dhcp.thy ===== *)
theory Smee_Dhcp
  imports Smee_Data
begin

unbundle bit_operations_syntax

text \<open>
  DHCP packets and the decisions Smee takes on them, \<open>src/smee/internal/dhcp/dhcp.go\<close>: client
  architecture, user class and client type, the test for a network boot client, the boot
  file, the next server and the Raspberry Pi suboptions.

  The packet library is not part of the sources. A packet is a record of its headers and a
  map from option code to value, and what the library computes is an operation of
  \<open>dhcp_lib\<close>. The architectures the library names are constructors, any other number is
  \<open>ArchNum\<close>.
\<close>


section \<open>Packets\<close>

datatype MessageType =
    MessageTypeDiscover | MessageTypeOffer | MessageTypeRequest | MessageTypeDecline
  | MessageTypeAck | MessageTypeNak | MessageTypeRelease | MessageTypeInform | MessageTypeOther nat

datatype OpCode = OpcodeBootRequest | OpcodeBootReply | OpcodeOther nat

datatype Arch =
    INTEL_X86PC | NEC_PC98 | EFI_ITANIUM | DEC_ALPHA | ARC_X86 | INTEL_LEAN_CLIENT
  | EFI_IA32 | EFI_X86_64 | EFI_XSCALE | EFI_BC | EFI_ARM32 | EFI_ARM64
  | EFI_X86_HTTP | EFI_X86_64_HTTP | EFI_ARM32_HTTP | EFI_ARM64_HTTP | INTEL_X86PC_HTTP
  | ArchNum nat

record DHCPv4 =
  p_OpCode :: OpCode
  p_TransactionID :: bytes
  p_ClientHWAddr :: bytes
  p_YourIPAddr :: bytes
  p_ServerIPAddr :: bytes
  p_GatewayIPAddr :: bytes
  p_ServerHostName :: string
  p_BootFileName :: string
  p_Options :: "nat \<rightharpoonup> bytes"

record dhcp_lib =
  dl_MessageType :: "DHCPv4 \<Rightarrow> MessageType"
  dl_ClientArch :: "DHCPv4 \<Rightarrow> Arch list"
  dl_ArchString :: "Arch \<Rightarrow> string"
  dl_NewReply :: "DHCPv4 \<Rightarrow> DHCPv4"  \<comment> \<open>\<open>NewReplyFromRequest\<close> before its modifiers\<close>
  dl_OptMessageType :: "MessageType \<Rightarrow> bytes"
  dl_OptIP :: "bytes \<Rightarrow> bytes"
  dl_OptIPs :: "bytes list \<Rightarrow> bytes"
  dl_OptMask :: "bytes \<Rightarrow> bytes"
  dl_OptString :: "string \<Rightarrow> bytes"
  dl_OptLeaseTime :: "32 word \<Rightarrow> bytes"
  dl_OptDomainSearch :: "string list \<Rightarrow> bytes"
  dl_OptRoutes :: "(IPNet \<times> bytes) list \<Rightarrow> bytes"
  dl_OptionsToBytes :: "(nat \<rightharpoonup> bytes) \<Rightarrow> bytes"

text \<open>Option codes, by the names the sources use.\<close>

abbreviation (input) OptionSubnetMask :: nat where "OptionSubnetMask \<equiv> 1"
abbreviation (input) OptionRouter :: nat where "OptionRouter \<equiv> 3"
abbreviation (input) OptionDomainNameServer :: nat where "OptionDomainNameServer \<equiv> 6"
abbreviation (input) OptionLogServer :: nat where "OptionLogServer \<equiv> 7"
abbreviation (input) OptionHostName :: nat where "OptionHostName \<equiv> 12"
abbreviation (input) OptionDomainName :: nat where "OptionDomainName \<equiv> 15"
abbreviation (input) OptionBroadcastAddress :: nat where "OptionBroadcastAddress \<equiv> 28"
abbreviation (input) OptionNTPServers :: nat where "OptionNTPServers \<equiv> 42"
abbreviation (input) OptionVendorSpecificInformation :: nat where "OptionVendorSpecificInformation \<equiv> 43"
abbreviation (input) OptionIPAddressLeaseTime :: nat where "OptionIPAddressLeaseTime \<equiv> 51"
abbreviation (input) OptionDHCPMessageType :: nat where "OptionDHCPMessageType \<equiv> 53"
abbreviation (input) OptionServerIdentifier :: nat where "OptionServerIdentifier \<equiv> 54"
abbreviation (input) OptionClassIdentifier :: nat where "OptionClassIdentifier \<equiv> 60"
abbreviation (input) OptionTFTPServerName :: nat where "OptionTFTPServerName \<equiv> 66"
abbreviation (input) OptionBootfileName :: nat where "OptionBootfileName \<equiv> 67"
abbreviation (input) OptionUserClassInformation :: nat where "OptionUserClassInformation \<equiv> 77"
abbreviation (input) OptionClientSystemArchitectureType :: nat where "OptionClientSystemArchitectureType \<equiv> 93"
abbreviation (input) OptionClientNetworkInterfaceIdentifier :: nat where "OptionClientNetworkInterfaceIdentifier \<equiv> 94"
abbreviation (input) OptionClientMachineIdentifier :: nat where "OptionClientMachineIdentifier \<equiv> 97"
abbreviation (input) OptionDNSDomainSearchList :: nat where "OptionDNSDomainSearchList \<equiv> 119"
abbreviation (input) OptionClasslessStaticRoute :: nat where "OptionClasslessStaticRoute \<equiv> 121"

definition GetOneOption :: "nat \<Rightarrow> DHCPv4 \<Rightarrow> bytes" where
  "GetOneOption k p = (case p_Options p k of Some v \<Rightarrow> v | None \<Rightarrow> [])"

definition UpdateOption :: "nat \<Rightarrow> bytes \<Rightarrow> DHCPv4 \<Rightarrow> DHCPv4" where
  "UpdateOption k v p = p\<lparr>p_Options := (p_Options p)(k \<mapsto> v)\<rparr>"


section \<open>Classification of a client\<close>

definition PXEClient :: string where "PXEClient = ''PXEClient''"
definition HTTPClient :: string where "HTTPClient = ''HTTPClient''"
definition IPXE_class :: string where "IPXE_class = ''iPXE''"
definition Tinkerbell_class :: string where "Tinkerbell_class = ''Tinkerbell''"

definition IPXEBinaryIPXEEFI :: string where "IPXEBinaryIPXEEFI = ''ipxe.efi''"
definition IPXEBinarySNPARM64 :: string where "IPXEBinarySNPARM64 = ''snp-arm64.efi''"
definition IPXEBinarySNPAMD64 :: string where "IPXEBinarySNPAMD64 = ''snp-x86_64.efi''"
definition IPXEBinaryUndionlyKPXE :: string where "IPXEBinaryUndionlyKPXE = ''undionly.kpxe''"
definition IPXEBinaryISOEFIAMD64 :: string where "IPXEBinaryISOEFIAMD64 = ''ipxe.iso''"
definition IPXEBinaryIMGEFIAMD64 :: string where "IPXEBinaryIMGEFIAMD64 = ''ipxe-efi.img''"

fun ArchToBootFile :: "Arch \<Rightarrow> string option" where
  "ArchToBootFile INTEL_X86PC = Some IPXEBinaryUndionlyKPXE"
| "ArchToBootFile NEC_PC98 = Some IPXEBinaryUndionlyKPXE"
| "ArchToBootFile EFI_ITANIUM = Some IPXEBinaryUndionlyKPXE"
| "ArchToBootFile DEC_ALPHA = Some IPXEBinaryUndionlyKPXE"
| "ArchToBootFile ARC_X86 = Some IPXEBinaryUndionlyKPXE"
| "ArchToBootFile INTEL_LEAN_CLIENT = Some IPXEBinaryUndionlyKPXE"
| "ArchToBootFile EFI_IA32 = Some IPXEBinaryIPXEEFI"
| "ArchToBootFile EFI_X86_64 = Some IPXEBinaryIPXEEFI"
| "ArchToBootFile EFI_XSCALE = Some IPXEBinaryIPXEEFI"
| "ArchToBootFile EFI_BC = Some IPXEBinaryIPXEEFI"
| "ArchToBootFile EFI_ARM32 = Some IPXEBinarySNPARM64"
| "ArchToBootFile EFI_ARM64 = Some IPXEBinarySNPARM64"
| "ArchToBootFile EFI_X86_HTTP = Some IPXEBinaryIPXEEFI"
| "ArchToBootFile EFI_X86_64_HTTP = Some IPXEBinaryIPXEEFI"
| "ArchToBootFile EFI_ARM32_HTTP = Some IPXEBinarySNPARM64"
| "ArchToBootFile EFI_ARM64_HTTP = Some IPXEBinarySNPARM64"
| "ArchToBootFile INTEL_X86PC_HTTP = Some IPXEBinaryUndionlyKPXE"
| "ArchToBootFile (ArchNum n) = (if n = 41 then Some IPXEBinarySNPARM64 else None)"

definition raspberry_prefixes :: "bytes list" where
  "raspberry_prefixes = [[0xb8, 0x27, 0xeb], [0xdc, 0xa6, 0x32], [0xe4, 0x5f, 0x01], [0x28, 0xcd, 0xc1],
     [0xd8, 0x3a, 0xdd]]"

definition isRaspberryPI :: "bytes \<Rightarrow> bool" where
  "isRaspberryPI mac \<longleftrightarrow> list_ex (\<lambda>p. take (length p) mac = p) raspberry_prefixes"

definition ClientArch_of :: "dhcp_lib \<Rightarrow> DHCPv4 \<Rightarrow> Arch" where
  "ClientArch_of D p =
     (if isRaspberryPI (p_ClientHWAddr p) then ArchNum 41
      else case find (\<lambda>a. \<not> contains_str ''unknown'' (dl_ArchString D a)) (dl_ClientArch D p) of
        Some a \<Rightarrow> a
      | None \<Rightarrow> ArchNum 255)"

definition wrapNonNil :: "gerr option \<Rightarrow> string \<Rightarrow> gerr option" where
  "wrapNonNil e t = (case e of None \<Rightarrow> Some (NewError t) | Some x \<Rightarrow> Some (WrapError [] x ('': '' @ t)))"

definition netboot_check :: "bool \<Rightarrow> string \<Rightarrow> gerr option \<Rightarrow> gerr option" where
  "netboot_check failed t e = (if failed then wrapNonNil e t else e)"

definition IsNetbootClient :: "dhcp_lib \<Rightarrow> DHCPv4 \<Rightarrow> gerr option" where
  "IsNetbootClient D p =
     (let opt60 = str_of (GetOneOption OptionClassIdentifier p);
          guid = GetOneOption OptionClientMachineIdentifier p;
          e = netboot_check (dl_MessageType D p \<noteq> MessageTypeDiscover \<and> dl_MessageType D p \<noteq> MessageTypeRequest)
                ''message type must be either Discover or Request'' None;
          e = netboot_check (p_Options p OptionClassIdentifier = None) ''option 60 not set'' e;
          e = netboot_check (\<not> has_prefix PXEClient opt60 \<and> \<not> has_prefix HTTPClient opt60)
                ''option 60 not PXEClient or HTTPClient'' e;
          e = netboot_check (p_Options p OptionClientSystemArchitectureType = None) ''option 93 not set'' e;
          e = netboot_check (p_Options p OptionClientNetworkInterfaceIdentifier = None) ''option 94 not set'' e
      in if length guid = 0 then e
         else if length guid = 17 then netboot_check (hd guid \<noteq> 0) ''option 97 does not start with 0'' e
         else wrapNonNil e ''option 97 has invalid length (must be 0 or 17)'')"

record Info =
  i_Pkt :: "DHCPv4 option"
  i_Arch :: Arch
  i_Mac :: "bytes option"
  i_UserClass :: string
  i_ClientType :: string
  i_IsNetbootClient :: "gerr option"
  i_IPXEBinary :: string
  i_MacAddrFormat :: string
  i_ArchMappingOverride :: "Arch \<rightharpoonup> string"

definition WithMacAddrFormat :: "string \<Rightarrow> Info \<Rightarrow> Info" where
  "WithMacAddrFormat f i = i\<lparr>i_MacAddrFormat := f\<rparr>"

definition WithArchMappingOverride :: "(Arch \<rightharpoonup> string) \<Rightarrow> Info \<Rightarrow> Info" where
  "WithArchMappingOverride m i = i\<lparr>i_ArchMappingOverride := m\<rparr>"

definition WithIPXEBinary :: "string \<Rightarrow> Info \<Rightarrow> Info" where
  "WithIPXEBinary b i = i\<lparr>i_IPXEBinary := b\<rparr>"

definition IPXEBinaryFrom :: "Info \<Rightarrow> string" where
  "IPXEBinaryFrom i =
     (case (ArchToBootFile ++ i_ArchMappingOverride i) (i_Arch i) of Some b \<Rightarrow> b | None \<Rightarrow> [])"

definition UserClassFrom :: "Info \<Rightarrow> string" where
  "UserClassFrom i =
     (case i_Pkt i of None \<Rightarrow> []
      | Some p \<Rightarrow> (case p_Options p OptionUserClassInformation of Some v \<Rightarrow> str_of v | None \<Rightarrow> []))"

definition ClientTypeFrom :: "Info \<Rightarrow> string" where
  "ClientTypeFrom i =
     (case i_Pkt i of None \<Rightarrow> []
      | Some p \<Rightarrow>
          (case p_Options p OptionClassIdentifier of
             Some v \<Rightarrow> if has_prefix HTTPClient (str_of v) then HTTPClient else PXEClient
           | None \<Rightarrow> []))"

definition empty_Info :: Info where
  "empty_Info = \<lparr>i_Pkt = None, i_Arch = INTEL_X86PC, i_Mac = None, i_UserClass = [], i_ClientType = [],
     i_IsNetbootClient = None, i_IPXEBinary = [], i_MacAddrFormat = [], i_ArchMappingOverride = Map.empty\<rparr>"

definition NewInfo :: "dhcp_lib \<Rightarrow> DHCPv4 option \<Rightarrow> (Info \<Rightarrow> Info) list \<Rightarrow> Info" where
  "NewInfo D pkt opts =
     (let i = fold (\<lambda>f. f) opts (empty_Info\<lparr>i_Pkt := pkt\<rparr>) in
      case pkt of
        None \<Rightarrow> i
      | Some p \<Rightarrow>
          let i = i\<lparr>i_Arch := ClientArch_of D p, i_Mac := Some (p_ClientHWAddr p)\<rparr>;
              i = i\<lparr>i_UserClass := UserClassFrom i\<rparr>;
              i = i\<lparr>i_ClientType := ClientTypeFrom i\<rparr>;
              i = i\<lparr>i_IsNetbootClient := IsNetbootClient D p\<rparr>
          in if i_IPXEBinary i = [] then i\<lparr>i_IPXEBinary := IPXEBinaryFrom i\<rparr> else i)"


section \<open>Boot file, next server and vendor options\<close>

definition mac_paths :: "Info \<Rightarrow> string list" where
  "mac_paths i =
     (case i_Mac i of None \<Rightarrow> [i_IPXEBinary i]
      | Some m \<Rightarrow> [macAddrFormat m (i_MacAddrFormat i), i_IPXEBinary i])"

definition Bootfile :: "Info \<Rightarrow> string \<Rightarrow> URL option \<Rightarrow> URL option \<Rightarrow> AddrPort \<Rightarrow> string" where
  "Bootfile i customUC ipxeScript http tftp =
     (let bootfile = ''/no-ipxe-script-defined'' in
      if i_UserClass i = Tinkerbell_class \<or> customUC \<noteq> [] \<and> i_UserClass i = customUC then
        (case ipxeScript of Some u \<Rightarrow> URL_String u | None \<Rightarrow> bootfile)
      else if i_ClientType i = HTTPClient then
        (case http of Some u \<Rightarrow> URL_String (JoinPath (mac_paths i) u) | None \<Rightarrow> bootfile)
      else if i_UserClass i = IPXE_class then
        URL_String (JoinPath (mac_paths i) (empty_URL\<lparr>u_Scheme := ''tftp'', u_Host := AddrPort_String tftp\<rparr>))
      else if i_IPXEBinary i \<noteq> [] then i_IPXEBinary i
      else bootfile)"

definition addr_slice :: "Addr option \<Rightarrow> bytes" where
  "addr_slice a = (case a of None \<Rightarrow> [] | Some x \<Rightarrow> AsSlice x)"

definition NextServer :: "Info \<Rightarrow> URL option \<Rightarrow> AddrPort \<Rightarrow> Addr option \<Rightarrow> bytes" where
  "NextServer i http tftp publicIP =
     (let ns =
        (if i_ClientType i = HTTPClient then
           (case http of None \<Rightarrow> []
            | Some u \<Rightarrow> (case ParseIP (Hostname u) of Some ip \<Rightarrow> ip | None \<Rightarrow> []))
         else addr_slice (ap_Addr tftp))
      in if (ns = [] \<or> IP_IsUnspecified ns) \<and> (case publicIP of None \<Rightarrow> False | Some a \<Rightarrow> \<not> Addr_IsUnspecified a)
         then addr_slice publicIP else ns)"

text \<open>The two suboptions are \<open>hex.DecodeString\<close> of constants: \<open>\<open>\x00\x00\x11Raspberry Pi Boot\<close>\<close> and
  \<open>\<open>\x00PXE\<close>\<close>.\<close>

definition rpi_opt9 :: bytes where
  "rpi_opt9 = [0, 0, 0x11] @ bytes_of ''Raspberry Pi Boot''"

definition rpi_opt10 :: bytes where
  "rpi_opt10 = 0 # bytes_of ''PXE''"

definition AddRPIOpt43 :: "dhcp_lib \<Rightarrow> Info \<Rightarrow> (nat \<rightharpoonup> bytes) \<Rightarrow> bytes" where
  "AddRPIOpt43 D i opts =
     dl_OptionsToBytes D
       (if isRaspberryPI (case i_Mac i of None \<Rightarrow> [] | Some m \<Rightarrow> m)
        then opts(9 \<mapsto> rpi_opt9, 10 \<mapsto> rpi_opt10) else opts)"

lemma wrapNonNil_not_None [simp]: "wrapNonNil e t \<noteq> None"
  by (simp add: wrapNonNil_def split: option.splits)

lemma netboot_check_None [simp]: "netboot_check f t e = None \<longleftrightarrow> \<not> f \<and> e = None"
  by (simp add: netboot_check_def)

text \<open>The five conditions of a network boot client; the identifier may be missing.\<close>

lemma IsNetbootClient_None_iff:
  "IsNetbootClient D p = None \<longleftrightarrow>
     dl_MessageType D p \<in> {MessageTypeDiscover, MessageTypeRequest} \<and>
     (\<exists>v. p_Options p 60 = Some v \<and>
        ((\<exists>t. str_of v = ''PXEClient'' @ t) \<or> (\<exists>t. str_of v = ''HTTPClient'' @ t))) \<and>
     p_Options p 93 \<noteq> None \<and> p_Options p 94 \<noteq> None \<and>
     (case p_Options p 97 of None \<Rightarrow> True | Some g \<Rightarrow> g = [] \<or> length g = 17 \<and> hd g = 0)"
  by (cases "p_Options p 97")
     (auto simp: IsNetbootClient_def Let_def GetOneOption_def has_prefix_iff PXEClient_def HTTPClient_def
       split: option.splits)

end
