(* ===== verification/Smee_Handler.thy ===== *)
theory Smee_Handler
  imports Smee_Dhcp
begin

text \<open>
  The two DHCP handlers: host reservations (\<open>src/smee/internal/dhcp/handler/reservation\<close>) and
  ProxyDHCP (\<open>src/smee/internal/dhcp/handler/proxy\<close>), and the part of the server loop between
  reading a datagram and calling them (\<open>src/smee/internal/dhcp/server/dhcp.go\<close>).

  A handler returns the packet it passes to \<open>WriteTo\<close>, the interface index of the control
  message and the destination, or \<open>None\<close> when it stays silent; a failing write is only
  logged. Spans and log lines are left out. The two values the code reads from the trace of
  the context are fields of \<open>trace_ctx\<close>.
\<close>


section \<open>Requests and configuration\<close>

datatype Peer = NilPeer | OtherPeer | NilUDPAddr | UDPAddr bytes nat

record Packet =
  pkt_Peer :: Peer
  pkt_Pkt :: "DHCPv4 option"
  pkt_IfIndex :: "int option"  \<comment> \<open>\<open>Md\<close>, \<open>None\<close> when it is nil\<close>

record trace_ctx =
  tc_traceparent :: string  \<comment> \<open>\<open>TraceparentStringFromContext\<close>\<close>
  tc_binary :: bytes        \<comment> \<open>\<open>TraceparentFromContext\<close>\<close>

record NetbootConfig =
  nc_IPXEBinServerTFTP :: AddrPort
  nc_IPXEBinServerHTTP :: "URL option"
  nc_IPXEScriptURL :: "(DHCPv4 \<Rightarrow> URL option) option"
  nc_Enabled :: bool
  nc_UserClass :: string
  nc_InjectMacAddrFormat :: string
  nc_IPXEArchMapping :: "Arch \<rightharpoonup> string"

record ReservationHandler =
  rh_Backend :: "HardwareFilter \<Rightarrow> gerr + Hardware"
  rh_IPAddr :: "Addr option"
  rh_Netboot :: NetbootConfig
  rh_OTELEnabled :: bool
  rh_SyslogAddr :: "Addr option"

record ProxyHandler =
  ph_Backend :: "HardwareFilter \<Rightarrow> gerr + Hardware"
  ph_IPAddr :: "Addr option"
  ph_Netboot :: NetbootConfig
  ph_OTELEnabled :: bool
  ph_AutoProxyEnabled :: bool

type_synonym reply = "(DHCPv4 \<times> int \<times> Peer) option"

abbreviation ServerPort :: nat where "ServerPort \<equiv> 67"

definition replyDestination :: "Peer \<Rightarrow> bytes \<Rightarrow> Peer" where
  "replyDestination direct giaddr =
     (if \<not> IP_IsUnspecified giaddr \<and> giaddr \<noteq> [] then UDPAddr giaddr ServerPort else direct)"

definition control_index :: "Packet \<Rightarrow> int" where
  "control_index p = (case pkt_IfIndex p of Some i \<Rightarrow> i | None \<Rightarrow> 0)"

text \<open>The common guards of the two handlers: a packet, a UDP peer and a connection.\<close>

definition acceptable :: "bool \<Rightarrow> Packet \<Rightarrow> DHCPv4 option" where
  "acceptable conn p =
     (case pkt_Pkt p of
        None \<Rightarrow> None
      | Some m \<Rightarrow> (case pkt_Peer p of UDPAddr ip port \<Rightarrow> if conn then Some m else None | _ \<Rightarrow> None))"


section \<open>Reservations\<close>

fun hardwareNotFound :: "gerr \<Rightarrow> bool" where
  "hardwareNotFound (HardwareNotFoundError t) = True"
| "hardwareNotFound (KubeHardwareNotFoundError t) = True"
| "hardwareNotFound e = False"

definition noop_reservation_FilterHardware :: "HardwareFilter \<Rightarrow> gerr + Hardware" where
  "noop_reservation_FilterHardware f = Inl (NewError ''no backend specified, please specify a backend'')"

definition readBackend :: "smee_lib \<Rightarrow> ReservationHandler \<Rightarrow> bytes \<Rightarrow> gerr + SmeeDHCP \<times> SmeeNetboot" where
  "readBackend L h mac =
     (case rh_Backend h (empty_HardwareFilter\<lparr>hf_ByMACAddress := HardwareAddr_String mac\<rparr>) of
        Inl e \<Rightarrow> Inl e
      | Inr spec \<Rightarrow>
          (case ConvertByMac L mac (Some spec) of
             Inl e \<Rightarrow> Inl (errorf ''failed to convert hardware data: '' e)
           | Inr hw \<Rightarrow>
               (case (sh_DHCP hw, sh_Netboot hw) of
                  (Some d, Some n) \<Rightarrow> Inr (d, n)
                | _ \<Rightarrow> Inl (PanicError ''nil pointer dereference''))))"

type_synonym Modifier = "DHCPv4 \<Rightarrow> DHCPv4"

definition WithYourIP :: "bytes \<Rightarrow> Modifier" where
  "WithYourIP ip p = p\<lparr>p_YourIPAddr := ip\<rparr>"

definition WithServerIP :: "bytes \<Rightarrow> Modifier" where
  "WithServerIP ip p = p\<lparr>p_ServerIPAddr := ip\<rparr>"

definition WithBootFileName :: "string \<Rightarrow> Modifier" where
  "WithBootFileName f p = p\<lparr>p_BootFileName := f\<rparr>"

definition only_if :: "bool \<Rightarrow> 'a list \<Rightarrow> 'a list" where
  "only_if b xs = (if b then xs else [])"

definition setDHCPOpts :: "dhcp_lib \<Rightarrow> ReservationHandler \<Rightarrow> SmeeDHCP \<Rightarrow> Modifier list" where
  "setDHCPOpts D h d =
     [UpdateOption OptionIPAddressLeaseTime (dl_OptLeaseTime D (sd_LeaseTime d)),
      WithYourIP (addr_slice (sd_IPAddress d))]
     @ only_if (sd_NameServers d \<noteq> []) [UpdateOption OptionDomainNameServer (dl_OptIPs D (sd_NameServers d))]
     @ only_if (sd_DomainSearch d \<noteq> []) [UpdateOption OptionDNSDomainSearchList (dl_OptDomainSearch D (sd_DomainSearch d))]
     @ only_if (sd_NTPServers d \<noteq> []) [UpdateOption OptionNTPServers (dl_OptIPs D (sd_NTPServers d))]
     @ only_if (sd_BroadcastAddress d \<noteq> None) [UpdateOption OptionBroadcastAddress (addr_slice (sd_BroadcastAddress d))]
     @ only_if (sd_DomainName d \<noteq> []) [UpdateOption OptionDomainName (bytes_of (sd_DomainName d))]
     @ only_if (sd_Hostname d \<noteq> []) [UpdateOption OptionHostName (bytes_of (sd_Hostname d))]
     @ only_if (sd_SubnetMask d \<noteq> []) [UpdateOption OptionSubnetMask (dl_OptMask D (sd_SubnetMask d))]
     @ only_if (sd_DefaultGateway d \<noteq> None) [UpdateOption OptionRouter (dl_OptIPs D [addr_slice (sd_DefaultGateway d)])]
     @ only_if (rh_SyslogAddr h \<noteq> None) [UpdateOption OptionLogServer (addr_slice (rh_SyslogAddr h))]
     @ only_if (sd_ClasslessStaticRoutes d \<noteq> [])
         [UpdateOption OptionClasslessStaticRoute (dl_OptRoutes D (sd_ClasslessStaticRoutes d))]
     @ only_if (sd_TFTPServerName d \<noteq> []) [UpdateOption OptionTFTPServerName (bytes_of (sd_TFTPServerName d))]
     @ only_if (sd_BootFileName d \<noteq> [])
         [UpdateOption OptionBootfileName (bytes_of (sd_BootFileName d)), WithBootFileName (sd_BootFileName d)]"

definition res_info :: "dhcp_lib \<Rightarrow> ReservationHandler \<Rightarrow> DHCPv4 \<Rightarrow> string \<Rightarrow> Info" where
  "res_info D h m binary =
     NewInfo D (Some m)
       [WithMacAddrFormat (nc_InjectMacAddrFormat (rh_Netboot h)), WithIPXEBinary binary,
        WithArchMappingOverride (nc_IPXEArchMapping (rh_Netboot h))]"

definition bootfileAndNextServer ::
  "dhcp_lib \<Rightarrow> trace_ctx \<Rightarrow> ReservationHandler \<Rightarrow> DHCPv4 \<Rightarrow> string \<Rightarrow> AddrPort \<Rightarrow> URL option \<Rightarrow> URL option \<Rightarrow>
     Info \<Rightarrow> string \<Rightarrow> string \<times> bytes" where
  "bootfileAndNextServer D c h pkt customUC tftp http iscript i binaryOverride =
     (let i = (if i_Pkt i = None then res_info D h pkt binaryOverride else i);
          i = (if rh_OTELEnabled h \<and> tc_traceparent c \<noteq> []
               then i\<lparr>i_IPXEBinary := i_IPXEBinary i @ ''-'' @ tc_traceparent c\<rparr> else i)
      in (Bootfile i customUC iscript http tftp, NextServer i http tftp (rh_IPAddr h)))"

text \<open>The modifier \<open>setNetworkBootOpts\<close> returns, applied to the reply \<open>d\<close>.\<close>

definition setNetworkBootOpts ::
  "dhcp_lib \<Rightarrow> trace_ctx \<Rightarrow> ReservationHandler \<Rightarrow> DHCPv4 \<Rightarrow> SmeeNetboot \<Rightarrow> Modifier" where
  "setNetworkBootOpts D c h m n d =
     (let nb = rh_Netboot h;
          d = (case p_Options m OptionClassIdentifier of
                 Some v \<Rightarrow> if has_prefix HTTPClient (str_of v)
                           then UpdateOption OptionClassIdentifier (bytes_of HTTPClient) d else d
               | None \<Rightarrow> d);
          d = d\<lparr>p_BootFileName := ''/netboot-not-allowed'', p_ServerIPAddr := v4InV6Prefix @ [0, 0, 0, 0]\<rparr>
      in if \<not> sn_AllowNetboot n then d
         else
           (let i = res_info D h m (sn_IPXEBinary n) in
            if i_IPXEBinary i = [] then d
            else
              (let global = (case nc_IPXEScriptURL nb of Some f \<Rightarrow> f m | None \<Rightarrow> None);
                   ipxeScript = (case sn_IPXEScriptURL n of Some u \<Rightarrow> Some u | None \<Rightarrow> global);
                   (bf, ns) = bootfileAndNextServer D c h m (nc_UserClass nb) (nc_IPXEBinServerTFTP nb)
                                (nc_IPXEBinServerHTTP nb) ipxeScript i (sn_IPXEBinary n);
                   d = d\<lparr>p_BootFileName := bf, p_ServerIPAddr := ns\<rparr>
               in UpdateOption OptionVendorSpecificInformation
                    (AddRPIOpt43 D i [6 \<mapsto> [8], 69 \<mapsto> tc_binary c]) d)))"

definition reply_modifiers ::
  "dhcp_lib \<Rightarrow> trace_ctx \<Rightarrow> ReservationHandler \<Rightarrow> DHCPv4 \<Rightarrow> SmeeDHCP \<Rightarrow> SmeeNetboot \<Rightarrow> MessageType \<Rightarrow> Modifier list" where
  "reply_modifiers D c h pkt d n msgType =
     [UpdateOption OptionDHCPMessageType (dl_OptMessageType D msgType),
      UpdateOption OptionServerIdentifier (addr_slice (rh_IPAddr h)),
      WithServerIP (addr_slice (rh_IPAddr h))]
     @ setDHCPOpts D h d
     @ only_if (nc_Enabled (rh_Netboot h) \<and> IsNetbootClient D pkt = None \<and>
             sd_TFTPServerName d = [] \<and> sd_BootFileName d = [])
         [setNetworkBootOpts D c h pkt n]"

definition updateMsg ::
  "dhcp_lib \<Rightarrow> trace_ctx \<Rightarrow> ReservationHandler \<Rightarrow> DHCPv4 \<Rightarrow> SmeeDHCP \<Rightarrow> SmeeNetboot \<Rightarrow> MessageType \<Rightarrow> DHCPv4" where
  "updateMsg D c h pkt d n msgType = fold (\<lambda>f. f) (reply_modifiers D c h pkt d n msgType) (dl_NewReply D pkt)"

definition respond ::
  "smee_lib \<Rightarrow> dhcp_lib \<Rightarrow> trace_ctx \<Rightarrow> ReservationHandler \<Rightarrow> DHCPv4 \<Rightarrow> MessageType \<Rightarrow> DHCPv4 option" where
  "respond L D c h m msgType =
     (case readBackend L h (p_ClientHWAddr m) of
        Inl e \<Rightarrow> None
      | Inr (d, n) \<Rightarrow> if sd_Disabled d then None else Some (updateMsg D c h m d n msgType))"

definition reservation_Handle ::
  "smee_lib \<Rightarrow> dhcp_lib \<Rightarrow> trace_ctx \<Rightarrow> ReservationHandler \<Rightarrow> bool \<Rightarrow> Packet \<Rightarrow> reply" where
  "reservation_Handle L D c h conn p =
     (case acceptable conn p of
        None \<Rightarrow> None
      | Some m \<Rightarrow>
          (case (case dl_MessageType D m of
                   MessageTypeDiscover \<Rightarrow> respond L D c h m MessageTypeOffer
                 | MessageTypeRequest \<Rightarrow> respond L D c h m MessageTypeAck
                 | _ \<Rightarrow> None) of
             None \<Rightarrow> None
           | Some r \<Rightarrow> Some (r, control_index p, replyDestination (pkt_Peer p) (p_GatewayIPAddr m))))"


section \<open>ProxyDHCP\<close>

definition setMessageType :: "dhcp_lib \<Rightarrow> DHCPv4 \<Rightarrow> MessageType \<Rightarrow> gerr + DHCPv4" where
  "setMessageType D r mt =
     (case mt of
        MessageTypeDiscover \<Rightarrow> Inr (UpdateOption OptionDHCPMessageType (dl_OptMessageType D MessageTypeOffer) r)
      | MessageTypeRequest \<Rightarrow> Inr (UpdateOption OptionDHCPMessageType (dl_OptMessageType D MessageTypeAck) r)
      | _ \<Rightarrow> Inl (NewError ''Ignoring packet: proxyDHCP only responds to Discover or Request message types''))"

text \<open>The hardware the handler goes on with; \<open>None\<close> ends the handler.\<close>

definition proxy_hardware :: "smee_lib \<Rightarrow> ProxyHandler \<Rightarrow> bytes \<Rightarrow> SmeeHardware option" where
  "proxy_hardware L h mac =
     (case ph_Backend h (empty_HardwareFilter\<lparr>hf_ByMACAddress := HardwareAddr_String mac\<rparr>) of
        Inl e \<Rightarrow> if ph_AutoProxyEnabled h then Some empty_SmeeHardware else None
      | Inr spec \<Rightarrow>
          (case ConvertByMac L mac (Some spec) of
             Inl e \<Rightarrow> if ph_AutoProxyEnabled h then Some empty_SmeeHardware else None
           | Inr hw \<Rightarrow> Some hw))"

definition proxy_reply ::
  "dhcp_lib \<Rightarrow> ProxyHandler \<Rightarrow> DHCPv4 \<Rightarrow> Info \<Rightarrow> DHCPv4 \<Rightarrow> DHCPv4" where
  "proxy_reply D h m i r =
     (let nb = ph_Netboot h;
          r = UpdateOption OptionVendorSpecificInformation (AddRPIOpt43 D i [6 \<mapsto> [8]]) r;
          r = UpdateOption OptionClassIdentifier (dl_OptString D (ClientTypeFrom i)) r;
          ns = NextServer i (nc_IPXEBinServerHTTP nb) (nc_IPXEBinServerTFTP nb) (ph_IPAddr h);
          r = UpdateOption OptionServerIdentifier (dl_OptIP D ns) r
      in r\<lparr>p_ServerIPAddr := ns, p_ServerHostName := IP_String ns\<rparr>)"

text \<open>\<open>IPXEScriptURL\<close> is called without a nil test.\<close>

definition proxy_bootfile :: "ProxyHandler \<Rightarrow> DHCPv4 \<Rightarrow> Info \<Rightarrow> SmeeHardware \<Rightarrow> gerr + string" where
  "proxy_bootfile h m i hw =
     (let nb = ph_Netboot h;
          i = (case sh_Netboot hw of
                 Some n \<Rightarrow> if sn_IPXEBinary n \<noteq> [] then i\<lparr>i_IPXEBinary := sn_IPXEBinary n\<rparr> else i
               | None \<Rightarrow> i)
      in case nc_IPXEScriptURL nb of
           None \<Rightarrow> Inl (PanicError ''nil pointer dereference'')
         | Some f \<Rightarrow>
             (case sh_Netboot hw of
                Some n \<Rightarrow>
                  if \<not> sn_AllowNetboot n
                  then Inr (''/'' @ HardwareAddr_String (p_ClientHWAddr m) @ ''/netboot-not-allowed'')
                  else Inr (Bootfile i [] (f m) (nc_IPXEBinServerHTTP nb) (nc_IPXEBinServerTFTP nb))
              | None \<Rightarrow> Inr (Bootfile i [] (f m) (nc_IPXEBinServerHTTP nb) (nc_IPXEBinServerTFTP nb))))"

definition proxy_info :: "dhcp_lib \<Rightarrow> ProxyHandler \<Rightarrow> DHCPv4 \<Rightarrow> Info" where
  "proxy_info D h m =
     NewInfo D (Some m)
       [WithMacAddrFormat (nc_InjectMacAddrFormat (ph_Netboot h)),
        WithArchMappingOverride (nc_IPXEArchMapping (ph_Netboot h))]"

definition proxy_Handle ::
  "smee_lib \<Rightarrow> dhcp_lib \<Rightarrow> ProxyHandler \<Rightarrow> bool \<Rightarrow> Packet \<Rightarrow> gerr + reply" where
  "proxy_Handle L D h conn p =
     (case acceptable conn p of
        None \<Rightarrow> Inr None
      | Some m \<Rightarrow>
          if p_OpCode m \<noteq> OpcodeBootRequest then Inr None
          else
            (case setMessageType D (dl_NewReply D m) (dl_MessageType D m) of
               Inl e \<Rightarrow> Inr None
             | Inr r \<Rightarrow>
                 let r = UpdateOption OptionClientMachineIdentifier (GetOneOption OptionClientMachineIdentifier m) r;
                     i = proxy_info D h m
                 in if \<not> nc_Enabled (ph_Netboot h) \<or> i_IsNetbootClient i \<noteq> None \<or> i_IPXEBinary i = [] then Inr None
                    else
                      let r = proxy_reply D h m i r in
                      (case proxy_hardware L h (p_ClientHWAddr m) of
                         None \<Rightarrow> Inr None
                       | Some hw \<Rightarrow>
                           (case proxy_bootfile h m i hw of
                              Inl e \<Rightarrow> Inl e
                            | Inr bf \<Rightarrow>
                                Inr (Some (r\<lparr>p_BootFileName := bf\<rparr>, control_index p,
                                     replyDestination (pkt_Peer p) (p_GatewayIPAddr m)))))))"


section \<open>The server loop\<close>

definition bcast :: bytes where
  "bcast = v4InV6Prefix @ [255, 255, 255, 255]"

text \<open>What the loop passes to every handler for a datagram: \<open>parsed\<close> is the result of the packet
  parser. A client without an address is answered by broadcast.\<close>

definition serve_packet :: "DHCPv4 option \<Rightarrow> Peer \<Rightarrow> int \<Rightarrow> Packet option" where
  "serve_packet parsed peer ifindex =
     (case (parsed, peer) of
        (Some m, UDPAddr ip port) \<Rightarrow>
          Some \<lparr>pkt_Peer = (if ip = [] \<or> To4 ip = Some [0, 0, 0, 0] then UDPAddr bcast port else UDPAddr ip port),
                pkt_Pkt = Some m, pkt_IfIndex = Some ifindex\<rparr>
      | _ \<Rightarrow> None)"

end
