(* ===== verification/Smee_Props.thy ===== *)
theory Smee_Props
  imports Smee_Handler Controller_Props
begin

unbundle bit_operations_syntax

text \<open>
  What the DHCP services promise: the contents of a reservation reply, that the netboot
  decisions of both handlers follow the \<open>AllowPXE\<close> flag the workflow controller writes, that
  converted data is well formed, and that the MAC notations are parsed back.
\<close>


section \<open>Converted hardware\<close>

lemma first_interface_cases:
  "first_interface p hw = empty_Interface \<or>
   (first_interface p hw \<in> set (hw_Interfaces (Hardware_Spec hw)) \<and> p (first_interface p hw))"
  by (auto simp: first_interface_def find_Some_iff split: option.splits)

lemma toDHCPData_None [simp]: "toDHCPData L None = Inl (NewError ''no DHCP data'')"
  by (simp add: toDHCPData_def)

lemma toDHCPDataE:
  assumes "toDHCPData L (Some h) = Inr d"
  obtains mac addr sm gw routes where "convert_mac (dhcp_MAC h) = Inr mac"
    and "(case dhcp_IP h of None \<Rightarrow> Inr (None, [])
          | Some ip \<Rightarrow> map_sum id (\<lambda>(a, m). (Some a, m)) (convert_ip ip)) = Inr (addr, sm)"
    and "convert_gateway (dhcp_IP h) = Inr gw"
    and "convert_routes L (dhcp_ClasslessStaticRoutes h) = Inr routes"
    and "sd_MACAddress d = mac" and "sd_IPAddress d = addr" and "sd_SubnetMask d = sm"
    and "sd_DefaultGateway d = gw" and "sd_BroadcastAddress d = broadcast_of addr sm"
    and "sd_NameServers d = parse_ips (dhcp_NameServers h)" and "sd_NTPServers d = parse_ips (dhcp_TimeServers h)"
    and "sd_ClasslessStaticRoutes d = routes" and "sd_LeaseTime d = convert_lease L (dhcp_LeaseTime h)"
    and "sd_BootFileName d = dhcp_BootFileName h" and "sd_TFTPServerName d = dhcp_TFTPServerName h"
proof -
  define ip where "ip = (case dhcp_IP h of None \<Rightarrow> Inr (None, [])
          | Some ip \<Rightarrow> map_sum id (\<lambda>(a, m). (Some a, m)) (convert_ip ip))"
  obtain mac where mac: "convert_mac (dhcp_MAC h) = Inr mac"
    using assms by (cases "convert_mac (dhcp_MAC h)") (simp_all add: toDHCPData_def)
  obtain addr sm where ip': "ip = Inr (addr, sm)"
    using assms by (cases ip) (auto simp add: toDHCPData_def mac ip_def [symmetric])
  obtain gw where gw: "convert_gateway (dhcp_IP h) = Inr gw"
    using assms by (cases "convert_gateway (dhcp_IP h)") (simp_all add: toDHCPData_def mac ip_def [symmetric] ip')
  obtain routes where routes: "convert_routes L (dhcp_ClasslessStaticRoutes h) = Inr routes"
    using assms by (cases "convert_routes L (dhcp_ClasslessStaticRoutes h)")
      (simp_all add: toDHCPData_def mac ip_def [symmetric] ip' gw)
  note d = assms [unfolded toDHCPData_def, simplified, unfolded ip_def [symmetric],
      simplified mac ip' gw routes, simplified]
  show ?thesis
    by (rule that [OF mac ip' [unfolded ip_def] gw routes]) (simp_all add: d [symmetric])
qed

lemma toNetbootData_allow:
  assumes "toNetbootData L (Some nb) f = Inr n"
  shows "sn_AllowNetboot n \<longleftrightarrow> nb_AllowPXE nb = Some True"
proof (cases "case nb_IPXE nb of None \<Rightarrow> Inr None
     | Some x \<Rightarrow> if ipxe_URL x = [] then Inr None else map_sum id Some (sl_ParseRequestURI L (ipxe_URL x))")
  case (Inl e)
  with assms show ?thesis by (simp add: toNetbootData_def)
next
  case (Inr u)
  with assms show ?thesis by (auto simp add: toNetbootData_def)
qed

lemma transformE:
  assumes "transform L i m = Inr (d, n)"
  obtains h nb d0 where "if_DHCP i = Some h" and "if_Netboot i = Some nb"
    and "toDHCPData L (Some h) = Inr d0" and "d = d0\<lparr>sd_Disabled := if_DisableDHCP i\<rparr>"
    and "toNetbootData L (Some nb) (facility_of m) = Inr n"
proof -
  obtain h where h: "if_DHCP i = Some h"
    using assms by (cases "if_DHCP i") (simp_all add: transform_def)
  obtain d0 where d0: "toDHCPData L (Some h) = Inr d0"
    using assms by (cases "toDHCPData L (Some h)") (simp_all add: transform_def h)
  obtain nb where nb: "if_Netboot i = Some nb"
    using assms by (cases "if_Netboot i") (simp_all add: transform_def h d0 toNetbootData_def)
  have "toNetbootData L (Some nb) (facility_of m) = Inr n \<and> d = d0\<lparr>sd_Disabled := if_DisableDHCP i\<rparr>"
    using assms by (cases "toNetbootData L (Some nb) (facility_of m)") (simp_all add: transform_def h d0 nb)
  then show ?thesis using that [OF h nb d0] by blast
qed

lemma convert_interfaceE:
  assumes "convert_interface L i hw = Inr s"
  obtains d n where "sh_DHCP s = Some d" and "sh_Netboot s = Some n"
    and "transform L i (hw_Metadata (Hardware_Spec hw)) = Inr (d, n)"
proof (cases "transform L i (hw_Metadata (Hardware_Spec hw))")
  case (Inl e)
  with assms show ?thesis by (simp add: convert_interface_def)
next
  case (Inr dn)
  then obtain d n where dn: "transform L i (hw_Metadata (Hardware_Spec hw)) = Inr (d, n)" by (cases dn) auto
  have "sh_DHCP s = Some d \<and> sh_Netboot s = Some n"
  proof (cases "if_Isoboot i")
    case None
    with assms dn show ?thesis by (auto simp: convert_interface_def Let_def)
  next
    case (Some iso)
    with assms dn show ?thesis
      by (cases "sl_Parse L (iso_SourceISO iso)")
         (auto simp: convert_interface_def Let_def split: if_split_asm)
  qed
  with dn that show ?thesis by blast
qed

text \<open>A successful conversion by MAC address comes from an interface with that address.\<close>

lemma ConvertByMacE:
  assumes "ConvertByMac L mac (Some hw) = Inr s"
  obtains i d n where "i \<in> set (hw_Interfaces (Hardware_Spec hw))" and "mac_interface mac i"
    and "sh_DHCP s = Some d" and "sh_Netboot s = Some n"
    and "transform L i (hw_Metadata (Hardware_Spec hw)) = Inr (d, n)"
proof -
  let ?i = "first_interface (mac_interface mac) hw"
  from assms have conv: "convert_interface L ?i hw = Inr s" by (simp add: ConvertByMac_def)
  then obtain d n where dn: "sh_DHCP s = Some d" "sh_Netboot s = Some n"
      and t: "transform L ?i (hw_Metadata (Hardware_Spec hw)) = Inr (d, n)"
    by (rule convert_interfaceE)
  from t have "?i \<noteq> empty_Interface" by (auto simp: transform_def empty_Interface_def)
  with first_interface_cases [of "mac_interface mac" hw] dn t that show ?thesis by blast
qed


section \<open>Replies\<close>

text \<open>What the packet library documents of a reply without modifiers: it carries the transaction
  identifier of the request and names no boot file.\<close>

definition plain_reply :: "dhcp_lib \<Rightarrow> bool" where
  "plain_reply D \<longleftrightarrow>
     (\<forall>p. p_TransactionID (dl_NewReply D p) = p_TransactionID p \<and> p_BootFileName (dl_NewReply D p) = [])"

lemma UpdateOption_simps [simp]:
  "p_Options (UpdateOption k v p) = (p_Options p)(k \<mapsto> v)"
  "p_BootFileName (UpdateOption k v p) = p_BootFileName p"
  "p_YourIPAddr (UpdateOption k v p) = p_YourIPAddr p"
  "p_ServerIPAddr (UpdateOption k v p) = p_ServerIPAddr p"
  "p_TransactionID (UpdateOption k v p) = p_TransactionID p"
  by (simp_all add: UpdateOption_def)

lemma header_modifier_simps [simp]:
  "p_Options (WithYourIP x p) = p_Options p" "p_Options (WithServerIP x p) = p_Options p"
  "p_Options (WithBootFileName f p) = p_Options p"
  "p_BootFileName (WithYourIP x p) = p_BootFileName p" "p_BootFileName (WithServerIP x p) = p_BootFileName p"
  "p_BootFileName (WithBootFileName f p) = f"
  "p_YourIPAddr (WithYourIP x p) = x" "p_YourIPAddr (WithServerIP x p) = p_YourIPAddr p"
  "p_YourIPAddr (WithBootFileName f p) = p_YourIPAddr p"
  "p_TransactionID (WithYourIP x p) = p_TransactionID p" "p_TransactionID (WithServerIP x p) = p_TransactionID p"
  "p_TransactionID (WithBootFileName f p) = p_TransactionID p"
  by (simp_all add: WithYourIP_def WithServerIP_def WithBootFileName_def)

text \<open>Modifiers that keep an observation of the packet can be skipped.\<close>

lemma fold_keeps: "(\<And>f p. f \<in> set fs \<Longrightarrow> ob (f p) = ob p) \<Longrightarrow> ob (fold (\<lambda>f. f) fs p) = ob p"
  by (induction fs arbitrary: p) simp_all

lemma mem_only_if [simp]: "f \<in> set (only_if b xs) \<longleftrightarrow> b \<and> f \<in> set xs"
  by (simp add: only_if_def)

lemma fold_only_if: "fold (\<lambda>f. f) (only_if b xs) p = (if b then fold (\<lambda>f. f) xs p else p)"
  by (simp add: only_if_def)

text \<open>One modifier of the chain that sets option \<open>k\<close>, the others being about other options.\<close>

lemma fold_sets_option:
  assumes "fs = xs @ only_if b [UpdateOption k v] @ zs"
    and "\<And>f p. f \<in> set xs \<union> set zs \<Longrightarrow> p_Options (f p) k = p_Options p k"
  shows "p_Options (fold (\<lambda>f. f) fs p) k = (if b then Some v else p_Options p k)"
proof -
  have k1: "\<And>q. p_Options (fold (\<lambda>f. f) xs q) k = p_Options q k"
    by (rule fold_keeps [where ob = "\<lambda>p. p_Options p k"]) (rule assms(2), simp)
  have k2: "\<And>q. p_Options (fold (\<lambda>f. f) zs q) k = p_Options q k"
    by (rule fold_keeps [where ob = "\<lambda>p. p_Options p k"]) (rule assms(2), simp)
  show ?thesis by (simp add: assms(1) fold_only_if k1 k2)
qed

text \<open>The network boot modifier leaves the lease alone.\<close>

lemma setNetworkBootOpts_keeps:
  "p_YourIPAddr (setNetworkBootOpts D c h m n d) = p_YourIPAddr d"
  "p_TransactionID (setNetworkBootOpts D c h m n d) = p_TransactionID d"
  "k \<noteq> 43 \<Longrightarrow> k \<noteq> 60 \<Longrightarrow> p_Options (setNetworkBootOpts D c h m n d) k = p_Options d k"
  by (auto simp: setNetworkBootOpts_def Let_def split: option.splits prod.splits)

lemma setNetworkBootOpts_denied:
  "\<not> sn_AllowNetboot n \<Longrightarrow> p_BootFileName (setNetworkBootOpts D c h m n d) = ''/netboot-not-allowed''"
  by (auto simp: setNetworkBootOpts_def Let_def split: option.splits)

lemma setDHCPOpts_keys:
  assumes "f \<in> set (setDHCPOpts D h d)"
  shows "k \<notin> {51, 6, 119, 42, 28, 15, 12, 1, 3, 7, 121, 66, 67} \<Longrightarrow> p_Options (f p) k = p_Options p k"
    and "p_TransactionID (f p) = p_TransactionID p"
    and "sd_BootFileName d = [] \<Longrightarrow> p_BootFileName (f p) = p_BootFileName p"
  using assms by (auto simp: setDHCPOpts_def)

lemma setDHCPOpts_lease:
  "p_YourIPAddr (fold (\<lambda>f. f) (setDHCPOpts D h d) p) = addr_slice (sd_IPAddress d)"
  "p_Options (fold (\<lambda>f. f) (setDHCPOpts D h d) p) 51 = Some (dl_OptLeaseTime D (sd_LeaseTime d))"
proof -
  define rest where "rest = drop 2 (setDHCPOpts D h d)"
  have l: "setDHCPOpts D h d =
      [UpdateOption 51 (dl_OptLeaseTime D (sd_LeaseTime d)), WithYourIP (addr_slice (sd_IPAddress d))] @ rest"
    by (simp add: rest_def setDHCPOpts_def)
  have r: "\<And>f p. f \<in> set rest \<Longrightarrow> p_YourIPAddr (f p) = p_YourIPAddr p"
      "\<And>f p. f \<in> set rest \<Longrightarrow> p_Options (f p) 51 = p_Options p 51"
    by (auto simp: rest_def setDHCPOpts_def)
  have k1: "\<And>q. p_YourIPAddr (fold (\<lambda>f. f) rest q) = p_YourIPAddr q"
    by (rule fold_keeps) (rule r(1))
  have k2: "\<And>q. p_Options (fold (\<lambda>f. f) rest q) 51 = p_Options q 51"
    by (rule fold_keeps [where ob = "\<lambda>p. p_Options p 51"]) (rule r(2))
  show "p_YourIPAddr (fold (\<lambda>f. f) (setDHCPOpts D h d) p) = addr_slice (sd_IPAddress d)"
    by (simp add: l k1)
  show "p_Options (fold (\<lambda>f. f) (setDHCPOpts D h d) p) 51 = Some (dl_OptLeaseTime D (sd_LeaseTime d))"
    by (simp add: l k2)
qed

lemma updateMsg_split:
  obtains q where "updateMsg D c h m d n t =
      (if nc_Enabled (rh_Netboot h) \<and> IsNetbootClient D m = None \<and> sd_TFTPServerName d = [] \<and> sd_BootFileName d = []
       then setNetworkBootOpts D c h m n q else q)"
    and "p_YourIPAddr q = addr_slice (sd_IPAddress d)" and "p_TransactionID q = p_TransactionID (dl_NewReply D m)"
    and "p_Options q 53 = Some (dl_OptMessageType D t)" and "p_Options q 54 = Some (addr_slice (rh_IPAddr h))"
    and "p_Options q 51 = Some (dl_OptLeaseTime D (sd_LeaseTime d))"
    and "sd_BootFileName d = [] \<Longrightarrow> p_BootFileName q = p_BootFileName (dl_NewReply D m)"
    and "sd_BootFileName d \<noteq> [] \<Longrightarrow> p_BootFileName q = sd_BootFileName d"
proof -
  define b where "b = fold (\<lambda>f. f)
      [UpdateOption 53 (dl_OptMessageType D t), UpdateOption 54 (addr_slice (rh_IPAddr h)),
       WithServerIP (addr_slice (rh_IPAddr h))] (dl_NewReply D m)"
  define q where "q = fold (\<lambda>f. f) (setDHCPOpts D h d) b"
  have keep: "k \<in> {53, 54} \<Longrightarrow> p_Options q k = p_Options b k" for k
    unfolding q_def by (rule fold_keeps [where ob = "\<lambda>p. p_Options p k"]) (auto intro: setDHCPOpts_keys(1))
  have tx: "p_TransactionID q = p_TransactionID b"
    unfolding q_def by (rule fold_keeps) (rule setDHCPOpts_keys(2))
  have bf: "p_BootFileName q = p_BootFileName b" if "sd_BootFileName d = []"
    unfolding q_def by (rule fold_keeps) (rule setDHCPOpts_keys(3) [OF _ that])
  have bf': "p_BootFileName q = sd_BootFileName d" if "sd_BootFileName d \<noteq> []"
    using that by (simp add: q_def setDHCPOpts_def fold_only_if)
  show ?thesis
    by (rule that [of q])
       (simp_all add: updateMsg_def reply_modifiers_def fold_only_if b_def [symmetric] q_def [symmetric]
         keep tx bf bf', simp_all add: q_def setDHCPOpts_lease b_def)
qed

definition reserved :: "smee_lib \<Rightarrow> ReservationHandler \<Rightarrow> bytes \<Rightarrow> SmeeDHCP \<Rightarrow> SmeeNetboot \<Rightarrow> bool" where
  "reserved L h mac d n \<longleftrightarrow>
     (\<exists>hw s. rh_Backend h (empty_HardwareFilter\<lparr>hf_ByMACAddress := HardwareAddr_String mac\<rparr>) = Inr hw \<and>
        ConvertByMac L mac (Some hw) = Inr s \<and> sh_DHCP s = Some d \<and> sh_Netboot s = Some n)"

definition reply_ok ::
  "dhcp_lib \<Rightarrow> ReservationHandler \<Rightarrow> Packet \<Rightarrow> DHCPv4 \<Rightarrow> SmeeDHCP \<Rightarrow> SmeeNetboot \<Rightarrow> DHCPv4 \<Rightarrow> Peer \<Rightarrow> bool" where
  "reply_ok D h p m d n r dst \<longleftrightarrow>
     p_TransactionID r = p_TransactionID m \<and>
     p_YourIPAddr r = (case sd_IPAddress d of None \<Rightarrow> [] | Some a \<Rightarrow> AsSlice a) \<and>
     p_Options r 53 =
       Some (dl_OptMessageType D (if dl_MessageType D m = MessageTypeDiscover then MessageTypeOffer else MessageTypeAck)) \<and>
     p_Options r 51 = Some (dl_OptLeaseTime D (sd_LeaseTime d)) \<and>
     p_Options r 54 = Some (case rh_IPAddr h of None \<Rightarrow> [] | Some a \<Rightarrow> AsSlice a) \<and>
     dst = (if p_GatewayIPAddr m = [] \<or> p_GatewayIPAddr m = replicate 4 0 \<or> p_GatewayIPAddr m = replicate 16 0 \<or>
               p_GatewayIPAddr m = replicate 10 0 @ [255, 255, 0, 0, 0, 0]
            then pkt_Peer p else UDPAddr (p_GatewayIPAddr m) 67) \<and>
     (if sd_BootFileName d \<noteq> [] then p_BootFileName r = sd_BootFileName d
      else if nc_Enabled (rh_Netboot h) \<and> IsNetbootClient D m = None \<and> sd_TFTPServerName d = []
      then \<not> sn_AllowNetboot n \<longrightarrow> p_BootFileName r = ''/netboot-not-allowed''
      else p_BootFileName r = [])"

lemma IP_IsUnspecified_iff:
  "IP_IsUnspecified ip \<longleftrightarrow>
     ip = replicate 4 0 \<or> ip = replicate 16 0 \<or> ip = replicate 10 0 @ [255, 255, 0, 0, 0, 0]"
proof
  assume "IP_IsUnspecified ip"
  then consider "To4 ip = Some (replicate 4 0)" | "ip = replicate 16 0" by (auto simp: IP_IsUnspecified_def)
  then show "ip = replicate 4 0 \<or> ip = replicate 16 0 \<or> ip = replicate 10 0 @ [255, 255, 0, 0, 0, 0]"
  proof cases
    case 1
    then have "ip = replicate 4 0 \<or> take 12 ip = v4InV6Prefix \<and> drop 12 ip = replicate 4 0"
      by (auto simp: To4_def split: if_splits)
    then have "ip = replicate 4 0 \<or> ip = v4InV6Prefix @ replicate 4 0" by (metis append_take_drop_id)
    then show ?thesis by (auto simp: v4InV6Prefix_def numeral_eq_Suc)
  qed simp
qed (auto simp: IP_IsUnspecified_def To4_def v4InV6Prefix_def numeral_eq_Suc)

lemma reply_ok_updateMsg:
  assumes "plain_reply D" and "dl_MessageType D m \<in> {MessageTypeDiscover, MessageTypeRequest}"
    and "t = (if dl_MessageType D m = MessageTypeDiscover then MessageTypeOffer else MessageTypeAck)"
  shows "reply_ok D h p m d n (updateMsg D c h m d n t) (replyDestination (pkt_Peer p) (p_GatewayIPAddr m))"
proof -
  obtain q where u: "updateMsg D c h m d n t =
      (if nc_Enabled (rh_Netboot h) \<and> IsNetbootClient D m = None \<and> sd_TFTPServerName d = [] \<and> sd_BootFileName d = []
       then setNetworkBootOpts D c h m n q else q)"
    and q: "p_YourIPAddr q = addr_slice (sd_IPAddress d)" "p_TransactionID q = p_TransactionID (dl_NewReply D m)"
      "p_Options q 53 = Some (dl_OptMessageType D t)" "p_Options q 54 = Some (addr_slice (rh_IPAddr h))"
      "p_Options q 51 = Some (dl_OptLeaseTime D (sd_LeaseTime d))"
    and b: "sd_BootFileName d = [] \<Longrightarrow> p_BootFileName q = p_BootFileName (dl_NewReply D m)"
      "sd_BootFileName d \<noteq> [] \<Longrightarrow> p_BootFileName q = sd_BootFileName d"
    by (rule updateMsg_split [of D c h m d n t]) blast
  have base: "p_TransactionID (dl_NewReply D m) = p_TransactionID m" "p_BootFileName (dl_NewReply D m) = []"
    using assms(1) by (simp_all add: plain_reply_def)
  show ?thesis
    unfolding reply_ok_def u replyDestination_def IP_IsUnspecified_iff
    by (auto simp: setNetworkBootOpts_keeps setNetworkBootOpts_denied q b base assms(3) addr_slice_def)
qed

lemma readBackend_reserved:
  assumes "readBackend L h mac = Inr (d, n)"
  shows "reserved L h mac d' n' \<longleftrightarrow> d' = d \<and> n' = n"
proof -
  obtain hw where hw: "rh_Backend h (empty_HardwareFilter\<lparr>hf_ByMACAddress := HardwareAddr_String mac\<rparr>) = Inr hw"
    using assms by (cases "rh_Backend h (empty_HardwareFilter\<lparr>hf_ByMACAddress := HardwareAddr_String mac\<rparr>)")
      (simp_all add: readBackend_def)
  obtain s where s: "ConvertByMac L mac (Some hw) = Inr s"
    using assms hw by (cases "ConvertByMac L mac (Some hw)") (simp_all add: readBackend_def)
  show ?thesis
    using assms by (auto simp: readBackend_def reserved_def hw s split: option.splits)
qed

lemma reservation_cases:
  assumes "plain_reply D"
  shows "case reservation_Handle L D c h conn p of
      None \<Rightarrow> \<not> (\<exists>m d n. conn \<and> (\<exists>ip port. pkt_Peer p = UDPAddr ip port) \<and> pkt_Pkt p = Some m \<and>
                 dl_MessageType D m \<in> {MessageTypeDiscover, MessageTypeRequest} \<and>
                 reserved L h (p_ClientHWAddr m) d n \<and> \<not> sd_Disabled d)
    | Some (r, idx, dst) \<Rightarrow>
        \<exists>m d n. conn \<and> pkt_Pkt p = Some m \<and> dl_MessageType D m \<in> {MessageTypeDiscover, MessageTypeRequest} \<and>
          reserved L h (p_ClientHWAddr m) d n \<and> \<not> sd_Disabled d \<and> reply_ok D h p m d n r dst"
proof (cases "acceptable conn p")
  case None
  then have "\<not> (conn \<and> (\<exists>ip port. pkt_Peer p = UDPAddr ip port) \<and> (\<exists>m. pkt_Pkt p = Some m))"
    by (auto simp: acceptable_def split: if_splits)
  with None show ?thesis by (auto simp: reservation_Handle_def)
next
  case (Some m)
  then have acc: "conn" "pkt_Pkt p = Some m" "\<exists>ip port. pkt_Peer p = UDPAddr ip port"
    by (auto simp: acceptable_def split: option.splits Peer.splits if_splits)
  define t where "t = (if dl_MessageType D m = MessageTypeDiscover then MessageTypeOffer else MessageTypeAck)"
  show ?thesis
  proof (cases "dl_MessageType D m \<in> {MessageTypeDiscover, MessageTypeRequest}")
    case False
    with Some acc show ?thesis by (cases "dl_MessageType D m") (auto simp: reservation_Handle_def)
  next
    case True
    then have run: "reservation_Handle L D c h conn p =
        map_option (\<lambda>r. (r, control_index p, replyDestination (pkt_Peer p) (p_GatewayIPAddr m))) (respond L D c h m t)"
      using Some by (cases "respond L D c h m t") (auto simp: reservation_Handle_def t_def)
    show ?thesis
    proof (cases "readBackend L h (p_ClientHWAddr m)")
      case (Inl e)
      then have "\<not> reserved L h (p_ClientHWAddr m) d n" for d n
        by (auto simp: readBackend_def reserved_def)
      with Inl acc show ?thesis unfolding run by (simp add: respond_def)
    next
      case (Inr dn)
      then obtain d n where dn: "readBackend L h (p_ClientHWAddr m) = Inr (d, n)" by (cases dn) auto
      then have iff: "reserved L h (p_ClientHWAddr m) d' n' \<longleftrightarrow> d' = d \<and> n' = n" for d' n'
        by (rule readBackend_reserved)
      show ?thesis
      proof (cases "sd_Disabled d")
        case True
        with dn acc show ?thesis unfolding run by (simp add: respond_def iff)
      next
        case False
        with dn acc True reply_ok_updateMsg [OF assms True t_def] show ?thesis
          unfolding run by (simp add: respond_def iff)
      qed
    qed
  qed
qed

lemma reservation_outcome:
  assumes "plain_reply D" and "reservation_Handle L D c h conn p = Some (r, idx, dst)"
  shows "\<exists>m d n. pkt_Pkt p = Some m \<and> reserved L h (p_ClientHWAddr m) d n \<and> reply_ok D h p m d n r dst"
  using reservation_cases [OF assms(1), where L = L and c = c and h = h and conn = conn and p = p] by (auto simp: assms(2))


text \<open>A concrete library and handler to run the properties on.\<close>

definition ex_smee_lib :: smee_lib where
  "ex_smee_lib = \<lparr>sl_Parse = (\<lambda>s. Inr (empty_URL\<lparr>u_Path := s\<rparr>)), sl_ParseRequestURI = (\<lambda>s. Inr (empty_URL\<lparr>u_Path := s\<rparr>)),
     sl_ToUint32 = (\<lambda>v. if 0 \<le> v \<and> v < 2 ^ 32 then Some (of_int v) else None), sl_Quote = (\<lambda>s. s)\<rparr>"

definition ex_dhcp_lib :: dhcp_lib where
  "ex_dhcp_lib = \<lparr>dl_MessageType = (\<lambda>p. if p_Options p 53 = Some [1] then MessageTypeDiscover else MessageTypeOther 0),
     dl_ClientArch = (\<lambda>p. [EFI_X86_64]), dl_ArchString = (\<lambda>a. []),
     dl_NewReply = (\<lambda>p. p\<lparr>p_OpCode := OpcodeBootReply, p_BootFileName := [], p_Options := Map.empty\<rparr>),
     dl_OptMessageType = (\<lambda>t. case t of MessageTypeOffer \<Rightarrow> [2] | _ \<Rightarrow> [5]),
     dl_OptIP = (\<lambda>b. b), dl_OptIPs = concat, dl_OptMask = (\<lambda>b. b), dl_OptString = bytes_of,
     dl_OptLeaseTime = (\<lambda>t. []), dl_OptDomainSearch = (\<lambda>ss. []), dl_OptRoutes = (\<lambda>rs. []),
     dl_OptionsToBytes = (\<lambda>m. [])\<rparr>"

definition ex_mac :: bytes where
  "ex_mac = [2, 0, 0, 0, 0, 1]"

definition ex_hardware :: Hardware where
  "ex_hardware = empty_Hardware\<lparr>Hardware_Spec := empty_HardwareSpec\<lparr>hw_Interfaces :=
     [empty_Interface\<lparr>if_Netboot := Some empty_Netboot,
        if_DHCP := Some \<lparr>dhcp_MAC = ''02:00:00:00:00:01'', dhcp_Hostname = [], dhcp_DomainName = [],
          dhcp_LeaseTime = 60, dhcp_NameServers = [], dhcp_TimeServers = [], dhcp_Arch = [], dhcp_UEFI = True,
          dhcp_IfaceName = [],
          dhcp_IP = Some \<lparr>ip_Address = ''10.0.0.5'', ip_Netmask = ''255.255.255.0'', ip_Gateway = [], ip_Family = 4\<rparr>,
          dhcp_VLANID = [], dhcp_ClasslessStaticRoutes = [], dhcp_TFTPServerName = [], dhcp_BootFileName = []\<rparr>\<rparr>]\<rparr>\<rparr>"

definition ex_netboot :: NetbootConfig where
  "ex_netboot = \<lparr>nc_IPXEBinServerTFTP = \<lparr>ap_Addr = Some (Addr4 [10, 0, 0, 1]), ap_Port = 69\<rparr>,
     nc_IPXEBinServerHTTP = None, nc_IPXEScriptURL = Some (\<lambda>p. Some (empty_URL\<lparr>u_Path := ''/auto.ipxe''\<rparr>)),
     nc_Enabled = True, nc_UserClass = [], nc_InjectMacAddrFormat = [], nc_IPXEArchMapping = Map.empty\<rparr>"

definition ex_request :: Packet where
  "ex_request = \<lparr>pkt_Peer = UDPAddr [10, 0, 0, 9] 68,
     pkt_Pkt = Some \<lparr>p_OpCode = OpcodeBootRequest, p_TransactionID = [7, 7, 7, 7], p_ClientHWAddr = ex_mac, p_YourIPAddr = [],
       p_ServerIPAddr = [], p_GatewayIPAddr = [0, 0, 0, 0], p_ServerHostName = [], p_BootFileName = [],
       p_Options = [53 \<mapsto> [1], 60 \<mapsto> bytes_of ''PXEClient:Arch'', 93 \<mapsto> [0, 7], 94 \<mapsto> [1, 2, 1]]\<rparr>,
     pkt_IfIndex = Some 2\<rparr>"

definition ex_reservation :: "bool \<Rightarrow> ReservationHandler" where
  "ex_reservation b = \<lparr>rh_Backend = (\<lambda>f. if hf_ByMACAddress f = ''02:00:00:00:00:01'' then Inr (hw_allow_pxe b ex_hardware)
        else Inl (HardwareNotFoundError [])),
     rh_IPAddr = Some (Addr4 [10, 0, 0, 1]), rh_Netboot = ex_netboot, rh_OTELEnabled = False, rh_SyslogAddr = None\<rparr>"

definition ex_proxy :: "bool \<Rightarrow> ProxyHandler" where
  "ex_proxy b = \<lparr>ph_Backend = rh_Backend (ex_reservation b), ph_IPAddr = Some (Addr4 [10, 0, 0, 1]), ph_Netboot = ex_netboot,
     ph_OTELEnabled = False, ph_AutoProxyEnabled = False\<rparr>"

definition ex_ctx :: trace_ctx where
  "ex_ctx = \<lparr>tc_traceparent = [], tc_binary = []\<rparr>"

lemma ex_reply_runs:
  "map_option (\<lambda>(r, i, d). p_BootFileName r)
     (reservation_Handle ex_smee_lib ex_dhcp_lib ex_ctx (ex_reservation True) True ex_request) = Some ''ipxe.efi''"
  "map_option (\<lambda>(r, i, d). p_BootFileName r)
     (reservation_Handle ex_smee_lib ex_dhcp_lib ex_ctx (ex_reservation False) True ex_request) = Some ''/netboot-not-allowed''"
  by code_simp+

lemma ex_proxy_runs:
  "map_sum id (map_option (\<lambda>(r, i, d). p_BootFileName r))
     (proxy_Handle ex_smee_lib ex_dhcp_lib (ex_proxy False) True ex_request) =
   Inr (Some ''/02:00:00:00:00:01/netboot-not-allowed'')"
  by code_simp

lemma ex_plain_reply: "plain_reply ex_dhcp_lib"
  by (simp add: plain_reply_def ex_dhcp_lib_def)



section \<open>Netboot follows the toggle\<close>

text \<open>The interface a converted object comes from after the controller's toggle.\<close>

lemma toggled_allow:
  assumes "ConvertByMac L mac (Some (hw_allow_pxe b hw)) = Inr s"
  obtains d n where "sh_DHCP s = Some d" and "sh_Netboot s = Some n" and "sn_AllowNetboot n = b"
    and "\<exists>i \<in> set (hw_Interfaces (Hardware_Spec hw)). \<exists>h. if_DHCP i = Some h \<and> sd_BootFileName d = dhcp_BootFileName h"
proof -
  obtain i d n where i: "i \<in> set (hw_Interfaces (Hardware_Spec (hw_allow_pxe b hw)))"
    and dn: "sh_DHCP s = Some d" "sh_Netboot s = Some n"
    and t: "transform L i (hw_Metadata (Hardware_Spec (hw_allow_pxe b hw))) = Inr (d, n)"
    using assms by (rule ConvertByMacE)
  from t obtain h nb d0 where h: "if_DHCP i = Some h" and nb: "if_Netboot i = Some nb"
    and d0: "toDHCPData L (Some h) = Inr d0" and d: "d = d0\<lparr>sd_Disabled := if_DisableDHCP i\<rparr>"
    and n: "toNetbootData L (Some nb) (facility_of (hw_Metadata (Hardware_Spec (hw_allow_pxe b hw)))) = Inr n"
    by (rule transformE)
  have "nb_AllowPXE nb = Some b" using hw_allow_pxe_all [of b hw] i nb by force
  then have allow: "sn_AllowNetboot n = b" using toNetbootData_allow [OF n] by (cases b) auto
  from i obtain i0 where i0: "i0 \<in> set (hw_Interfaces (Hardware_Spec hw))" "i = set_allow_pxe b i0"
    by (auto simp: hw_allow_pxe_def)
  have "if_DHCP i0 = Some h" using h i0(2) by (simp add: set_allow_pxe_def split: option.splits)
  moreover have "sd_BootFileName d = dhcp_BootFileName h"
    using d0 d by (auto elim: toDHCPDataE)
  ultimately show ?thesis using that [OF dn allow] i0(1) by blast
qed

lemma proxy_info_UserClass: "i_UserClass (proxy_info D q m) = UserClassFrom (empty_Info\<lparr>i_Pkt := Some m\<rparr>)"
  by (simp add: proxy_info_def NewInfo_def Let_def WithMacAddrFormat_def WithArchMappingOverride_def UserClassFrom_def
      empty_Info_def)

lemma proxy_outcome:
  assumes run: "proxy_Handle L D q conn p = Inr (Some (r, idx, dst))" and m: "pkt_Pkt p = Some m"
  shows "\<exists>s. proxy_hardware L q (p_ClientHWAddr m) = Some s \<and>
    proxy_bootfile q m (proxy_info D q m) s = Inr (p_BootFileName r)"
proof -
  have acc: "acceptable conn p = Some m"
    using run m by (auto simp: proxy_Handle_def acceptable_def split: Peer.splits if_splits)
  obtain r1 where r1: "setMessageType D (dl_NewReply D m) (dl_MessageType D m) = Inr r1"
    using run by (cases "setMessageType D (dl_NewReply D m) (dl_MessageType D m)")
      (simp_all add: proxy_Handle_def acc split: if_splits)
  obtain s where s: "proxy_hardware L q (p_ClientHWAddr m) = Some s"
    using run by (cases "proxy_hardware L q (p_ClientHWAddr m)")
      (simp_all add: proxy_Handle_def acc r1 Let_def split: if_splits)
  show ?thesis
    using run by (cases "proxy_bootfile q m (proxy_info D q m) s")
      (auto simp: proxy_Handle_def acc r1 s Let_def split: if_splits)
qed




section \<open>Well-formed data\<close>

text \<open>What the types of package \<open>net\<close> leave open: the lengths of the byte slices.\<close>

lemma parse_ipv4_length: "parse_ipv4 s = Some b \<Longrightarrow> length b = 4"
  by (auto simp: parse_ipv4_def split: option.splits if_splits)

lemma v6_loop_length:
  "v6_loop s ip ell = Some (ip', ell', t) \<Longrightarrow> even (length ip) \<Longrightarrow> length ip \<le> 16 \<Longrightarrow> length ip' \<le> 16"
proof (induction s ip ell arbitrary: ip' ell' t rule: v6_loop.induct)
  case (1 s ip ell)
  show ?case
  proof (cases "16 \<le> length ip")
    case True
    with 1(3-5) show ?thesis by (subst (asm) v6_loop.simps) simp
  next
    case False
    with 1(4) have step: "length ip + 2 \<le> 16" by presburger
    show ?thesis
      using 1(3) False 1(1,2) 1(4) step parse_ipv4_length [of s]
      by (subst (asm) v6_loop.simps) (auto simp: Let_def split: if_splits list.splits)
  qed
qed

lemma v6_finish_length: "v6_finish (ip, ell, t) = Some b \<Longrightarrow> length ip \<le> 16 \<Longrightarrow> length b = 16"
  by (auto simp: v6_finish_def split: if_splits)

lemma parse_ipv6_length:
  assumes "parse_ipv6 s = Some (b, z)"
  shows "length b = 16"
proof -
  obtain a zone hz where cut: "cut_char CHR ''%'' s = (a, zone, hz)" by (metis prod_cases3)
  have "\<And>x e r. v6_loop x [] e = Some r \<Longrightarrow> v6_finish r = Some b \<Longrightarrow> length b = 16"
    by (metis v6_loop_length v6_finish_length prod_cases3 list.size(3) even_zero le0)
  then show ?thesis
    using assms by (auto simp: parse_ipv6_def cut split: if_splits option.splits)
qed

fun addr_ok :: "Addr \<Rightarrow> bool" where
  "addr_ok (Addr4 b) = (length b = 4)"
| "addr_ok (Addr6 b z) = (length b = 16)"

lemma ParseAddr_ok: "ParseAddr s = Some a \<Longrightarrow> addr_ok a"
  by (cases a) (auto simp: ParseAddr_def parse_ipv4_length dest: parse_ipv6_length
      split: option.splits if_splits prod.splits)

lemma ParseIP_length: "ParseIP s = Some b \<Longrightarrow> length b = 16"
proof -
  assume *: "ParseIP s = Some b"
  then obtain a where "ParseAddr s = Some a" "b = As16 a" by (auto simp: ParseIP_def split: option.splits if_splits)
  then show ?thesis using ParseAddr_ok [of s a] by (cases a) (simp_all add: v4InV6Prefix_def)
qed

lemma ParseMAC_length: "ParseMAC s = Some b \<Longrightarrow> length b \<in> {6, 8, 20}"
  by (auto simp: ParseMAC_def Let_def split: option.splits if_splits)

lemma To4_length: "To4 ip = Some b \<Longrightarrow> length b = 4"
  by (auto simp: To4_def split: if_splits)

lemma length_CIDRMask [simp]: "length (CIDRMask n k) = k"
  by (induction k arbitrary: n) simp_all

lemma ParseCIDR_ok:
  assumes "ParseCIDR s = Some (ip, n)"
  shows "length (net_IP n) = length (net_Mask n) \<and> length (net_Mask n) \<in> {4, 16}"
proof -
  obtain addr mk f where cut: "cut_char CHR ''/'' s = (addr, mk, f)" by (metis prod_cases3)
  with assms obtain a k where a: "ParseAddr addr = Some a" and k: "dtoi mk = Some k" "k \<le> BitLen a"
    and n: "n = \<lparr>net_IP = the (IP_Mask (As16 a) (CIDRMask k (BitLen a div 8))), net_Mask = CIDRMask k (BitLen a div 8)\<rparr>"
    by (auto simp: ParseCIDR_def Let_def split: if_splits option.splits)
  show ?thesis
    using ParseAddr_ok [OF a] by (cases a) (simp_all add: n IP_Mask_def Let_def v4InV6Prefix_def)
qed

text \<open>\<open>c\<close> is the greatest address that agrees with \<open>b\<close> on the bits of the mask \<open>m\<close>.\<close>

definition last_of_subnet :: "bytes \<Rightarrow> bytes \<Rightarrow> bytes \<Rightarrow> bool" where
  "last_of_subnet b m c \<longleftrightarrow>
     length c = length b \<and> map2 (AND) c m = map2 (AND) b m \<and>
     (\<forall>x. length x = length b \<longrightarrow> map2 (AND) x m = map2 (AND) b m \<longrightarrow> list_all2 (\<le>) x c)"

lemma or_not_and: "(x OR NOT y) AND y = x AND (y :: 8 word)"
  by (rule bit_eqI) (auto simp: bit_simps)

lemma masked_le: "z AND y = x AND y \<Longrightarrow> z \<le> x OR NOT (y :: 8 word)"
proof -
  assume eq: "z AND y = x AND y"
  have "z AND (x OR NOT y) = z"
  proof (rule bit_eqI)
    fix n
    assume "possible_bit TYPE(8 word) n"
    then have "n < 8" by simp
    moreover have "bit (z AND y) n = bit (x AND y) n" by (simp add: eq)
    ultimately show "bit (z AND (x OR NOT y)) n = bit z n" by (auto simp: bit_simps)
  qed
  then show ?thesis by (metis word_and_le1)
qed

lemma broadcast_last:
  assumes "length b = length m"
  shows "last_of_subnet b m (map2 (\<lambda>x y. x OR NOT y) b m)"
proof -
  have "map2 (AND) (map2 (\<lambda>x y. x OR NOT y) b m) m = map2 (AND) b m"
    using assms by (induction b m rule: list_induct2) (simp_all add: or_not_and)
  moreover have "list_all2 (\<le>) x (map2 (\<lambda>x y. x OR NOT y) b m)"
    if "length x = length b" and "map2 (AND) x m = map2 (AND) b m" for x
    using that(1) assms that(2) by (induction x b m rule: list_induct3) (auto simp: masked_le)
  ultimately show ?thesis using assms by (simp add: last_of_subnet_def)
qed

definition well_formed :: "SmeeDHCP \<Rightarrow> bool" where
  "well_formed d \<longleftrightarrow>
     length (sd_MACAddress d) \<in> {0, 6, 8, 20} \<and>
     list_all (\<lambda>b. length b = 16) (sd_NameServers d) \<and> list_all (\<lambda>b. length b = 16) (sd_NTPServers d) \<and>
     list_all (\<lambda>(n, r). length r = 16 \<and> length (net_IP n) = length (net_Mask n) \<and> length (net_Mask n) \<in> {4, 16})
       (sd_ClasslessStaticRoutes d) \<and>
     (case sd_DefaultGateway d of None \<Rightarrow> True | Some g \<Rightarrow> addr_ok g) \<and>
     (case sd_IPAddress d of
        None \<Rightarrow> sd_SubnetMask d = [] \<and> sd_BroadcastAddress d = None
      | Some (Addr4 b) \<Rightarrow> length b = 4 \<and> length (sd_SubnetMask d) = 4 \<and>
          (\<exists>c. sd_BroadcastAddress d = Some (Addr4 c) \<and> last_of_subnet b (sd_SubnetMask d) c)
      | Some (Addr6 b z) \<Rightarrow> length b = 16 \<and> sd_BroadcastAddress d = None \<and>
          length (sd_SubnetMask d) = (if take 12 b = replicate 10 0 @ [255, 255] then 4 else 0))"

lemma parse_ips_length: "list_all (\<lambda>b. length b = 16) (parse_ips ss)"
  by (induction ss) (auto simp: parse_ips_def List.map_filter_def ParseIP_length)

lemma convert_routes_ok:
  "convert_routes L rs = Inr xs \<Longrightarrow>
   list_all (\<lambda>(n, r). length r = 16 \<and> length (net_IP n) = length (net_Mask n) \<and> length (net_Mask n) \<in> {4, 16}) xs"
proof (induction rs arbitrary: xs)
  case (Cons r rs)
  obtain i n where c: "ParseCIDR (csr_DestinationDescriptor r) = Some (i, n)"
    using Cons.prems by (cases "ParseCIDR (csr_DestinationDescriptor r)") auto
  obtain ip where ip: "ParseIP (csr_Router r) = Some ip"
    using Cons.prems c by (cases "ParseIP (csr_Router r)") auto
  obtain ys where ys: "convert_routes L rs = Inr ys"
    using Cons.prems c ip by (cases "convert_routes L rs") auto
  have "xs = (n, ip) # ys" using Cons.prems by (simp add: c ip ys)
  then show ?case using Cons.IH [OF ys] ParseCIDR_ok [OF c] ParseIP_length [OF ip] by simp
qed simp

lemma convert_ip_ok:
  assumes "convert_ip ip = Inr (a, m)"
  shows "addr_ok a \<and> length m = (if Is4 a \<or> Is4In6 a then 4 else 0)"
proof -
  have a: "ParseAddr (ip_Address ip) = Some a"
    using assms by (cases "ParseAddr (ip_Address ip)") (auto simp: convert_ip_def split: if_splits option.splits)
  show ?thesis
    using assms a ParseAddr_ok [OF a]
    by (auto simp: convert_ip_def split: if_splits option.splits dest: To4_length)
qed

text \<open>An unset lease time is the number zero, which the conversion accepts: the default of a week
  applies to negative and oversized values only.\<close>

lemma unset_lease_time_is_zero:
  assumes "safecast_u32 L"
  shows "convert_lease L 0 = 0" and "convert_lease L (- 1) = defaultLeaseTime"
  using assms by (simp_all add: safecast_u32_def convert_lease_def)

text \<open>The file backend compares MAC addresses without regard to case, the conversion compares
  the text: an upper-case address is found and then has no DHCP data.\<close>

definition upper_case_hardware :: Hardware where
  "upper_case_hardware = empty_Hardware\<lparr>Hardware_Spec := empty_HardwareSpec\<lparr>hw_Interfaces :=
     [empty_Interface\<lparr>if_DHCP := map_option (dhcp_MAC_update (\<lambda>_. ''02:00:00:00:00:0A''))
        (if_DHCP (hd (hw_Interfaces (Hardware_Spec ex_hardware))))\<rparr>]\<rparr>\<rparr>"

lemma upper_case_mac_has_no_reservation:
  "file_FilterHardware (Inr [upper_case_hardware])
     (empty_HardwareFilter\<lparr>hf_ByMACAddress := HardwareAddr_String [2, 0, 0, 0, 0, 10]\<rparr>) = Inr upper_case_hardware"
  "ConvertByMac L [2, 0, 0, 0, 0, 10] (Some upper_case_hardware) =
     Inl (errorf ''failed to convert hardware to DHCP data: '' (NewError ''no DHCP data''))"
proof -
  have mac: "HardwareAddr_String [2, 0, 0, 0, 0, 10] = ''02:00:00:00:00:0a''" by code_simp
  have eq: "EqualFold ''02:00:00:00:00:0A'' ''02:00:00:00:00:0a''" by code_simp
  show "file_FilterHardware (Inr [upper_case_hardware])
     (empty_HardwareFilter\<lparr>hf_ByMACAddress := HardwareAddr_String [2, 0, 0, 0, 0, 10]\<rparr>) = Inr upper_case_hardware"
    unfolding mac
    by (simp add: file_FilterHardware_def matchHardware_def hardwareHasMAC_def upper_case_hardware_def
        empty_HardwareFilter_def ex_hardware_def empty_Interface_def eq)
  show "ConvertByMac L [2, 0, 0, 0, 0, 10] (Some upper_case_hardware) =
     Inl (errorf ''failed to convert hardware to DHCP data: '' (NewError ''no DHCP data''))"
    by (simp add: ConvertByMac_def convert_interface_def first_interface_def mac_interface_def mac upper_case_hardware_def
        ex_hardware_def empty_Interface_def transform_def)
qed

text \<open>C13. Data the conversion returns is well formed: the MAC address, every IP address, mask and
  network has a length its type of package \<open>net\<close> allows, and an IPv4 address always comes with a
  mask and with a broadcast address that is the greatest address of its subnet.\<close>

theorem toDHCPData_well_formed:
  assumes "toDHCPData L (Some h) = Inr d"
  shows "well_formed d"
proof -
  from assms obtain mac addr sm gw routes where mac: "convert_mac (dhcp_MAC h) = Inr mac"
    and ip: "(case dhcp_IP h of None \<Rightarrow> Inr (None, [])
          | Some ip \<Rightarrow> map_sum id (\<lambda>(a, m). (Some a, m)) (convert_ip ip)) = Inr (addr, sm)"
    and gw: "convert_gateway (dhcp_IP h) = Inr gw"
    and routes: "convert_routes L (dhcp_ClasslessStaticRoutes h) = Inr routes"
    and d: "sd_MACAddress d = mac" "sd_IPAddress d = addr" "sd_SubnetMask d = sm" "sd_DefaultGateway d = gw"
      "sd_BroadcastAddress d = broadcast_of addr sm" "sd_NameServers d = parse_ips (dhcp_NameServers h)"
      "sd_NTPServers d = parse_ips (dhcp_TimeServers h)" "sd_ClasslessStaticRoutes d = routes"
    by (rule toDHCPDataE)
  have "length mac \<in> {0, 6, 8, 20}"
    using mac by (auto simp: convert_mac_def split: if_splits option.splits dest: ParseMAC_length)
  moreover have "case gw of None \<Rightarrow> True | Some g \<Rightarrow> addr_ok g"
    using gw by (auto simp: convert_gateway_def split: if_splits option.splits dest: ParseAddr_ok)
  moreover have "case addr of
        None \<Rightarrow> sm = [] \<and> broadcast_of addr sm = None
      | Some (Addr4 b) \<Rightarrow> length b = 4 \<and> length sm = 4 \<and> (\<exists>c. broadcast_of addr sm = Some (Addr4 c) \<and> last_of_subnet b sm c)
      | Some (Addr6 b z) \<Rightarrow> length b = 16 \<and> broadcast_of addr sm = None \<and>
          length sm = (if take 12 b = replicate 10 0 @ [255, 255] then 4 else 0)"
  proof (cases "dhcp_IP h")
    case None
    with ip show ?thesis by (auto simp: broadcast_of_def)
  next
    case (Some i)
    with ip obtain a where a: "convert_ip i = Inr (a, sm)" "addr = Some a" by (cases "convert_ip i") auto
    with convert_ip_ok [OF a(1)] show ?thesis
      by (cases a) (auto simp: broadcast_of_def Is4_def Is4In6_def v4InV6Prefix_def intro: broadcast_last)
  qed
  ultimately show ?thesis
    unfolding well_formed_def d using parse_ips_length convert_routes_ok [OF routes] by blast
qed


theorem toDHCPData_well_formed_witness:
  "\<exists>d. toDHCPData ex_smee_lib (if_DHCP (hd (hw_Interfaces (Hardware_Spec ex_hardware)))) = Inr d \<and> well_formed d"
proof -
  obtain h where h: "if_DHCP (hd (hw_Interfaces (Hardware_Spec ex_hardware))) = Some h"
    by (simp add: ex_hardware_def empty_Interface_def)
  have "(case toDHCPData ex_smee_lib (if_DHCP (hd (hw_Interfaces (Hardware_Spec ex_hardware)))) of Inl e \<Rightarrow> False | Inr d \<Rightarrow> True)"
    by code_simp
  then obtain d where d: "toDHCPData ex_smee_lib (Some h) = Inr d"
    using h by (cases "toDHCPData ex_smee_lib (Some h)") auto
  from toDHCPData_well_formed [OF d] d h show ?thesis by auto
qed


section \<open>MAC notations\<close>

lemma hexDigit_nth: "n < 16 \<Longrightarrow> hexDigit ! n = hex_char n"
proof -
  have "\<forall>n \<in> set [0 ..< 16]. hexDigit ! n = hex_char n" by code_simp
  then show "n < 16 \<Longrightarrow> hexDigit ! n = hex_char n" by simp
qed

lemma hex_pair_eq: "hex_pair b = hex_byte b"
proof -
  have "unat b < 2 ^ LENGTH(8)" by (rule unsigned_less)
  then have "take_bit 8 (unat b) = unat b" by (intro take_bit_nat_eq_self) simp
  then have hi: "unat (drop_bit 4 b) = unat b div 16"
    unfolding unsigned_drop_bit_eq by (simp add: drop_bit_eq_div)
  have lo: "unat (b AND 0xF) = unat b mod 16"
  proof -
    have "b AND 0xF = take_bit 4 b" by (simp add: take_bit_eq_mask mask_numeral)
    then show ?thesis by (simp only: unsigned_take_bit_eq) (simp add: take_bit_eq_mod)
  qed
  have "unat b < 2 ^ LENGTH(8)" by (rule unsigned_less)
  then have "unat b div 16 < 16" "unat b mod 16 < 16" by simp_all
  then show ?thesis by (simp add: hex_pair_def hex_byte_def hi lo hexDigit_nth)
qed

lemma hex_char_ok: "n < 16 \<Longrightarrow> is_hex (hex_char n) \<and> hex_digit_value (hex_char n) = n"
proof -
  have "\<forall>n \<in> set [0 ..< 16]. is_hex (hex_char n) \<and> hex_digit_value (hex_char n) = n" by code_simp
  then show "n < 16 \<Longrightarrow> is_hex (hex_char n) \<and> hex_digit_value (hex_char n) = n" by simp
qed

lemma byte_digits: "unat (b :: 8 word) div 16 < 16" "unat b mod 16 < 16"
proof -
  have "unat b < 2 ^ LENGTH(8)" by (rule unsigned_less)
  then show "unat b div 16 < 16" "unat b mod 16 < 16" by simp_all
qed

lemma xtoi2_hex_byte [simp]: "xtoi2 (hex_byte b) = Some b"
  using byte_digits [of b]
  by (simp add: xtoi2_def hex_byte_def hex_value_def hex_char_ok)

lemma hex_byte_chars: "c \<in> set (hex_byte b) \<Longrightarrow> is_hex c"
  using byte_digits [of b] by (auto simp: hex_byte_def hex_char_ok)

lemma is_hex_no_delimiter: "is_hex c \<Longrightarrow> c \<noteq> CHR '':'' \<and> c \<noteq> CHR ''-'' \<and> c \<noteq> CHR ''.''"
  by (auto simp: is_hex_def is_digit_def less_eq_char_def)

lemma dash_loop_join: "0 < i \<Longrightarrow> bs \<noteq> [] \<Longrightarrow> dash_loop i bs = ''-'' @ join_str ''-'' (map hex_byte bs)"
proof (induction bs arbitrary: i)
  case (Cons b bs)
  then show ?case by (cases bs) (simp_all add: hex_pair_eq)
qed simp

lemma dashNotation_join: "dashNotation a = join_str ''-'' (map hex_byte a)"
proof (cases a)
  case (Cons b bs)
  then show ?thesis
    using dash_loop_join [of 1 bs] by (cases bs) (simp_all add: dashNotation_def hex_pair_eq)
qed (simp add: dashNotation_def)

text \<open>Two bytes per group, for an even number of bytes.\<close>

fun quads :: "bytes \<Rightarrow> string list" where
  "quads (a # b # r) = (hex_byte a @ hex_byte b) # quads r"
| "quads r = []"

lemma dot_loop_quads:
  "even i \<Longrightarrow> even (length bs) \<Longrightarrow> bs \<noteq> [] \<Longrightarrow>
   dot_loop i bs = (if 0 < i then ''.'' else []) @ join_str ''.'' (quads bs)"
proof (induction bs arbitrary: i rule: quads.induct)
  case (1 a b r)
  have odd: "Suc i mod 2 = Suc 0" "i mod 2 = 0" using 1(2) by presburger+
  show ?case
  proof (cases "r = []")
    case True
    with 1 odd show ?thesis by (simp add: hex_pair_eq)
  next
    case False
    then obtain x y z where r: "r = x # y # z" using 1(3) by (cases r; cases "tl r") auto
    have "dot_loop (Suc (Suc i)) r = ''.'' @ join_str ''.'' (quads r)"
      using 1 False by (simp del: dot_loop.simps)
    with 1 r odd show ?thesis by (simp add: hex_pair_eq)
  qed
qed simp_all

lemma dotNotation_join: "even (length a) \<Longrightarrow> dotNotation a = join_str ''.'' (quads a)"
  using dot_loop_quads [of 0 a] by (cases "a = []") (simp_all add: dotNotation_def)

lemma quads_pairs: "even (length a) \<Longrightarrow> concat (map pairs_of (quads a)) = map hex_byte a"
proof (induction a rule: quads.induct)
  case (1 a b r)
  have "pairs_of (hex_byte a @ hex_byte b) = [hex_byte a, hex_byte b]" by (simp add: hex_byte_def)
  with 1 show ?case by simp
qed simp_all

lemma quads_chars: "s \<in> set (quads a) \<Longrightarrow> length s = 4 \<and> (\<forall>c \<in> set s. is_hex c)"
  by (induction a rule: quads.induct) (auto simp: hex_byte_chars, simp_all add: hex_byte_def)

lemma length_hex_byte [simp]: "length (hex_byte b) = 2"
  by (simp add: hex_byte_def)

lemma length_join_hex: "length sep = 1 \<Longrightarrow> a \<noteq> [] \<Longrightarrow> length (join_str sep (map hex_byte a)) = 3 * length a - 1"
proof (induction a)
  case (Cons b bs)
  then show ?case by (cases bs) auto
qed simp

lemma all_some_hex: "all_some (map xtoi2 (map hex_byte a)) = Some a"
  by (induction a) simp_all

lemma length_join_quads: "even (length a) \<Longrightarrow> a \<noteq> [] \<Longrightarrow> 2 * length (join_str ''.'' (quads a)) + 2 = 5 * length a"
proof (induction a rule: quads.induct)
  case (1 a b r)
  then show ?case by (cases r rule: quads.cases) auto
qed simp_all

lemma ParseMAC_delimited:
  assumes "length a \<in> {6, 8, 20}" and "c \<in> {CHR '':'', CHR ''-''}"
  shows "ParseMAC (join_str [c] (map hex_byte a)) = Some a"
proof -
  obtain x y r where a: "a = x # y # r" using assms(1) by (cases a; cases "tl a") auto
  let ?s = "join_str [c] (map hex_byte a)"
  have c2: "?s ! 2 = c" by (simp add: a hex_byte_def)
  have len: "\<not> length ?s < 14" using length_join_hex [of "[c]" a] assms(1) a by auto
  have "\<forall>p \<in> set (map hex_byte a). c \<notin> set p"
    using assms(2) hex_byte_chars is_hex_no_delimiter by auto
  then have sp: "split_on c ?s = map hex_byte a" by (intro split_on_join) (simp_all add: a)
  show ?thesis
    unfolding ParseMAC_def Let_def c2 sp all_some_hex using len assms by auto
qed

lemma ParseMAC_dotted:
  assumes "length a \<in> {6, 8, 20}"
  shows "ParseMAC (dotNotation a) = Some a"
proof -
  have ev: "even (length a)" using assms by auto
  obtain x y z w r where a: "a = x # y # z # w # r"
    using assms by (cases a; cases "tl a"; cases "tl (tl a)"; cases "tl (tl (tl a))") auto
  let ?s = "dotNotation a"
  have s: "?s = join_str ''.'' (quads a)" by (rule dotNotation_join) (rule ev)
  have c2: "?s ! 2 \<noteq> CHR '':''" "?s ! 2 \<noteq> CHR ''-''"
    unfolding s using is_hex_no_delimiter [OF hex_byte_chars, of "hex_byte y ! 0" y] by (auto simp: a hex_byte_def)
  have c4: "?s ! 4 = CHR ''.''" unfolding s by (simp add: a hex_byte_def)
  have len: "\<not> length ?s < 14" using length_join_quads [OF ev] assms a s by auto
  have "\<forall>p \<in> set (quads a). CHR ''.'' \<notin> set p" using quads_chars is_hex_no_delimiter by blast
  then have sp: "split_on CHR ''.'' ?s = quads a" unfolding s by (intro split_on_join) (simp_all add: a)
  have l4: "list_all (\<lambda>g. length g = 4) (quads a)" using quads_chars by (simp add: list_all_iff)
  show ?thesis
    unfolding ParseMAC_def Let_def sp quads_pairs [OF ev] all_some_hex using len assms c2 c4 l4 by auto
qed

text \<open>C38. A MAC address printed in the colon, dash or dot notation is parsed back.\<close>

theorem macAddrFormat_roundtrip:
  assumes "length mac \<in> {6, 8, 20}" and "f \<in> {''colon'', ''dot'', ''dash''}"
  shows "ParseMAC (macAddrFormat mac f) = Some mac"
  using assms ParseMAC_delimited [of mac "CHR '':''"] ParseMAC_delimited [of mac "CHR ''-''"] ParseMAC_dotted [of mac]
  by (auto simp: macAddrFormat_def MacAddrFormatColon_def MacAddrFormatDot_def MacAddrFormatDash_def
      HardwareAddr_String_def dashNotation_join)

theorem macAddrFormat_roundtrip_witness:
  "ParseMAC (macAddrFormat [2, 0, 94, 16, 0, 1] ''dot'') = Some [2, 0, 94, 16, 0, 1]"
  using macAddrFormat_roundtrip [of "[2, 0, 94, 16, 0, 1]" "''dot''"] by simp

end
