(* ===== verification/Smee_Iso.thy ===== *)
theory Smee_Iso
  imports Smee_Data
begin

text \<open>
  ISO serving, \<open>src/smee/internal/iso\<close>: the kernel parameters written into an image
  (\<open>constructPatch\<close>, \<open>ipam.go\<close>), the streaming copy that writes them over a placeholder, and
  the request handling with its redirect limit.

  A source is the list of the byte blocks its \<open>Read\<close> calls return without an error and the
  last call, which returns an error. A writer and the HTTP transport are functions over a
  world. \<open>ResolveReference\<close> and URL parsing are operations of \<open>iso_lib\<close>.
\<close>


section \<open>Configuration and requests\<close>

record KernelParams =
  kp_ExtraParams :: "string list"
  kp_Syslog :: string
  kp_TinkServerTLS :: bool
  kp_TinkServerGRPCAddr :: string

record Patch =
  pa_KernelParams :: KernelParams
  pa_MagicString :: string
  pa_magicStrPadding :: string
  pa_SourceISO :: string
  pa_StaticIPAMEnabled :: bool

record IsoHandler =
  iso_Backend :: reader
  iso_Patch :: Patch

record iso_lib = smee_lib +
  il_ResolveReference :: "URL \<Rightarrow> URL \<Rightarrow> URL"

record IsoRequest =
  ir_URL :: URL
  ir_Patch :: "string option"  \<comment> \<open>the patch in the context\<close>

datatype IsoResponse =
    LocalResponse nat                       \<comment> \<open>made by the handler, with its status code\<close>
  | UpstreamResponse nat string             \<comment> \<open>status code and \<open>Location\<close> header\<close>

definition defaultConsoles :: string where
  "defaultConsoles = ''console=ttyAMA0 console=ttyS0 console=tty0 console=tty1 console=ttyS1''"

definition validateURL :: "URL option \<Rightarrow> gerr + URL" where
  "validateURL u0 =
     (case u0 of
        None \<Rightarrow> Inl (NewError ''URL is nil'')
      | Some u \<Rightarrow>
          if u_Scheme u = ''http'' \<or> u_Scheme u = ''https'' then Inr u
          else Inl (NewError (''unsupported scheme in URL: '' @ u_Scheme u @ '' (only http and https are allowed)'')))"

text \<open>\<open>HandlerFunc\<close>: the padding is set when the configured source is acceptable.\<close>

definition iso_HandlerFunc :: "iso_lib \<Rightarrow> IsoHandler \<Rightarrow> gerr + IsoHandler" where
  "iso_HandlerFunc L h =
     (let src = pa_SourceISO (iso_Patch h);
          padded = h\<lparr>iso_Patch := (iso_Patch h)\<lparr>pa_magicStrPadding := replicate (length (pa_MagicString (iso_Patch h))) CHR '' ''\<rparr>\<rparr>
      in if src = [] then Inr padded
         else (case sl_Parse L src of
                 Inl e \<Rightarrow> Inl e
               | Inr t \<Rightarrow>
                   (case validateURL (Some t) of
                      Inl e \<Rightarrow> Inl (NewError (''unsupported scheme in SourceISO: '' @ u_Scheme t @
                                 '' (only http and https are supported)''))
                    | Inr u \<Rightarrow> Inr padded)))"

definition targetURL :: "iso_lib \<Rightarrow> string \<Rightarrow> string \<Rightarrow> gerr + URL" where
  "targetURL L fromHW fromConfig =
     (if fromHW \<noteq> [] then
        (case sl_Parse L fromHW of
           Inl e \<Rightarrow> Inl (errorf ''invalid sourceISO URL in hardware: '' e)
         | Inr u \<Rightarrow> validateURL (Some u))
      else if fromConfig \<noteq> [] then
        (case sl_Parse L fromConfig of
           Inl e \<Rightarrow> Inl (errorf ''invalid sourceISO URL in default: '' e)
         | Inr u \<Rightarrow> validateURL (Some u))
      else Inl (NewError ''no ISO provided, one from query parameter, hardware object, or config must be set''))"


section \<open>The patch text\<close>

definition replace_char :: "char \<Rightarrow> char \<Rightarrow> string \<Rightarrow> string" where
  "replace_char a b s = map (\<lambda>c. if c = a then b else c) s"

definition addr_text :: "Addr option \<Rightarrow> string" where
  "addr_text a = (case a of None \<Rightarrow> [] | Some x \<Rightarrow> Addr_String x)"

definition ipam_fields :: "SmeeDHCP \<Rightarrow> string list" where
  "ipam_fields d =
     [replace_char CHR '':'' CHR ''-'' (HardwareAddr_String (sd_MACAddress d)),
      sd_VLANID d,
      addr_text (sd_IPAddress d),
      (if sd_SubnetMask d \<noteq> [] then IP_String (sd_SubnetMask d) else []),
      addr_text (sd_DefaultGateway d),
      sd_Hostname d,
      join_str '','' (map IP_String (sd_NameServers d)),
      join_str '','' (sd_DomainSearch d),
      join_str '','' (map IP_String (sd_NTPServers d))]"

definition parseIPAM :: "SmeeDHCP option \<Rightarrow> string" where
  "parseIPAM d = (case d of None \<Rightarrow> [] | Some x \<Rightarrow> ''ipam='' @ join_str '':'' (ipam_fields x))"

definition constructPatch :: "IsoHandler \<Rightarrow> string \<Rightarrow> string \<Rightarrow> SmeeDHCP option \<Rightarrow> string" where
  "constructPatch h console mac d =
     (let kp = pa_KernelParams (iso_Patch h);
          vlan = (case d of None \<Rightarrow> [] | Some x \<Rightarrow> if sd_VLANID x \<noteq> [] then [''vlan_id='' @ sd_VLANID x] else []);
          all = [console] @ vlan
            @ [''hw_addr='' @ mac, ''syslog_host='' @ kp_Syslog kp, ''grpc_authority='' @ kp_TinkServerGRPCAddr kp,
               ''tinkerbell_tls='' @ string_of_bool (kp_TinkServerTLS kp), ''worker_id='' @ mac]
            @ kp_ExtraParams kp
            @ (if pa_StaticIPAMEnabled (iso_Patch h) \<and> parseIPAM d \<noteq> [] then [parseIPAM d] else [])
      in join_str '' '' all)"

definition iso_consoles :: "string \<Rightarrow> string" where
  "iso_consoles fac =
     (if fac \<noteq> [] \<and> contains_str ''console='' fac then ''facility='' @ fac
      else if fac \<noteq> [] then ''facility='' @ fac @ '' '' @ defaultConsoles
      else defaultConsoles)"


section \<open>Copying a body\<close>

datatype read_err = EOF | ReadErr gerr

definition patch_chunk :: "string \<Rightarrow> string \<Rightarrow> string \<Rightarrow> string \<Rightarrow> string" where
  "patch_chunk magic pad patch b =
     (case index_of magic b of
        None \<Rightarrow> b
      | Some i \<Rightarrow> copy_at i patch (copy_at i pad b))"

definition ErrShortWrite :: gerr where
  "ErrShortWrite = NewError ''short write''"

text \<open>One block: nothing to write if it is empty; \<open>Inl\<close> ends the copy.\<close>

definition copy_block ::
  "(string \<Rightarrow> 'w \<Rightarrow> (int \<times> gerr option) \<times> 'w) \<Rightarrow> string \<Rightarrow> string \<Rightarrow> string \<Rightarrow> string \<Rightarrow> int \<Rightarrow> 'w \<Rightarrow>
     ((int \<times> gerr) + int) \<times> 'w" where
  "copy_block wr magic pad patch b written w =
     (if b = [] then (Inr written, w)
      else
        (case wr (patch_chunk magic pad patch b) w of
           ((nw, werr), w') \<Rightarrow>
             (let written' = (if 0 < nw then written + nw else written) in
              case werr of
                Some e \<Rightarrow> (Inl (written', e), w')
              | None \<Rightarrow> if nw \<noteq> int (length b) then (Inl (written', ErrShortWrite), w') else (Inr written', w'))))"

fun copy_loop ::
  "(string \<Rightarrow> 'w \<Rightarrow> (int \<times> gerr option) \<times> 'w) \<Rightarrow> string \<Rightarrow> string \<Rightarrow> string \<Rightarrow> string list \<Rightarrow> string \<times> read_err \<Rightarrow>
     int \<Rightarrow> 'w \<Rightarrow> (int \<times> gerr option) \<times> 'w" where
  "copy_loop wr magic pad patch [] (b, rerr) written w =
     (case copy_block wr magic pad patch b written w of
        (Inl (n, e), w') \<Rightarrow> ((n, Some e), w')
      | (Inr n, w') \<Rightarrow> ((n, case rerr of EOF \<Rightarrow> None | ReadErr e \<Rightarrow> Some e), w'))"
| "copy_loop wr magic pad patch (b # bs) fin written w =
     (case copy_block wr magic pad patch b written w of
        (Inl (n, e), w') \<Rightarrow> ((n, Some e), w')
      | (Inr n, w') \<Rightarrow> copy_loop wr magic pad patch bs fin n w')"

definition iso_Copy ::
  "IsoHandler \<Rightarrow> string option \<Rightarrow> (string \<Rightarrow> 'w \<Rightarrow> (int \<times> gerr option) \<times> 'w) \<Rightarrow> string list \<Rightarrow> string \<times> read_err \<Rightarrow>
     'w \<Rightarrow> (int \<times> gerr option) \<times> 'w" where
  "iso_Copy h ctx wr blocks fin w =
     copy_loop wr (pa_MagicString (iso_Patch h)) (pa_magicStrPadding (iso_Patch h))
       (case ctx of Some p \<Rightarrow> p | None \<Rightarrow> []) blocks fin 0 w"


section \<open>Round trips\<close>

definition iso_getMAC :: "string \<Rightarrow> gerr + bytes" where
  "iso_getMAC urlPath =
     (let mac = path_Base (path_Dir urlPath) in
      case ParseMAC mac of
        None \<Rightarrow> Inl (errorf (''failed to parse URL path: '' @ urlPath @
                 '' , the second to last element in the URL path must be a valid mac address, err: '') (mac_error mac))
      | Some m \<Rightarrow> Inr m)"

definition getFacility :: "iso_lib \<Rightarrow> bytes \<Rightarrow> reader \<Rightarrow> gerr + string \<times> SmeeHardware" where
  "getFacility L mac br =
     (case br of
        None \<Rightarrow> Inl (NewError ''backend is nil'')
      | Some rd \<Rightarrow>
          (case rd (empty_HardwareFilter\<lparr>hf_ByMACAddress := HardwareAddr_String mac\<rparr>) of
             Inl e \<Rightarrow> Inl e
           | Inr spec \<Rightarrow>
               (case ConvertByMac (smee_lib.truncate L) mac (Some spec) of
                  Inl e \<Rightarrow> Inl (errorf ''failed to convert hardware data: '' e)
                | Inr hw \<Rightarrow>
                    (case sh_Netboot hw of
                       None \<Rightarrow> Inl (PanicError ''nil pointer dereference'')
                     | Some n \<Rightarrow>
                         Inr (sn_Facility n, empty_SmeeHardware\<lparr>sh_DHCP := sh_DHCP hw, sh_Isoboot := sh_Isoboot hw\<rparr>)))))"

text \<open>The checks of the original request: a local response, or the request to send upstream.\<close>

definition prepare_request :: "iso_lib \<Rightarrow> IsoHandler \<Rightarrow> IsoRequest \<Rightarrow> nat + IsoRequest" where
  "prepare_request L h req =
     (if path_Ext (u_Path (ir_URL req)) \<noteq> ''.iso'' then Inl 404
      else
        (case iso_getMAC (u_Path (ir_URL req)) of
           Inl e \<Rightarrow> Inl 400
         | Inr ha \<Rightarrow>
             (case getFacility L ha (iso_Backend h) of
                Inl e \<Rightarrow> Inl (if IsNotFound e then 404 else 500)
              | Inr (fac, hw) \<Rightarrow>
                  (let patch = constructPatch h (iso_consoles fac) (HardwareAddr_String ha) (sh_DHCP hw);
                       fromHW = (case sh_Isoboot hw of None \<Rightarrow> []
                                 | Some i \<Rightarrow> (case si_SourceISO i of None \<Rightarrow> [] | Some u \<Rightarrow> URL_String u))
                   in case targetURL L fromHW (pa_SourceISO (iso_Patch h)) of
                        Inl e \<Rightarrow> Inl 400
                      | Inr tu \<Rightarrow>
                          Inr (req\<lparr>ir_Patch := Some patch,
                                   ir_URL := (ir_URL req)\<lparr>u_Path := u_Path tu, u_Host := u_Host tu, u_Scheme := u_Scheme tu\<rparr>\<rparr>)))))"

definition maxRedirects :: nat where
  "maxRedirects = 10"

definition too_many_redirects :: gerr where
  "too_many_redirects = NewError (''maximum redirect limit of '' @ string_of_nat maxRedirects @ '' exceeded'')"

definition redirect_target :: "iso_lib \<Rightarrow> IsoRequest \<Rightarrow> IsoResponse \<Rightarrow> (gerr + IsoRequest) option" where
  "redirect_target L req resp =
     (case resp of
        LocalResponse c \<Rightarrow> None
      | UpstreamResponse c loc \<Rightarrow>
          if 300 \<le> c \<and> c < 400 \<and> loc \<noteq> [] then
            Some (case sl_Parse L loc of
                    Inl e \<Rightarrow> Inl (errorf ''failed to parse redirect location: '' e)
                  | Inr u \<Rightarrow> Inr (req\<lparr>ir_URL := (if u_Scheme u = [] then il_ResolveReference L (ir_URL req) u else u)\<rparr>))
          else None)"

text \<open>The recursion of the sources: the count of followed redirects grows to the limit.\<close>

function roundTripWithRedirectCount ::
  "iso_lib \<Rightarrow> IsoHandler \<Rightarrow> (IsoRequest \<Rightarrow> 'w \<Rightarrow> (gerr + IsoResponse) \<times> 'w) \<Rightarrow> IsoRequest \<Rightarrow> nat \<Rightarrow> 'w \<Rightarrow>
     (gerr + IsoResponse) \<times> 'w" where
  "roundTripWithRedirectCount L h tr req redirectCount w =
     (if maxRedirects < redirectCount then (Inl too_many_redirects, w)
      else
        (case (if 0 < redirectCount then Inr req else prepare_request L h req) of
           Inl c \<Rightarrow> (Inr (LocalResponse c), w)
         | Inr req' \<Rightarrow>
             (case tr req' w of
                (Inl e, w') \<Rightarrow> (Inl e, w')
              | (Inr resp, w') \<Rightarrow>
                  (case redirect_target L req' resp of
                     None \<Rightarrow> (Inr resp, w')
                   | Some (Inl e) \<Rightarrow> (Inl e, w')
                   | Some (Inr req'') \<Rightarrow> roundTripWithRedirectCount L h tr req'' (Suc redirectCount) w'))))"
  by pat_completeness auto

termination
  by (relation "measure (\<lambda>(L, h, tr, req, n, w). Suc maxRedirects - n)") auto

declare roundTripWithRedirectCount.simps [simp del]

definition RoundTrip ::
  "iso_lib \<Rightarrow> IsoHandler \<Rightarrow> (IsoRequest \<Rightarrow> 'w \<Rightarrow> (gerr + IsoResponse) \<times> 'w) \<Rightarrow> IsoRequest \<Rightarrow> 'w \<Rightarrow>
     (gerr + IsoResponse) \<times> 'w" where
  "RoundTrip L h tr req w = roundTripWithRedirectCount L h tr req 0 w"


section \<open>Properties of the copy\<close>

text \<open>A writer that keeps everything.\<close>

definition sink :: "string \<Rightarrow> string \<Rightarrow> (int \<times> gerr option) \<times> string" where
  "sink b w = ((int (length b), None), w @ b)"

lemma length_patch_chunk [simp]: "length (patch_chunk magic pad patch b) = length b"
proof (cases "index_of magic b")
  case (Some i)
  then have "i \<le> length b" using index_of_le by fastforce
  with Some show ?thesis by (simp add: patch_chunk_def)
qed (simp add: patch_chunk_def)

lemma copy_block_sink:
  "copy_block sink magic pad patch b n w = (Inr (n + int (length b)), w @ patch_chunk magic pad patch b)"
proof (cases b)
  case Nil
  have "patch_chunk magic pad patch [] = []" by (metis length_0_conv length_patch_chunk)
  with Nil show ?thesis by (simp add: copy_block_def sink_def)
next
  case (Cons c cs)
  then show ?thesis using length_patch_chunk [of magic pad patch b] by (simp add: copy_block_def sink_def Let_def del: length_patch_chunk)
qed

lemma copy_loop_sink:
  "copy_loop sink magic pad patch bs (b, EOF) n w =
     ((n + int (length (concat (bs @ [b]))), None), w @ concat (map (patch_chunk magic pad patch) (bs @ [b])))"
  by (induction bs arbitrary: n w) (simp_all add: copy_block_sink)

lemma iso_Copy_sink:
  "iso_Copy h (Some patch) sink bs (b, EOF) [] =
     ((int (length (concat (bs @ [b]))), None),
      concat (map (patch_chunk (pa_MagicString (iso_Patch h)) (pa_magicStrPadding (iso_Patch h)) patch) (bs @ [b])))"
  by (simp add: iso_Copy_def copy_loop_sink)

text \<open>Where the placeholder is and the parameters fit, the block gets the parameters padded with
  blanks and is unchanged elsewhere.\<close>

lemma patch_chunk_fits:
  assumes "index_of magic b = Some i" and "length patch \<le> length magic" and "magic \<noteq> []"
  shows "patch_chunk magic (replicate (length magic) CHR '' '') patch b =
    take i b @ patch @ replicate (length magic - length patch) CHR '' '' @ drop (i + length magic) b"
proof -
  have fit: "i + length magic \<le> length b" by (rule index_of_le [OF assms(1)])
  then have "copy_at i (replicate (length magic) CHR '' '') b =
      take i b @ replicate (length magic) CHR '' '' @ drop (i + length magic) b"
    by (simp add: copy_at_def)
  then show ?thesis
    using fit assms by (simp add: patch_chunk_def copy_at_def)
qed

lemma patch_chunk_none: "index_of magic b = None \<Longrightarrow> patch_chunk magic pad patch b = b"
  by (simp add: patch_chunk_def)

text \<open>C12. Copying an image through the patching handler never changes its length, so byte ranges
  and the content length stay valid. If the placeholder occurs in one block of the stream and
  the kernel parameters are not longer than it, the client receives the image with the
  placeholder replaced by the parameters and blanks and every other byte as it was.\<close>

theorem iso_Copy_patches_image:
  assumes "iso_HandlerFunc L h0 = Inr h" and "img = concat (bs @ [b])"
  shows "\<exists>out. iso_Copy h (Some patch) sink bs (b, EOF) [] = ((int (length img), None), out) \<and>
    length out = length img \<and>
    (\<forall>pre c post j. bs @ [b] = pre @ c # post \<and> index_of (pa_MagicString (iso_Patch h)) c = Some j \<and>
       (\<forall>d \<in> set (pre @ post). index_of (pa_MagicString (iso_Patch h)) d = None) \<and>
       length patch \<le> length (pa_MagicString (iso_Patch h)) \<and> pa_MagicString (iso_Patch h) \<noteq> [] \<longrightarrow>
       (let i = length (concat pre) + j; m = length (pa_MagicString (iso_Patch h)) in
        out = take i img @ patch @ replicate (m - length patch) CHR '' '' @ drop (i + m) img))"
proof -
  let ?magic = "pa_MagicString (iso_Patch h)"
  have pad: "pa_magicStrPadding (iso_Patch h) = replicate (length ?magic) CHR '' ''"
  proof (cases "pa_SourceISO (iso_Patch h0) = []")
    case True
    with assms(1) show ?thesis by (auto simp: iso_HandlerFunc_def Let_def)
  next
    case False
    with assms(1) obtain t where t: "sl_Parse L (pa_SourceISO (iso_Patch h0)) = Inr t"
      by (cases "sl_Parse L (pa_SourceISO (iso_Patch h0))") (simp_all add: iso_HandlerFunc_def Let_def)
    with assms(1) False show ?thesis
      by (cases "validateURL (Some t)") (auto simp: iso_HandlerFunc_def Let_def)
  qed
  define f where "f = patch_chunk ?magic (replicate (length ?magic) CHR '' '') patch"
  have len: "length (concat (map f xs)) = length (concat xs)" for xs
    by (induction xs) (simp_all add: f_def)
  have "out = take i img @ patch @ replicate (length ?magic - length patch) CHR '' '' @ drop (i + length ?magic) img"
    if out: "out = concat (map f (bs @ [b]))" and split: "bs @ [b] = pre @ c # post"
      and c: "index_of ?magic c = Some j" and others: "\<forall>d \<in> set (pre @ post). index_of ?magic d = None"
      and fits: "length patch \<le> length ?magic" "?magic \<noteq> []" and i: "i = length (concat pre) + j"
    for out pre c post i j
  proof -
    have "map f pre = pre" "map f post = post"
      using others by (auto simp: f_def patch_chunk_none intro: map_idI)
    then have "out = concat pre @ f c @ concat post" using out split by simp
    moreover have "f c = take j c @ patch @ replicate (length ?magic - length patch) CHR '' '' @ drop (j + length ?magic) c"
      unfolding f_def by (rule patch_chunk_fits [OF c fits])
    moreover have "j + length ?magic \<le> length c" by (rule index_of_le [OF c])
    moreover have "img = concat pre @ c @ concat post" using assms(2) split by simp
    ultimately show ?thesis by (simp add: i)
  qed
  note patched = this
  show ?thesis
  proof (intro exI conjI allI impI)
    show "iso_Copy h (Some patch) sink bs (b, EOF) [] = ((int (length img), None), concat (map f (bs @ [b])))"
      unfolding iso_Copy_sink pad f_def assms(2) ..
    show "length (concat (map f (bs @ [b]))) = length img"
      unfolding assms(2) by (rule len)
  qed (unfold Let_def, elim conjE, rule patched [OF refl _ _ _ _ _ refl], assumption+)
qed

definition ex_iso :: IsoHandler where
  "ex_iso = \<lparr>iso_Backend = None, iso_Patch = \<lparr>pa_KernelParams = \<lparr>kp_ExtraParams = [], kp_Syslog = [], kp_TinkServerTLS = False,
     kp_TinkServerGRPCAddr = []\<rparr>, pa_MagicString = ''MAGIC'', pa_magicStrPadding = [], pa_SourceISO = [],
     pa_StaticIPAMEnabled = False\<rparr>\<rparr>"

definition ex_iso_ready :: IsoHandler where
  "ex_iso_ready = ex_iso\<lparr>iso_Patch := (iso_Patch ex_iso)\<lparr>pa_magicStrPadding := replicate 5 CHR '' ''\<rparr>\<rparr>"

lemma ex_iso_ready: "iso_HandlerFunc L ex_iso = Inr ex_iso_ready"
  by (simp add: iso_HandlerFunc_def ex_iso_def ex_iso_ready_def numeral_eq_Suc)

theorem iso_Copy_patches_image_witness:
  "iso_Copy ex_iso_ready (Some ''a=1'') sink [''head'', ''xMAGICy''] (''tail'', EOF) [] = ((15, None), ''headxa=1  ytail'')"
proof -
  have idx: "index_of ''MAGIC'' ''xMAGICy'' = Some 1" "index_of ''MAGIC'' ''head'' = None" "index_of ''MAGIC'' ''tail'' = None"
    by code_simp+
  have m: "pa_MagicString (iso_Patch ex_iso_ready) = ''MAGIC''" by (simp add: ex_iso_ready_def ex_iso_def)
  obtain out where out: "iso_Copy ex_iso_ready (Some ''a=1'') sink [''head'', ''xMAGICy''] (''tail'', EOF) [] =
      ((int (length (concat [''head'', ''xMAGICy'', ''tail''])), None), out)"
    and spec: "\<forall>pre c post j. [''head'', ''xMAGICy''] @ [''tail''] = pre @ c # post \<and>
       index_of (pa_MagicString (iso_Patch ex_iso_ready)) c = Some j \<and>
       (\<forall>d \<in> set (pre @ post). index_of (pa_MagicString (iso_Patch ex_iso_ready)) d = None) \<and>
       length ''a=1'' \<le> length (pa_MagicString (iso_Patch ex_iso_ready)) \<and> pa_MagicString (iso_Patch ex_iso_ready) \<noteq> [] \<longrightarrow>
       (let i = length (concat pre) + j; m = length (pa_MagicString (iso_Patch ex_iso_ready)) in
        out = take i (concat [''head'', ''xMAGICy'', ''tail'']) @ ''a=1'' @ replicate (m - length ''a=1'') CHR '' '' @
          drop (i + m) (concat [''head'', ''xMAGICy'', ''tail'']))"
    using iso_Copy_patches_image [OF ex_iso_ready, where bs = "[''head'', ''xMAGICy'']" and b = "''tail''" and patch = "''a=1''"
        and img = "concat [''head'', ''xMAGICy'', ''tail'']"] by auto
  have "out = ''headxa=1  ytail''"
    using spec [rule_format, of "[''head'']" "''xMAGICy''" "[''tail'']" 1] by (simp add: m idx numeral_eq_Suc)
  with out show ?thesis by simp
qed

text \<open>Parameters longer than the placeholder are written all the same, over the bytes behind it,
  and a placeholder cut by a block boundary is not found.\<close>

lemma long_patch_overwrites_image:
  "iso_Copy ex_iso_ready (Some ''console=ttyS0'') sink [] (''MAGIC:vmlinuz:initrd'', EOF) [] =
     ((20, None), ''console=ttyS0:initrd'')"
  by code_simp

lemma split_placeholder_is_kept:
  "iso_Copy ex_iso_ready (Some ''a=1'') sink [''xMAG''] (''ICy'', EOF) [] = ((7, None), ''xMAGICy'')"
  by code_simp


section \<open>Properties of round trips\<close>

text \<open>The transport with a counter of the requests sent.\<close>

definition counted ::
  "(IsoRequest \<Rightarrow> 'w \<Rightarrow> (gerr + IsoResponse) \<times> 'w) \<Rightarrow> IsoRequest \<Rightarrow> nat \<times> 'w \<Rightarrow> (gerr + IsoResponse) \<times> nat \<times> 'w" where
  "counted tr req s = (case tr req (snd s) of (r, w') \<Rightarrow> (r, Suc (fst s), w'))"

lemma roundTrip_count:
  "n \<le> Suc maxRedirects \<Longrightarrow>
   fst (snd (roundTripWithRedirectCount L h (counted tr) req n s)) \<le> fst s + (Suc maxRedirects - n)"
proof (induction "Suc maxRedirects - n" arbitrary: n req s)
  case 0
  then show ?case by (subst roundTripWithRedirectCount.simps) simp
next
  case (Suc d)
  then have n: "\<not> maxRedirects < n" by simp
  show ?case
  proof (cases "if 0 < n then Inr req else prepare_request L h req")
    case (Inl c)
    with n show ?thesis by (subst roundTripWithRedirectCount.simps) simp
  next
    case (Inr req')
    note prep = this
    obtain r w' where tr: "tr req' (snd s) = (r, w')" by fastforce
    then have sent: "counted tr req' s = (r, Suc (fst s), w')" by (simp add: counted_def)
    show ?thesis
    proof (cases r)
      case (Inl e)
      with n prep sent show ?thesis by (subst roundTripWithRedirectCount.simps) simp
    next
      case (Inr resp)
      note step = n prep sent Inr
      show ?thesis
      proof (cases "redirect_target L req' resp")
        case None
        with step show ?thesis by (subst roundTripWithRedirectCount.simps) simp
      next
        case (Some t)
        note target = this
        show ?thesis
        proof (cases t)
          case (Inl e)
          with step target show ?thesis by (subst roundTripWithRedirectCount.simps) simp
        next
          case (Inr req'')
          have "fst (snd (roundTripWithRedirectCount L h (counted tr) req'' (Suc n) (Suc (fst s), w'))) \<le>
              fst (Suc (fst s), w') + (Suc maxRedirects - Suc n)"
            by (rule Suc.hyps(1)) (use Suc.hyps(2) n in simp_all)
          with step target Inr show ?thesis by (subst roundTripWithRedirectCount.simps) simp
        qed
      qed
    qed
  qed
qed

lemma roundTrip_endless:
  assumes "\<And>req w. tr req w = (Inr (UpstreamResponse 302 loc), w)" and "sl_Parse L loc = Inr u" and "loc \<noteq> []"
    and "0 < n"
  shows "n \<le> Suc maxRedirects \<Longrightarrow>
    roundTripWithRedirectCount L h (counted tr) req n s = (Inl too_many_redirects, fst s + (Suc maxRedirects - n), snd s)"
  using assms(4)
proof (induction "Suc maxRedirects - n" arbitrary: n req s)
  case 0
  then show ?case by (subst roundTripWithRedirectCount.simps) simp
next
  case (Suc d)
  have IH: "roundTripWithRedirectCount L h (counted tr) req'' (Suc n) (Suc (fst s), snd s) =
      (Inl too_many_redirects, fst (Suc (fst s), snd s) + (Suc maxRedirects - Suc n), snd (Suc (fst s), snd s))" for req''
    by (rule Suc.hyps(1)) (use Suc.hyps(2) Suc.prems in simp_all)
  have "\<not> maxRedirects < n" using Suc.hyps(2) by simp
  then show ?case
    using Suc.prems assms(2,3)
    by (subst roundTripWithRedirectCount.simps)
      (simp add: counted_def assms(1) redirect_target_def IH Suc_diff_le)
qed

text \<open>C11. Serving a request for an image ends, whatever the upstream servers answer: at most
  eleven requests leave the handler, the original and ten redirects. An upstream that redirects
  every request is asked exactly eleven times and the client gets the redirect limit error.\<close>

theorem RoundTrip_bounded:
  "fst (snd (RoundTrip L h (counted tr) req (0, w))) \<le> 11 \<and>
   (prepare_request L h req = Inr req' \<longrightarrow> sl_Parse L loc = Inr u \<longrightarrow> loc \<noteq> [] \<longrightarrow>
    (\<forall>r v. tr r v = (Inr (UpstreamResponse 302 loc), v)) \<longrightarrow>
    RoundTrip L h (counted tr) req (0, w) = (Inl too_many_redirects, 11, w))"
proof (intro conjI impI)
  show "fst (snd (RoundTrip L h (counted tr) req (0, w))) \<le> 11"
    using roundTrip_count [of 0 L h tr req "(0, w)"] by (simp add: RoundTrip_def maxRedirects_def)
  assume *: "prepare_request L h req = Inr req'" "sl_Parse L loc = Inr u" "loc \<noteq> []"
    "\<forall>r v. tr r v = (Inr (UpstreamResponse 302 loc), v)"
  have "roundTripWithRedirectCount L h (counted tr) req'' 1 (1, w) = (Inl too_many_redirects, 11, w)" for req''
    using roundTrip_endless [of tr loc L u 1 h req'' "(1, w)"] * by (simp add: maxRedirects_def)
  then show "RoundTrip L h (counted tr) req (0, w) = (Inl too_many_redirects, 11, w)"
    unfolding RoundTrip_def using *
    by (subst roundTripWithRedirectCount.simps) (simp add: counted_def redirect_target_def)
qed

definition ex_iso_lib :: iso_lib where
  "ex_iso_lib = \<lparr>sl_Parse = (\<lambda>s. Inr (empty_URL\<lparr>u_Scheme := ''http'', u_Path := s\<rparr>)),
     sl_ParseRequestURI = (\<lambda>s. Inr (empty_URL\<lparr>u_Path := s\<rparr>)),
     sl_ToUint32 = (\<lambda>v. if 0 \<le> v \<and> v < 2 ^ 32 then Some (of_int v) else None), sl_Quote = (\<lambda>s. s),
     il_ResolveReference = (\<lambda>base u. u)\<rparr>"

definition ex_iso_hardware :: Hardware where
  "ex_iso_hardware = empty_Hardware\<lparr>Hardware_Spec := empty_HardwareSpec\<lparr>hw_Interfaces :=
     [empty_Interface\<lparr>if_Netboot := Some empty_Netboot,
        if_DHCP := Some \<lparr>dhcp_MAC = ''02:00:00:00:00:01'', dhcp_Hostname = [], dhcp_DomainName = [],
          dhcp_LeaseTime = 60, dhcp_NameServers = [], dhcp_TimeServers = [], dhcp_Arch = [], dhcp_UEFI = True,
          dhcp_IfaceName = [],
          dhcp_IP = Some \<lparr>ip_Address = ''10.0.0.5'', ip_Netmask = ''255.255.255.0'', ip_Gateway = [], ip_Family = 4\<rparr>,
          dhcp_VLANID = [], dhcp_ClasslessStaticRoutes = [], dhcp_TFTPServerName = [], dhcp_BootFileName = []\<rparr>\<rparr>]\<rparr>\<rparr>"

definition ex_iso_serving :: IsoHandler where
  "ex_iso_serving = ex_iso\<lparr>iso_Backend := Some (\<lambda>f. Inr ex_iso_hardware),
     iso_Patch := (iso_Patch ex_iso)\<lparr>pa_SourceISO := ''/hook.iso''\<rparr>\<rparr>"

definition ex_iso_request :: IsoRequest where
  "ex_iso_request = \<lparr>ir_URL = empty_URL\<lparr>u_Path := ''/iso/02:00:00:00:00:01/hook.iso''\<rparr>, ir_Patch = None\<rparr>"

theorem RoundTrip_bounded_witness:
  "RoundTrip ex_iso_lib ex_iso_serving (counted (\<lambda>r v. (Inr (UpstreamResponse 302 ''/next''), v))) ex_iso_request (0, ()) =
     (Inl too_many_redirects, 11, ())"
proof -
  have "(case prepare_request ex_iso_lib ex_iso_serving ex_iso_request of Inl c \<Rightarrow> False | Inr r \<Rightarrow> True)"
    by code_simp
  then obtain req' where "prepare_request ex_iso_lib ex_iso_serving ex_iso_request = Inr req'"
    by (cases "prepare_request ex_iso_lib ex_iso_serving ex_iso_request") auto
  moreover have "sl_Parse ex_iso_lib ''/next'' = Inr (empty_URL\<lparr>u_Scheme := ''http'', u_Path := ''/next''\<rparr>)"
    by (simp add: ex_iso_lib_def)
  ultimately show ?thesis
    using RoundTrip_bounded [where L = ex_iso_lib and h = ex_iso_serving and req = ex_iso_request and loc = "''/next''"
        and tr = "\<lambda>r v. (Inr (UpstreamResponse 302 ''/next''), v)" and w = "()"] by simp
qed


section \<open>The network configuration parameter\<close>

text \<open>The nine fields of the parameter can be read back when no field has a colon. An IPv6
  address has colons, and the reader of the parameter sees more fields.\<close>

lemma ipam_fields_read_back:
  assumes "\<forall>f \<in> set (ipam_fields d). CHR '':'' \<notin> set f"
  shows "split_on CHR '':'' (drop (length ''ipam='') (parseIPAM (Some d))) = ipam_fields d"
  using split_on_join [of "ipam_fields d" "CHR '':''"] assms by (simp add: parseIPAM_def ipam_fields_def)

lemma ipam_of_ipv6_has_more_fields:
  "length (split_on CHR '':'' (parseIPAM (Some (empty_SmeeDHCP\<lparr>sd_IPAddress := Some (Addr6 (replicate 15 0 @ [1]) [])\<rparr>)))) = 11"
  by code_simp

end
