(* ===== verification/Smee_Syslog.thy ===== *)
theory Smee_Syslog
  imports Net_Text "HOL-Library.Multiset"
begin

text \<open>
  The syslog receiver, \<open>src/smee/internal/syslog\<close>: the parser of \<open>message.go\<close> and the
  goroutines of \<open>receiver.go\<close> with the pool of message buffers they share.

  A message keeps the 32768-byte array of the source as a function from indices, since a pooled
  array holds bytes of earlier datagrams beyond \<open>size\<close>. Slices are optional strings: \<open>None\<close> is
  a nil slice. The two \<open>time.Parse\<close> layouts, \<open>json.Unmarshal\<close> and the \<open>%q\<close> verb are
  operations of \<open>syslog_lib\<close>; the calendar is modelled.
\<close>


section \<open>The calendar\<close>

text \<open>Days since the epoch of a date of the Gregorian calendar, with the normalisation
  \<open>time.Date\<close> applies to a day beyond the end of its month, and back.\<close>

definition days_of_date :: "int \<Rightarrow> int \<Rightarrow> int \<Rightarrow> int" where
  "days_of_date y mo d =
     (let y' = (if mo \<le> 2 then y - 1 else y); yoe = y' mod 400; doy = (153 * ((mo + 9) mod 12) + 2) div 5 + d - 1
      in (y' div 400) * 146097 + yoe * 365 + yoe div 4 - yoe div 100 + doy - 719468)"

definition date_of_days :: "int \<Rightarrow> int \<times> int \<times> int" where
  "date_of_days z0 =
     (let z = z0 + 719468; doe = z mod 146097;
          yoe = (doe - doe div 1460 + doe div 36524 - doe div 146096) div 365;
          doy = doe - (365 * yoe + yoe div 4 - yoe div 100);
          mp = (5 * doy + 2) div 153;
          mo = (if mp < 10 then mp + 3 else mp - 9)
      in (yoe + (z div 146097) * 400 + (if mo \<le> 2 then 1 else 0), mo, doy - (153 * mp + 2) div 5 + 1))"

abbreviation day_ns :: int where
  "day_ns \<equiv> 86400000000000"

abbreviation hour :: duration where
  "hour \<equiv> 3600000000000"

definition Year :: "time \<Rightarrow> int" where
  "Year t = fst (date_of_days (t div day_ns))"

text \<open>\<open>t.AddDate(n, 0, 0)\<close>.\<close>

definition AddYears :: "time \<Rightarrow> int \<Rightarrow> time" where
  "AddYears t n =
     (case date_of_days (t div day_ns) of (y, mo, d) \<Rightarrow> days_of_date (y + n) mo d * day_ns + t mod day_ns)"

definition pad_nat :: "nat \<Rightarrow> int \<Rightarrow> string" where
  "pad_nat w n = (let s = string_of_nat (nat n) in replicate (w - length s) CHR ''0'' @ s)"

text \<open>\<open>t.Format("2006-01-02 15:04:05 ")\<close>.\<close>

definition format_stamp :: "time \<Rightarrow> string" where
  "format_stamp t =
     (case date_of_days (t div day_ns) of (y, mo, d) \<Rightarrow>
        let s = (t mod day_ns) div second in
        (if y < 0 then ''-'' @ pad_nat 4 (- y) else pad_nat 4 y) @ ''-'' @ pad_nat 2 mo @ ''-'' @ pad_nat 2 d @ '' '' @
        pad_nat 2 (s div 3600) @ '':'' @ pad_nat 2 (s div 60 mod 60) @ '':'' @ pad_nat 2 (s mod 60) @ '' '')"


section \<open>Messages\<close>

record 'j syslog_lib =
  sy_ParseStamp :: "string \<Rightarrow> time option"
  sy_ParseTimestamp :: "string \<Rightarrow> time option"
  sy_Unmarshal :: "string \<Rightarrow> 'j option"
  sy_Quote :: "string \<Rightarrow> string"

record message =
  m_buf :: "nat \<Rightarrow> char"
  m_size :: nat
  m_time :: time
  m_host :: bytes
  m_priority :: "8 word"
  m_hostname :: "string option"
  m_app :: "string option"
  m_procid :: "string option"
  m_msgid :: "string option"
  m_msg :: "string option"

definition maxBuf :: nat where
  "maxBuf = 32768"

definition new_message :: message where
  "new_message = \<lparr>m_buf = (\<lambda>i. CHR 0x00), m_size = 0, m_time = zero_time, m_host = [], m_priority = 0, m_hostname = None,
     m_app = None, m_procid = None, m_msgid = None, m_msg = None\<rparr>"

text \<open>\<open>m.buf[a:b]\<close>; the bytes of a slice, none for nil.\<close>

definition buf_slice :: "message \<Rightarrow> nat \<Rightarrow> nat \<Rightarrow> gerr + string" where
  "buf_slice m a b =
     (if a \<le> b \<and> b \<le> maxBuf then Inr (map (m_buf m) [a..<b]) else Inl (PanicError ''slice bounds out of range''))"

definition slice_bytes :: "string option \<Rightarrow> string" where
  "slice_bytes s = (case s of None \<Rightarrow> [] | Some b \<Rightarrow> b)"

definition facility_names :: "string list" where
  "facility_names =
     [''kern'', ''user'', ''mail'', ''daemon'', ''auth'', ''syslog'', ''lpr'', ''news'', ''uucp'', ''clock'', ''authpriv'',
      ''ftp'', ''ntp'', ''audit'', ''alert'', ''cron'', ''local0'', ''local1'', ''local2'', ''local3'', ''local4'',
      ''local5'', ''local6'', ''local7'']"

definition facility_String :: "nat \<Rightarrow> string" where
  "facility_String i =
     (if length facility_names \<le> i then ''facility('' @ string_of_nat i @ '')'' else facility_names ! i)"

definition severity_names :: "string list" where
  "severity_names = [''EMERG'', ''ALERT'', ''CRIT'', ''ERR'', ''WARNING'', ''NOTICE'', ''INFO'', ''DEBUG'']"

definition severity_String :: "nat \<Rightarrow> string" where
  "severity_String i =
     (if length severity_names \<le> i then ''severity('' @ string_of_nat i @ '')'' else severity_names ! i)"

definition DEBUG :: nat where
  "DEBUG = 7"

definition Facility :: "message \<Rightarrow> nat" where
  "Facility m = unat (m_priority m) div 8"

definition Severity :: "message \<Rightarrow> nat" where
  "Severity m = unat (m_priority m) mod 8"

definition opt_field :: "string \<Rightarrow> string option \<Rightarrow> string list" where
  "opt_field k v = (case v of None \<Rightarrow> [] | Some s \<Rightarrow> [k @ s])"

definition message_String :: "'j syslog_lib \<Rightarrow> message \<Rightarrow> string" where
  "message_String L m =
     (case m_msg m of
        None \<Rightarrow> ''host='' @ IP_String (m_host m) @ '' syslog='' @ sy_Quote L (map (m_buf m) [0..<m_size m])
      | Some msg \<Rightarrow>
          join_str '' ''
            ([case m_hostname m of Some h \<Rightarrow> ''host='' @ h | None \<Rightarrow> ''host='' @ IP_String (m_host m)]
             @ [''facility='' @ facility_String (Facility m)]
             @ [''severity='' @ severity_String (Severity m)]
             @ opt_field ''app-name='' (m_app m)
             @ opt_field ''procid='' (m_procid m)
             @ opt_field ''msgid='' (m_msgid m)
             @ [''msg='' @ sy_Quote L (filter (\<lambda>c. c \<noteq> CHR 0x08) msg)]))"

definition message_reset :: "message \<Rightarrow> message" where
  "message_reset m = m\<lparr>m_priority := 0, m_hostname := None, m_app := None, m_procid := None, m_msgid := None, m_msg := None\<rparr>"


section \<open>Parsing\<close>

definition ignoreNil :: "string \<Rightarrow> string option" where
  "ignoreNil b = (if b = ''-'' then None else Some b)"

fun priority_loop :: "message \<Rightarrow> 8 word \<Rightarrow> nat list \<Rightarrow> gerr + bool \<times> message" where
  "priority_loop m pri [] = Inr (False, m)"
| "priority_loop m pri (i # is) =
     (let c = m_buf m (1 + i) in
      if c = CHR ''>'' then
        (case buf_slice m (1 + i + 1) (m_size m) of
           Inl e \<Rightarrow> Inl e
         | Inr s \<Rightarrow> Inr (True, m\<lparr>m_priority := pri, m_msg := Some s\<rparr>))
      else if \<not> is_digit c then Inr (False, m)
      else priority_loop m (pri * 10 + of_nat (of_char c) - 48) is)"

definition parsePriority :: "message \<Rightarrow> gerr + bool \<times> message" where
  "parsePriority m =
     (if m_size m < 3 \<or> m_buf m 0 \<noteq> CHR ''<'' then Inr (False, m) else priority_loop m 0 [0..<4])"

definition parseVersion :: "message \<Rightarrow> bool \<times> message" where
  "parseVersion m =
     (let b = slice_bytes (m_msg m) in
      if length b < 2 then (False, m)
      else if b ! 1 \<noteq> CHR '' '' then (False, m)
      else if b ! 0 \<noteq> CHR ''1'' then (False, m)
      else (True, m\<lparr>m_msg := Some (drop 2 b)\<rparr>))"

definition parseTimestamp :: "'j syslog_lib \<Rightarrow> string \<Rightarrow> message \<Rightarrow> bool \<times> message" where
  "parseTimestamp L b m =
     (if ignoreNil b = None then (True, m)
      else if length ''2006-01-02T15:04:05.999999Z07:00'' < length b then (False, m)
      else (case sy_ParseTimestamp L b of None \<Rightarrow> (False, m) | Some t \<Rightarrow> (True, m\<lparr>m_time := t\<rparr>)))"

text \<open>\<open>bytes.SplitN\<close>.\<close>

fun split_n :: "nat \<Rightarrow> char \<Rightarrow> string \<Rightarrow> string list" where
  "split_n 0 c s = []"
| "split_n (Suc n) c s =
     (if n = 0 then [s] else case cut_char c s of (a, b, found) \<Rightarrow> if found then a # split_n n c b else [a])"

definition parseHeader :: "'j syslog_lib \<Rightarrow> message \<Rightarrow> bool \<times> message" where
  "parseHeader L m =
     (let parts = split_n 6 CHR '' '' (slice_bytes (m_msg m)) in
      if length parts \<noteq> 6 then (False, m)
      else
        (case parseTimestamp L (parts ! 0) m of
           (False, m1) \<Rightarrow> (False, m1)
         | (True, m1) \<Rightarrow>
             (True, m1\<lparr>m_hostname := ignoreNil (parts ! 1), m_app := ignoreNil (parts ! 2), m_procid := ignoreNil (parts ! 3),
                       m_msgid := ignoreNil (parts ! 4), m_msg := Some (parts ! 5)\<rparr>)))"

definition parseStructuredData :: "message \<Rightarrow> bool \<times> message" where
  "parseStructuredData m =
     (let b = slice_bytes (m_msg m) in
      if 2 \<le> length b \<and> b ! 0 = CHR ''-'' \<and> b ! 1 = CHR '' '' then (True, m\<lparr>m_msg := Some (drop 2 b)\<rparr>) else (False, m))"

definition correctLegacyTime :: "time \<Rightarrow> message \<Rightarrow> message" where
  "correctLegacyTime t0 m =
     (let t = AddYears t0 (Year (m_time m));
          off0 = sat64 (m_time m - t);
          off = (if off0 < 0 then i64 (- off0) else off0);
          hoursOff = go_quot (off - go_rem off hour) hour
      in m\<lparr>m_time := (if 1 < hoursOff then t + hoursOff else t)\<rparr>)"

definition is_tag_char :: "char \<Rightarrow> bool" where
  "is_tag_char c \<longleftrightarrow> is_digit c \<or> is_lower c \<or> is_upper c \<or> c \<in> set ''-_/.''"

definition parseLegacyTag :: "message \<Rightarrow> message" where
  "parseLegacyTag m =
     (let b0 = slice_bytes (m_msg m); app = takeWhile is_tag_char b0; b = dropWhile is_tag_char b0 in
      case b of
        [] \<Rightarrow> m\<lparr>m_app := None, m_procid := None\<rparr>
      | c # r \<Rightarrow>
          if c = CHR ''['' then
            (case find_index (\<lambda>x. x = CHR '']'') r of
               Some i \<Rightarrow> m\<lparr>m_app := Some app, m_procid := Some (take i r), m_msg := Some (trim_prefix '': '' (drop (Suc i) r))\<rparr>
             | None \<Rightarrow> m\<lparr>m_app := Some app, m_procid := None, m_msg := Some (trim_prefix '': '' b)\<rparr>)
          else m\<lparr>m_app := Some app, m_msg := Some (trim_prefix '': '' b)\<rparr>)"

definition trim_msg_prefix :: "string \<Rightarrow> message \<Rightarrow> message" where
  "trim_msg_prefix p m = m\<lparr>m_msg := map_option (trim_prefix p) (m_msg m)\<rparr>"

definition trimSeverityPrefix :: "message \<Rightarrow> message" where
  "trimSeverityPrefix m = trim_msg_prefix (severity_String (Severity m) @ '': '') m"

definition trimTimePrefix :: "message \<Rightarrow> message" where
  "trimTimePrefix m = trim_msg_prefix (format_stamp (m_time m)) m"

definition trimCarriageReturns :: "message \<Rightarrow> message" where
  "trimCarriageReturns m =
     (case m_msg m of
        Some (c # r) \<Rightarrow> if c = CHR 0x0D then m\<lparr>m_msg := Some r\<rparr> else m
      | _ \<Rightarrow> m)"

definition legacy_time :: "'j syslog_lib \<Rightarrow> message \<Rightarrow> message" where
  "legacy_time L m =
     (let b = slice_bytes (m_msg m); timeLen = length ''Jan _2 15:04:05'' in
      if length b \<le> timeLen \<or> b ! timeLen \<noteq> CHR '' '' then m
      else
        (case sy_ParseStamp L (take timeLen b) of
           None \<Rightarrow> m
         | Some t \<Rightarrow> (if t = zero_time then m else correctLegacyTime t m)\<lparr>m_msg := Some (drop (timeLen + 1) b)\<rparr>))"

definition parseLegacyHeader :: "'j syslog_lib \<Rightarrow> message \<Rightarrow> bool \<times> message" where
  "parseLegacyHeader L m =
     (True, trimCarriageReturns (trimTimePrefix (trimSeverityPrefix (parseLegacyTag ((legacy_time L m)\<lparr>m_hostname := None\<rparr>)))))"

definition message_parse :: "'j syslog_lib \<Rightarrow> message \<Rightarrow> gerr + bool \<times> message" where
  "message_parse L m =
     (case parsePriority m of
        Inl e \<Rightarrow> Inl e
      | Inr (False, m1) \<Rightarrow> Inr (False, m1)
      | Inr (True, m1) \<Rightarrow>
          Inr (case parseVersion m1 of
                 (False, m2) \<Rightarrow> parseLegacyHeader L m2
               | (True, m2) \<Rightarrow>
                   (case parseHeader L m2 of
                      (False, m3) \<Rightarrow> (False, m3)
                    | (True, m3) \<Rightarrow> parseStructuredData m3)))"


section \<open>Log entries\<close>

datatype 'j sval = SStr string | SJson 'j

definition set_nonempty :: "string \<Rightarrow> string \<Rightarrow> (string \<rightharpoonup> 'j sval) \<Rightarrow> string \<rightharpoonup> 'j sval" where
  "set_nonempty k v f = (if v \<noteq> [] then f(k \<mapsto> SStr v) else f)"

definition structured_msg :: "'j syslog_lib \<Rightarrow> string \<Rightarrow> (string \<rightharpoonup> 'j sval) \<Rightarrow> string \<rightharpoonup> 'j sval" where
  "structured_msg L b f =
     (if b = [] then f
      else if b ! 0 = CHR ''{'' then
        (case sy_Unmarshal L b of Some j \<Rightarrow> f(''msg'' \<mapsto> SJson j) | None \<Rightarrow> f(''msg'' \<mapsto> SStr b))
      else f(''msg'' \<mapsto> SStr b))"

definition toStructured :: "'j syslog_lib \<Rightarrow> message \<Rightarrow> string \<rightharpoonup> 'j sval" where
  "toStructured L m =
     (structured_msg L (slice_bytes (m_msg m))
       (set_nonempty ''msgid'' (slice_bytes (m_msgid m))
         (set_nonempty ''procid'' (slice_bytes (m_procid m))
           (set_nonempty ''app-name'' (slice_bytes (m_app m))
             (set_nonempty ''hostname'' (slice_bytes (m_hostname m))
               (set_nonempty ''severity'' (severity_String (Severity m))
                 (set_nonempty ''facility'' (facility_String (Facility m)) Map.empty)))))))
     (''host'' \<mapsto> SStr (IP_String (m_host m)))"

datatype 'j entry =
    Received nat "string \<rightharpoonup> 'j sval"   \<comment> \<open>verbosity, structured fields\<close>
  | Unparseable string                  \<comment> \<open>verbosity 1, the message's text\<close>

text \<open>The body of \<open>runParser\<close> for one message: the entry, and the message for the pool.\<close>

definition run_parser :: "'j syslog_lib \<Rightarrow> message \<Rightarrow> gerr + 'j entry \<times> message" where
  "run_parser L m =
     (case message_parse L m of
        Inl e \<Rightarrow> Inl e
      | Inr (ok, m1) \<Rightarrow>
          Inr (if ok then Received (if Severity m1 = DEBUG then 1 else 0) (toStructured L m1)
               else Unparseable (message_String L m1),
               message_reset m1))"


section \<open>The receiver\<close>

text \<open>
  The goroutines of \<open>receiver.go\<close> as steps on their shared state. The reading goroutine is
  in one of the phases of \<open>run\<close>; \<open>Draining\<close> is the wait of \<open>shutdown\<close>. \<open>rs_work\<close> are the
  messages the parsers hold, \<open>rs_recvd\<close> and \<open>rs_lost\<close> record the datagrams read and those
  given up at the cancellation. A datagram is its bytes, its sender and the time it was read.
\<close>

type_synonym datagram = "string \<times> bytes \<times> time"

datatype phase = Fetch | Reading message | Sending message | Draining message | Done

record 'j rstate =
  rs_cancelled :: bool
  rs_phase :: phase
  rs_pool :: "message list"
  rs_ch :: "message list"
  rs_work :: "message list"
  rs_log :: "'j entry list"
  rs_err :: "gerr option"
  rs_crashed :: bool
  rs_recvd :: "datagram list"
  rs_lost :: "datagram list"

definition parser_count :: "int \<Rightarrow> nat" where
  "parser_count parsers = (if parsers < 1 then 1 else nat parsers)"

definition StartReceiver :: "'j rstate" where
  "StartReceiver = \<lparr>rs_cancelled = False, rs_phase = Fetch, rs_pool = [], rs_ch = [], rs_work = [], rs_log = [], rs_err = None,
     rs_crashed = False, rs_recvd = [], rs_lost = []\<rparr>"

text \<open>\<open>ReadFromUDP\<close> fills the array as far as it reaches and leaves the rest of it.\<close>

definition read_into :: "datagram \<Rightarrow> message \<Rightarrow> message" where
  "read_into d m =
     (case d of (b, host, now) \<Rightarrow>
        m\<lparr>m_buf := (\<lambda>i. if i < length b \<and> i < maxBuf then b ! i else m_buf m i),
          m_size := min (length b) maxBuf, m_time := now, m_host := host\<rparr>)"

inductive rstep :: "'j syslog_lib \<Rightarrow> int \<Rightarrow> 'j rstate \<Rightarrow> 'j rstate \<Rightarrow> bool"
  for L :: "'j syslog_lib" and parsers :: int where
  cancel: "\<not> rs_crashed s \<Longrightarrow> rstep L parsers s (s\<lparr>rs_cancelled := True\<rparr>)"
| get_new: "\<not> rs_crashed s \<Longrightarrow> rs_phase s = Fetch \<Longrightarrow> rstep L parsers s (s\<lparr>rs_phase := Reading new_message\<rparr>)"
| get_pooled: "\<not> rs_crashed s \<Longrightarrow> rs_phase s = Fetch \<Longrightarrow> rs_pool s = xs @ m # ys \<Longrightarrow>
    rstep L parsers s (s\<lparr>rs_phase := Reading m, rs_pool := xs @ ys\<rparr>)"
| pool_drop: "\<not> rs_crashed s \<Longrightarrow> rs_pool s = xs @ m # ys \<Longrightarrow> rstep L parsers s (s\<lparr>rs_pool := xs @ ys\<rparr>)"
| read: "\<not> rs_crashed s \<Longrightarrow> rs_phase s = Reading m \<Longrightarrow>
    rstep L parsers s (s\<lparr>rs_phase := Sending (read_into d m), rs_recvd := rs_recvd s @ [d]\<rparr>)"
| read_cancelled: "\<not> rs_crashed s \<Longrightarrow> rs_phase s = Reading m \<Longrightarrow> rs_cancelled s \<Longrightarrow>
    rstep L parsers s (s\<lparr>rs_phase := Draining m\<rparr>)"
| read_net_error: "\<not> rs_crashed s \<Longrightarrow> rs_phase s = Reading m \<Longrightarrow> \<not> rs_cancelled s \<Longrightarrow> rstep L parsers s s"
| read_error: "\<not> rs_crashed s \<Longrightarrow> rs_phase s = Reading m \<Longrightarrow> \<not> rs_cancelled s \<Longrightarrow>
    rstep L parsers s (s\<lparr>rs_phase := Draining m, rs_err := Some (errorf ''error reading udp message: '' e)\<rparr>)"
| send: "\<not> rs_crashed s \<Longrightarrow> rs_phase s = Sending m \<Longrightarrow> length (rs_ch s) < parser_count parsers * 64 \<Longrightarrow>
    rstep L parsers s (s\<lparr>rs_phase := Fetch, rs_ch := rs_ch s @ [m]\<rparr>)"
| send_cancelled: "\<not> rs_crashed s \<Longrightarrow> rs_phase s = Sending m \<Longrightarrow> rs_cancelled s \<Longrightarrow>
    rstep L parsers s (s\<lparr>rs_phase := Draining m, rs_lost := rs_lost s @ [last (rs_recvd s)]\<rparr>)"
| take: "\<not> rs_crashed s \<Longrightarrow> rs_ch s = m # ms \<Longrightarrow> length (rs_work s) < parser_count parsers \<Longrightarrow>
    rstep L parsers s (s\<lparr>rs_ch := ms, rs_work := rs_work s @ [m]\<rparr>)"
| parse: "\<not> rs_crashed s \<Longrightarrow> rs_work s = xs @ m # ys \<Longrightarrow> run_parser L m = Inr (e, m') \<Longrightarrow>
    rstep L parsers s (s\<lparr>rs_work := xs @ ys, rs_log := rs_log s @ [e], rs_pool := m' # rs_pool s\<rparr>)"
| parse_panic: "\<not> rs_crashed s \<Longrightarrow> rs_work s = xs @ m # ys \<Longrightarrow> run_parser L m = Inl p \<Longrightarrow>
    rstep L parsers s (s\<lparr>rs_crashed := True\<rparr>)"
| finish: "\<not> rs_crashed s \<Longrightarrow> rs_phase s = Draining m \<Longrightarrow> rs_ch s = [] \<Longrightarrow> rs_work s = [] \<Longrightarrow>
    rstep L parsers s (s\<lparr>rs_phase := Done, rs_pool := message_reset m # rs_pool s\<rparr>)"

end
