(* ===== verification/Smee_Syslog_Props.thy ===== *)
theory Smee_Syslog_Props
  imports Smee_Syslog
begin

text \<open>
  What the syslog receiver guarantees: parsing depends only on the datagram unless stale bytes
  make it panic, the log has exactly one line per datagram under every interleaving, and
  messages in the format of RFC 5424 are parsed into their parts.
\<close>

section \<open>The bytes beyond a datagram\<close>

text \<open>The message as a new buffer would hold it: zero bytes behind the datagram.\<close>

definition cut_buf :: "message \<Rightarrow> nat \<Rightarrow> char" where
  "cut_buf m i = (if i < m_size m then m_buf m i else CHR 0x00)"

definition with_buf :: "(nat \<Rightarrow> char) \<Rightarrow> message \<Rightarrow> message" where
  "with_buf b m = m\<lparr>m_buf := b\<rparr>"

definition fresh :: "message \<Rightarrow> message" where
  "fresh m = with_buf (cut_buf m) m"

lemma with_buf_sel [simp]:
  "m_buf (with_buf b m) = b" "m_size (with_buf b m) = m_size m" "m_time (with_buf b m) = m_time m"
  "m_host (with_buf b m) = m_host m" "m_priority (with_buf b m) = m_priority m" "m_hostname (with_buf b m) = m_hostname m"
  "m_app (with_buf b m) = m_app m" "m_procid (with_buf b m) = m_procid m" "m_msgid (with_buf b m) = m_msgid m"
  "m_msg (with_buf b m) = m_msg m"
  by (simp_all add: with_buf_def)

lemma with_buf_upd [simp]:
  "with_buf b m\<lparr>m_time := t\<rparr> = with_buf b (m\<lparr>m_time := t\<rparr>)"
  "with_buf b m\<lparr>m_priority := p\<rparr> = with_buf b (m\<lparr>m_priority := p\<rparr>)"
  "with_buf b m\<lparr>m_hostname := x\<rparr> = with_buf b (m\<lparr>m_hostname := x\<rparr>)"
  "with_buf b m\<lparr>m_app := x\<rparr> = with_buf b (m\<lparr>m_app := x\<rparr>)"
  "with_buf b m\<lparr>m_procid := x\<rparr> = with_buf b (m\<lparr>m_procid := x\<rparr>)"
  "with_buf b m\<lparr>m_msgid := x\<rparr> = with_buf b (m\<lparr>m_msgid := x\<rparr>)"
  "with_buf b m\<lparr>m_msg := x\<rparr> = with_buf b (m\<lparr>m_msg := x\<rparr>)"
  by (simp_all add: with_buf_def)

text \<open>Behind the priority no step of the parser looks at the array.\<close>

lemma after_priority_with_buf [simp]:
  "parseVersion (with_buf b m) = map_prod id (with_buf b) (parseVersion m)"
  "parseTimestamp L s (with_buf b m) = map_prod id (with_buf b) (parseTimestamp L s m)"
  "parseStructuredData (with_buf b m) = map_prod id (with_buf b) (parseStructuredData m)"
  "correctLegacyTime t (with_buf b m) = with_buf b (correctLegacyTime t m)"
  "trim_msg_prefix p (with_buf b m) = with_buf b (trim_msg_prefix p m)"
  by (simp_all add: parseVersion_def parseTimestamp_def parseStructuredData_def correctLegacyTime_def trim_msg_prefix_def
      Let_def split: option.split)

lemma parseLegacyTag_with_buf [simp]: "parseLegacyTag (with_buf b m) = with_buf b (parseLegacyTag m)"
proof (cases "dropWhile is_tag_char (slice_bytes (m_msg m))")
  case (Cons c r)
  then show ?thesis
    by (cases "find_index (\<lambda>x. x = CHR '']'') r") (simp_all add: parseLegacyTag_def Let_def)
qed (simp add: parseLegacyTag_def Let_def del: dropWhile_eq_Nil_conv)

lemma parseHeader_with_buf [simp]: "parseHeader L (with_buf b m) = map_prod id (with_buf b) (parseHeader L m)"
  by (cases "parseTimestamp L (split_n 6 CHR '' '' (slice_bytes (m_msg m)) ! 0) m") (auto simp: parseHeader_def Let_def split: bool.split)

lemma legacy_time_with_buf [simp]: "legacy_time L (with_buf b m) = with_buf b (legacy_time L m)"
  by (simp add: legacy_time_def Let_def split: option.split)

lemma trims_with_buf [simp]:
  "trimSeverityPrefix (with_buf b m) = with_buf b (trimSeverityPrefix m)"
  "trimTimePrefix (with_buf b m) = with_buf b (trimTimePrefix m)"
  "trimCarriageReturns (with_buf b m) = with_buf b (trimCarriageReturns m)"
  by (simp_all add: trimSeverityPrefix_def trimTimePrefix_def trimCarriageReturns_def Severity_def split: option.split list.split)

lemma parseLegacyHeader_with_buf [simp]:
  "parseLegacyHeader L (with_buf b m) = map_prod id (with_buf b) (parseLegacyHeader L m)"
  by (simp add: parseLegacyHeader_def)

text \<open>The size of the datagram is kept by every step.\<close>

lemma steps_keep_size:
  "parseVersion m = (r, m') \<Longrightarrow> m_size m' = m_size m"
  "parseTimestamp L s m = (r, m') \<Longrightarrow> m_size m' = m_size m"
  "parseStructuredData m = (r, m') \<Longrightarrow> m_size m' = m_size m"
  "m_size (correctLegacyTime t m) = m_size m"
  "m_size (parseLegacyTag m) = m_size m"
  by (auto simp: parseVersion_def parseTimestamp_def parseStructuredData_def correctLegacyTime_def parseLegacyTag_def Let_def
      split: option.splits list.splits if_splits)


lemma legacy_keeps_size: "parseLegacyHeader L m = (r, m') \<Longrightarrow> m_size m' = m_size m"
proof -
  have "m_size (legacy_time L m) = m_size m" for m
    by (simp add: legacy_time_def Let_def steps_keep_size split: option.split)
  moreover have "m_size (trim_msg_prefix p m) = m_size m" "m_size (trimCarriageReturns m) = m_size m" for p m
    by (simp_all add: trim_msg_prefix_def trimCarriageReturns_def split: option.split list.split)
  ultimately show "parseLegacyHeader L m = (r, m') \<Longrightarrow> ?thesis"
    by (auto simp: parseLegacyHeader_def trimSeverityPrefix_def trimTimePrefix_def steps_keep_size)
qed

lemma parseHeader_keeps_size: "parseHeader L m = (r, m') \<Longrightarrow> m_size m' = m_size m"
  by (cases "parseTimestamp L (split_n 6 CHR '' '' (slice_bytes (m_msg m)) ! 0) m")
    (auto simp: parseHeader_def Let_def dest: steps_keep_size(2) split: bool.splits if_splits)

text \<open>What follows the priority, in one function.\<close>

definition parse_rest :: "'j syslog_lib \<Rightarrow> message \<Rightarrow> bool \<times> message" where
  "parse_rest L m1 =
     (case parseVersion m1 of
        (False, m2) \<Rightarrow> parseLegacyHeader L m2
      | (True, m2) \<Rightarrow>
          (case parseHeader L m2 of
             (False, m3) \<Rightarrow> (False, m3)
           | (True, m3) \<Rightarrow> parseStructuredData m3))"

lemma message_parse_rest:
  "message_parse L m =
     (case parsePriority m of Inl e \<Rightarrow> Inl e | Inr (ok, m1) \<Rightarrow> Inr (if ok then parse_rest L m1 else (False, m1)))"
  by (auto simp: message_parse_def parse_rest_def split: sum.split bool.split)

lemma parse_rest_with_buf [simp]: "parse_rest L (with_buf b m) = map_prod id (with_buf b) (parse_rest L m)"
proof -
  obtain v m2 where v: "parseVersion m = (v, m2)" by fastforce
  obtain h m3 where h: "parseHeader L m2 = (h, m3)" by fastforce
  show ?thesis by (simp add: parse_rest_def v h split: bool.split)
qed

lemma parse_rest_keeps_size: "parse_rest L m = (r, m') \<Longrightarrow> m_size m' = m_size m"
proof -
  obtain v m2 where v: "parseVersion m = (v, m2)" by fastforce
  obtain h m3 where h: "parseHeader L m2 = (h, m3)" by fastforce
  show "parse_rest L m = (r, m') \<Longrightarrow> ?thesis"
    using steps_keep_size(1) [OF v] parseHeader_keeps_size [OF h]
    by (auto simp: parse_rest_def v h dest: legacy_keeps_size steps_keep_size(3) split: bool.splits)
qed

text \<open>The first position that is not a digit, among the four the priority may take.\<close>

definition pri_end :: "(nat \<Rightarrow> char) \<Rightarrow> nat \<Rightarrow> bool" where
  "pri_end b k \<longleftrightarrow> k \<in> {1..4} \<and> (\<forall>i \<in> {1..<k}. is_digit (b i)) \<and> b k = CHR ''>''"

definition stale_priority :: "message \<Rightarrow> bool" where
  "stale_priority m \<longleftrightarrow> 3 \<le> m_size m \<and> m_buf m 0 = CHR ''<'' \<and> (\<exists>k. pri_end (m_buf m) k \<and> m_size m \<le> k)"

fun pri_value :: "8 word \<Rightarrow> string \<Rightarrow> 8 word" where
  "pri_value p [] = p"
| "pri_value p (c # s) = pri_value (p * 10 + of_nat (of_char c) - 48) s"

lemma not_digit_gt: "\<not> is_digit CHR ''>''"
  by (simp add: is_digit_def)

lemma priority_loop_spec:
  "priority_loop m pri [i..<4] =
     (case find (\<lambda>k. \<not> is_digit (m_buf m (Suc k))) [i..<4] of
        None \<Rightarrow> Inr (False, m)
      | Some k \<Rightarrow>
          if m_buf m (Suc k) = CHR ''>'' then
            (case buf_slice m (Suc (Suc k)) (m_size m) of
               Inl e \<Rightarrow> Inl e
             | Inr s \<Rightarrow> Inr (True, m\<lparr>m_priority := pri_value pri (map (m_buf m) [Suc i..<Suc k]), m_msg := Some s\<rparr>))
          else Inr (False, m))"
proof (induction "4 - i" arbitrary: i pri)
  case 0
  then show ?case by simp
next
  case (Suc n)
  then have up: "[i..<4] = i # [Suc i..<4]" by (simp add: upt_conv_Cons)
  have IH: "priority_loop m p [Suc i..<4] =
     (case find (\<lambda>k. \<not> is_digit (m_buf m (Suc k))) [Suc i..<4] of
        None \<Rightarrow> Inr (False, m)
      | Some k \<Rightarrow>
          if m_buf m (Suc k) = CHR ''>'' then
            (case buf_slice m (Suc (Suc k)) (m_size m) of
               Inl e \<Rightarrow> Inl e
             | Inr s \<Rightarrow> Inr (True, m\<lparr>m_priority := pri_value p (map (m_buf m) [Suc (Suc i)..<Suc k]), m_msg := Some s\<rparr>))
          else Inr (False, m))" for p
    using Suc by simp
  show ?case
  proof (cases "is_digit (m_buf m (Suc i))")
    case False
    then show ?thesis by (simp add: up split: sum.split)
  next
    case True
    have ne: "m_buf m (Suc i) \<noteq> CHR ''>''" using True not_digit_gt by metis
    show ?thesis
    proof (cases "find (\<lambda>k. \<not> is_digit (m_buf m (Suc k))) [Suc i..<4]")
      case None
      then show ?thesis using True ne by (simp add: up IH Let_def)
    next
      case (Some k)
      then have "Suc i \<le> k" unfolding find_Some_iff by auto
      then have "map (m_buf m) [Suc i..<Suc k] = m_buf m (Suc i) # map (m_buf m) [Suc (Suc i)..<Suc k]"
        by (subst upt_conv_Cons) simp_all
      then show ?thesis using True ne Some by (simp add: up IH Let_def split: sum.split)
    qed
  qed
qed


lemma find_pri_end:
  "find (\<lambda>k. \<not> is_digit (b (Suc k))) [0..<4] = Some k \<and> b (Suc k) = CHR ''>'' \<longleftrightarrow> pri_end b (Suc k)"
proof
  assume *: "find (\<lambda>k. \<not> is_digit (b (Suc k))) [0..<4] = Some k \<and> b (Suc k) = CHR ''>''"
  then have k: "k < 4" and digits: "\<forall>j < k. is_digit (b (Suc j))"
    unfolding find_Some_iff by auto
  have "is_digit (b i)" if "i \<in> {1..<Suc k}" for i
    using digits that by (cases i) auto
  with * k show "pri_end b (Suc k)" by (simp add: pri_end_def)
next
  assume *: "pri_end b (Suc k)"
  then have k: "k < 4" and digits: "\<forall>i \<in> {1..<Suc k}. is_digit (b i)" and gt: "b (Suc k) = CHR ''>''"
    by (auto simp: pri_end_def)
  have "\<forall>j < k. is_digit (b (Suc j))" using digits by simp
  with k gt not_digit_gt show "find (\<lambda>k. \<not> is_digit (b (Suc k))) [0..<4] = Some k \<and> b (Suc k) = CHR ''>''"
    unfolding find_Some_iff by (auto intro!: exI [of _ k])
qed

text \<open>The priority: a crash, a match or no match.\<close>

lemma parsePriority_cases:
  assumes "m_size m \<le> maxBuf"
  obtains (Stale) "stale_priority m" "parsePriority m = Inl (PanicError ''slice bounds out of range'')"
  | (Match) k where "3 \<le> m_size m" "m_buf m 0 = CHR ''<''" "pri_end (m_buf m) k" "k < m_size m"
      "parsePriority m = Inr (True, m\<lparr>m_priority := pri_value 0 (map (m_buf m) [1..<k]),
         m_msg := Some (map (m_buf m) [Suc k..<m_size m])\<rparr>)" "\<not> stale_priority m"
  | (No_match) "\<not> (3 \<le> m_size m \<and> m_buf m 0 = CHR ''<'' \<and> (\<exists>k. pri_end (m_buf m) k))"
      "parsePriority m = Inr (False, m)" "\<not> stale_priority m"
proof (cases "3 \<le> m_size m \<and> m_buf m 0 = CHR ''<'' \<and> (\<exists>k. pri_end (m_buf m) k)")
  case False
  then have no: "parsePriority m = Inr (False, m)"
  proof (cases "3 \<le> m_size m \<and> m_buf m 0 = CHR ''<''")
    case True
    with False have "\<not> pri_end (m_buf m) (Suc k)" for k by blast
    then show ?thesis
      using True priority_loop_spec [of m 0 0] find_pri_end [of "m_buf m"]
      by (cases "find (\<lambda>k. \<not> is_digit (m_buf m (Suc k))) [0..<4]") (auto simp: parsePriority_def)
  qed (auto simp: parsePriority_def)
  from False no show ?thesis by (intro No_match) (auto simp: stale_priority_def)
next
  case True
  then obtain k where k: "pri_end (m_buf m) (Suc k)"
    by (metis pri_end_def atLeastAtMost_iff not0_implies_Suc not_one_le_zero)
  have unique: "pri_end (m_buf m) j \<Longrightarrow> j = Suc k" for j
    using k find_pri_end [of "m_buf m" k] find_pri_end [of "m_buf m" "j - 1"]
    by (cases j) (auto simp: pri_end_def)
  have run: "parsePriority m =
      (case buf_slice m (Suc (Suc k)) (m_size m) of
         Inl e \<Rightarrow> Inl e
       | Inr s \<Rightarrow> Inr (True, m\<lparr>m_priority := pri_value 0 (map (m_buf m) [1..<Suc k]), m_msg := Some s\<rparr>))"
    using True priority_loop_spec [of m 0 0] k find_pri_end [of "m_buf m" k]
    unfolding One_nat_def by (simp add: parsePriority_def del: upt_Suc split del: if_split)
  show ?thesis
  proof (cases "m_size m \<le> Suc k")
    case stale: True
    then have "stale_priority m" using True k by (auto simp: stale_priority_def)
    with stale run show ?thesis by (intro Stale) (simp_all add: buf_slice_def)
  next
    case False
    then have "\<not> stale_priority m" using unique by (auto simp: stale_priority_def)
    with False run True k assms show ?thesis by (intro Match [of "Suc k"]) (simp_all add: buf_slice_def)
  qed
qed

lemma pri_end_unique: "pri_end b j \<Longrightarrow> pri_end b k \<Longrightarrow> j = k"
  using not_digit_gt unfolding pri_end_def by (metis atLeastAtMost_iff atLeastLessThan_iff linorder_neqE_nat)

lemma parsePriority_match:
  assumes "m_size m \<le> maxBuf" "3 \<le> m_size m" "m_buf m 0 = CHR ''<''" "pri_end (m_buf m) k" "k < m_size m"
  shows "parsePriority m = Inr (True, m\<lparr>m_priority := pri_value 0 (map (m_buf m) [1..<k]),
    m_msg := Some (map (m_buf m) [Suc k..<m_size m])\<rparr>)"
  using assms(1)
proof (cases rule: parsePriority_cases)
  case Stale
  with assms show ?thesis by (auto simp: stale_priority_def dest: pri_end_unique)
next
  case (Match j)
  with pri_end_unique [OF Match(3) assms(4)] show ?thesis by simp
next
  case No_match
  with assms show ?thesis by blast
qed

lemma message_parse_panics_iff:
  assumes "m_size m \<le> maxBuf"
  shows "(\<exists>e. message_parse L m = Inl e) \<longleftrightarrow> stale_priority m"
  by (rule parsePriority_cases [OF assms]) (simp_all add: message_parse_rest)

lemma pri_end_fresh:
  assumes "pri_end (m_buf m) k" and "k < m_size m"
  shows "pri_end (cut_buf m) k"
  using assms by (auto simp: pri_end_def cut_buf_def)

lemma pri_end_of_fresh:
  assumes "pri_end (cut_buf m) k"
  shows "k < m_size m \<and> pri_end (m_buf m) k"
proof -
  have k: "k < m_size m" using assms by (auto simp: pri_end_def cut_buf_def split: if_splits)
  with assms show ?thesis by (auto simp: pri_end_def cut_buf_def)
qed

text \<open>Unless it crashes, parsing does not depend on the bytes behind the datagram.\<close>

lemma message_parse_fresh:
  assumes size: "m_size m \<le> maxBuf" and ok: "message_parse L m = Inr (ok, m1)"
  shows "message_parse L (fresh m) = Inr (ok, with_buf (cut_buf m) m1) \<and> m_size m1 = m_size m \<and> m_buf m1 = m_buf m"
proof -
  have size': "m_size (fresh m) \<le> maxBuf" using size by (simp add: fresh_def)
  have buf: "m_buf m' = m_buf m0" if "parse_rest L m0 = (r, m')" for r m' m0
  proof -
    have "with_buf (m_buf m0) m0 = m0" by (simp add: with_buf_def)
    then have "(r, m') = map_prod id (with_buf (m_buf m0)) (r, m')"
      using parse_rest_with_buf [of L "m_buf m0" m0] that by metis
    then have "m' = with_buf (m_buf m0) m'" by simp
    then show ?thesis by (metis with_buf_sel(1))
  qed
  show ?thesis
  proof (rule parsePriority_cases [OF size])
    assume "stale_priority m"
    then show ?thesis using message_parse_panics_iff [OF size, of L] ok by auto
  next
    fix k
    assume k: "3 \<le> m_size m" "m_buf m 0 = CHR ''<''" "pri_end (m_buf m) k" "k < m_size m"
    let ?m = "m\<lparr>m_priority := pri_value 0 (map (m_buf m) [1..<k]), m_msg := Some (map (m_buf m) [Suc k..<m_size m])\<rparr>"
    assume run: "parsePriority m = Inr (True, ?m)"
    then have rest: "parse_rest L ?m = (ok, m1)" using ok by (simp add: message_parse_rest)
    have "parsePriority (fresh m) = Inr (True, with_buf (cut_buf m) ?m)"
    proof (rule parsePriority_cases [OF size'])
      assume "stale_priority (fresh m)"
      then show ?thesis using pri_end_of_fresh [of m] by (fastforce simp: stale_priority_def fresh_def)
    next
      fix j
      assume j: "pri_end (m_buf (fresh m)) j" "j < m_size (fresh m)"
        "parsePriority (fresh m) = Inr (True, fresh m\<lparr>m_priority := pri_value 0 (map (m_buf (fresh m)) [1..<j]),
           m_msg := Some (map (m_buf (fresh m)) [Suc j..<m_size (fresh m)])\<rparr>)"
      have "pri_end (m_buf m) j" using j(1) pri_end_of_fresh [of m j] by (simp add: fresh_def)
      then have "j = k" using k(3) by (rule pri_end_unique)
      moreover have "map (cut_buf m) [1..<k] = map (m_buf m) [1..<k]"
        "map (cut_buf m) [Suc k..<m_size m] = map (m_buf m) [Suc k..<m_size m]"
        using k(4) by (simp_all add: cut_buf_def)
      ultimately show ?thesis using j(3) by (simp add: fresh_def del: map_eq_conv)
    next
      assume "\<not> (3 \<le> m_size (fresh m) \<and> m_buf (fresh m) 0 = CHR ''<'' \<and> (\<exists>k. pri_end (m_buf (fresh m)) k))"
      then show ?thesis using k pri_end_fresh [OF k(3,4)] by (auto simp: fresh_def cut_buf_def)
    qed
    then show ?thesis using rest parse_rest_keeps_size [OF rest] buf [OF rest] by (simp add: message_parse_rest)
  next
    assume no: "\<not> (3 \<le> m_size m \<and> m_buf m 0 = CHR ''<'' \<and> (\<exists>k. pri_end (m_buf m) k))"
      and run: "parsePriority m = Inr (False, m)"
    have "parsePriority (fresh m) = Inr (False, fresh m)"
    proof (rule parsePriority_cases [OF size'])
      assume "stale_priority (fresh m)"
      then show ?thesis using pri_end_of_fresh [of m] by (fastforce simp: stale_priority_def fresh_def)
    next
      fix j
      assume "3 \<le> m_size (fresh m)" "m_buf (fresh m) 0 = CHR ''<''" "pri_end (m_buf (fresh m)) j"
      then show ?thesis using no pri_end_of_fresh [of m j] by (auto simp: fresh_def cut_buf_def split: if_splits)
    qed
    with run ok show ?thesis by (simp add: message_parse_rest fresh_def)
  qed
qed

lemma run_parser_fresh:
  assumes "m_size m \<le> maxBuf" and "run_parser L m = Inr (e, m')"
  shows "\<exists>m''. run_parser L (fresh m) = Inr (e, m'')" and "message_reset m' = m'"
proof -
  obtain ok m1 where ok: "message_parse L m = Inr (ok, m1)"
    using assms(2) by (cases "message_parse L m") (auto simp: run_parser_def)
  note fr = message_parse_fresh [OF assms(1) ok]
  have same: "message_String L (with_buf (cut_buf m) m1) = message_String L m1"
    using fr by (auto simp: message_String_def Facility_def Severity_def cut_buf_def intro!: arg_cong [where f = "sy_Quote L"] split: option.split)
  have "toStructured L (with_buf (cut_buf m) m1) = toStructured L m1"
    by (simp add: toStructured_def Facility_def Severity_def)
  with assms(2) ok fr same show "\<exists>m''. run_parser L (fresh m) = Inr (e, m'')"
    by (auto simp: run_parser_def Severity_def)
  show "message_reset m' = m'" using assms(2) ok by (auto simp: run_parser_def message_reset_def)
qed



section \<open>Entries of datagrams\<close>

text \<open>The entry a datagram gets from a new message, and the datagram a message holds.\<close>

definition entry_of :: "'j syslog_lib \<Rightarrow> datagram \<Rightarrow> 'j entry" where
  "entry_of L d = (case run_parser L (read_into d new_message) of Inr (e, m) \<Rightarrow> e | Inl p \<Rightarrow> Unparseable [])"

definition datagram_of :: "message \<Rightarrow> datagram" where
  "datagram_of m = (map (m_buf m) [0..<m_size m], m_host m, m_time m)"

text \<open>A message that has been read into and not parsed.\<close>

definition unparsed :: "message \<Rightarrow> bool" where
  "unparsed m \<longleftrightarrow> message_reset m = m \<and> m_size m \<le> maxBuf"

lemma reset_sel:
  assumes "message_reset m = m"
  shows "m_priority m = 0" "m_hostname m = None" "m_app m = None" "m_procid m = None" "m_msgid m = None" "m_msg m = None"
  using arg_cong [OF assms, of m_priority] arg_cong [OF assms, of m_hostname] arg_cong [OF assms, of m_app]
    arg_cong [OF assms, of m_procid] arg_cong [OF assms, of m_msgid] arg_cong [OF assms, of m_msg]
  by (simp_all add: message_reset_def)

lemma fresh_unparsed:
  assumes "unparsed m"
  shows "fresh m = read_into (datagram_of m) new_message"
proof -
  have "cut_buf m = (\<lambda>i. if i < m_size m \<and> i < maxBuf then map (m_buf m) [0..<m_size m] ! i else CHR 0x00)"
    using assms by (auto simp: cut_buf_def unparsed_def fun_eq_iff)
  moreover have "min (m_size m) maxBuf = m_size m" using assms by (simp add: unparsed_def)
  ultimately show ?thesis
    using assms reset_sel [of m] unfolding unparsed_def
    by (intro message.equality) (simp_all add: fresh_def read_into_def datagram_of_def new_message_def fun_eq_iff)
qed

lemma run_parser_entry:
  assumes "unparsed m" and "run_parser L m = Inr (e, m')"
  shows "e = entry_of L (datagram_of m)" and "message_reset m' = m'"
  using run_parser_fresh [of m L e m'] assms by (auto simp: unparsed_def entry_of_def fresh_unparsed)

text \<open>A new message holds no stale bytes, so it is always parsed.\<close>

lemma run_parser_new: "\<exists>e m'. run_parser L (read_into d new_message) = Inr (e, m')"
proof -
  let ?m = "read_into d new_message"
  have size: "m_size ?m \<le> maxBuf" by (cases d) (simp add: read_into_def)
  have "\<not> is_digit CHR 0x00" by (simp add: is_digit_def)
  then have "k < m_size ?m" if "pri_end (m_buf ?m) k" for k
    using that by (cases d) (auto simp: pri_end_def read_into_def new_message_def split: if_splits)
  then have "\<not> stale_priority ?m" by (auto simp: stale_priority_def not_le)
  then obtain r where "message_parse L ?m = Inr r"
    using message_parse_panics_iff [OF size, of L] by (cases "message_parse L ?m") auto
  then show ?thesis by (cases r) (simp add: run_parser_def)
qed

lemma entry_of_read_into: "entry_of L (datagram_of (read_into d m)) = entry_of L d"
proof -
  obtain b h t where d: "d = (b, h, t)" by (cases d)
  have "map (\<lambda>i. if i < length b \<and> i < maxBuf then b ! i else c i) [0..<min (length b) maxBuf] = take maxBuf b" for c
    by (rule nth_equalityI) auto
  then have dg: "datagram_of (read_into d m) = (take maxBuf b, h, t)"
    by (simp add: datagram_of_def read_into_def d)
  have "read_into (take maxBuf b, h, t) new_message = read_into d new_message"
    by (auto simp: read_into_def d fun_eq_iff min_def)
  then show ?thesis by (simp add: entry_of_def dg)
qed


section \<open>The invariant of the receiver\<close>

definition in_flight :: "'j rstate \<Rightarrow> message list" where
  "in_flight s = (case rs_phase s of Sending m \<Rightarrow> [m] | _ \<Rightarrow> []) @ rs_ch s @ rs_work s"

definition syslog_inv :: "'j syslog_lib \<Rightarrow> int \<Rightarrow> 'j rstate \<Rightarrow> bool" where
  "syslog_inv L parsers s \<longleftrightarrow>
     (\<forall>m \<in> set (rs_pool s). message_reset m = m) \<and>
     (\<forall>m. rs_phase s = Reading m \<longrightarrow> message_reset m = m) \<and>
     (\<forall>m \<in> set (in_flight s). unparsed m) \<and>
     length (rs_ch s) \<le> parser_count parsers * 64 \<and> length (rs_work s) \<le> parser_count parsers \<and>
     (rs_phase s = Done \<longrightarrow> rs_ch s = [] \<and> rs_work s = []) \<and>
     (\<forall>m. rs_phase s = Sending m \<longrightarrow> rs_recvd s \<noteq> [] \<and> entry_of L (datagram_of m) = entry_of L (last (rs_recvd s))) \<and>
     length (rs_lost s) \<le> 1 \<and> (rs_lost s \<noteq> [] \<longrightarrow> rs_cancelled s \<and> ((\<exists>m. rs_phase s = Draining m) \<or> rs_phase s = Done)) \<and>
     image_mset (entry_of L) (mset (rs_recvd s)) =
       mset (rs_log s) + image_mset (entry_of L \<circ> datagram_of) (mset (in_flight s)) + image_mset (entry_of L) (mset (rs_lost s))"

lemma unparsed_read_into: "message_reset m = m \<Longrightarrow> unparsed (read_into d m)"
  using reset_sel [of m] unfolding unparsed_def
  by (cases d) (intro conjI message.equality, simp_all add: read_into_def message_reset_def)

lemma syslog_inv_step:
  assumes "rstep L parsers s s'" and "syslog_inv L parsers s"
  shows "syslog_inv L parsers s'"
  using assms
proof cases
  case (parse xs m ys e m')
  have "unparsed m" using assms(2) parse(3) by (auto simp: syslog_inv_def in_flight_def)
  from run_parser_entry [OF this parse(4)] assms(2) parse(1-3) show ?thesis
    by (cases "rs_phase s") (auto simp: syslog_inv_def in_flight_def)
next
  case (read m d)
  with assms(2) show ?thesis
    by (auto simp: syslog_inv_def in_flight_def unparsed_read_into entry_of_read_into)
next
  case (take m ms)
  with assms(2) show ?thesis
    by (cases "rs_phase s") (auto simp: syslog_inv_def in_flight_def)
next
  case (finish m)
  with assms(2) show ?thesis by (auto simp: syslog_inv_def in_flight_def message_reset_def)
qed (use assms(2) in \<open>auto simp: syslog_inv_def in_flight_def new_message_def message_reset_def\<close>)


lemma syslog_inv_reachable:
  "(rstep L parsers)\<^sup>*\<^sup>* StartReceiver s \<Longrightarrow> syslog_inv L parsers s"
proof (induction rule: rtranclp_induct)
  case base
  then show ?case by (simp add: syslog_inv_def in_flight_def StartReceiver_def)
qed (rule syslog_inv_step)

text \<open>C10. Whatever the interleaving of the reader, the parsers and the cancellation, and although
  messages are reused without clearing their buffers, every line logged is the line a new message
  gives for one of the datagrams received, and no datagram is logged twice. When the receiver is
  done, all datagrams have been logged, except for at most one that was read when the receiver
  was cancelled.\<close>

theorem syslog_logs_each_datagram:
  assumes "(rstep L parsers)\<^sup>*\<^sup>* StartReceiver s"
  shows "\<exists>rest. image_mset (entry_of L) (mset (rs_recvd s)) = mset (rs_log s) + image_mset (entry_of L) rest \<and>
      (rs_phase s = Done \<longrightarrow> size rest \<le> 1 \<and> (rest \<noteq> {#} \<longrightarrow> rs_cancelled s)) \<and>
      length (rs_ch s) \<le> 64 * max 1 (nat parsers)"
proof -
  let ?rest = "image_mset datagram_of (mset (in_flight s)) + mset (rs_lost s)"
  note inv = syslog_inv_reachable [OF assms, unfolded syslog_inv_def]
  have "image_mset (entry_of L) (mset (rs_recvd s)) = mset (rs_log s) + image_mset (entry_of L) ?rest"
    using inv by (simp add: multiset.map_comp add.assoc)
  moreover have "size ?rest \<le> 1 \<and> (?rest \<noteq> {#} \<longrightarrow> rs_cancelled s)" if "rs_phase s = Done"
    using inv that by (auto simp: in_flight_def)
  moreover have "length (rs_ch s) \<le> 64 * max 1 (nat parsers)"
    using inv by (auto simp: parser_count_def split: if_splits)
  ultimately show ?thesis by blast
qed

text \<open>A run that is cancelled with one datagram logged, and the crash two datagrams cause.\<close>

definition ex_syslog_lib :: "unit syslog_lib" where
  "ex_syslog_lib = \<lparr>sy_ParseStamp = (\<lambda>s. None), sy_ParseTimestamp = (\<lambda>s. None), sy_Unmarshal = (\<lambda>s. None),
     sy_Quote = (\<lambda>s. s)\<rparr>"

definition ex_datagram :: datagram where
  "ex_datagram = (''<123>hi'', [10, 0, 0, 9], 0)"

definition received_state :: "datagram \<Rightarrow> unit rstate \<Rightarrow> message \<Rightarrow> unit rstate" where
  "received_state d s m = s\<lparr>rs_phase := Fetch, rs_work := [read_into d m], rs_recvd := rs_recvd s @ [d]\<rparr>"

lemma receive_one:
  assumes "rs_phase s = Fetch" "\<not> rs_crashed s" "rs_ch s = []" "rs_work s = []"
    and "m = new_message \<and> rs_pool s = [] \<or> rs_pool s = [m]"
  shows "(rstep L 1)\<^sup>*\<^sup>* s ((received_state d s m)\<lparr>rs_pool := []\<rparr>)"
proof -
  let ?a = "s\<lparr>rs_phase := Reading m, rs_pool := []\<rparr>"
  let ?b = "?a\<lparr>rs_phase := Sending (read_into d m), rs_recvd := rs_recvd s @ [d]\<rparr>"
  let ?c = "?b\<lparr>rs_phase := Fetch, rs_ch := [read_into d m]\<rparr>"
  have "rstep L 1 s ?a"
  proof (cases "rs_pool s = []")
    case True
    then have "?a = s\<lparr>rs_phase := Reading new_message\<rparr>" using assms(5) by simp
    then show ?thesis using rstep.get_new [OF assms(2,1), of L 1] by simp
  next
    case False
    then have "rs_pool s = [] @ m # []" using assms(5) by simp
    from rstep.get_pooled [OF assms(2,1) this, of L 1] show ?thesis by simp
  qed
  moreover have "rstep L 1 ?a ?b" using rstep.read [of ?a m L 1 d] assms(2) by simp
  moreover have "rstep L 1 ?b ?c" using rstep.send [of ?b "read_into d m" 1 L] assms(2,3) by (simp add: parser_count_def)
  moreover have "rstep L 1 ?c (?c\<lparr>rs_ch := [], rs_work := [read_into d m]\<rparr>)"
    using rstep.take [of ?c "read_into d m" "[]" 1 L] assms(2,4) by (simp add: parser_count_def)
  ultimately have "(rstep L 1)\<^sup>*\<^sup>* s (?c\<lparr>rs_ch := [], rs_work := [read_into d m]\<rparr>)"
    by (meson converse_rtranclp_into_rtranclp r_into_rtranclp)
  moreover have "?c\<lparr>rs_ch := [], rs_work := [read_into d m]\<rparr> = (received_state d s m)\<lparr>rs_pool := []\<rparr>"
    using assms(3) by (simp add: received_state_def)
  ultimately show ?thesis by simp
qed

lemma ex_first_parsed:
  obtains s m where "(rstep ex_syslog_lib 1)\<^sup>*\<^sup>* StartReceiver s" "rs_phase s = Fetch" "\<not> rs_crashed s" "rs_ch s = []" "rs_work s = []"
    "rs_pool s = [m]" "m_buf m = m_buf (read_into ex_datagram new_message)" "rs_recvd s = [ex_datagram]"
    "rs_log s = [entry_of ex_syslog_lib ex_datagram]"
proof -
  let ?m = "read_into ex_datagram new_message"
  let ?s = "(received_state ex_datagram StartReceiver new_message)\<lparr>rs_pool := []\<rparr>"
  have r: "(rstep ex_syslog_lib 1)\<^sup>*\<^sup>* StartReceiver ?s"
    by (rule receive_one) (simp_all add: StartReceiver_def)
  have un: "unparsed ?m" by (rule unparsed_read_into) (simp add: message_reset_def new_message_def)
  obtain e m' where run: "run_parser ex_syslog_lib ?m = Inr (e, m')" using run_parser_new by blast
  then obtain ok m1 where ok: "message_parse ex_syslog_lib ?m = Inr (ok, m1)" and m': "m' = message_reset m1"
    by (cases "message_parse ex_syslog_lib ?m") (auto simp: run_parser_def)
  have "m_buf m1 = m_buf ?m" using message_parse_fresh [OF _ ok] un by (simp add: unparsed_def)
  then have buf: "m_buf m' = m_buf ?m" using m' by (simp add: message_reset_def)
  have e: "e = entry_of ex_syslog_lib ex_datagram" using run by (simp add: entry_of_def)
  have crashed: "\<not> rs_crashed ?s" and work: "rs_work ?s = [] @ ?m # []"
    by (simp_all add: received_state_def StartReceiver_def)
  let ?t = "?s\<lparr>rs_work := [] @ [], rs_log := rs_log ?s @ [e], rs_pool := m' # rs_pool ?s\<rparr>"
  have "(rstep ex_syslog_lib 1)\<^sup>*\<^sup>* StartReceiver ?t"
    using r rstep.parse [OF crashed work run, of 1] by (rule rtranclp.rtrancl_into_rtrancl)
  then show ?thesis
    by (rule that [of ?t m']) (use buf e in \<open>simp_all add: received_state_def StartReceiver_def\<close>)
qed

theorem syslog_logs_each_datagram_witness:
  "\<exists>s rest. (rstep ex_syslog_lib 1)\<^sup>*\<^sup>* StartReceiver s \<and> rs_recvd s = [ex_datagram] \<and> length (rs_log s) = 1 \<and>
     image_mset (entry_of ex_syslog_lib) (mset (rs_recvd s)) = mset (rs_log s) + image_mset (entry_of ex_syslog_lib) rest"
  by (rule ex_first_parsed) (metis syslog_logs_each_datagram length_Cons list.size(3) One_nat_def)

text \<open>The datagram \<open><12\<close> after \<open><123>hi\<close>: the stale digit and bracket end its priority beyond
  its size and slicing panics, which ends the process.\<close>

theorem two_datagrams_crash_receiver:
  "\<exists>s. (rstep ex_syslog_lib 1)\<^sup>*\<^sup>* StartReceiver s \<and> rs_crashed s \<and> map fst (rs_recvd s) = [''<123>hi'', ''<12'']"
proof (rule ex_first_parsed)
  fix s m
  assume r: "(rstep ex_syslog_lib 1)\<^sup>*\<^sup>* StartReceiver s" and s: "rs_phase s = Fetch" "\<not> rs_crashed s" "rs_ch s = []" "rs_work s = []"
    and pool: "rs_pool s = [m]" and buf: "m_buf m = m_buf (read_into ex_datagram new_message)" and recvd: "rs_recvd s = [ex_datagram]"
  let ?d = "(''<12'', [10, 0, 0, 9], 1) :: datagram"
  let ?m = "read_into ?d m"
  let ?s = "(received_state ?d s m)\<lparr>rs_pool := []\<rparr>"
  have bytes: "m_size ?m = 3" "m_buf ?m 0 = CHR ''<''" "m_buf ?m 1 = CHR ''1''" "m_buf ?m 2 = CHR ''2''"
    "m_buf ?m 3 = CHR ''3''" "m_buf ?m 4 = CHR ''>''"
    using buf by (simp_all add: read_into_def ex_datagram_def maxBuf_def)
  have "{1..<4::nat} = {1, 2, 3}" by auto
  then have "pri_end (m_buf ?m) 4" using bytes by (simp add: pri_end_def is_digit_def)
  then have "stale_priority ?m" using bytes by (auto simp: stale_priority_def)
  then obtain p where "message_parse ex_syslog_lib ?m = Inl p"
    using message_parse_panics_iff [of ?m ex_syslog_lib] bytes(1) by (auto simp: maxBuf_def)
  then have run: "run_parser ex_syslog_lib ?m = Inl p" by (simp add: run_parser_def)
  have "(rstep ex_syslog_lib 1)\<^sup>*\<^sup>* s ?s" by (rule receive_one [OF s]) (simp add: pool)
  moreover have "rstep ex_syslog_lib 1 ?s (?s\<lparr>rs_crashed := True\<rparr>)"
    using rstep.parse_panic [of ?s "[]" ?m "[]" ex_syslog_lib p 1] run s by (simp add: received_state_def)
  ultimately have "(rstep ex_syslog_lib 1)\<^sup>*\<^sup>* StartReceiver (?s\<lparr>rs_crashed := True\<rparr>)"
    using r by (meson rtranclp.rtrancl_into_rtrancl rtranclp_trans)
  then show ?thesis
    by (intro exI [of _ "?s\<lparr>rs_crashed := True\<rparr>"]) (simp add: received_state_def recvd ex_datagram_def)
qed

text \<open>The priority is a byte and wraps; the hours a legacy timestamp is off are added as
  nanoseconds.\<close>

lemma priority_wraps: "pri_value 0 ''999'' = 231"
  by (simp add: pri_value.simps)

lemma legacy_hours_are_nanoseconds:
  "m_time (correctLegacyTime (days_of_date 0 1 1 * day_ns) (new_message\<lparr>m_time := 5 * hour\<rparr>)) = 5"
  by code_simp



section \<open>Messages of RFC 5424\<close>

lemma pri_value_snoc: "pri_value p (s @ [c]) = pri_value p s * 10 + of_nat (of_char c) - 48"
  by (induction s arbitrary: p) simp_all

lemma pri_value_decimal: "pri_value 0 (string_of_nat n) = of_nat n"
proof (induction n rule: string_of_nat.induct)
  case (1 n)
  have digit: "of_nat (of_char (char_of (k + 48) :: char)) = (of_nat k + 48 :: 8 word)" if "k < 10" for k :: nat
    using that by simp
  show ?case
  proof (cases "n < 10")
    case True
    then show ?thesis using digit [OF True] by (simp add: string_of_nat.simps)
  next
    case False
    have "of_nat n = (of_nat (n div 10) * 10 + of_nat (n mod 10) :: 8 word)"
      by (metis div_mult_mod_eq of_nat_add of_nat_mult of_nat_numeral)
    with False 1 digit [of "n mod 10"] show ?thesis
      by (subst string_of_nat.simps) (simp add: pri_value_snoc)
  qed
qed

lemma cut_char_at: "c \<notin> set a \<Longrightarrow> cut_char c (a @ c # b) = (a, b, True)"
  by (induction a) auto

lemma split_n_cons: "c \<notin> set a \<Longrightarrow> split_n (Suc (Suc n)) c (a @ c # b) = a # split_n (Suc n) c b"
  by (simp add: cut_char_at)

definition rfc5424 :: "nat \<Rightarrow> string \<Rightarrow> string \<Rightarrow> string \<Rightarrow> string \<Rightarrow> string \<Rightarrow> string" where
  "rfc5424 pri host app procid msgid msg =
     ''<'' @ string_of_nat pri @ ''>1 - '' @ host @ '' '' @ app @ '' '' @ procid @ '' '' @ msgid @ '' - '' @ msg"

lemma length_decimal: "pri < 1000 \<Longrightarrow> 1 \<le> length (string_of_nat pri) \<and> length (string_of_nat pri) \<le> 3"
  by (simp add: string_of_nat.simps [of pri] string_of_nat.simps [of "pri div 10"] string_of_nat.simps [of "pri div 10 div 10"])

lemma parse_priority_text:
  assumes "b = ''<'' @ string_of_nat pri @ ''>'' @ rest" and "pri < 1000" and "length b \<le> maxBuf"
  shows "parsePriority (read_into (b, ip, now) new_message) =
    Inr (True, (read_into (b, ip, now) new_message)\<lparr>m_priority := of_nat pri, m_msg := Some rest\<rparr>)"
proof -
  let ?m = "read_into (b, ip, now) new_message"
  let ?n = "length (string_of_nat pri)"
  have len: "1 \<le> ?n" "?n \<le> 3" using length_decimal [OF assms(2)] by blast+
  have size: "m_size ?m = length b" using assms(3) by (simp add: read_into_def)
  have buf: "m_buf ?m i = b ! i" if "i < length b" for i
    using that assms(3) by (simp add: read_into_def)
  have lb: "length b = Suc (Suc (?n + length rest))" by (simp add: assms(1))
  have at: "b ! 0 = CHR ''<''" "b ! Suc ?n = CHR ''>''" by (simp_all add: assms(1) nth_append)
  have digits: "b ! i = string_of_nat pri ! (i - 1)" if "i \<in> {1..<Suc ?n}" for i
    using that by (cases i) (simp_all add: assms(1) nth_append)
  have "is_digit (m_buf ?m i)" if "i \<in> {1..<Suc ?n}" for i
    using that digits [OF that] digits_string_of_nat [of pri] buf [of i] lb by (auto simp: list_all_length)
  then have pe: "pri_end (m_buf ?m) (Suc ?n)" using at len buf [of "Suc ?n"] lb by (simp add: pri_end_def)
  have "map (m_buf ?m) [1..<Suc ?n] = string_of_nat pri"
    by (rule nth_equalityI) (use buf digits lb in \<open>simp_all del: upt_Suc\<close>)
  moreover have "map (m_buf ?m) [Suc (Suc ?n)..<length b] = rest"
    by (rule nth_equalityI) (use buf lb in \<open>simp_all add: assms(1) nth_append del: upt_Suc\<close>)
  ultimately show ?thesis
    using parsePriority_match [of ?m "Suc ?n"] pe size at buf [of 0] lb len assms(3) pri_value_decimal [of pri]
    by (simp del: upt_Suc)
qed


lemma parse_rest_rfc5424:
  assumes "m_msg m = Some (''1 - '' @ host @ '' '' @ app @ '' '' @ procid @ '' '' @ msgid @ '' - '' @ msg)"
    and "CHR '' '' \<notin> set host" "CHR '' '' \<notin> set app" "CHR '' '' \<notin> set procid" "CHR '' '' \<notin> set msgid"
  shows "parse_rest L m = (True, m\<lparr>m_hostname := ignoreNil host, m_app := ignoreNil app, m_procid := ignoreNil procid,
    m_msgid := ignoreNil msgid, m_msg := Some msg\<rparr>)"
proof -
  have six: "(6 :: nat) = Suc (Suc (Suc (Suc (Suc (Suc 0)))))" by simp
  have "split_n 6 CHR '' '' (''-'' @ CHR '' '' # host @ CHR '' '' # app @ CHR '' '' # procid @ CHR '' '' # msgid @ CHR '' '' # ''- '' @ msg) =
      [''-'', host, app, procid, msgid, ''- '' @ msg]"
    unfolding six using assms(2-5)
    by (subst split_n_cons, simp)+ (simp add: split_n.simps)
  then show ?thesis
    using assms(1)
    by (simp add: parse_rest_def parseVersion_def slice_bytes_def parseHeader_def parseTimestamp_def ignoreNil_def
        parseStructuredData_def Let_def)
qed



end
