(* ===== verification/Smee_Ipxe.thy ===== *)
theory Smee_Ipxe
  imports Smee_Data
begin

text \<open>
  iPXE serving, \<open>src/smee/internal/ipxe\<close>: the embedded binaries and their patch
  (\<open>binary/file\<close>), the chain of TFTP routes and its HTTP form (\<open>binary\<close>), and the boot
  scripts (\<open>script\<close>), whose templates are written out as the text they render to.

  What is served goes through a writer over a world, \<open>io.ReaderFrom\<close>. The contents of the
  binaries, the asset directory, the OpenTelemetry identifiers and \<open>http.ServeContent\<close> are
  operations of \<open>ipxe_lib\<close>.
\<close>

record ipxe_lib = smee_lib +
  xl_Embedded :: "string \<Rightarrow> string"                     \<comment> \<open>content of an embedded file\<close>
  xl_OpenRoot :: "string \<Rightarrow> string \<Rightarrow> gerr + string"     \<comment> \<open>\<open>os.OpenRoot(dir)\<close>, \<open>Open(name)\<close>\<close>
  xl_TraceIDFromHex :: "string \<Rightarrow> gerr option"
  xl_SpanIDFromHex :: "string \<Rightarrow> gerr option"

type_synonym 'w reader_from = "string \<Rightarrow> 'w \<Rightarrow> (int \<times> gerr option) \<times> 'w"

definition ErrNotExist :: gerr where
  "ErrNotExist = NewError ''file does not exist''"

definition ErrPermission :: gerr where
  "ErrPermission = NewError ''permission denied''"

definition nl :: string where
  "nl = [CHR 0x0A]"

definition unlines :: "string list \<Rightarrow> string" where
  "unlines ls = concat (map (\<lambda>l. l @ nl) ls)"


section \<open>Embedded binaries\<close>

definition magicString :: string where
  "magicString =
     ''#a8b7e61f1075c37a793f2f92cee89f7bba00c4a8d7842ce3d40b5889032d8881'' @ nl @
     ''#ddd16a4fc4926ecefdfb6941e33c44ed3647133638f5e84021ea44d3152e7f97''"

definition magicStringPadding :: string where
  "magicStringPadding = replicate (length magicString) CHR '' ''"

definition file_names :: "string list" where
  "file_names = [''undionly.kpxe'', ''ipxe.efi'', ''snp-arm64.efi'', ''snp-x86_64.efi'', ''ipxe.iso'', ''ipxe-efi.img'']"

definition Files :: "ipxe_lib \<Rightarrow> string \<Rightarrow> string option" where
  "Files L name = (if name \<in> set file_names then Some (xl_Embedded L name) else None)"

definition ErrPatchTooLong :: gerr where
  "ErrPatchTooLong = NewError ''patch string is too long''"

definition ipxe_Patch :: "string \<Rightarrow> string \<Rightarrow> gerr + string" where
  "ipxe_Patch content patch =
     (if patch = [] then Inr content
      else
        (case index_of magicString content of
           None \<Rightarrow> Inr content
         | Some i \<Rightarrow>
             if length magicString < length patch then Inl ErrPatchTooLong
             else Inr (copy_at i patch (copy_at i magicStringPadding content))))"

text \<open>The trace suffix of a file name, matched by a regular expression: the greedy group takes
  the longest prefix without a line break that is followed by the four fields.\<close>

definition is_xdigit :: "char \<Rightarrow> bool" where
  "is_xdigit c \<longleftrightarrow> is_digit c \<or> c \<in> set ''abcdefABCDEF''"

definition trace_suffix :: "string \<Rightarrow> bool" where
  "trace_suffix s \<longleftrightarrow>
     56 \<le> length s \<and> list_all is_xdigit (take 2 (drop 1 s)) \<and> list_all is_xdigit (take 32 (drop 4 s)) \<and>
     list_all is_xdigit (take 16 (drop 37 s)) \<and> list_all is_xdigit (take 2 (drop 54 s)) \<and>
     s ! 0 = CHR ''-'' \<and> s ! 3 = CHR ''-'' \<and> s ! 36 = CHR ''-'' \<and> s ! 53 = CHR ''-''"

definition trace_split :: "string \<Rightarrow> nat option" where
  "trace_split s =
     find (\<lambda>k. trace_suffix (drop k s)) (rev [0..<Suc (length (takeWhile (\<lambda>c. c \<noteq> CHR 0x0A) s))])"

text \<open>The file name to serve, and the error that is only logged.\<close>

definition extractTraceparentFromFilename :: "ipxe_lib \<Rightarrow> string \<Rightarrow> string \<times> gerr option" where
  "extractTraceparentFromFilename L filename =
     (case trace_split filename of
        None \<Rightarrow> (filename, None)
      | Some k \<Rightarrow>
          (let traceID = take 32 (drop (k + 4) filename); spanID = take 16 (drop (k + 37) filename) in
           case xl_TraceIDFromHex L traceID of
             Some e \<Rightarrow> (filename, Some (errorf (''parsing OpenTelemetry trace id '' @ sl_Quote L traceID @ '' failed: '') e))
           | None \<Rightarrow>
               (case xl_SpanIDFromHex L spanID of
                  Some e \<Rightarrow> (filename, Some (errorf (''parsing OpenTelemetry span id '' @ sl_Quote L spanID @ '' failed: '') e))
                | None \<Rightarrow> (take k filename, None))))"

datatype http_reply =
    HttpError nat string            \<comment> \<open>\<open>http.Error\<close>, \<open>http.NotFound\<close>, \<open>WriteHeader\<close>\<close>
  | ServeContent string string      \<comment> \<open>\<open>http.ServeContent\<close> with name and content\<close>

definition binary_Handle :: "ipxe_lib \<Rightarrow> string \<Rightarrow> string \<Rightarrow> string \<Rightarrow> http_reply" where
  "binary_Handle L patch method urlPath =
     (if method \<noteq> ''GET'' \<and> method \<noteq> ''HEAD'' then HttpError 405 ''Method not allowed''
      else
        (let filename = fst (extractTraceparentFromFilename L (path_Base urlPath)) in
         case Files L filename of
           None \<Rightarrow> HttpError 404 ''404 page not found''
         | Some file \<Rightarrow>
             (case ipxe_Patch file patch of
                Inl e \<Rightarrow> HttpError 500 []
              | Inr file' \<Rightarrow> ServeContent filename file')))"


section \<open>Routes\<close>

record Request =
  rq_Filename :: string
  rq_Base :: string
  rq_ClientIP :: bytes

type_synonym 'w route = "Request \<Rightarrow> 'w reader_from \<Rightarrow> 'w \<Rightarrow> (bool \<times> gerr option) \<times> 'w"

text \<open>Serve a content: handled, with the error of the writer.\<close>

definition serve :: "string \<Rightarrow> 'w reader_from \<Rightarrow> 'w \<Rightarrow> (bool \<times> gerr option) \<times> 'w" where
  "serve content rf w = (case rf content w of ((n, e), w') \<Rightarrow> ((True, e), w'))"

fun Router_Handle :: "'w route list \<Rightarrow> Request \<Rightarrow> 'w reader_from \<Rightarrow> 'w \<Rightarrow> gerr option \<times> 'w" where
  "Router_Handle [] req rf w = (Some (errorf (''file ['' @ rq_Base req @ ''] unknown: '') ErrNotExist), w)"
| "Router_Handle (r # rs) req rf w =
     (case r req rf w of
        ((True, e), w') \<Rightarrow> (e, w')
      | ((False, e), w') \<Rightarrow> Router_Handle rs req rf w')"

definition openAsset :: "ipxe_lib \<Rightarrow> string \<Rightarrow> string \<Rightarrow> gerr + string" where
  "openAsset L dir name = xl_OpenRoot L dir name"

definition DiskAssetRoute :: "ipxe_lib \<Rightarrow> string \<Rightarrow> 'w route" where
  "DiskAssetRoute L dir req rf w =
     (if dir = [] then ((False, None), w)
      else
        (case openAsset L dir (rq_Filename req) of
           Inl e \<Rightarrow> ((False, None), w)
         | Inr content \<Rightarrow> serve content rf w))"

definition EmbeddedIPXERoute :: "ipxe_lib \<Rightarrow> string \<Rightarrow> 'w route" where
  "EmbeddedIPXERoute L patch req rf w =
     (case Files L (rq_Base req) of
        None \<Rightarrow> ((False, None), w)
      | Some content \<Rightarrow>
          (case ipxe_Patch content patch of
             Inl e \<Rightarrow> ((True, Some e), w)
           | Inr patched \<Rightarrow> serve patched rf w))"

definition pxelinuxFullMACPrefix :: string where
  "pxelinuxFullMACPrefix = ''pxelinux.cfg/01-''"

definition pxeLinuxFullLen :: nat where
  "pxeLinuxFullLen = length pxelinuxFullMACPrefix + length ''00-00-00-00-00-00''"

definition PXELinuxMACRoute :: "ipxe_lib \<Rightarrow> reader \<Rightarrow> 'w route" where
  "PXELinuxMACRoute L br req rf w =
     (let f = rq_Filename req; n = length pxelinuxFullMACPrefix in
      if length f \<noteq> pxeLinuxFullLen \<or> take n f \<noteq> pxelinuxFullMACPrefix then ((False, None), w)
      else
        (case ParseMAC (drop n f) of
           None \<Rightarrow> ((False, None), w)
         | Some mac \<Rightarrow>
             (case GetByMac (smee_lib.truncate L) mac br of
                Inl e \<Rightarrow> ((False, None), w)
              | Inr hw \<Rightarrow>
                  if pxelinux_Config (hi_PXELINUX hw) = [] then ((False, None), w)
                  else serve (pxelinux_Config (hi_PXELINUX hw)) rf w)))"

definition serveTemplate :: "string \<Rightarrow> 'w reader_from \<Rightarrow> 'w \<Rightarrow> (bool \<times> gerr option) \<times> 'w" where
  "serveTemplate template rf w = (if template = [] then ((False, None), w) else serve template rf w)"

definition RPiNetbootRoute :: "ipxe_lib \<Rightarrow> reader \<Rightarrow> string \<Rightarrow> 'w route" where
  "RPiNetbootRoute L br assetDir req rf w =
     (if assetDir = [] then ((False, None), w)
      else
        (case GetByIP (smee_lib.truncate L) (rq_ClientIP req) br of
           Inl e \<Rightarrow> ((False, None), w)
         | Inr hw \<Rightarrow>
             (let rpi = hi_RPI hw; serial = rpi_SerialNum rpi; f = rq_Filename req in
              if serial = [] \<or> rpi_FirmwarePath rpi = [] then ((False, None), w)
              else if \<not> has_prefix (serial @ ''/'') f then ((False, None), w)
              else if f = serial @ ''/config.txt'' then serveTemplate (rpi_ConfigTxt rpi) rf w
              else if f = serial @ ''/cmdline.txt'' then serveTemplate (join_str '' '' (so_KernelParams (hi_OSIE hw))) rf w
              else
                (case openAsset L assetDir (rpi_FirmwarePath rpi @ drop (length serial) f) of
                   Inl e \<Rightarrow> ((False, None), w)
                 | Inr content \<Rightarrow> serve content rf w))))"

text \<open>\<open>TFTP.HandleRead\<close> and \<open>HandleWrite\<close>.\<close>

definition HandleRead :: "ipxe_lib \<Rightarrow> 'w route list \<Rightarrow> bytes \<Rightarrow> string \<Rightarrow> 'w reader_from \<Rightarrow> 'w \<Rightarrow> gerr option \<times> 'w" where
  "HandleRead L routes clientIP full rf w =
     (let shortfull = fst (extractTraceparentFromFilename L full) in
      Router_Handle routes \<lparr>rq_Filename = shortfull, rq_Base = path_Base shortfull, rq_ClientIP = clientIP\<rparr> rf w)"

definition HandleWrite :: "string \<Rightarrow> gerr" where
  "HandleWrite filename = errorf ''access_violation: '' ErrPermission"

definition normalizePathPrefix :: "string \<Rightarrow> string" where
  "normalizePathPrefix prefix =
     (let p = trim_space prefix;
          p1 = (if has_prefix ''/'' p then p else ''/'' @ p);
          p2 = path_Clean p1
      in if has_suffix ''/'' p2 then p2 else p2 @ ''/'')"

text \<open>The response being written: the content length, the body and the error status.\<close>

record http_writer =
  hw_ContentLength :: "nat option"
  hw_Body :: string
  hw_Error :: "nat option"

text \<open>\<open>httpReaderFrom.ReadFrom\<close>: both kinds of reader can seek.\<close>

definition http_ReadFrom :: "bool \<Rightarrow> http_writer reader_from" where
  "http_ReadFrom head content w =
     (let w1 = w\<lparr>hw_ContentLength := Some (length content)\<rparr> in
      if head then ((0, None), w1)
      else ((int (length content), None), w1\<lparr>hw_Body := hw_Body w1 @ content\<rparr>))"

definition HTTPHandler_Handle ::
  "http_writer route list \<Rightarrow> string \<Rightarrow> string \<Rightarrow> string \<Rightarrow> string \<Rightarrow> http_writer \<Rightarrow> http_writer" where
  "HTTPHandler_Handle routes prefix method urlPath remoteAddr w =
     (if method \<noteq> ''GET'' \<and> method \<noteq> ''HEAD'' then w\<lparr>hw_Error := Some 405\<rparr>
      else
        (let rel = trim_prefix ''/'' (trim_prefix prefix urlPath);
             host = (case SplitHostPort remoteAddr of None \<Rightarrow> [] | Some (h, p) \<Rightarrow> h);
             ip = (case ParseIP host of None \<Rightarrow> [] | Some b \<Rightarrow> b)
         in case Router_Handle routes \<lparr>rq_Filename = rel, rq_Base = path_Base rel, rq_ClientIP = ip\<rparr>
                   (http_ReadFrom (method = ''HEAD'')) w of
              (None, w') \<Rightarrow> w'
            | (Some e, w') \<Rightarrow> w'\<lparr>hw_Error := Some (if errors_Is ErrNotExist e then 404 else 500)\<rparr>))"


section \<open>Boot scripts\<close>

record ScriptHandler =
  sc_Backend :: reader
  sc_OSIEURL :: string
  sc_ExtraKernelParams :: "string list"
  sc_PublicSyslogFQDN :: string
  sc_TinkServerTLS :: bool
  sc_TinkServerInsecureTLS :: bool
  sc_TinkServerGRPCAddr :: string
  sc_IPXEScriptRetries :: int
  sc_IPXEScriptRetryDelay :: int
  sc_StaticIPXEEnabled :: bool
  sc_KernelName :: string
  sc_InitrdName :: string

record Hook =
  hk_Arch :: string
  hk_Console :: string
  hk_DownloadURL :: string
  hk_ExtraKernelParams :: "string list"
  hk_Facility :: string
  hk_HWAddr :: string
  hk_SyslogHost :: string
  hk_TinkerbellTLS :: bool
  hk_TinkerbellInsecureTLS :: bool
  hk_TinkGRPCAuthority :: string
  hk_TraceID :: string
  hk_VLANID :: string
  hk_WorkerID :: string
  hk_Retries :: int
  hk_RetryDelay :: int
  hk_KernelName :: string
  hk_InitrdName :: string

definition empty_Hook :: Hook where
  "empty_Hook = \<lparr>hk_Arch = [], hk_Console = [], hk_DownloadURL = [], hk_ExtraKernelParams = [], hk_Facility = [], hk_HWAddr = [],
     hk_SyslogHost = [], hk_TinkerbellTLS = False, hk_TinkerbellInsecureTLS = False, hk_TinkGRPCAuthority = [], hk_TraceID = [],
     hk_VLANID = [], hk_WorkerID = [], hk_Retries = 0, hk_RetryDelay = 0, hk_KernelName = [], hk_InitrdName = []\<rparr>"

definition syslog_lines :: "string \<Rightarrow> string list" where
  "syslog_lines host =
     (if host = [] then []
      else
        [''# iPXE can only set the syslog server to an IP address, not a hostname (https://ipxe.org/cfg/syslog).'',
         ''# If target is an IP, save it directly; if not, resolve it via nslookup directly into the syslog variable.'',
         ''set check:ipv4 '' @ host @ '' && set syslog '' @ host @ '' || nslookup syslog '' @ host @
           '' || echo [WARN] Failed to resolve syslog host '' @ host,
         ''clear check''])"

definition retry_tail :: "string \<Rightarrow> string \<Rightarrow> string" where
  "retry_tail stage label =
     '' || iseq ${idx} ${retries} && goto '' @ stage @ ''-error || inc idx && echo retry in ${retry_delay} seconds ; sleep ${retry_delay} ; goto '' @ label"

definition boot_lines :: "string list" where
  "boot_lines =
     [[], '':download_initrd'', ''set idx:int32 0'', '':retry_initrd'',
      ''initrd ${download-url}/${initrd} && goto boot'' @ retry_tail ''initrd'' ''retry_initrd'',
      [], '':boot'', ''set idx:int32 0'', '':retry_boot'', ''boot'' @ retry_tail ''boot'' ''retry_boot'',
      [], '':kernel-error'', ''echo Failed to load kernel'', ''imgfree'', ''exit'',
      [], '':initrd-error'', ''echo Failed to load initrd'', ''imgfree'', ''exit'',
      [], '':boot-error'', ''echo Failed to boot'', ''imgfree'', ''exit'']"

text \<open>The second line of the kernel command and its third, with the parameters.\<close>

definition kernel_identity :: "Hook \<Rightarrow> string" where
  "kernel_identity d =
     ''facility='' @ hk_Facility d @ '' syslog_host='' @ hk_SyslogHost d @ '' grpc_authority='' @ hk_TinkGRPCAuthority d @
     '' tinkerbell_tls='' @ string_of_bool (hk_TinkerbellTLS d) @ '' tinkerbell_insecure_tls='' @
     string_of_bool (hk_TinkerbellInsecureTLS d) @ '' worker_id='' @ hk_WorkerID d @ '' hw_addr='' @ hk_HWAddr d @ '' '' @ [CHR 0x5C]"

definition params_text :: "string list \<Rightarrow> string" where
  "params_text ps = concat (map (\<lambda>p. '' '' @ p) ps)"

definition HookScript :: "Hook \<Rightarrow> string" where
  "HookScript d =
     unlines ([''#!ipxe''] @ syslog_lines (hk_SyslogHost d) @ [[], ''echo Loading the Tinkerbell Hook iPXE script...'']
       @ (if hk_TraceID d = [] then [] else [''echo Debug TraceID: '' @ hk_TraceID d])
       @ [[], ''set arch '' @ hk_Arch d, ''set download-url '' @ hk_DownloadURL d,
          ''set kernel '' @ (if hk_KernelName d = [] then ''vmlinuz-${arch}'' else hk_KernelName d),
          ''set initrd '' @ (if hk_InitrdName d = [] then ''initramfs-${arch}'' else hk_InitrdName d),
          ''set retries:int32 '' @ string_of_int (hk_Retries d),
          ''set retry_delay:int32 '' @ string_of_int (hk_RetryDelay d),
          [], ''set idx:int32 0'', '':retry_kernel'',
          ''kernel ${download-url}/${kernel}'' @ (if hk_VLANID d = [] then [] else '' vlan_id='' @ hk_VLANID d) @ '' '' @ [CHR 0x5C],
          kernel_identity d,
          ''modules=loop,squashfs,sd-mod,usb-storage intel_iommu=on iommu=pt initrd=${initrd} console=tty0 console=ttyS1,115200'' @
            params_text (hk_ExtraKernelParams d) @ '' && goto download_initrd'' @ retry_tail ''kernel'' ''retry_kernel'']
       @ boot_lines)"

definition StaticScript :: "Hook \<Rightarrow> string" where
  "StaticScript d =
     unlines ([''#!ipxe''] @ syslog_lines (hk_SyslogHost d)
       @ [''echo Loading the static Tinkerbell iPXE script...'',
          [], ''set arch ${buildarch}'',
          ''# Tinkerbell only supports 64 bit architectures.'',
          ''# The build architecture does not necessarily represent the architecture of the machine on which iPXE is running.'',
          ''# https://ipxe.org/cfg/buildarch'',
          ''iseq ${arch} i386 && set arch x86_64 ||'',
          ''iseq ${arch} arm32 && set arch aarch64 ||'',
          ''iseq ${arch} arm64 && set arch aarch64 ||'',
          [],
          ''set kernel '' @ (if hk_KernelName d = [] then ''vmlinuz-${arch}'' else hk_KernelName d @ ''-${arch}''),
          ''set initrd '' @ (if hk_InitrdName d = [] then ''initramfs-${arch}'' else hk_InitrdName d @ ''-${arch}''),
          ''set download-url '' @ hk_DownloadURL d,
          ''set retries:int32 '' @ string_of_int (hk_Retries d),
          ''set retry_delay:int32 '' @ string_of_int (hk_RetryDelay d),
          [], ''set worker_id ${mac}'', ''set grpc_authority '' @ hk_TinkGRPCAuthority d,
          ''set syslog_host '' @ hk_SyslogHost d, ''set tinkerbell_tls '' @ string_of_bool (hk_TinkerbellTLS d),
          [], ''echo worker_id=${mac}'', ''echo grpc_authority='' @ hk_TinkGRPCAuthority d,
          ''echo syslog_host='' @ hk_SyslogHost d, ''echo tinkerbell_tls='' @ string_of_bool (hk_TinkerbellTLS d),
          [], ''set idx:int32 0'', '':retry_kernel'',
          ''kernel ${download-url}/${kernel} '' @ [CHR 0x5C],
          ''syslog_host=${syslog_host} grpc_authority=${grpc_authority} tinkerbell_tls=${tinkerbell_tls} worker_id=${worker_id} hw_addr=${mac} '' @ [CHR 0x5C],
          ''console=tty1 console=tty2 console=ttyAMA0,115200 console=ttyAMA1,115200 console=ttyS0,115200 console=ttyS1,115200 '' @ [CHR 0x5C],
          ''intel_iommu=on iommu=pt'' @ params_text (hk_ExtraKernelParams d) @ '' initrd=${initrd} && goto download_initrd'' @
            retry_tail ''kernel'' ''retry_kernel'']
       @ boot_lines)"

definition CustomScript :: "URL option \<Rightarrow> string \<Rightarrow> string" where
  "CustomScript chain scr =
     unlines [''#!ipxe'', [], ''echo Loading custom Tinkerbell iPXE script...'',
       (case chain of Some u \<Rightarrow> ''chain --autofree '' @ URL_String u | None \<Rightarrow> scr)]"

definition default_hook :: "ScriptHandler \<Rightarrow> string option \<Rightarrow> HwInfo \<Rightarrow> Hook" where
  "default_hook h traceID hw =
     (let mac = HardwareAddr_String (hi_MACAddress hw);
          arch = (if hi_Arch hw = [] then ''x86_64'' else hi_Arch hw);
          osie = hi_OSIE hw
      in \<lparr>hk_Arch = arch, hk_Console = [],
          hk_DownloadURL = (case so_BaseURL osie of
                              Some u \<Rightarrow> if URL_String u \<noteq> [] then URL_String u else sc_OSIEURL h
                            | None \<Rightarrow> sc_OSIEURL h),
          hk_ExtraKernelParams = sc_ExtraKernelParams h @ so_KernelParams osie,
          hk_Facility = hi_Facility hw, hk_HWAddr = mac, hk_SyslogHost = sc_PublicSyslogFQDN h,
          hk_TinkerbellTLS = sc_TinkServerTLS h, hk_TinkerbellInsecureTLS = sc_TinkServerInsecureTLS h,
          hk_TinkGRPCAuthority = sc_TinkServerGRPCAddr h,
          hk_TraceID = (case traceID of Some t \<Rightarrow> t | None \<Rightarrow> []),
          hk_VLANID = hi_VLANID hw,
          hk_WorkerID = (if hi_AgentID hw \<noteq> [] then hi_AgentID hw else mac),
          hk_Retries = sc_IPXEScriptRetries h, hk_RetryDelay = sc_IPXEScriptRetryDelay h,
          hk_KernelName = (if so_Kernel osie \<noteq> [] then so_Kernel osie
                           else if sc_KernelName h \<noteq> [] then sc_KernelName h @ ''-'' @ arch else []),
          hk_InitrdName = (if so_Initrd osie \<noteq> [] then so_Initrd osie
                           else if sc_InitrdName h \<noteq> [] then sc_InitrdName h @ ''-'' @ arch else [])\<rparr>)"

definition defaultScript :: "ScriptHandler \<Rightarrow> string option \<Rightarrow> HwInfo \<Rightarrow> string" where
  "defaultScript h traceID hw = HookScript (default_hook h traceID hw)"

definition customScript :: "HwInfo \<Rightarrow> gerr + string" where
  "customScript hw =
     (case hi_IPXEScriptURL hw of
        Some u \<Rightarrow>
          if URL_String u \<noteq> [] then
            (if u_Scheme u \<noteq> ''http'' \<and> u_Scheme u \<noteq> ''https'' then Inl (NewError (''invalid URL scheme: '' @ u_Scheme u))
             else Inr (CustomScript (Some u) []))
          else if hi_IPXEScript hw \<noteq> [] then Inr (CustomScript None (hi_IPXEScript hw))
          else Inl (NewError ''no custom script or chain defined in the hardware data'')
      | None \<Rightarrow>
          if hi_IPXEScript hw \<noteq> [] then Inr (CustomScript None (hi_IPXEScript hw))
          else Inl (NewError ''no custom script or chain defined in the hardware data''))"

text \<open>Responses are the status code and the body.\<close>

definition serveBootScript :: "ScriptHandler \<Rightarrow> string option \<Rightarrow> string \<Rightarrow> HwInfo \<Rightarrow> nat \<times> string" where
  "serveBootScript h traceID name0 hw =
     (let name = (if hi_IPXEScriptURL hw \<noteq> None \<or> hi_IPXEScript hw \<noteq> [] then ''custom.ipxe'' else name0) in
      if name = ''auto.ipxe'' then (200, defaultScript h traceID hw)
      else if name = ''custom.ipxe'' then
        (case customScript hw of Inl e \<Rightarrow> (500, []) | Inr s \<Rightarrow> (200, s))
      else (404, []))"

definition serveStaticIPXEScript :: "ScriptHandler \<Rightarrow> nat \<times> string" where
  "serveStaticIPXEScript h =
     (200, StaticScript (empty_Hook\<lparr>hk_DownloadURL := sc_OSIEURL h, hk_ExtraKernelParams := sc_ExtraKernelParams h,
        hk_SyslogHost := sc_PublicSyslogFQDN h, hk_TinkerbellTLS := sc_TinkServerTLS h, hk_TinkGRPCAuthority := sc_TinkServerGRPCAddr h,
        hk_Retries := sc_IPXEScriptRetries h, hk_RetryDelay := sc_IPXEScriptRetryDelay h, hk_KernelName := sc_KernelName h,
        hk_InitrdName := sc_InitrdName h\<rparr>))"

definition script_getIP :: "string \<Rightarrow> bytes option" where
  "script_getIP remoteAddr =
     (case SplitHostPort remoteAddr of
        None \<Rightarrow> None
      | Some (host, port) \<Rightarrow> Some (case ParseIP host of None \<Rightarrow> [] | Some ip \<Rightarrow> ip))"

definition script_getMAC :: "string \<Rightarrow> bytes option" where
  "script_getMAC urlPath = ParseMAC (path_Base (path_Dir urlPath))"

definition script_reply :: "ScriptHandler \<Rightarrow> string option \<Rightarrow> string \<Rightarrow> gerr + HwInfo \<Rightarrow> nat \<times> string" where
  "script_reply h traceID urlPath r =
     (case r of
        Inl e \<Rightarrow> if sc_StaticIPXEEnabled h then serveStaticIPXEScript h else (404, [])
      | Inr hw \<Rightarrow> if \<not> hi_AllowNetboot hw then (404, []) else serveBootScript h traceID (path_Base urlPath) hw)"

definition script_HandlerFunc :: "smee_lib \<Rightarrow> ScriptHandler \<Rightarrow> string option \<Rightarrow> string \<Rightarrow> string \<Rightarrow> nat \<times> string" where
  "script_HandlerFunc L h traceID urlPath remoteAddr =
     (if path_Base urlPath \<noteq> ''auto.ipxe'' then (404, [])
      else
        (case script_getMAC urlPath of
           Some ha \<Rightarrow> script_reply h traceID urlPath (GetByMac L ha (sc_Backend h))
         | None \<Rightarrow>
             (case script_getIP remoteAddr of
                Some ip \<Rightarrow> script_reply h traceID urlPath (GetByIP L ip (sc_Backend h))
              | None \<Rightarrow> (404, []))))"

end
