(* ===== verification/Smee_Ipxe_Props.thy ===== *)
theory Smee_Ipxe_Props
  imports Smee_Ipxe Smee_Props
begin

text \<open>
  What iPXE serving guarantees: patching keeps the size of a binary and changes only the
  placeholder, requests go to the first route that takes them, and a boot script follows the
  \<open>AllowPXE\<close> flag and identifies the machine.
\<close>


section \<open>Binaries\<close>

text \<open>A patch is refused when it is too long for the placeholder, ignored when there is no
  placeholder, and otherwise takes its place, filled up with blanks.\<close>

lemma ipxe_Patch_spec:
  "ipxe_Patch content patch =
     (case index_of magicString content of
        None \<Rightarrow> Inr content
      | Some i \<Rightarrow>
          if patch = [] then Inr content
          else if length magicString < length patch then Inl ErrPatchTooLong
          else Inr (take i content @ patch @ replicate (length magicString - length patch) CHR '' '' @
                 drop (i + length magicString) content))"
proof (cases "index_of magicString content")
  case None
  then show ?thesis by (simp add: ipxe_Patch_def)
next
  case (Some i)
  then have "i + length magicString \<le> length content" by (rule index_of_le)
  with Some show ?thesis by (simp add: ipxe_Patch_def copy_at_def magicStringPadding_def)
qed

lemma ipxe_Patch_length: "ipxe_Patch content patch = Inr c \<Longrightarrow> length c = length content"
  using index_of_le [of magicString content]
  by (auto simp: ipxe_Patch_spec split: option.splits if_splits)


section \<open>Routes\<close>

text \<open>The router's answer is that of the first route that takes the request; the routes before
  it have written nothing.\<close>

definition quiet :: "'w route \<Rightarrow> bool" where
  "quiet r \<longleftrightarrow> (\<forall>req rf w e w'. r req rf w = ((False, e), w') \<longrightarrow> w' = w)"

lemma serve_handled: "fst (fst (serve content rf w))"
  by (simp add: serve_def split: prod.split)

lemma serve_not_False [simp]: "serve content rf w \<noteq> ((False, e), w')"
  using serve_handled [of content rf w] by auto

lemma routes_quiet:
  "quiet (DiskAssetRoute L dir)" "quiet (EmbeddedIPXERoute L patch)" "quiet (PXELinuxMACRoute L br)"
  "quiet (RPiNetbootRoute L br dir)"
  by (auto simp: quiet_def DiskAssetRoute_def EmbeddedIPXERoute_def PXELinuxMACRoute_def RPiNetbootRoute_def serveTemplate_def
      Let_def split: sum.splits option.splits if_splits)

lemma Router_first:
  assumes "\<forall>r \<in> set rs. quiet r"
  shows "Router_Handle rs req rf w =
    (case find (\<lambda>r. fst (fst (r req rf w))) rs of
       None \<Rightarrow> (Some (errorf (''file ['' @ rq_Base req @ ''] unknown: '') ErrNotExist), w)
     | Some r \<Rightarrow> (snd (fst (r req rf w)), snd (r req rf w)))"
  using assms
proof (induction rs)
  case (Cons r rs)
  obtain hd e w' where r: "r req rf w = ((hd, e), w')" by (metis prod.exhaust)
  moreover have "\<not> hd \<Longrightarrow> w' = w" using Cons.prems r by (auto simp: quiet_def)
  ultimately show ?case using Cons by (cases hd) simp_all
qed simp

text \<open>Over HTTP, a path no route takes is answered with 404 and nothing else is written.\<close>

lemma HTTPHandler_not_found:
  assumes "\<forall>r \<in> set rs. quiet r" and "method \<in> {''GET'', ''HEAD''}"
    and "\<forall>r \<in> set rs. \<forall>req rf. \<not> fst (fst (r req rf w))"
  shows "HTTPHandler_Handle rs prefix method urlPath remoteAddr w = w\<lparr>hw_Error := Some 404\<rparr>"
proof -
  have "find (\<lambda>r. fst (fst (r req rf w))) rs = None" for req rf
    using assms(3) by (auto simp: find_None_iff)
  then show ?thesis
    using assms(2) by (auto simp: HTTPHandler_Handle_def Let_def Router_first [OF assms(1)] errorf_def ErrNotExist_def)
qed


section \<open>Boot scripts\<close>

lemma converted_mac:
  assumes "ConvertByMac L mac (Some hw) = Inr s" and "length mac \<in> {6, 8, 20}"
  obtains d n where "sh_DHCP s = Some d" "sh_Netboot s = Some n" "sd_MACAddress d = mac"
proof -
  obtain i d n where i: "mac_interface mac i" and dn: "sh_DHCP s = Some d" "sh_Netboot s = Some n"
    and t: "transform L i (hw_Metadata (Hardware_Spec hw)) = Inr (d, n)"
    using assms(1) by (rule ConvertByMacE)
  from t obtain h d0 where h: "if_DHCP i = Some h" and d0: "toDHCPData L (Some h) = Inr d0"
    and d: "d = d0\<lparr>sd_Disabled := if_DisableDHCP i\<rparr>" by (rule transformE)
  have mac: "dhcp_MAC h = HardwareAddr_String mac" using i h by (simp add: mac_interface_def)
  have "ParseMAC (HardwareAddr_String mac) = Some mac"
    using ParseMAC_delimited [OF assms(2), of "CHR '':''"] by (simp add: HardwareAddr_String_def)
  moreover have "HardwareAddr_String mac \<noteq> []" using \<open>ParseMAC (HardwareAddr_String mac) = Some mac\<close>
    by (auto simp: ParseMAC_def Let_def)
  moreover have "convert_mac (dhcp_MAC h) = Inr (sd_MACAddress d0)" using d0 by (rule toDHCPDataE) simp
  ultimately have "sd_MACAddress d = mac" using d mac by (simp add: convert_mac_def)
  then show ?thesis using that dn by blast
qed

text \<open>C8. The script of a machine follows the netboot flag the workflow controller has written.
  With the flag off the request is answered with 404. With it on, and no script of its own, the
  machine gets the installation script, which tells the agent the machine's address and its
  identifier and puts the kernel parameters of the machine behind the global ones, so that they
  win. A machine whose data cannot be used gets the static script or 404.\<close>

theorem boot_script_follows_toggle:
  assumes "path_Base urlPath = ''auto.ipxe''" and "script_getMAC urlPath = Some mac" and "sc_Backend h = Some rd"
    and "rd (empty_HardwareFilter\<lparr>hf_ByMACAddress := HardwareAddr_String mac\<rparr>) = Inr (hw_allow_pxe b hw)"
  shows "case ConvertByMac L mac (Some (hw_allow_pxe b hw)) of
      Inl e \<Rightarrow> script_HandlerFunc L h traceID urlPath remoteAddr =
        (if sc_StaticIPXEEnabled h then serveStaticIPXEScript h else (404, []))
    | Inr s \<Rightarrow>
        (if \<not> b then script_HandlerFunc L h traceID urlPath remoteAddr = (404, [])
         else \<exists>n. sh_Netboot s = Some n \<and>
           (sn_IPXEScriptURL n = None \<and> sn_IPXEScript n = [] \<longrightarrow>
            (\<exists>d. script_HandlerFunc L h traceID urlPath remoteAddr = (200, HookScript d) \<and>
                 hk_HWAddr d = HardwareAddr_String mac \<and>
                 hk_WorkerID d = (if sh_AgentID s \<noteq> [] then sh_AgentID s else HardwareAddr_String mac) \<and>
                 hk_ExtraKernelParams d = sc_ExtraKernelParams h @ so_KernelParams (sn_OSIE n))))"
proof (cases "ConvertByMac L mac (Some (hw_allow_pxe b hw))")
  case (Inl e)
  then show ?thesis using assms by (simp add: script_HandlerFunc_def script_reply_def GetByMac_def)
next
  case (Inr s)
  have "length mac \<in> {6, 8, 20}" using assms(2) by (auto simp: script_getMAC_def dest: ParseMAC_length)
  with Inr obtain d n where d: "sh_DHCP s = Some d" "sh_Netboot s = Some n" "sd_MACAddress d = mac" by (rule converted_mac)
  have allow: "sn_AllowNetboot n = b" using toggled_allow [OF Inr] d(2) by fastforce
  obtain i where info: "info_of s = Inr i" and i: "hi_AllowNetboot i = b" "hi_MACAddress i = mac" "hi_AgentID i = sh_AgentID s"
    "hi_OSIE i = sn_OSIE n" "hi_IPXEScript i = sn_IPXEScript n" "hi_IPXEScriptURL i = sn_IPXEScriptURL n"
    using d allow by (simp add: info_of_def)
  have run: "script_HandlerFunc L h traceID urlPath remoteAddr =
      (if \<not> b then (404, []) else serveBootScript h traceID ''auto.ipxe'' i)"
    using assms Inr info i by (simp add: script_HandlerFunc_def script_reply_def GetByMac_def)
  show ?thesis
  proof (cases b)
    case True
    have "\<exists>k. script_HandlerFunc L h traceID urlPath remoteAddr = (200, HookScript k) \<and>
        hk_HWAddr k = HardwareAddr_String mac \<and>
        hk_WorkerID k = (if sh_AgentID s \<noteq> [] then sh_AgentID s else HardwareAddr_String mac) \<and>
        hk_ExtraKernelParams k = sc_ExtraKernelParams h @ so_KernelParams (sn_OSIE n)"
      if "sn_IPXEScriptURL n = None" "sn_IPXEScript n = []"
      by (rule exI [of _ "default_hook h traceID i"])
        (use that True i run in \<open>simp add: serveBootScript_def defaultScript_def default_hook_def Let_def\<close>)
    with Inr True d(2) show ?thesis by simp
  next
    case False
    with run show ?thesis unfolding Inr by simp
  qed
qed

definition ex_script :: "bool \<Rightarrow> ScriptHandler" where
  "ex_script b = \<lparr>sc_Backend = Some (rh_Backend (ex_reservation b)), sc_OSIEURL = ''http://10.0.0.1/osie'', sc_ExtraKernelParams = [''a=1''],
     sc_PublicSyslogFQDN = [], sc_TinkServerTLS = False, sc_TinkServerInsecureTLS = False, sc_TinkServerGRPCAddr = ''10.0.0.1:42113'',
     sc_IPXEScriptRetries = 3, sc_IPXEScriptRetryDelay = 2, sc_StaticIPXEEnabled = False, sc_KernelName = [], sc_InitrdName = []\<rparr>"

theorem boot_script_follows_toggle_witness:
  "script_HandlerFunc ex_smee_lib (ex_script False) None ''/02:00:00:00:00:01/auto.ipxe'' [] = (404, []) \<and>
   (\<exists>d. script_HandlerFunc ex_smee_lib (ex_script True) None ''/02:00:00:00:00:01/auto.ipxe'' [] = (200, HookScript d) \<and>
        hk_HWAddr d = ''02:00:00:00:00:01'')"
proof -
  have path: "path_Base ''/02:00:00:00:00:01/auto.ipxe'' = ''auto.ipxe''" by code_simp
  have mac: "script_getMAC ''/02:00:00:00:00:01/auto.ipxe'' = Some ex_mac" by code_simp
  have ms: "HardwareAddr_String ex_mac = ''02:00:00:00:00:01''" by code_simp
  have rd: "rh_Backend (ex_reservation b) (empty_HardwareFilter\<lparr>hf_ByMACAddress := HardwareAddr_String ex_mac\<rparr>) =
      Inr (hw_allow_pxe b ex_hardware)" for b
    by (simp add: ex_reservation_def ms)
  have h: "sc_Backend (ex_script b) = Some (rh_Backend (ex_reservation b))" for b by (simp add: ex_script_def)
  have "(case ConvertByMac ex_smee_lib ex_mac (Some (hw_allow_pxe False ex_hardware)) of Inl e \<Rightarrow> False | Inr s \<Rightarrow> True)"
    by code_simp
  then obtain s0 where s0: "ConvertByMac ex_smee_lib ex_mac (Some (hw_allow_pxe False ex_hardware)) = Inr s0"
    by (cases "ConvertByMac ex_smee_lib ex_mac (Some (hw_allow_pxe False ex_hardware))") auto
  have "(case ConvertByMac ex_smee_lib ex_mac (Some (hw_allow_pxe True ex_hardware)) of Inl e \<Rightarrow> False | Inr s \<Rightarrow>
      (case sh_Netboot s of None \<Rightarrow> False | Some n \<Rightarrow> sn_IPXEScriptURL n = None \<and> sn_IPXEScript n = []))"
    by code_simp
  then obtain s1 n1 where s1: "ConvertByMac ex_smee_lib ex_mac (Some (hw_allow_pxe True ex_hardware)) = Inr s1"
    and n1: "sh_Netboot s1 = Some n1" "sn_IPXEScriptURL n1 = None" "sn_IPXEScript n1 = []"
    by (cases "ConvertByMac ex_smee_lib ex_mac (Some (hw_allow_pxe True ex_hardware))") (auto split: option.splits)
  have off: "script_HandlerFunc ex_smee_lib (ex_script False) None ''/02:00:00:00:00:01/auto.ipxe'' [] = (404, [])"
    using boot_script_follows_toggle [OF path mac h rd [of False], where L = ex_smee_lib and traceID = None and remoteAddr = "[]"] s0
    by simp
  have "\<exists>d. script_HandlerFunc ex_smee_lib (ex_script True) None ''/02:00:00:00:00:01/auto.ipxe'' [] = (200, HookScript d) \<and>
      hk_HWAddr d = HardwareAddr_String ex_mac"
    using boot_script_follows_toggle [OF path mac h rd [of True], where L = ex_smee_lib and traceID = None and remoteAddr = "[]"] s1 n1
    by fastforce
  with off ms show ?thesis by simp
qed

end
