(* ===== verification/Http_Shared.thy ===== *)
theory Http_Shared
  imports Net_Text
begin

text \<open>
  The shared HTTP code, \<open>src/pkg/xff\<close> and \<open>src/pkg/http\<close>: resolution of
  \<open>X-Forwarded-For\<close> headers, the middleware around every handler, the routes and the server
  configuration.

  A handler is a function of a request and a state to an outcome; the state has the log level
  the innermost logging middleware shares with its handler, the lines logged and a world.
\<close>


section \<open>Forwarded addresses\<close>

record Xff =
  xff_allowAll :: bool
  xff_allowedMasks :: "IPNet list"

fun toMasks :: "string list \<Rightarrow> gerr + IPNet list" where
  "toMasks [] = Inr []"
| "toMasks (cidr # cs) =
     (case ParseCIDR cidr of
        None \<Rightarrow> Inl (NewError (''invalid CIDR address: '' @ cidr))
      | Some (ip, network) \<Rightarrow> map_sum id ((#) network) (toMasks cs))"

definition NewXFF :: "string list \<Rightarrow> gerr + Xff" where
  "NewXFF subnets =
     (case toMasks subnets of
        Inl e \<Rightarrow> Inl e
      | Inr masks \<Rightarrow> Inr \<lparr>xff_allowAll = (subnets = []), xff_allowedMasks = masks\<rparr>)"

fun ipInMasks :: "bytes \<Rightarrow> IPNet list \<Rightarrow> bool" where
  "ipInMasks ip [] = False"
| "ipInMasks ip (m # ms) = (if IPNet_Contains m ip then True else ipInMasks ip ms)"

definition allowed :: "Xff \<Rightarrow> string \<Rightarrow> bool" where
  "allowed x sip =
     (if xff_allowAll x then True
      else (case ParseIP sip of None \<Rightarrow> False | Some ip \<Rightarrow> ipInMasks ip (xff_allowedMasks x)))"

text \<open>The loop from the last address to the first; \<open>lastIP\<close> is what it has seen so far.\<close>

fun parse_loop :: "(string \<Rightarrow> bool) \<Rightarrow> string \<Rightarrow> string list \<Rightarrow> string" where
  "parse_loop al lastIP [] = lastIP"
| "parse_loop al lastIP (s # ss) =
     (let ip = trim_space s in
      if ParseIP ip = None then lastIP
      else if \<not> al ip then ip
      else parse_loop al ip ss)"

definition xff_parse :: "string \<Rightarrow> (string \<Rightarrow> bool) \<Rightarrow> string" where
  "xff_parse ipList al =
     (let ips = split_on CHR '','' ipList in
      if length ips = 1 then
        (let ip = trim_space (ips ! 0) in if ParseIP ip \<noteq> None then ip else [])
      else parse_loop al [] (rev ips))"

record HttpReq =
  hr_Method :: string
  hr_RequestURI :: string
  hr_RemoteAddr :: string
  hr_XFF :: "string list"            \<comment> \<open>the values of the \<open>X-Forwarded-For\<close> header\<close>
  hr_TLS :: bool
  hr_SourceIP :: "string option"     \<comment> \<open>context value of \<open>SourceIP\<close>\<close>
  hr_LogConfig :: bool               \<comment> \<open>whether the context has a log configuration\<close>

text \<open>\<open>Header.Get\<close> returns the first value.\<close>

definition header_Get :: "string list \<Rightarrow> string" where
  "header_Get vs = (case vs of [] \<Rightarrow> [] | v # _ \<Rightarrow> v)"

definition getRemoteAddrIfAllowed :: "HttpReq \<Rightarrow> (string \<Rightarrow> bool) \<Rightarrow> string" where
  "getRemoteAddrIfAllowed r al =
     (let xffh = header_Get (hr_XFF r) in
      if xffh = [] then hr_RemoteAddr r
      else
        (case SplitHostPort (hr_RemoteAddr r) of
           None \<Rightarrow> hr_RemoteAddr r
         | Some (sip, sport) \<Rightarrow>
             if sip \<noteq> [] \<and> al sip \<and> xff_parse xffh al \<noteq> [] then JoinHostPort (xff_parse xffh al) sport
             else hr_RemoteAddr r))"


section \<open>Middleware\<close>

datatype outcome =
    Wrote nat                       \<comment> \<open>returned, with the status written\<close>
  | Panicked gerr "nat option"      \<comment> \<open>panicked, with the status written before\<close>

record log_line =
  ll_Level :: int
  ll_Scheme :: string
  ll_Method :: string
  ll_URI :: string
  ll_Client :: string
  ll_SourceIP :: string
  ll_Code :: nat

record 'w hstate =
  hs_level :: int
  hs_log :: "log_line list"
  hs_panics :: "gerr list"
  hs_world :: 'w

type_synonym 'w handler = "HttpReq \<Rightarrow> 'w hstate \<Rightarrow> outcome \<times> 'w hstate"

definition xff_Handler :: "Xff \<Rightarrow> 'w handler \<Rightarrow> 'w handler" where
  "xff_Handler x h r s = h (r\<lparr>hr_RemoteAddr := getRemoteAddrIfAllowed r (allowed x)\<rparr>) s"

definition LogLevelNever :: int where
  "LogLevelNever = -1"

definition LogLevelAlways :: int where
  "LogLevelAlways = 0"

definition LogLevelDebug :: int where
  "LogLevelDebug = 1"

definition clientIP :: "string \<Rightarrow> string" where
  "clientIP str = (case SplitHostPort str of None \<Rightarrow> str | Some (host, port) \<Rightarrow> host)"

definition WithLogLevel :: "int \<Rightarrow> 'w handler \<Rightarrow> 'w handler" where
  "WithLogLevel level h r s = h r (if hr_LogConfig r then s\<lparr>hs_level := level\<rparr> else s)"

definition SourceIP :: "'w handler \<Rightarrow> 'w handler" where
  "SourceIP nxt r s = nxt (r\<lparr>hr_SourceIP := Some (clientIP (hr_RemoteAddr r))\<rparr>) s"

definition XFF :: "string list \<Rightarrow> gerr + ('w handler \<Rightarrow> 'w handler)" where
  "XFF trustedProxies =
     (if trustedProxies = [] then Inr (\<lambda>nxt. nxt)
      else (case NewXFF trustedProxies of Inl e \<Rightarrow> Inl e | Inr x \<Rightarrow> Inr (xff_Handler x)))"

definition log_level :: "int \<Rightarrow> nat \<Rightarrow> int" where
  "log_level level code = (if 500 \<le> code then LogLevelAlways else level)"

text \<open>The configuration of the middleware is new; that of an outer one is kept.\<close>

definition Logging :: "'w handler \<Rightarrow> 'w handler" where
  "Logging nxt r s =
     (case nxt (r\<lparr>hr_LogConfig := True\<rparr>) (s\<lparr>hs_level := LogLevelDebug\<rparr>) of
        (Panicked e c, s1) \<Rightarrow> (Panicked e c, s1\<lparr>hs_level := hs_level s\<rparr>)
      | (Wrote code, s1) \<Rightarrow>
          (let level = log_level (hs_level s1) code;
               line = \<lparr>ll_Level = level, ll_Scheme = (if hr_TLS r then ''https'' else ''http''), ll_Method = hr_Method r,
                       ll_URI = hr_RequestURI r, ll_Client = clientIP (hr_RemoteAddr r),
                       ll_SourceIP = (case hr_SourceIP r of None \<Rightarrow> [] | Some i \<Rightarrow> i), ll_Code = code\<rparr>
           in (Wrote code,
               s1\<lparr>hs_level := hs_level s,
                  hs_log := (if level = LogLevelNever then hs_log s1 else hs_log s1 @ [line])\<rparr>)))"

definition Recovery :: "'w handler \<Rightarrow> 'w handler" where
  "Recovery nxt r s =
     (case nxt r s of
        (Wrote c, s1) \<Rightarrow> (Wrote c, s1)
      | (Panicked e c, s1) \<Rightarrow>
          (Wrote (case c of None \<Rightarrow> 500 | Some c' \<Rightarrow> c'), s1\<lparr>hs_panics := hs_panics s1 @ [e]\<rparr>))"


section \<open>Routes and handlers\<close>

record 'h Route =
  rt_Pattern :: string
  rt_Description :: string
  rt_RewriteHTTPToHTTPS :: bool
  rt_HTTPEnabled :: bool
  rt_HTTPSEnabled :: bool
  rt_Handler :: 'h

definition WithHTTPEnabled :: "bool \<Rightarrow> 'h Route \<Rightarrow> 'h Route" where
  "WithHTTPEnabled enable r = r\<lparr>rt_HTTPEnabled := enable\<rparr>"

definition WithHTTPSEnabled :: "bool \<Rightarrow> 'h Route \<Rightarrow> 'h Route" where
  "WithHTTPSEnabled enable r = r\<lparr>rt_HTTPSEnabled := enable\<rparr>"

definition WithRewriteHTTPToHTTPS :: "bool \<Rightarrow> 'h Route \<Rightarrow> 'h Route" where
  "WithRewriteHTTPToHTTPS enable r = r\<lparr>rt_RewriteHTTPToHTTPS := enable\<rparr>"

definition Register :: "string \<Rightarrow> 'h \<Rightarrow> string \<Rightarrow> ('h Route \<Rightarrow> 'h Route) list \<Rightarrow> 'h Route list \<Rightarrow> 'h Route list" where
  "Register pattern hh desc options rs =
     rs @ [fold (\<lambda>opt r. opt r) options
             \<lparr>rt_Pattern = pattern, rt_Description = (if desc = [] then ''No description provided'' else desc),
              rt_RewriteHTTPToHTTPS = False, rt_HTTPEnabled = True, rt_HTTPSEnabled = False, rt_Handler = hh\<rparr>]"

fun HasHTTPSRoutes :: "'h Route list \<Rightarrow> bool" where
  "HasHTTPSRoutes [] = False"
| "HasHTTPSRoutes (r # rs) = (if rt_HTTPSEnabled r then True else HasHTTPSRoutes rs)"

datatype 'h mux_handler = Direct 'h | RedirectToHTTPS int

text \<open>The registrations on both muxes, in order.\<close>

fun Muxes :: "int \<Rightarrow> bool \<Rightarrow> 'h Route list \<Rightarrow> (string \<times> 'h mux_handler) list \<times> (string \<times> 'h mux_handler) list" where
  "Muxes httpsPort tlsEnabled [] = ([], [])"
| "Muxes httpsPort tlsEnabled (r # rs) =
     (case Muxes httpsPort tlsEnabled rs of (h, t) \<Rightarrow>
        ((if rt_HTTPEnabled r \<and> rt_RewriteHTTPToHTTPS r \<and> tlsEnabled then [(rt_Pattern r, RedirectToHTTPS httpsPort)]
          else if rt_HTTPEnabled r then [(rt_Pattern r, Direct (rt_Handler r))] else []) @ h,
         (if rt_HTTPSEnabled r then [(rt_Pattern r, Direct (rt_Handler r))] else []) @ t))"

definition parseHost :: "string \<Rightarrow> string" where
  "parseHost input =
     (case SplitHostPort input of
        Some (host, port) \<Rightarrow> host
      | None \<Rightarrow>
          if 2 \<le> length input \<and> input ! 0 = CHR ''['' \<and> last input = CHR '']'' then butlast (tl input) else input)"

text \<open>The location \<open>RedirectToHTTPS\<close> answers with.\<close>

definition https_location :: "int \<Rightarrow> URL \<Rightarrow> string \<Rightarrow> URL" where
  "https_location port u host = u\<lparr>u_Scheme := ''https'', u_Host := JoinHostPort (parseHost host) (string_of_int port)\<rparr>"


section \<open>Server configuration\<close>

record ServerConfig =
  cf_BindAddr :: string
  cf_BindPort :: int
  cf_TLSCerts :: nat
  cf_HTTPSPort :: int
  cf_ReadTimeout :: duration
  cf_ReadHeaderTimeout :: duration
  cf_WriteTimeout :: duration
  cf_IdleTimeout :: duration
  cf_MaxHeaderBytes :: int
  cf_ShutdownTimeout :: duration

definition DefaultReadTimeout :: duration where
  "DefaultReadTimeout = 30 * second"

definition DefaultReadHeaderTimeout :: duration where
  "DefaultReadHeaderTimeout = 10 * second"

definition DefaultWriteTimeout :: duration where
  "DefaultWriteTimeout = 30 * second"

definition DefaultIdleTimeout :: duration where
  "DefaultIdleTimeout = 120 * second"

definition DefaultShutdownTimeout :: duration where
  "DefaultShutdownTimeout = 30 * second"

definition DefaultMaxHeaderBytes :: int where
  "DefaultMaxHeaderBytes = 2 ^ 20"

definition NewConfig :: "(ServerConfig \<Rightarrow> ServerConfig) list \<Rightarrow> ServerConfig" where
  "NewConfig opts = fold (\<lambda>opt c. opt c) opts
     \<lparr>cf_BindAddr = [], cf_BindPort = 0, cf_TLSCerts = 0, cf_HTTPSPort = 0, cf_ReadTimeout = DefaultReadTimeout,
      cf_ReadHeaderTimeout = DefaultReadHeaderTimeout, cf_WriteTimeout = DefaultWriteTimeout, cf_IdleTimeout = DefaultIdleTimeout,
      cf_MaxHeaderBytes = DefaultMaxHeaderBytes, cf_ShutdownTimeout = DefaultShutdownTimeout\<rparr>"

definition or_default :: "int \<Rightarrow> int \<Rightarrow> int" where
  "or_default d v = (if v = 0 then d else v)"

definition setDefaults :: "ServerConfig \<Rightarrow> ServerConfig" where
  "setDefaults c =
     c\<lparr>cf_ReadTimeout := or_default DefaultReadTimeout (cf_ReadTimeout c),
       cf_ReadHeaderTimeout := or_default DefaultReadHeaderTimeout (cf_ReadHeaderTimeout c),
       cf_WriteTimeout := or_default DefaultWriteTimeout (cf_WriteTimeout c),
       cf_IdleTimeout := or_default DefaultIdleTimeout (cf_IdleTimeout c),
       cf_MaxHeaderBytes := or_default DefaultMaxHeaderBytes (cf_MaxHeaderBytes c),
       cf_ShutdownTimeout := or_default DefaultShutdownTimeout (cf_ShutdownTimeout c)\<rparr>"

text \<open>The addresses \<open>Serve\<close> listens on: HTTP if it has a handler, HTTPS if it also has
  certificates.\<close>

definition listen_addrs :: "ServerConfig \<Rightarrow> bool \<Rightarrow> bool \<Rightarrow> (string \<times> bool) list" where
  "listen_addrs c httpHandler httpsHandler =
     (if httpHandler then [(cf_BindAddr c @ '':'' @ string_of_int (cf_BindPort c), False)] else []) @
     (if 0 < cf_TLSCerts c \<and> httpsHandler then [(cf_BindAddr c @ '':'' @ string_of_int (cf_HTTPSPort c), True)] else [])"


section \<open>Properties\<close>

lemma parse_loop_trusted:
  assumes "\<forall>s \<in> set ps. ParseIP (trim_space s) \<noteq> None \<and> al (trim_space s)"
  shows "parse_loop al l (ps @ rest) = parse_loop al (if ps = [] then l else trim_space (last ps)) rest"
  using assms by (induction ps arbitrary: l) (auto simp: Let_def)


definition ex_xff :: Xff where
  "ex_xff = \<lparr>xff_allowAll = False, xff_allowedMasks = [\<lparr>net_IP = [10, 0, 0, 0], net_Mask = [255, 0, 0, 0]\<rparr>]\<rparr>"

definition ex_forwarded :: HttpReq where
  "ex_forwarded = \<lparr>hr_Method = ''GET'', hr_RequestURI = ''/'', hr_RemoteAddr = ''10.0.0.1:4711'',
     hr_XFF = [''1.2.3.4,9.9.9.9, 10.0.0.7''], hr_TLS = False, hr_SourceIP = None, hr_LogConfig = False\<rparr>"


text \<open>Only the first value of the header is read: when the trusted proxy adds a header line of its
  own, the line the client sent is believed.\<close>

lemma second_header_line_ignored:
  "getRemoteAddrIfAllowed (ex_forwarded\<lparr>hr_XFF := [''1.2.3.4'', ''9.9.9.9'']\<rparr>) (allowed ex_xff) = ''1.2.3.4:4711''"
  by code_simp

text \<open>A panic below the logging middleware is answered with 500 and logged at level 0 whatever
  level the handler asked for, unless the handler had written a status.\<close>

lemma panic_is_logged:
  assumes "h (r\<lparr>hr_LogConfig := True\<rparr>) (s\<lparr>hs_level := LogLevelDebug\<rparr>) = (Panicked e None, s1)"
  shows "\<exists>s2 line. Logging (Recovery h) r s = (Wrote 500, s2) \<and> hs_log s2 = hs_log s1 @ [line] \<and>
    ll_Level line = 0 \<and> ll_Code line = 500 \<and> hs_panics s2 = hs_panics s1 @ [e] \<and> hs_level s2 = hs_level s"
  using assms
  by (simp add: Logging_def Recovery_def Let_def log_level_def LogLevelAlways_def LogLevelNever_def)

lemma never_logged_below_500:
  assumes "\<And>r s. \<exists>s1. h r s = (Wrote code, s1) \<and> hs_level s1 = hs_level s \<and> hs_log s1 = hs_log s" and "code < 500"
  shows "hs_log (snd (Logging (WithLogLevel LogLevelNever h) r s)) = hs_log s"
proof -
  obtain s1 where "h (r\<lparr>hr_LogConfig := True\<rparr>) (s\<lparr>hs_level := LogLevelNever\<rparr>) = (Wrote code, s1)"
    "hs_level s1 = LogLevelNever" "hs_log s1 = hs_log s"
    using assms(1) [of "r\<lparr>hr_LogConfig := True\<rparr>" "s\<lparr>hs_level := LogLevelNever\<rparr>"] by auto
  then show ?thesis using assms(2) by (simp add: Logging_def WithLogLevel_def log_level_def)
qed

text \<open>With TLS, a route to be rewritten is not served in the clear, and every HTTPS route is on
  the HTTPS mux.\<close>

lemma rewritten_only_over_https:
  assumes "(p, Direct h) \<in> set (fst (Muxes port True rs))"
  shows "\<exists>r \<in> set rs. rt_Pattern r = p \<and> rt_Handler r = h \<and> rt_HTTPEnabled r \<and> \<not> rt_RewriteHTTPToHTTPS r"
  using assms by (induction rs) (auto split: prod.splits if_splits)

lemma https_mux: "snd (Muxes port tls rs) = map (\<lambda>r. (rt_Pattern r, Direct (rt_Handler r))) (filter rt_HTTPSEnabled rs)"
  by (induction rs) (auto split: prod.splits)

lemma HasHTTPSRoutes_iff: "HasHTTPSRoutes rs \<longleftrightarrow> snd (Muxes port tls rs) \<noteq> []"
  by (induction rs) (auto split: prod.splits)

text \<open>Zero values of a configuration are replaced, and a new configuration has none.\<close>

lemma setDefaults_idempotent: "setDefaults (setDefaults c) = setDefaults c"
  by (simp add: setDefaults_def or_default_def DefaultReadTimeout_def DefaultReadHeaderTimeout_def DefaultWriteTimeout_def
      DefaultIdleTimeout_def DefaultMaxHeaderBytes_def DefaultShutdownTimeout_def)

lemma NewConfig_has_defaults: "setDefaults (NewConfig []) = NewConfig []"
  by (simp add: NewConfig_def setDefaults_def or_default_def)

text \<open>An IPv6 bind address is joined to the port without brackets, which cannot be listened on.\<close>

lemma ipv6_bind_address_is_refused:
  "map (SplitHostPort \<circ> fst) (listen_addrs ((NewConfig [])\<lparr>cf_BindAddr := ''::1'', cf_BindPort := 80\<rparr>) True False) = [None]"
  by code_simp

end
