(* ===== verification/Flags.thy ===== *)
theory Flags
  imports Net_Text
begin

text \<open>
  Command-line flag values and the journal, \<open>src/pkg/flag\<close> and \<open>src/pkg/journal\<close>. The target a
  flag value points to is an optional value, \<open>None\<close> for a nil pointer; \<open>Set\<close> and \<open>Reset\<close> return an
  error or the new target. The parsers of \<open>net/netip\<close> for addresses with a port and for prefixes
  are modelled here; the URL validator, \<open>%q\<close> (\<open>q\<close>) and the text of a parse error (\<open>et\<close>) are
  parameters.
\<close>


section \<open>Addresses with a port, prefixes\<close>

text \<open>\<open>strconv.ParseUint(s, 10, 16)\<close>.\<close>

definition parse_uint16 :: "string \<Rightarrow> nat option" where
  "parse_uint16 s = (if s \<noteq> [] \<and> list_all is_digit s \<and> dec_value s < 2 ^ 16 then Some (dec_value s) else None)"

definition ParseAddrPort :: "string \<Rightarrow> AddrPort option" where
  "ParseAddrPort s =
     (case split_last CHR '':'' s of
        None \<Rightarrow> None
      | Some (ip, port) \<Rightarrow>
          if ip = [] \<or> port = [] then None
          else
            (let bracketed = (hd ip = CHR ''['') in
             if bracketed \<and> (length ip < 2 \<or> last ip \<noteq> CHR '']'') then None
             else
               (case (parse_uint16 port, ParseAddr (if bracketed then butlast (tl ip) else ip)) of
                  (Some p, Some (Addr4 b)) \<Rightarrow> if bracketed then None else Some \<lparr>ap_Addr = Some (Addr4 b), ap_Port = p\<rparr>
                | (Some p, Some (Addr6 b z)) \<Rightarrow> if bracketed then Some \<lparr>ap_Addr = Some (Addr6 b z), ap_Port = p\<rparr> else None
                | _ \<Rightarrow> None)))"

record Prefix =
  px_Addr :: Addr
  px_Bits :: nat

definition ParsePrefix :: "string \<Rightarrow> Prefix option" where
  "ParsePrefix s =
     (case split_last CHR ''/'' s of
        None \<Rightarrow> None
      | Some (ip, bits) \<Rightarrow>
          (case ParseAddr ip of
             None \<Rightarrow> None
           | Some a \<Rightarrow>
               if Zone a \<noteq> [] then None
               else if bits = [] \<or> \<not> list_all is_digit bits then None
               else if 1 < length bits \<and> hd bits = CHR ''0'' then None
               else if BitLen a < dec_value bits then None
               else Some \<lparr>px_Addr = a, px_Bits = dec_value bits\<rparr>))"

definition Prefix_String :: "Prefix \<Rightarrow> string" where
  "Prefix_String p = Addr_String (px_Addr p) @ ''/'' @ string_of_nat (px_Bits p)"

definition AddrPort_IsValid :: "AddrPort \<Rightarrow> bool" where
  "AddrPort_IsValid a \<longleftrightarrow> ap_Addr a \<noteq> None"


section \<open>Flag values\<close>

text \<open>The common shape of \<open>Set\<close>: a nil target is an error and an empty text is ignored. The
  target of \<open>AddrPort\<close> is a value, those of \<open>Addr\<close> and \<open>Prefix\<close> may be the zero value.\<close>

definition AddrPort_Set ::
  "(string \<Rightarrow> string) \<Rightarrow> (string \<Rightarrow> string) \<Rightarrow> AddrPort option \<Rightarrow> string \<Rightarrow> gerr + AddrPort" where
  "AddrPort_Set q et a s =
     (case a of
        None \<Rightarrow> Inl (NewError ''AddrPort is nil'')
      | Some old \<Rightarrow>
          if s = [] then Inr old
          else
            (case ParseAddrPort (trim_space s) of
               None \<Rightarrow> Inl (NewError (''failed to parse Addr:Port: '' @ q s @ '': err: '' @ et (trim_space s)))
             | Some ip \<Rightarrow> Inr ip))"

definition AddrPort_Reset :: "AddrPort option \<Rightarrow> gerr + AddrPort" where
  "AddrPort_Reset a =
     (case a of None \<Rightarrow> Inl (NewError ''AddrPort is nil'') | Some old \<Rightarrow> Inr \<lparr>ap_Addr = None, ap_Port = 0\<rparr>)"

definition AddrPort_flag_String :: "AddrPort option \<Rightarrow> string" where
  "AddrPort_flag_String a =
     (case a of None \<Rightarrow> [] | Some x \<Rightarrow> if \<not> AddrPort_IsValid x then [] else AddrPort_String x)"

definition Addr_Set :: "(string \<Rightarrow> string) \<Rightarrow> Addr option option \<Rightarrow> string \<Rightarrow> gerr + Addr option" where
  "Addr_Set q a s =
     (case a of
        None \<Rightarrow> Inl (NewError ''Addr is nil'')
      | Some old \<Rightarrow>
          if s = [] then Inr old
          else (case ParseAddr s of
                  None \<Rightarrow> Inl (NewError (''failed to parse Address: '' @ q s)) | Some ip \<Rightarrow> Inr (Some ip)))"

definition Addr_Reset :: "Addr option option \<Rightarrow> gerr + Addr option" where
  "Addr_Reset a = (case a of None \<Rightarrow> Inl (NewError ''Addr is nil'') | Some old \<Rightarrow> Inr None)"

definition Addr_flag_String :: "Addr option option \<Rightarrow> string" where
  "Addr_flag_String a = (case a of Some (Some x) \<Rightarrow> Addr_String x | _ \<Rightarrow> [])"

definition Prefix_Set :: "(string \<Rightarrow> string) \<Rightarrow> Prefix option option \<Rightarrow> string \<Rightarrow> gerr + Prefix option" where
  "Prefix_Set q p s =
     (case p of
        None \<Rightarrow> Inl (NewError ''Prefix is nil'')
      | Some old \<Rightarrow>
          if s = [] then Inr old
          else (case ParsePrefix s of
                  None \<Rightarrow> Inl (NewError (''failed to parse Prefix: '' @ q s)) | Some x \<Rightarrow> Inr (Some x)))"

definition Prefix_Reset :: "Prefix option option \<Rightarrow> gerr + Prefix option" where
  "Prefix_Reset p = (case p of None \<Rightarrow> Inl (NewError ''Prefix is nil'') | Some old \<Rightarrow> Inr None)"

definition Prefix_flag_String :: "Prefix option option \<Rightarrow> string" where
  "Prefix_flag_String p = (case p of Some (Some x) \<Rightarrow> Prefix_String x | _ \<Rightarrow> [])"

fun parse_prefixes :: "(string \<Rightarrow> string) \<Rightarrow> string list \<Rightarrow> gerr + Prefix list" where
  "parse_prefixes q [] = Inr []"
| "parse_prefixes q (p # ps) =
     (case ParsePrefix p of
        None \<Rightarrow> Inl (NewError (''failed to parse Prefix: '' @ q p))
      | Some x \<Rightarrow> map_sum id ((#) x) (parse_prefixes q ps))"

definition PrefixList_Set :: "(string \<Rightarrow> string) \<Rightarrow> Prefix list option \<Rightarrow> string \<Rightarrow> gerr + Prefix list" where
  "PrefixList_Set q p s =
     (case p of
        None \<Rightarrow> Inl (NewError ''PrefixList is nil'')
      | Some old \<Rightarrow> if s = [] then Inr old else parse_prefixes q (split_on CHR '','' s))"

definition PrefixList_Reset :: "Prefix list option \<Rightarrow> gerr + Prefix list" where
  "PrefixList_Reset p = (case p of None \<Rightarrow> Inl (NewError ''PrefixList is nil'') | Some old \<Rightarrow> Inr [])"

definition prefixesToStrings :: "Prefix list option \<Rightarrow> string list" where
  "prefixesToStrings p = (case p of None \<Rightarrow> [] | Some ps \<Rightarrow> map Prefix_String ps)"

definition PrefixList_String :: "Prefix list option \<Rightarrow> string" where
  "PrefixList_String p = (if prefixesToStrings p = [] then [] else join_str '','' (prefixesToStrings p))"

text \<open>\<open>strings.FieldsFunc\<close> with one delimiter: the non-empty parts.\<close>

definition FieldsFunc :: "char \<Rightarrow> string \<Rightarrow> string list" where
  "FieldsFunc d s = filter (\<lambda>p. p \<noteq> []) (split_on d s)"

definition delimitedlist_Set :: "char \<Rightarrow> string list \<Rightarrow> string \<Rightarrow> string list" where
  "delimitedlist_Set d target s = target @ FieldsFunc d s"

definition delimitedlist_String :: "char \<Rightarrow> string list option \<Rightarrow> string" where
  "delimitedlist_String d target = (case target of None \<Rightarrow> [] | Some vs \<Rightarrow> join_str [d] vs)"

text \<open>\<open>URL.Set\<close>: \<open>validate\<close> is the \<open>http_url\<close> check, \<open>parse\<close> is \<open>url.Parse\<close>; a nil target panics.\<close>

definition URL_Set ::
  "(string \<Rightarrow> bool) \<Rightarrow> (string \<Rightarrow> gerr + URL) \<Rightarrow> (string \<Rightarrow> string) \<Rightarrow> URL option \<Rightarrow> string \<Rightarrow> gerr + URL option" where
  "URL_Set validate parse q u s =
     (if s = [] then Inr u
      else if \<not> validate s then Inl (NewError (''invalid URL: '' @ q s))
      else
        (case parse s of
           Inl e \<Rightarrow> Inl (NewError (''failed to parse URL: '' @ q s))
         | Inr ur \<Rightarrow> (case u of None \<Rightarrow> Inl (PanicError ''nil pointer dereference'') | Some old \<Rightarrow> Inr (Some ur))))"

definition URL_Reset :: "URL option \<Rightarrow> gerr + URL option" where
  "URL_Reset u = (case u of None \<Rightarrow> Inl (PanicError ''nil pointer dereference'') | Some old \<Rightarrow> Inr (Some empty_URL))"

definition URL_flag_String :: "URL option \<Rightarrow> string" where
  "URL_flag_String u = (case u of None \<Rightarrow> [] | Some x \<Rightarrow> URL_String x)"


section \<open>The journal\<close>

text \<open>An argument is a string or another value with its \<open>%v\<close> text.\<close>

datatype 'v jarg = JString string | JOther 'v

record 'v Entry =
  je_Msg :: string
  je_Args :: "(string \<times> 'v jarg) list"
  je_Source :: "string \<times> string \<times> int"
  je_Time :: string

fun put_arg :: "string \<Rightarrow> 'v jarg \<Rightarrow> (string \<times> 'v jarg) list \<Rightarrow> (string \<times> 'v jarg) list" where
  "put_arg k v [] = [(k, v)]"
| "put_arg k v ((k', v') # m) = (if k = k' then (k, v) # m else (k', v') # put_arg k v m)"

definition arg_key :: "('v \<Rightarrow> string) \<Rightarrow> 'v jarg \<Rightarrow> string" where
  "arg_key fmt a = (case a of JString s \<Rightarrow> s | JOther v \<Rightarrow> fmt v)"

fun pair_args :: "('v \<Rightarrow> string) \<Rightarrow> (string \<times> 'v jarg) list \<Rightarrow> 'v jarg list \<Rightarrow> gerr + (string \<times> 'v jarg) list" where
  "pair_args fmt m [] = Inr m"
| "pair_args fmt m [a] = Inl (PanicError ''index out of range'')"
| "pair_args fmt m (a # b # as) = pair_args fmt (put_arg (arg_key fmt a) b m) as"

text \<open>\<open>Log\<close> on the journal of the context, \<open>None\<close> when the context has none.\<close>

definition journal_Log ::
  "('v \<Rightarrow> string) \<Rightarrow> string \<Rightarrow> string \<times> string \<times> int \<Rightarrow> string \<Rightarrow> 'v jarg list \<Rightarrow> 'v Entry list option \<Rightarrow>
     gerr + 'v Entry list option" where
  "journal_Log fmt now src msg args j =
     (case pair_args fmt [] args of
        Inl e \<Rightarrow> Inl e
      | Inr m \<Rightarrow>
          Inr (case j of
                 None \<Rightarrow> None
               | Some es \<Rightarrow> Some (es @ [\<lparr>je_Msg = msg, je_Args = m, je_Source = src, je_Time = now\<rparr>])))"

definition Journal :: "'v Entry list option \<Rightarrow> 'v Entry list" where
  "Journal j = (case j of None \<Rightarrow> [] | Some es \<Rightarrow> es)"


section \<open>Properties\<close>

text \<open>A list of prefixes is set as a whole: every element is parsed, or the target keeps its value.\<close>

lemma PrefixList_Set_all_or_nothing:
  assumes "s \<noteq> []"
  shows "PrefixList_Set q (Some old) s = Inr ps \<longleftrightarrow> map ParsePrefix (split_on CHR '','' s) = map Some ps"
proof -
  have "parse_prefixes q xs = Inr ps \<longleftrightarrow> map ParsePrefix xs = map Some ps" for xs
  proof (induction xs arbitrary: ps)
    case (Cons x xs)
    show ?case
    proof (cases "ParsePrefix x")
      case (Some y)
      show ?thesis
      proof (cases "parse_prefixes q xs")
        case (Inl e)
        with Cons Some show ?thesis by (cases ps) auto
      next
        case (Inr zs)
        with Cons Some show ?thesis by (cases ps) auto
      qed
    qed (cases ps; simp)
  qed auto
  with assms show ?thesis by (simp add: PrefixList_Set_def)
qed

lemma ParsePrefix_bounds: "ParsePrefix s = Some p \<Longrightarrow> px_Bits p \<le> BitLen (px_Addr p)"
  by (auto simp: ParsePrefix_def split: option.splits prod.splits if_splits)

lemma ParseAddrPort_bounds: "ParseAddrPort s = Some a \<Longrightarrow> ap_Port a < 2 ^ 16 \<and> AddrPort_IsValid a"
  by (auto simp: ParseAddrPort_def parse_uint16_def AddrPort_IsValid_def Let_def
      split: option.splits prod.splits if_splits Addr.splits)

text \<open>Values without the delimiter that are not empty are read back from the printed list.\<close>

lemma delimitedlist_roundtrip:
  assumes "\<forall>v \<in> set vs. v \<noteq> [] \<and> d \<notin> set v"
  shows "delimitedlist_Set d [] (delimitedlist_String d (Some vs)) = vs"
proof (cases "vs = []")
  case False
  with assms show ?thesis
    by (simp add: delimitedlist_Set_def delimitedlist_String_def FieldsFunc_def split_on_join)
qed (simp add: delimitedlist_Set_def delimitedlist_String_def FieldsFunc_def)

text \<open>\<open>Log\<close> panics exactly on an odd number of arguments, also when the context has no journal.\<close>

lemma journal_Log_panics_iff:
  "(\<exists>e. journal_Log fmt now src msg args j = Inl e) \<longleftrightarrow> odd (length args)"
proof -
  have "(\<exists>e. pair_args fmt m args = Inl e) \<longleftrightarrow> odd (length args)" for m
    by (induction fmt m args rule: pair_args.induct) simp_all
  from this [of "[]"] show ?thesis by (cases "pair_args fmt [] args") (simp_all add: journal_Log_def)
qed

end
