(* ===== verification/Tootles.thy ===== *)
theory Tootles
  imports Backend Net_Text Json
begin

text \<open>
  Tootles, \<open>src/tootles\<close> and \<open>src/pkg/data/instance.go\<close>: the metadata service. It finds the
  hardware object of a client by its address or an instance identifier, converts it and serves
  it in the layout of the EC2 metadata service, with a listing for every directory, and as one
  JSON object for the rootio action.

  The router, gin, is not part of the repository: a configuration is the list of its
  registrations, and a handler returns the calls it makes on the gin context, or \<open>Inl\<close> when it
  panics.
\<close>


section \<open>Instances\<close>

record OperatingSystem =
  eos_Slug :: string
  eos_Distro :: string
  eos_Version :: string
  eos_ImageTag :: string
  eos_LicenseState :: string       \<comment> \<open>\<open>LicenseActivation.State\<close>\<close>

record Metadata =
  em_InstanceID :: string
  em_Hostname :: string
  em_LocalHostname :: string
  em_IQN :: string
  em_Plan :: string
  em_Facility :: string
  em_Tags :: "string list"
  em_PublicKeys :: "string list"
  em_PublicIPv4 :: string
  em_PublicIPv6 :: string
  em_LocalIPv4 :: string
  em_OperatingSystem :: OperatingSystem

record Ec2Instance =
  ei_Userdata :: string
  ei_Metadata :: Metadata

definition empty_Ec2Instance :: Ec2Instance where
  "empty_Ec2Instance = \<lparr>ei_Userdata = [],
     ei_Metadata = \<lparr>em_InstanceID = [], em_Hostname = [], em_LocalHostname = [], em_IQN = [], em_Plan = [], em_Facility = [],
       em_Tags = [], em_PublicKeys = [], em_PublicIPv4 = [], em_PublicIPv6 = [], em_LocalIPv4 = [],
       em_OperatingSystem = \<lparr>eos_Slug = [], eos_Distro = [], eos_Version = [], eos_ImageTag = [], eos_LicenseState = []\<rparr>\<rparr>\<rparr>"

record HackPartition =
  hp_Label :: string
  hp_Number :: int
  hp_Size :: nat

record HackDisk =
  hd_Device :: string
  hd_Partitions :: "HackPartition list"
  hd_WipeTable :: bool

record HackMount =
  hm_CreateOptions :: "string list"
  hm_Device :: string
  hm_Format :: string
  hm_Point :: string

record HackInstance =
  hi_Disks :: "HackDisk list"
  hi_Filesystems :: "HackMount list"

definition empty_HackInstance :: HackInstance where
  "empty_HackInstance = \<lparr>hi_Disks = [], hi_Filesystems = []\<rparr>"


section \<open>The backend\<close>

text \<open>\<open>ErrInstanceNotFound\<close> is wrapped around every error with a \<open>NotFound\<close> method.\<close>

type_synonym filterer = "HardwareFilter \<Rightarrow> gerr + Hardware"

definition ErrInstanceNotFound :: gerr where
  "ErrInstanceNotFound = NewError ''instance not found''"

definition toInstanceNotFoundErr :: "gerr \<Rightarrow> gerr" where
  "toInstanceNotFoundErr err = (if has_not_found err then Wrap2Error ErrInstanceNotFound '': '' err else err)"

text \<open>The loop over the addresses; a nil entry is dereferenced.\<close>

definition set_if_empty :: "bool \<Rightarrow> string \<Rightarrow> string \<Rightarrow> string" where
  "set_if_empty c new old = (if c \<and> old = [] then new else old)"

fun ec2_ips :: "MetadataInstanceIP option list \<Rightarrow> Metadata \<Rightarrow> gerr + Metadata" where
  "ec2_ips [] m = Inr m"
| "ec2_ips (None # ips) m = Inl (PanicError ''invalid memory address or nil pointer dereference'')"
| "ec2_ips (Some ip # ips) m =
     ec2_ips ips
       (m\<lparr>em_PublicIPv4 := set_if_empty (mip_Family ip = 4 \<and> mip_Public ip) (mip_Address ip) (em_PublicIPv4 m),
          em_LocalIPv4 := set_if_empty (mip_Family ip = 4 \<and> \<not> mip_Public ip) (mip_Address ip) (em_LocalIPv4 m),
          em_PublicIPv6 := set_if_empty (mip_Family ip = 6) (mip_Address ip) (em_PublicIPv6 m)\<rparr>)"

definition ec2_instance :: "MetadataInstance \<Rightarrow> Metadata \<Rightarrow> gerr + Metadata" where
  "ec2_instance inst m =
     (let m1 = m\<lparr>em_InstanceID := mi_ID inst, em_Hostname := mi_Hostname inst, em_LocalHostname := mi_Hostname inst,
                 em_Tags := mi_Tags inst\<rparr>;
          m2 = (case mi_OperatingSystem inst of
                  None \<Rightarrow> m1
                | Some os \<Rightarrow> m1\<lparr>em_OperatingSystem := (em_OperatingSystem m1)\<lparr>eos_Slug := os_Slug os, eos_Distro := os_Distro os,
                    eos_Version := os_Version os, eos_ImageTag := os_ImageTag os\<rparr>\<rparr>)
      in ec2_ips (mi_Ips inst) m2)"

definition toEC2Instance :: "Hardware \<Rightarrow> gerr + Ec2Instance" where
  "toEC2Instance hw =
     (let md = hw_Metadata (Hardware_Spec hw); i = empty_Ec2Instance in
      case (case md of
              None \<Rightarrow> Inr (ei_Metadata i)
            | Some d \<Rightarrow> (case md_Instance d of None \<Rightarrow> Inr (ei_Metadata i) | Some inst \<Rightarrow> ec2_instance inst (ei_Metadata i))) of
        Inl e \<Rightarrow> Inl e
      | Inr m \<Rightarrow>
          (let m' = (case md of
                       None \<Rightarrow> m
                     | Some d \<Rightarrow>
                         (case md_Facility d of
                            None \<Rightarrow> m
                          | Some f \<Rightarrow> m\<lparr>em_Plan := mf_PlanSlug f, em_Facility := mf_FacilityCode f\<rparr>))
           in Inr \<lparr>ei_Userdata = (case hw_UserData (Hardware_Spec hw) of None \<Rightarrow> [] | Some u \<Rightarrow> u), ei_Metadata = m'\<rparr>))"

definition GetEC2Instance :: "filterer \<Rightarrow> string \<Rightarrow> gerr + Ec2Instance" where
  "GetEC2Instance flt ip =
     (case flt (empty_HardwareFilter\<lparr>hf_ByIPAddress := ip\<rparr>) of
        Inl err \<Rightarrow> Inl (toInstanceNotFoundErr err)
      | Inr hw \<Rightarrow> toEC2Instance hw)"

definition GetEC2InstanceByInstanceID :: "filterer \<Rightarrow> string \<Rightarrow> gerr + Ec2Instance" where
  "GetEC2InstanceByInstanceID flt instanceID =
     (case flt (empty_HardwareFilter\<lparr>hf_ByInstanceID := instanceID\<rparr>) of
        Inl err \<Rightarrow> Inl (toInstanceNotFoundErr err)
      | Inr hw \<Rightarrow> toEC2Instance hw)"

text \<open>
  \<open>toHackInstance\<close> writes the specification as JSON and reads it as a \<open>HackInstance\<close>. The
  tags agree, so each field is copied: a string with its invalid bytes replaced, a nil pointer as
  the zero value, and a size, signed in one and unsigned in the other, unless it is negative.
\<close>

function valid_utf8 :: "string \<Rightarrow> string" where
  "valid_utf8 s =
     (case s of
        [] \<Rightarrow> []
      | c # s' \<Rightarrow>
          if c < CHR 0x80 then c # valid_utf8 s'
          else if rune_len s = 0 then [CHR 0xEF, CHR 0xBF, CHR 0xBD] @ valid_utf8 s'
          else take (rune_len s) s @ valid_utf8 (drop (rune_len s) s))"
  by pat_completeness auto

termination
  by (relation "measure length") auto

declare valid_utf8.simps [simp del]

definition hack_partition :: "MetadataInstanceStorageDiskPartition option \<Rightarrow> HackPartition" where
  "hack_partition p =
     (case p of
        None \<Rightarrow> \<lparr>hp_Label = [], hp_Number = 0, hp_Size = 0\<rparr>
      | Some q \<Rightarrow> \<lparr>hp_Label = valid_utf8 (part_Label q), hp_Number = part_Number q, hp_Size = nat (part_Size q)\<rparr>)"

definition hack_disk :: "MetadataInstanceStorageDisk option \<Rightarrow> HackDisk" where
  "hack_disk d =
     (case d of
        None \<Rightarrow> \<lparr>hd_Device = [], hd_Partitions = [], hd_WipeTable = False\<rparr>
      | Some e \<Rightarrow> \<lparr>hd_Device = valid_utf8 (sd_Device e), hd_Partitions = map hack_partition (sd_Partitions e),
                    hd_WipeTable = sd_WipeTable e\<rparr>)"

definition hack_mount :: "MetadataInstanceStorageFilesystem option \<Rightarrow> HackMount" where
  "hack_mount f =
     (case f of
        None \<Rightarrow> \<lparr>hm_CreateOptions = [], hm_Device = [], hm_Format = [], hm_Point = []\<rparr>
      | Some g \<Rightarrow>
          (case fs_Mount g of
             None \<Rightarrow> \<lparr>hm_CreateOptions = [], hm_Device = [], hm_Format = [], hm_Point = []\<rparr>
           | Some m \<Rightarrow>
               \<lparr>hm_CreateOptions = (case mnt_Create m of None \<Rightarrow> [] | Some c \<Rightarrow> map valid_utf8 (mfo_Options c)),
                hm_Device = valid_utf8 (mnt_Device m), hm_Format = valid_utf8 (mnt_Format m),
                hm_Point = valid_utf8 (mnt_Point m)\<rparr>))"

definition negative_size :: "MetadataInstanceStorageDisk option \<Rightarrow> bool" where
  "negative_size d =
     (case d of
        None \<Rightarrow> False
      | Some e \<Rightarrow> list_ex (\<lambda>p. case p of None \<Rightarrow> False | Some q \<Rightarrow> part_Size q < 0) (sd_Partitions e))"

definition toHackInstance :: "Hardware \<Rightarrow> gerr + HackInstance" where
  "toHackInstance hw =
     (case hw_Metadata (Hardware_Spec hw) of
        None \<Rightarrow> Inr empty_HackInstance
      | Some d \<Rightarrow>
          (case md_Instance d of
             None \<Rightarrow> Inr empty_HackInstance
           | Some inst \<Rightarrow>
               (case mi_Storage inst of
                  None \<Rightarrow> Inr empty_HackInstance
                | Some s \<Rightarrow>
                    if list_ex negative_size (st_Disks s) then Inl (NewError ''json: cannot unmarshal number'')
                    else Inr \<lparr>hi_Disks = map hack_disk (st_Disks s), hi_Filesystems = map hack_mount (st_Filesystems s)\<rparr>)))"

definition GetHackInstance :: "filterer \<Rightarrow> string \<Rightarrow> gerr + HackInstance" where
  "GetHackInstance flt ip =
     (case flt (empty_HardwareFilter\<lparr>hf_ByIPAddress := ip\<rparr>) of
        Inl err \<Rightarrow> Inl err
      | Inr hw \<Rightarrow> toHackInstance hw)"


section \<open>Listings\<close>

text \<open>\<open>staticroute\<close>: a directory for every prefix of an endpoint. A builder maps a directory to
  the set of its children; the keys are distinct and their order has no meaning.\<close>

type_synonym Builder = "(string \<times> string list) list"

record StaticRoute =
  sr_Endpoint :: string
  sr_Children :: "string list"

definition NewBuilder :: Builder where
  "NewBuilder = []"

definition set_Insert :: "string \<Rightarrow> string list \<Rightarrow> string list" where
  "set_Insert v s = (if v \<in> set s then s else v # s)"

fun add_child :: "string \<Rightarrow> string \<Rightarrow> Builder \<Rightarrow> Builder" where
  "add_child parent c [] = [(parent, [c])]"
| "add_child parent c ((p, cs) # b) =
     (if p = parent then (p, set_Insert c cs) # b else (p, cs) # add_child parent c b)"

definition FromEndpoint :: "string \<Rightarrow> Builder \<Rightarrow> Builder" where
  "FromEndpoint endpoint b =
     (let e = (if has_prefix ''/'' endpoint then endpoint else ''/'' @ endpoint);
          split = split_on CHR ''/'' e
      in fold (\<lambda>i. add_child (join_str ''/'' (take i split)) (split ! i)) (rev [1..<length split]) b)"

definition list_child :: "Builder \<Rightarrow> string \<Rightarrow> string \<Rightarrow> string" where
  "list_child b parent c = (if map_of b (join_str ''/'' [parent, c]) \<noteq> None then c @ ''/'' else c)"

definition Build :: "Builder \<Rightarrow> StaticRoute list" where
  "Build b = sort_key sr_Endpoint
     (map (\<lambda>(parent, children). \<lparr>sr_Endpoint = parent, sr_Children = sort (map (list_child b parent) children)\<rparr>) b)"


section \<open>The EC2 front end\<close>

record GinRequest =
  gr_RemoteAddr :: string
  gr_instanceID :: string          \<comment> \<open>the path parameter\<close>

datatype gin_call = AbortWithError nat gerr | CtxString nat string | CtxJSON nat HackInstance

type_synonym gin_handler = "GinRequest \<Rightarrow> gerr + gin_call list"

text \<open>A registration is the group, the path below it and the handler.\<close>

type_synonym registration = "string \<times> string \<times> gin_handler"

definition RemoteAddrIP :: "GinRequest \<Rightarrow> string option" where
  "RemoteAddrIP r = (case SplitHostPort (gr_RemoteAddr r) of None \<Rightarrow> None | Some (addr, port) \<Rightarrow> Some addr)"

text \<open>An error of the front end: \<open>httperror.E\<close>, or an error without a status. A panic is passed on
  as the latter.\<close>

datatype frontend_err = HTTPError nat gerr | OtherError gerr

definition lookup_err :: "string \<Rightarrow> gerr \<Rightarrow> frontend_err" where
  "lookup_err msg err =
     (if is_panic err then OtherError err
      else if errors_Is ErrInstanceNotFound err \<or> IsNotFound err then HTTPError 404 (NewError msg)
      else HTTPError 500 err)"

definition getInstanceViaIP :: "filterer \<Rightarrow> GinRequest \<Rightarrow> frontend_err + Ec2Instance" where
  "getInstanceViaIP flt r =
     (case RemoteAddrIP r of
        None \<Rightarrow> Inl (HTTPError 400 (NewError ''invalid remote addr''))
      | Some ip \<Rightarrow>
          (case GetEC2Instance flt ip of
             Inl err \<Rightarrow> Inl (lookup_err (''no hardware found for source ip: '' @ ip) err)
           | Inr i \<Rightarrow> Inr i))"

definition getInstanceViaInstanceID :: "filterer \<Rightarrow> GinRequest \<Rightarrow> frontend_err + Ec2Instance" where
  "getInstanceViaInstanceID flt r =
     (let instanceID = gr_instanceID r in
      if trim_space instanceID = [] then Inl (HTTPError 404 (NewError ''instance ID parameter is empty or invalid''))
      else
        (case GetEC2InstanceByInstanceID flt instanceID of
           Inl err \<Rightarrow> Inl (lookup_err (''no hardware found for instanceID: '' @ [CHR 0x27] @ instanceID @ [CHR 0x27]) err)
         | Inr i \<Rightarrow> Inr i))"

definition writeInstanceDataOrErrToHTTP :: "frontend_err option \<Rightarrow> string \<Rightarrow> gerr + gin_call list" where
  "writeInstanceDataOrErrToHTTP err filtered =
     (case err of
        Some (HTTPError code e) \<Rightarrow> Inr [AbortWithError code e]
      | Some (OtherError e) \<Rightarrow> if is_panic e then Inl e else Inr [AbortWithError 500 e]
      | None \<Rightarrow> Inr [CtxString 200 filtered])"

definition data_handler :: "(GinRequest \<Rightarrow> frontend_err + Ec2Instance) \<Rightarrow> (Ec2Instance \<Rightarrow> string) \<Rightarrow> gin_handler" where
  "data_handler get flt r =
     (case get r of
        Inl err \<Rightarrow> writeInstanceDataOrErrToHTTP (Some err) (flt empty_Ec2Instance)
      | Inr i \<Rightarrow> writeInstanceDataOrErrToHTTP None (flt i))"

definition ec2_join :: "string list \<Rightarrow> string" where
  "ec2_join v = join_str [CHR 0x0A] v"

definition dataRoutes :: "(string \<times> (Ec2Instance \<Rightarrow> string)) list" where
  "dataRoutes =
     (let md = ei_Metadata; os = (\<lambda>i. em_OperatingSystem (ei_Metadata i)) in
     [(''/user-data'', ei_Userdata),
      (''/meta-data/instance-id'', \<lambda>i. em_InstanceID (md i)),
      (''/meta-data/hostname'', \<lambda>i. em_Hostname (md i)),
      (''/meta-data/local-hostname'', \<lambda>i. em_LocalHostname (md i)),
      (''/meta-data/iqn'', \<lambda>i. em_IQN (md i)),
      (''/meta-data/plan'', \<lambda>i. em_Plan (md i)),
      (''/meta-data/facility'', \<lambda>i. em_Facility (md i)),
      (''/meta-data/tags'', \<lambda>i. ec2_join (em_Tags (md i))),
      (''/meta-data/public-ipv4'', \<lambda>i. em_PublicIPv4 (md i)),
      (''/meta-data/public-ipv6'', \<lambda>i. em_PublicIPv6 (md i)),
      (''/meta-data/local-ipv4'', \<lambda>i. em_LocalIPv4 (md i)),
      (''/meta-data/public-keys'', \<lambda>i. ec2_join (em_PublicKeys (md i))),
      (''/meta-data/operating-system/slug'', \<lambda>i. eos_Slug (os i)),
      (''/meta-data/operating-system/distro'', \<lambda>i. eos_Distro (os i)),
      (''/meta-data/operating-system/version'', \<lambda>i. eos_Version (os i)),
      (''/meta-data/operating-system/image_tag'', \<lambda>i. eos_ImageTag (os i)),
      (''/meta-data/operating-system/license_activation/state'', \<lambda>i. eos_LicenseState (os i))])"

text \<open>\<open>TrailingSlashRouteHelper.GET\<close>: the endpoint and its form with or without a slash at the
  end.\<close>

definition alternateEndpoint :: "string \<Rightarrow> string" where
  "alternateEndpoint endpoint = (if has_suffix ''/'' endpoint then butlast endpoint else endpoint @ ''/'')"

definition TrailingSlash_GET :: "string \<Rightarrow> string \<Rightarrow> gin_handler \<Rightarrow> registration list" where
  "TrailingSlash_GET grp endpoint h = [(grp, endpoint, h), (grp, alternateEndpoint endpoint, h)]"

definition v20090404 :: string where
  "v20090404 = ''/2009-04-04''"

definition v20090404viaInstanceID :: string where
  "v20090404viaInstanceID = ''/tootles/instanceID/:instanceID/2009-04-04''"

definition ec2_Configure :: "filterer \<Rightarrow> bool \<Rightarrow> registration list" where
  "ec2_Configure flt instanceEndpoint =
     concat (map (\<lambda>(endpoint, filt).
         TrailingSlash_GET v20090404 endpoint (data_handler (getInstanceViaIP flt) filt) @
         (if instanceEndpoint
          then TrailingSlash_GET v20090404viaInstanceID endpoint (data_handler (getInstanceViaInstanceID flt) filt) else []))
       dataRoutes) @
     concat (map (\<lambda>r.
         TrailingSlash_GET v20090404 (sr_Endpoint r) (\<lambda>_. Inr [CtxString 200 (ec2_join (sr_Children r))]) @
         (if instanceEndpoint
          then TrailingSlash_GET v20090404viaInstanceID (sr_Endpoint r) (\<lambda>_. Inr [CtxString 200 (ec2_join (sr_Children r))]) else []))
       (Build (fold (\<lambda>(endpoint, filt). FromEndpoint endpoint) dataRoutes NewBuilder)))"


section \<open>The rootio front end\<close>

text \<open>The handler of \<open>/metadata\<close> goes on after the answer to an invalid address.\<close>

definition hack_handler :: "filterer \<Rightarrow> gin_handler" where
  "hack_handler flt r =
     (let (ip, aborted) = (case RemoteAddrIP r of
                             None \<Rightarrow> ([], [AbortWithError 400 (NewError ''invalid remote address'')])
                           | Some ip \<Rightarrow> (ip, []))
      in Inr (aborted @
           (case GetHackInstance flt ip of
              Inl err \<Rightarrow>
                [if IsNotFound err then AbortWithError 404 (NewError (''no hardware found for source ip: '' @ ip))
                 else AbortWithError 500 err]
            | Inr i \<Rightarrow> [CtxJSON 200 i])))"

definition hack_Configure :: "filterer \<Rightarrow> registration list" where
  "hack_Configure flt = [([], ''/metadata'', hack_handler flt)]"

end
