(* ===== verification/Tootles_Props.thy ===== *)
theory Tootles_Props
  imports Tootles "HOL-Library.Multiset"
begin

text \<open>
  What Tootles serves: the listings describe the tree of the data endpoints, every endpoint
  answers with the data of the hardware object of the client or the status of the error, and the
  registrations are those the router accepts.
\<close>


section \<open>Listings\<close>

definition has_child :: "Builder \<Rightarrow> string \<Rightarrow> string \<Rightarrow> bool" where
  "has_child b p c \<longleftrightarrow> (\<exists>cs. map_of b p = Some cs \<and> c \<in> set cs)"

text \<open>The keys are distinct and the children of a key a set that is not empty.\<close>

definition wf_builder :: "Builder \<Rightarrow> bool" where
  "wf_builder b \<longleftrightarrow> distinct (map fst b) \<and> (\<forall>(p, cs) \<in> set b. distinct cs \<and> cs \<noteq> [])"

lemma map_of_add_child:
  "map_of (add_child p c b) q =
     (if q = p then Some (case map_of b p of None \<Rightarrow> [c] | Some cs \<Rightarrow> set_Insert c cs) else map_of b q)"
  by (induction b) auto

lemma keys_add_child: "fst ` set (add_child p c b) = insert p (fst ` set b)"
  by (induction p c b rule: add_child.induct) auto

lemma wf_add_child: "wf_builder b \<Longrightarrow> wf_builder (add_child p c b)"
proof (induction b)
  case (Cons x b)
  then show ?case
    using keys_add_child [of p c b] by (cases x) (auto simp: wf_builder_def set_Insert_def)
qed (simp add: wf_builder_def)

lemma has_child_add: "has_child (add_child p c b) q d \<longleftrightarrow> has_child b q d \<or> (q = p \<and> d = c)"
  by (auto simp: has_child_def map_of_add_child set_Insert_def split: option.splits if_splits)

lemma fold_add_child:
  "wf_builder b \<Longrightarrow> wf_builder (fold (\<lambda>i. add_child (f i) (g i)) is b)"
  "has_child (fold (\<lambda>i. add_child (f i) (g i)) is b) q d \<longleftrightarrow> has_child b q d \<or> (\<exists>i \<in> set is. q = f i \<and> d = g i)"
  by (induction "is" arbitrary: b) (auto simp: wf_add_child has_child_add)

text \<open>\<open>c\<close> is the name below the directory \<open>p\<close> on the way to \<open>e\<close>.\<close>

definition below :: "string \<Rightarrow> string \<Rightarrow> bool" where
  "below p e \<longleftrightarrow> has_prefix (p @ ''/'') e"

definition child_on_path :: "string \<Rightarrow> string \<Rightarrow> string \<Rightarrow> bool" where
  "child_on_path p c e \<longleftrightarrow> CHR ''/'' \<notin> set c \<and> (e = p @ ''/'' @ c \<or> below (p @ ''/'' @ c) e)"

lemma child_on_path_split:
  "child_on_path p c e \<longleftrightarrow>
     (\<exists>i \<in> {1..<length (split_on CHR ''/'' e)}. p = join_str ''/'' (take i (split_on CHR ''/'' e)) \<and> c = split_on CHR ''/'' e ! i)"
  (is "_ \<longleftrightarrow> (\<exists>i \<in> _. ?P i)")
proof
  let ?s = "split_on CHR ''/'' e"
  assume a: "child_on_path p c e"
  then obtain rest where e: "e = p @ CHR ''/'' # c @ rest" and rest: "rest = [] \<or> (\<exists>r. rest = CHR ''/'' # r)"
    by (auto simp: child_on_path_def below_def has_prefix_iff)
  have c: "CHR ''/'' \<notin> set c" using a by (simp add: child_on_path_def)
  have "\<exists>t. ?s = split_on CHR ''/'' p @ c # t"
    using rest c by (auto simp: e split_on_append split_on_sep split_on_none)
  then obtain t where s: "?s = split_on CHR ''/'' p @ c # t" by blast
  let ?i = "length (split_on CHR ''/'' p)"
  have "?i \<in> {1..<length ?s}" by (auto simp: s Suc_le_eq)
  moreover have "?P ?i" by (simp add: s join_split_on)
  ultimately show "\<exists>i \<in> {1..<length ?s}. ?P i" by blast
next
  let ?s = "split_on CHR ''/'' e"
  assume "\<exists>i \<in> {1..<length ?s}. ?P i"
  then obtain i where "i \<in> {1..<length ?s}" and P: "?P i" by blast
  then have i: "0 < i" "i < length ?s" by simp_all
  have "e = join_str ''/'' (take i ?s @ ?s ! i # drop (Suc i) ?s)"
    using i by (simp add: id_take_nth_drop [symmetric] join_split_on)
  also have "\<dots> = p @ ''/'' @ join_str ''/'' (c # drop (Suc i) ?s)"
    using i P by (subst join_str_append) auto
  finally have "e = p @ ''/'' @ join_str ''/'' (c # drop (Suc i) ?s)" .
  moreover have "CHR ''/'' \<notin> set c" using P i split_on_parts [OF nth_mem [OF i(2)]] by simp
  ultimately show "child_on_path p c e"
    by (cases "drop (Suc i) ?s") (auto simp: child_on_path_def below_def has_prefix_iff)
qed

lemma FromEndpoint_spec:
  assumes "has_prefix ''/'' e"
  shows "wf_builder b \<Longrightarrow> wf_builder (FromEndpoint e b)"
    and "has_child (FromEndpoint e b) p c \<longleftrightarrow> has_child b p c \<or> child_on_path p c e"
  using assms unfolding FromEndpoint_def Let_def
  by (auto simp: fold_add_child child_on_path_split)

lemma from_endpoints:
  assumes "\<forall>e \<in> set es. has_prefix ''/'' e"
  shows "wf_builder b \<Longrightarrow> wf_builder (fold FromEndpoint es b)"
    and "has_child (fold FromEndpoint es b) p c \<longleftrightarrow> has_child b p c \<or> (\<exists>e \<in> set es. child_on_path p c e)"
  using assms by (induction es arbitrary: b) (auto simp: FromEndpoint_spec)

lemma directory_iff:
  assumes "wf_builder b"
  shows "map_of b p \<noteq> None \<longleftrightarrow> (\<exists>c. has_child b p c)"
proof
  assume "map_of b p \<noteq> None"
  then obtain cs where "map_of b p = Some cs" by auto
  moreover from this have "cs \<noteq> []" using assms by (auto simp: wf_builder_def dest: map_of_SomeD)
  ultimately show "\<exists>c. has_child b p c" by (cases cs) (auto simp: has_child_def)
qed (auto simp: has_child_def)

lemma below_child: "below p e \<longleftrightarrow> (\<exists>c. child_on_path p c e)"
proof
  assume "below p e"
  then obtain r where e: "e = p @ ''/'' @ r" by (auto simp: below_def has_prefix_iff)
  obtain c d where r: "r = c @ d" and c: "CHR ''/'' \<notin> set c" and d: "d = [] \<or> (\<exists>t. d = CHR ''/'' # t)"
  proof
    let ?P = "\<lambda>x. x \<noteq> CHR ''/''"
    show "r = takeWhile ?P r @ dropWhile ?P r" by simp
    show "CHR ''/'' \<notin> set (takeWhile ?P r)" by (auto dest: set_takeWhileD)
    show "dropWhile ?P r = [] \<or> (\<exists>t. dropWhile ?P r = CHR ''/'' # t)"
      using hd_dropWhile [of ?P r] by (cases "dropWhile ?P r") auto
  qed
  have "child_on_path p c e"
    using c d by (auto simp: child_on_path_def below_def has_prefix_iff e r)
  then show "\<exists>c. child_on_path p c e" by blast
qed (auto simp: child_on_path_def below_def has_prefix_iff)

lemma Build_mem:
  assumes "wf_builder b"
  shows "r \<in> set (Build b) \<longleftrightarrow>
    (\<exists>cs. map_of b (sr_Endpoint r) = Some cs \<and> sr_Children r = sort (map (list_child b (sr_Endpoint r)) cs))"
proof -
  let ?f = "\<lambda>(p, cs). \<lparr>sr_Endpoint = p, sr_Children = sort (map (list_child b p) cs)\<rparr>"
  have "r = ?f (p, cs) \<longleftrightarrow> sr_Endpoint r = p \<and> sr_Children r = sort (map (list_child b p) cs)" for p cs
    by (cases r) simp
  moreover have "set (Build b) = ?f ` set b" by (simp add: Build_def)
  ultimately have "r \<in> set (Build b) \<longleftrightarrow>
    (\<exists>p cs. (p, cs) \<in> set b \<and> sr_Endpoint r = p \<and> sr_Children r = sort (map (list_child b p) cs))"
    by (simp only: image_iff Bex_def split_paired_Ex)
  moreover have "(p, cs) \<in> set b \<longleftrightarrow> map_of b p = Some cs" for p cs using assms by (simp add: wf_builder_def)
  ultimately show ?thesis by simp
qed

lemma map_Endpoint_Build: "mset (map sr_Endpoint (Build b)) = mset (map fst b)"
  by (simp add: Build_def multiset.map_comp o_def split_beta)

lemma Build_sorted:
  assumes "wf_builder b"
  shows "sorted_wrt (<) (map sr_Endpoint (Build b))"
proof -
  have "distinct (map sr_Endpoint (Build b))"
    using assms mset_eq_imp_distinct_iff [OF map_Endpoint_Build] by (simp add: wf_builder_def)
  then show ?thesis by (simp add: strict_sorted_iff Build_def)
qed

text \<open>The order in which the entries of the map are visited has no influence.\<close>

lemma Build_order:
  assumes "wf_builder b" and "mset b = mset b'"
  shows "Build b = Build b'"
proof -
  have same: "set b = set b'" by (rule mset_eq_setD [OF assms(2)])
  have "mset (map fst b) = mset (map fst b')" using assms(2) by simp
  then have w: "wf_builder b'"
    using assms(1) same mset_eq_imp_distinct_iff [of "map fst b" "map fst b'"] by (simp add: wf_builder_def)
  have "map_of b = map_of b'"
    using assms(1) w same map_of_inject_set [of b b'] by (simp add: wf_builder_def)
  then have lc: "list_child b = list_child b'" by (simp add: list_child_def fun_eq_iff)
  have "set (Build b) = set (Build b')"
    using same by (simp add: Build_def lc)
  moreover have "inj_on sr_Endpoint (set (Build b))"
    using Build_sorted [OF assms(1)] by (simp add: strict_sorted_iff distinct_map)
  ultimately show ?thesis
    using Build_sorted [OF assms(1)] Build_sorted [OF w]
    by (intro map_sorted_distinct_set_unique [where f = sr_Endpoint]) (auto simp: strict_sorted_iff)
qed

text \<open>The directories and children of a builder filled from a list of endpoints.\<close>

lemma tree_wf:
  assumes "\<forall>e \<in> set es. has_prefix ''/'' e"
  shows "wf_builder (fold FromEndpoint es NewBuilder)"
  using assms by (intro from_endpoints) (simp_all add: NewBuilder_def wf_builder_def)

lemma tree_child:
  assumes "\<forall>e \<in> set es. has_prefix ''/'' e"
  shows "has_child (fold FromEndpoint es NewBuilder) p c \<longleftrightarrow> (\<exists>e \<in> set es. child_on_path p c e)"
  using from_endpoints(2) [OF assms] by (simp add: NewBuilder_def has_child_def)

lemma tree_directory:
  assumes "\<forall>e \<in> set es. has_prefix ''/'' e"
  shows "map_of (fold FromEndpoint es NewBuilder) p \<noteq> None \<longleftrightarrow> (\<exists>e \<in> set es. below p e)"
  unfolding directory_iff [OF tree_wf [OF assms]] tree_child [OF assms] below_child by blast

lemma tree_list_child:
  assumes "\<forall>e \<in> set es. has_prefix ''/'' e"
  shows "list_child (fold FromEndpoint es NewBuilder) p c =
    (if \<exists>e \<in> set es. below (p @ ''/'' @ c) e then c @ ''/'' else c)"
  using tree_directory [OF assms, of "p @ ''/'' @ c"] by (simp add: list_child_def)

lemma tree_child_on_path:
  assumes "\<forall>e \<in> set es. has_prefix ''/'' e"
  shows "has_child (fold FromEndpoint es NewBuilder) p c \<longleftrightarrow>
    CHR ''/'' \<notin> set c \<and> (p @ ''/'' @ c \<in> set es \<or> (\<exists>e \<in> set es. below (p @ ''/'' @ c) e))"
  unfolding tree_child [OF assms] child_on_path_def by blast

lemma tree_children:
  assumes "\<forall>e \<in> set es. has_prefix ''/'' e" and "r \<in> set (Build (fold FromEndpoint es NewBuilder))"
  shows "sorted_wrt (<) (sr_Children r)"
    and "x \<in> set (sr_Children r) \<longleftrightarrow>
      (\<exists>c. has_child (fold FromEndpoint es NewBuilder) (sr_Endpoint r) c \<and>
        x = list_child (fold FromEndpoint es NewBuilder) (sr_Endpoint r) c)"
proof -
  let ?b = "fold FromEndpoint es NewBuilder" and ?p = "sr_Endpoint r"
  have w: "wf_builder ?b" by (rule tree_wf [OF assms(1)])
  obtain cs where cs: "map_of ?b ?p = Some cs" "sr_Children r = sort (map (list_child ?b ?p) cs)"
    using assms(2) Build_mem [OF w] by blast
  then show "x \<in> set (sr_Children r) \<longleftrightarrow> (\<exists>c. has_child ?b ?p c \<and> x = list_child ?b ?p c)"
    by (auto simp: has_child_def)
  have names: "CHR ''/'' \<notin> set c" if "c \<in> set cs" for c
    using that cs(1) tree_child [OF assms(1), of ?p c] by (auto simp: has_child_def child_on_path_def)
  have "inj_on (list_child ?b ?p) (set cs)"
  proof (rule inj_onI)
    fix c d
    assume "c \<in> set cs" "d \<in> set cs" "list_child ?b ?p c = list_child ?b ?p d"
    with names [of c] names [of d] show "c = d" unfolding list_child_def by (auto split: if_splits)
  qed
  moreover have "distinct cs" using w cs(1) by (auto simp: wf_builder_def dest: map_of_SomeD)
  ultimately show "sorted_wrt (<) (sr_Children r)" by (simp add: cs(2) strict_sorted_iff distinct_map)
qed

text \<open>C29. The listings built from a set of endpoints are the directories above them, sorted and
  without repetition: a directory is listed exactly when an endpoint lies below it, and it names,
  sorted and without repetition, each directory in it with a slash and each other endpoint in it
  without. So every endpoint can be found from the root, and nothing else.\<close>

theorem static_routes_tree:
  assumes "\<forall>e \<in> set es. has_prefix ''/'' e"
  shows "let rs = Build (fold FromEndpoint es NewBuilder) in
    sorted_wrt (<) (map sr_Endpoint rs) \<and>
    sr_Endpoint ` set rs = {p. \<exists>e \<in> set es. below p e} \<and>
    (\<forall>r \<in> set rs. sorted_wrt (<) (sr_Children r) \<and>
       set (sr_Children r) =
         {c @ ''/'' | c. CHR ''/'' \<notin> set c \<and> (\<exists>e \<in> set es. below (sr_Endpoint r @ ''/'' @ c) e)} \<union>
         {c. CHR ''/'' \<notin> set c \<and> sr_Endpoint r @ ''/'' @ c \<in> set es \<and> \<not> (\<exists>e \<in> set es. below (sr_Endpoint r @ ''/'' @ c) e)})"
proof -
  let ?b = "fold FromEndpoint es NewBuilder"
  have "sr_Endpoint ` set (Build ?b) = {p. map_of ?b p \<noteq> None}"
    using mset_eq_setD [OF map_Endpoint_Build [of ?b]] by (auto simp: map_of_eq_None_iff)
  also have "\<dots> = {p. \<exists>e \<in> set es. below p e}" unfolding tree_directory [OF assms] ..
  finally have dirs: "sr_Endpoint ` set (Build ?b) = {p. \<exists>e \<in> set es. below p e}" .
  have kids: "set (sr_Children r) =
         {c @ ''/'' | c. CHR ''/'' \<notin> set c \<and> (\<exists>e \<in> set es. below (sr_Endpoint r @ ''/'' @ c) e)} \<union>
         {c. CHR ''/'' \<notin> set c \<and> sr_Endpoint r @ ''/'' @ c \<in> set es \<and> \<not> (\<exists>e \<in> set es. below (sr_Endpoint r @ ''/'' @ c) e)}"
    if "r \<in> set (Build ?b)" for r
  proof -
    define D where "D c \<longleftrightarrow> (\<exists>e \<in> set es. below (sr_Endpoint r @ ''/'' @ c) e)" for c
    show ?thesis
      unfolding set_eq_iff tree_children(2) [OF assms that] tree_child_on_path [OF assms] tree_list_child [OF assms] D_def [symmetric]
      by (auto split: if_splits)
  qed
  show ?thesis
    unfolding Let_def
    by (intro conjI ballI Build_sorted tree_wf [OF assms] dirs kids tree_children(1) [OF assms])
qed

theorem static_routes_tree_witness:
  "let es = [''/a/b/c'', ''/a/d'']; rs = Build (fold FromEndpoint es NewBuilder) in
    (\<forall>e \<in> set es. has_prefix ''/'' e) \<and> sr_Endpoint ` set rs = {p. \<exists>e \<in> set es. below p e} \<and>
    rs = [\<lparr>sr_Endpoint = [], sr_Children = [''a/'']\<rparr>, \<lparr>sr_Endpoint = ''/a'', sr_Children = [''b/'', ''d'']\<rparr>,
          \<lparr>sr_Endpoint = ''/a/b'', sr_Children = [''c'']\<rparr>]"
proof -
  have "Build (fold FromEndpoint [''/a/b/c'', ''/a/d''] NewBuilder) =
    [\<lparr>sr_Endpoint = [], sr_Children = [''a/'']\<rparr>, \<lparr>sr_Endpoint = ''/a'', sr_Children = [''b/'', ''d'']\<rparr>,
     \<lparr>sr_Endpoint = ''/a/b'', sr_Children = [''c'']\<rparr>]"
    by code_simp
  then show ?thesis
    using static_routes_tree [of "[''/a/b/c'', ''/a/d'']"] unfolding Let_def by (simp add: has_prefix_def)
qed


section \<open>Instances\<close>

text \<open>Only a nil entry in the list of addresses stops the conversion.\<close>

lemma ec2_ips_Inl: "ec2_ips ips m = Inl e \<Longrightarrow> is_panic e"
  by (induction ips m rule: ec2_ips.induct) auto

lemma toEC2Instance_Inl: "toEC2Instance hw = Inl e \<Longrightarrow> is_panic e"
  by (auto simp: toEC2Instance_def ec2_instance_def Let_def dest: ec2_ips_Inl
      split: option.splits sum.splits)

lemma ec2_ips_total: "None \<notin> set ips \<Longrightarrow> \<exists>m'. ec2_ips ips m = Inr m'"
  by (induction ips m rule: ec2_ips.induct) auto

lemma toEC2Instance_total:
  assumes "\<And>d i. hw_Metadata (Hardware_Spec hw) = Some d \<Longrightarrow> md_Instance d = Some i \<Longrightarrow> None \<notin> set (mi_Ips i)"
  shows "\<exists>i. toEC2Instance hw = Inr i"
proof (cases "\<exists>d i. hw_Metadata (Hardware_Spec hw) = Some d \<and> md_Instance d = Some i")
  case True
  then obtain d i where h: "hw_Metadata (Hardware_Spec hw) = Some d" "md_Instance d = Some i" by blast
  then obtain m where "ec2_instance i (ei_Metadata empty_Ec2Instance) = Inr m"
    using ec2_ips_total [OF assms [OF h]] unfolding ec2_instance_def Let_def by blast
  with h show ?thesis by (simp add: toEC2Instance_def)
next
  case False
  then show ?thesis by (cases "hw_Metadata (Hardware_Spec hw)") (auto simp: toEC2Instance_def Let_def)
qed

text \<open>The first address of each kind is the one served.\<close>

definition first_address :: "(MetadataInstanceIP \<Rightarrow> bool) \<Rightarrow> MetadataInstanceIP option list \<Rightarrow> string" where
  "first_address P ips =
     (case find (\<lambda>ip. P ip \<and> mip_Address ip \<noteq> []) (map the ips) of None \<Rightarrow> [] | Some ip \<Rightarrow> mip_Address ip)"

lemma ec2_ips_fields:
  assumes "ec2_ips ips m = Inr m'"
  shows "em_PublicIPv4 m' = (if em_PublicIPv4 m \<noteq> [] then em_PublicIPv4 m else first_address (\<lambda>ip. mip_Family ip = 4 \<and> mip_Public ip) ips)"
    and "em_LocalIPv4 m' = (if em_LocalIPv4 m \<noteq> [] then em_LocalIPv4 m else first_address (\<lambda>ip. mip_Family ip = 4 \<and> \<not> mip_Public ip) ips)"
    and "em_PublicIPv6 m' = (if em_PublicIPv6 m \<noteq> [] then em_PublicIPv6 m else first_address (\<lambda>ip. mip_Family ip = 6) ips)"
    and "em_IQN m' = em_IQN m \<and> em_PublicKeys m' = em_PublicKeys m \<and> em_OperatingSystem m' = em_OperatingSystem m"
  using assms
  by (induction ips m rule: ec2_ips.induct) (auto simp: first_address_def set_if_empty_def split: if_splits)

text \<open>The public keys, the IQN and the license state are served and never set.\<close>

lemma unset_fields:
  assumes "toEC2Instance hw = Inr i"
  shows "em_IQN (ei_Metadata i) = [] \<and> em_PublicKeys (ei_Metadata i) = [] \<and>
    eos_LicenseState (em_OperatingSystem (ei_Metadata i)) = []"
  using assms ec2_ips_fields(4)
  by (fastforce simp: toEC2Instance_def ec2_instance_def Let_def empty_Ec2Instance_def split: option.splits sum.splits)


section \<open>Answers\<close>

text \<open>What the front end relies on beyond a single lookup: an ambiguous lookup is not one of the
  errors it answers with 404.\<close>

locale instance_lookup = single_lookup lookup candidates
  for lookup :: "HardwareFilter \<Rightarrow> 's \<Rightarrow> gerr + Hardware" and candidates :: "HardwareFilter \<Rightarrow> 's \<Rightarrow> Hardware list option" +
  assumes several_other:
    "candidates f s = Some (a # b # hs) \<Longrightarrow> lookup f s = Inl e \<Longrightarrow> \<not> errors_Is ErrInstanceNotFound e \<and> \<not> IsNotFound e"
begin

lemma instance_by_filter:
  assumes "candidates f s = Some hws"
  shows "case (case lookup f s of Inl err \<Rightarrow> Inl (toInstanceNotFoundErr err) | Inr hw \<Rightarrow> toEC2Instance hw) of
      Inl err \<Rightarrow> (case hws of
          [] \<Rightarrow> lookup_err msg err = HTTPError 404 (NewError msg)
        | [hw] \<Rightarrow> is_panic err \<and> lookup_err msg err = OtherError err \<and> toEC2Instance hw = Inl err
        | _ \<Rightarrow> lookup_err msg err = HTTPError 500 err)
    | Inr i \<Rightarrow> \<exists>hw. hws = [hw] \<and> toEC2Instance hw = Inr i"
proof -
  have panic: "has_multiple_found e \<Longrightarrow> \<not> is_panic e" for e by (cases e) simp_all
  show ?thesis
  proof (cases rule: lookup_cases [of f s])
    case 1
    then show ?thesis using assms by simp
  next
    case 2
    then show ?thesis using assms
      by (simp add: toInstanceNotFoundErr_def lookup_err_def ErrInstanceNotFound_def)
  next
    case (3 hw)
    then show ?thesis using assms
      by (cases "toEC2Instance hw") (auto simp: lookup_err_def dest: toEC2Instance_Inl)
  next
    case 4
    then show ?thesis using assms several_other [OF 4(1,2)] panic
      by (simp add: toInstanceNotFoundErr_def lookup_err_def)
  qed
qed

end

interpretation file_instances: instance_lookup "\<lambda>f dec. file_FilterHardware dec f" file_candidates
proof
  show "file_candidates f dec = Some (a # b # hs) \<Longrightarrow> file_FilterHardware dec f = Inl e \<Longrightarrow>
      \<not> errors_Is ErrInstanceNotFound e \<and> \<not> IsNotFound e" for f dec a b hs e
    by (cases dec) (auto simp: file_FilterHardware_def file_candidates_def IsNotFound_def ErrInstanceNotFound_def)
qed

interpretation kube_instances: instance_lookup kube_find kube_candidates
proof
  fix f a b hs e
  fix s :: "'w kube_store"
  show "kube_candidates f s = Some (a # b # hs) \<Longrightarrow> kube_find f s = Inl e \<Longrightarrow>
      \<not> errors_Is ErrInstanceNotFound e \<and> \<not> IsNotFound e"
    by (cases "kube_list f s" rule: call_cases)
      (auto simp: kube_find_def kube_FilterHardware_def kube_candidates_def kube_list_def IsNotFound_def ErrInstanceNotFound_def Let_def)
qed

text \<open>The objects a backend has for an address.\<close>

definition file_owners :: "string \<Rightarrow> Hardware list \<Rightarrow> Hardware list" where
  "file_owners ip hs = filter (\<lambda>hw. ip \<in> set (GetIPs hw)) hs"

lemma file_owners_candidates:
  "ip \<noteq> [] \<Longrightarrow> file_candidates (empty_HardwareFilter\<lparr>hf_ByIPAddress := ip\<rparr>) (Inr hs) = Some (file_owners ip hs)"
  by (simp add: file_candidates_def file_owners_def matchHardware_selected selected_def selectors_def empty_HardwareFilter_def)

lemma data_registered:
  assumes "(endpoint, filt) \<in> set dataRoutes"
  shows "(v20090404, endpoint, data_handler (getInstanceViaIP flt) filt) \<in> set (ec2_Configure flt b)"
    and "(v20090404, endpoint @ ''/'', data_handler (getInstanceViaIP flt) filt) \<in> set (ec2_Configure flt b)"
proof -
  have "\<forall>(endpoint, filt) \<in> set dataRoutes. alternateEndpoint endpoint = endpoint @ ''/''"
    by (simp add: dataRoutes_def alternateEndpoint_def has_suffix_def has_prefix_def)
  with assms have alt: "alternateEndpoint endpoint = endpoint @ ''/''" by blast
  have "set (TrailingSlash_GET v20090404 endpoint (data_handler (getInstanceViaIP flt) filt)) \<subseteq> set (ec2_Configure flt b)"
    unfolding ec2_Configure_def set_append set_concat set_map image_image
    by (intro le_supI1 SUP_upper2 [OF assms]) (simp add: subset_iff)
  then show "(v20090404, endpoint, data_handler (getInstanceViaIP flt) filt) \<in> set (ec2_Configure flt b)"
    and "(v20090404, endpoint @ ''/'', data_handler (getInstanceViaIP flt) filt) \<in> set (ec2_Configure flt b)"
    by (simp_all add: TrailingSlash_GET_def alt)
qed

text \<open>C30. A data endpoint, with or without a slash at the end, answers a client with the data of the
  hardware object that has its address, with 404 when there is none and 500 when there are several;
  the file backend and the Kubernetes backend give the same answers. A request without a usable
  address is answered with 400.\<close>

theorem ec2_answers:
  assumes "(endpoint, filt) \<in> set dataRoutes" and "p = endpoint \<or> p = endpoint @ ''/''"
    and "(flt = (\<lambda>f. file_FilterHardware (Inr hs) f) \<and> hws = file_owners ip hs) \<or>
      (flt = (\<lambda>f. kube_find f (kc, q, w)) \<and>
       fst (kc_ListHardware kc (hardwareListOptions (empty_HardwareFilter\<lparr>hf_ByIPAddress := ip\<rparr>)) w) = Inr hws)"
    and "SplitHostPort (gr_RemoteAddr req) = Some (ip, port)" and "ip \<noteq> []"
    and "SplitHostPort (gr_RemoteAddr bad) = None"
  shows "\<exists>h. (v20090404, p, h) \<in> set (ec2_Configure flt b) \<and>
    h bad = Inr [AbortWithError 400 (NewError ''invalid remote addr'')] \<and>
    (case hws of
       [] \<Rightarrow> h req = Inr [AbortWithError 404 (NewError (''no hardware found for source ip: '' @ ip))]
     | [hw] \<Rightarrow> h req = map_sum id (\<lambda>i. [CtxString 200 (filt i)]) (toEC2Instance hw)
     | _ \<Rightarrow> \<exists>e. h req = Inr [AbortWithError 500 e])"
proof -
  let ?f = "empty_HardwareFilter\<lparr>hf_ByIPAddress := ip\<rparr>" and ?msg = "''no hardware found for source ip: '' @ ip"
  let ?h = "data_handler (getInstanceViaIP flt) filt"
  have fact: "case GetEC2Instance flt ip of
      Inl err \<Rightarrow> (case hws of
          [] \<Rightarrow> lookup_err ?msg err = HTTPError 404 (NewError ?msg)
        | [hw] \<Rightarrow> is_panic err \<and> lookup_err ?msg err = OtherError err \<and> toEC2Instance hw = Inl err
        | _ \<Rightarrow> lookup_err ?msg err = HTTPError 500 err)
    | Inr i \<Rightarrow> \<exists>hw. hws = [hw] \<and> toEC2Instance hw = Inr i"
    using assms(3)
  proof
    assume "flt = (\<lambda>f. file_FilterHardware (Inr hs) f) \<and> hws = file_owners ip hs"
    then have flt: "flt = (\<lambda>f. file_FilterHardware (Inr hs) f)" and hws: "hws = file_owners ip hs" by blast+
    show ?thesis
      unfolding GetEC2Instance_def flt hws
      by (rule file_instances.instance_by_filter [OF file_owners_candidates [OF assms(5)]])
  next
    assume k: "flt = (\<lambda>f. kube_find f (kc, q, w)) \<and> fst (kc_ListHardware kc (hardwareListOptions ?f) w) = Inr hws"
    then have flt: "flt = (\<lambda>f. kube_find f (kc, q, w))" by blast
    have "kube_candidates ?f (kc, q, w) = Some hws" using k by (simp add: kube_candidates_def kube_list_def)
    then show ?thesis
      unfolding GetEC2Instance_def flt by (rule kube_instances.instance_by_filter)
  qed
  have "?h bad = Inr [AbortWithError 400 (NewError ''invalid remote addr'')]"
    using assms(6) by (simp add: data_handler_def getInstanceViaIP_def RemoteAddrIP_def writeInstanceDataOrErrToHTTP_def)
  moreover have "case hws of
       [] \<Rightarrow> ?h req = Inr [AbortWithError 404 (NewError ?msg)]
     | [hw] \<Rightarrow> ?h req = map_sum id (\<lambda>i. [CtxString 200 (filt i)]) (toEC2Instance hw)
     | _ \<Rightarrow> \<exists>e. ?h req = Inr [AbortWithError 500 e]"
    using fact assms(4)
    by (cases "GetEC2Instance flt ip")
      (auto simp: data_handler_def getInstanceViaIP_def RemoteAddrIP_def writeInstanceDataOrErrToHTTP_def split: list.splits)
  ultimately show ?thesis using data_registered [OF assms(1)] assms(2) by blast
qed

definition ex_owner :: Hardware where
  "ex_owner = empty_Hardware\<lparr>Hardware_Spec := (Hardware_Spec empty_Hardware)\<lparr>
     hw_Interfaces := [\<lparr>if_Netboot = None, if_Isoboot = None,
       if_DHCP = Some \<lparr>dhcp_MAC = ''02:00:00:00:00:01'', dhcp_Hostname = [], dhcp_DomainName = [], dhcp_LeaseTime = 0,
         dhcp_NameServers = [], dhcp_TimeServers = [], dhcp_Arch = [], dhcp_UEFI = False, dhcp_IfaceName = [],
         dhcp_IP = Some \<lparr>ip_Address = ''10.0.0.5'', ip_Netmask = [], ip_Gateway = [], ip_Family = 4\<rparr>,
         dhcp_VLANID = [], dhcp_ClasslessStaticRoutes = [], dhcp_TFTPServerName = [], dhcp_BootFileName = []\<rparr>,
       if_DisableDHCP = False\<rparr>],
     hw_UserData := Some ''#cloud-config''\<rparr>\<rparr>"

theorem ec2_answers_witness:
  "\<exists>h. (v20090404, ''/user-data'', h) \<in> set (ec2_Configure (\<lambda>f. file_FilterHardware (Inr [ex_owner]) f) False) \<and>
    h \<lparr>gr_RemoteAddr = ''10.0.0.5:4000'', gr_instanceID = []\<rparr> = Inr [CtxString 200 ''#cloud-config'']"
proof -
  have r: "(''/user-data'', ei_Userdata) \<in> set dataRoutes" by (simp add: dataRoutes_def)
  have s: "SplitHostPort (gr_RemoteAddr \<lparr>gr_RemoteAddr = ''10.0.0.5:4000'', gr_instanceID = []\<rparr>) = Some (''10.0.0.5'', ''4000'')"
    by code_simp
  have b: "SplitHostPort (gr_RemoteAddr \<lparr>gr_RemoteAddr = ''x'', gr_instanceID = []\<rparr>) = None" by code_simp
  have o: "file_owners ''10.0.0.5'' [ex_owner] = [ex_owner]" by (simp add: file_owners_def GetIPs_def ex_owner_def)
  have i: "map_sum id (\<lambda>i. [CtxString 200 (ei_Userdata i)]) (toEC2Instance ex_owner) = Inr [CtxString 200 ''#cloud-config'']"
    by (simp add: toEC2Instance_def ex_owner_def empty_Hardware_def empty_HardwareSpec_def)
  have f: "(\<lambda>f. file_FilterHardware (Inr [ex_owner]) f) = (\<lambda>f. file_FilterHardware (Inr [ex_owner]) f) \<and>
      [ex_owner] = file_owners ''10.0.0.5'' [ex_owner] \<or>
    (\<lambda>f. file_FilterHardware (Inr [ex_owner]) f) = (\<lambda>f. kube_find f (kc, q, w)) \<and>
      fst (kc_ListHardware kc (hardwareListOptions (empty_HardwareFilter\<lparr>hf_ByIPAddress := ''10.0.0.5''\<rparr>)) w) = Inr [ex_owner]"
    for kc :: "unit kube_client" and q w by (simp only: o simp_thms)
  show ?thesis
    using ec2_answers [OF r disjI1 [OF refl] f s list.distinct(2) b, of False, unfolded list.case i] by blast
qed

text \<open>The router panics on a second handler for a path of a group; there is none.\<close>

definition group_paths :: "string \<Rightarrow> registration list \<Rightarrow> string list" where
  "group_paths g rs = map (fst \<circ> snd) (filter (\<lambda>r. fst r = g) rs)"

definition ec2_paths :: "string list" where
  "ec2_paths = concat (map (\<lambda>e. [e, alternateEndpoint e])
     (map fst dataRoutes @ map sr_Endpoint (Build (fold FromEndpoint (map fst dataRoutes) NewBuilder))))"

lemma group_paths_concat:
  "group_paths v20090404 (concat (map (\<lambda>x. TrailingSlash_GET v20090404 (k x) (h x) @
       (if b then TrailingSlash_GET v20090404viaInstanceID (k x) (h' x) else [])) xs)) =
     concat (map (\<lambda>e. [e, alternateEndpoint e]) (map k xs))"
  "group_paths v20090404viaInstanceID (concat (map (\<lambda>x. TrailingSlash_GET v20090404 (k x) (h x) @
       (if b then TrailingSlash_GET v20090404viaInstanceID (k x) (h' x) else [])) xs)) =
     (if b then concat (map (\<lambda>e. [e, alternateEndpoint e]) (map k xs)) else [])"
proof -
  have ne: "v20090404 \<noteq> v20090404viaInstanceID" by (simp add: v20090404_def v20090404viaInstanceID_def)
  show "group_paths v20090404 (concat (map (\<lambda>x. TrailingSlash_GET v20090404 (k x) (h x) @
       (if b then TrailingSlash_GET v20090404viaInstanceID (k x) (h' x) else [])) xs)) =
      concat (map (\<lambda>e. [e, alternateEndpoint e]) (map k xs))"
    using ne by (induction xs) (auto simp: group_paths_def TrailingSlash_GET_def)
  show "group_paths v20090404viaInstanceID (concat (map (\<lambda>x. TrailingSlash_GET v20090404 (k x) (h x) @
       (if b then TrailingSlash_GET v20090404viaInstanceID (k x) (h' x) else [])) xs)) =
      (if b then concat (map (\<lambda>e. [e, alternateEndpoint e]) (map k xs)) else [])"
    using ne by (induction xs) (auto simp: group_paths_def TrailingSlash_GET_def)
qed

lemma group_paths_append: "group_paths g (xs @ ys) = group_paths g xs @ group_paths g ys"
  by (simp add: group_paths_def)

lemma group_paths_Configure:
  "group_paths v20090404 (ec2_Configure flt b) = ec2_paths"
  "group_paths v20090404viaInstanceID (ec2_Configure flt b) = (if b then ec2_paths else [])"
proof -
  have names: "fold (\<lambda>r. FromEndpoint (fst r)) rs B = fold FromEndpoint (map fst rs) B"
    for rs :: "(string \<times> (Ec2Instance \<Rightarrow> string)) list" and B
    by (induction rs arbitrary: B) auto
  show "group_paths v20090404 (ec2_Configure flt b) = ec2_paths"
    and "group_paths v20090404viaInstanceID (ec2_Configure flt b) = (if b then ec2_paths else [])"
    unfolding ec2_Configure_def ec2_paths_def group_paths_append split_beta names group_paths_concat by simp_all
qed

lemma ec2_listings:
  "map sr_Endpoint (Build (fold FromEndpoint (map fst dataRoutes) NewBuilder)) =
     [[], ''/meta-data'', ''/meta-data/operating-system'', ''/meta-data/operating-system/license_activation'']"
  by code_simp

lemma ec2_paths_distinct: "distinct ec2_paths"
  unfolding ec2_paths_def ec2_listings
  by (simp add: dataRoutes_def alternateEndpoint_def has_suffix_def has_prefix_def)

lemma ec2_Configure_distinct: "g \<in> {v20090404, v20090404viaInstanceID} \<Longrightarrow> distinct (group_paths g (ec2_Configure flt b))"
  by (auto simp: group_paths_Configure ec2_paths_distinct)

text \<open>The handler for the rootio action asks for the empty address after it has answered an invalid
  one; the Kubernetes backend then lists all objects, and the only one is sent. A machine that the
  file backend does not know gets 500 here and 404 from the EC2 front end.\<close>

lemma hack_answers_invalid_address:
  assumes "SplitHostPort (gr_RemoteAddr req) = None"
    and "kc_ListHardware kc [] w = (Inr [hw], w')" and "toHackInstance hw = Inr i"
  shows "hack_handler (\<lambda>f. kube_find f (kc, q, w)) req =
    Inr [AbortWithError 400 (NewError ''invalid remote address''), CtxJSON 200 i]"
  using assms
  by (simp add: hack_handler_def RemoteAddrIP_def GetHackInstance_def kube_find_def kube_FilterHardware_def
      hardwareListOptions_def empty_HardwareFilter_def)

lemma hack_file_not_found_is_500:
  assumes "SplitHostPort (gr_RemoteAddr req) = Some (ip, port)"
  shows "hack_handler (\<lambda>f. file_FilterHardware (Inr []) f) req =
    Inr [AbortWithError 500 (HardwareNotFoundError ''no matching hardware found'')]"
  using assms by (simp add: hack_handler_def RemoteAddrIP_def GetHackInstance_def file_FilterHardware_def IsNotFound_def)

end
