(* ===== verification/Agent_Log.thy ===== *)
theory Agent_Log
  imports Json
begin

text \<open>
  The container log of the containerd runtime,
  \<open>src/tink/agent/internal/runtime/containerd/jsonlog.go\<close>: two writers for the output streams
  of a container share a JSON encoder on one file; each writer holds back an incomplete line. The
  clock, the encoder and closing the file are operations of a record on a world; the mutex makes
  the operations atomic.

  The specification is the text each stream has received, and the records of a stream are to be
  its lines, whatever pieces the text arrives in and however the streams interleave.
\<close>


section \<open>The writers\<close>

record jsonLogEntry =
  jl_Log :: string
  jl_Stream :: string
  jl_Time :: time

record 'w log_lib =
  lg_Now :: "'w \<Rightarrow> time \<times> 'w"
  lg_Encode :: "jsonLogEntry \<Rightarrow> 'w \<Rightarrow> gerr option \<times> 'w"
  lg_CloseFile :: "'w \<Rightarrow> gerr option \<times> 'w"

record jsonLogWriter =
  jw_stream :: string
  jw_buf :: string

definition is_newline :: "char \<Rightarrow> bool" where
  "is_newline c \<longleftrightarrow> c = CHR 0x0A"

definition encodeLocked :: "'w log_lib \<Rightarrow> string \<Rightarrow> string \<Rightarrow> 'w \<Rightarrow> gerr option \<times> 'w" where
  "encodeLocked L stream line s =
     (case lg_Now L s of (t, s1) \<Rightarrow> lg_Encode L \<lparr>jl_Log = line, jl_Stream = stream, jl_Time = t\<rparr> s1)"

text \<open>The loop of \<open>Write\<close>: the error, the rest of the buffer and the world.\<close>

function write_loop :: "'w log_lib \<Rightarrow> string \<Rightarrow> string \<Rightarrow> 'w \<Rightarrow> gerr option \<times> string \<times> 'w" where
  "write_loop L stream buf s =
     (case find_index is_newline buf of
        None \<Rightarrow> (None, buf, s)
      | Some i \<Rightarrow>
          (case encodeLocked L stream (take (i + 1) buf) s of
             (Some e, s1) \<Rightarrow> (Some e, drop (i + 1) buf, s1)
           | (None, s1) \<Rightarrow> write_loop L stream (drop (i + 1) buf) s1))"
  by pat_completeness auto

termination
  by (relation "measure (\<lambda>(L, stream, buf, s). length buf)") (auto simp: find_index_Some_iff)

declare write_loop.simps [simp del]

definition log_Write ::
  "'w log_lib \<Rightarrow> jsonLogWriter \<Rightarrow> string \<Rightarrow> 'w \<Rightarrow> (int \<times> gerr option) \<times> jsonLogWriter \<times> 'w" where
  "log_Write L w p s =
     (if p = [] then ((0, None), w, s)
      else
        (case write_loop L (jw_stream w) (jw_buf w @ p) s of
           (e, rest, s1) \<Rightarrow> ((int (length p), e), w\<lparr>jw_buf := rest\<rparr>, s1)))"

definition log_flush :: "'w log_lib \<Rightarrow> jsonLogWriter \<Rightarrow> 'w \<Rightarrow> gerr option \<times> jsonLogWriter \<times> 'w" where
  "log_flush L w s =
     (if jw_buf w = [] then (None, w, s)
      else (case encodeLocked L (jw_stream w) (jw_buf w) s of (e, s1) \<Rightarrow> (e, w\<lparr>jw_buf := []\<rparr>, s1)))"

record jsonLogPair =
  jp_Stdout :: jsonLogWriter
  jp_Stderr :: jsonLogWriter
  jp_open :: bool                  \<comment> \<open>\<open>file\<close> is not nil\<close>

definition newJSONLogPair :: jsonLogPair where
  "newJSONLogPair = \<lparr>jp_Stdout = \<lparr>jw_stream = ''stdout'', jw_buf = []\<rparr>,
     jp_Stderr = \<lparr>jw_stream = ''stderr'', jw_buf = []\<rparr>, jp_open = True\<rparr>"

definition log_Close :: "'w log_lib \<Rightarrow> jsonLogPair \<Rightarrow> 'w \<Rightarrow> gerr option \<times> jsonLogPair \<times> 'w" where
  "log_Close L p s =
     (if \<not> jp_open p then (None, p, s)
      else
        (case log_flush L (jp_Stdout p) s of (e1, w1, s1) \<Rightarrow>
           (case log_flush L (jp_Stderr p) s1 of (e2, w2, s2) \<Rightarrow>
              (case lg_CloseFile L s2 of (e3, s3) \<Rightarrow>
                 (let es = concat (map (case_option [] (\<lambda>e. [e])) [e1, e2, e3]) in
                  (if es = [] then None else Some (JoinError es),
                   \<lparr>jp_Stdout = w1, jp_Stderr = w2, jp_open = False\<rparr>, s3))))))"

text \<open>A write to one of the two streams.\<close>

datatype stream = Out | Err

fun stream_name :: "stream \<Rightarrow> string" where
  "stream_name Out = ''stdout''"
| "stream_name Err = ''stderr''"

fun writer :: "stream \<Rightarrow> jsonLogPair \<Rightarrow> jsonLogWriter" where
  "writer Out p = jp_Stdout p"
| "writer Err p = jp_Stderr p"

fun set_writer :: "stream \<Rightarrow> jsonLogWriter \<Rightarrow> jsonLogPair \<Rightarrow> jsonLogPair" where
  "set_writer Out w p = p\<lparr>jp_Stdout := w\<rparr>"
| "set_writer Err w p = p\<lparr>jp_Stderr := w\<rparr>"

fun log_writes :: "'w log_lib \<Rightarrow> (stream \<times> string) list \<Rightarrow> jsonLogPair \<Rightarrow> 'w \<Rightarrow>
    (int \<times> gerr option) list \<times> jsonLogPair \<times> 'w" where
  "log_writes L [] p s = ([], p, s)"
| "log_writes L ((x, d) # ops) p s =
     (case log_Write L (writer x p) d s of (r, w, s1) \<Rightarrow>
        (case log_writes L ops (set_writer x w p) s1 of (rs, p', s') \<Rightarrow> (r # rs, p', s')))"


section \<open>The specification\<close>

text \<open>The lines of a text, each with its newline; the last may have none.\<close>

fun lines_of :: "string \<Rightarrow> string list" where
  "lines_of [] = []"
| "lines_of (c # s) =
     (if is_newline c then [c] # lines_of s
      else (case lines_of s of [] \<Rightarrow> [[c]] | l # ls \<Rightarrow> (c # l) # ls))"

type_synonym text_log = "stream \<Rightarrow> string"

definition spec_write :: "stream \<times> string \<Rightarrow> text_log \<Rightarrow> text_log" where
  "spec_write op a = a(fst op := a (fst op) @ snd op)"

definition spec_writes :: "(stream \<times> string) list \<Rightarrow> text_log \<Rightarrow> text_log" where
  "spec_writes ops a = fold spec_write ops a"

definition stream_log :: "stream \<Rightarrow> jsonLogEntry list \<Rightarrow> string list" where
  "stream_log x es = map jl_Log (filter (\<lambda>e. jl_Stream e = stream_name x) es)"

definition complete_line :: "string \<Rightarrow> bool" where
  "complete_line l \<longleftrightarrow> l \<noteq> [] \<and> is_newline (last l) \<and> (\<forall>c \<in> set (butlast l). \<not> is_newline c)"

text \<open>The abstraction: what a stream has received is what its records hold followed by its buffer;
  the records are complete lines and the buffer has no newline.\<close>

definition text_of :: "jsonLogPair \<Rightarrow> jsonLogEntry list \<Rightarrow> text_log" where
  "text_of p es x = concat (stream_log x es) @ jw_buf (writer x p)"

definition log_ok :: "jsonLogPair \<Rightarrow> jsonLogEntry list \<Rightarrow> bool" where
  "log_ok p es \<longleftrightarrow>
     (\<forall>x. jw_stream (writer x p) = stream_name x \<and> (\<forall>c \<in> set (jw_buf (writer x p)). \<not> is_newline c) \<and>
          (\<forall>l \<in> set (stream_log x es). complete_line l))"

lemma lines_of_plain: "s \<noteq> [] \<Longrightarrow> \<forall>c \<in> set s. \<not> is_newline c \<Longrightarrow> lines_of s = [s]"
proof (induction s)
  case (Cons c s)
  then show ?case by (cases s) auto
qed simp

lemma lines_of_line: "\<forall>c \<in> set l. \<not> is_newline c \<Longrightarrow> is_newline n \<Longrightarrow> lines_of (l @ n # s) = (l @ [n]) # lines_of s"
  by (induction l) auto

lemma lines_of_complete:
  assumes "complete_line l"
  shows "lines_of (l @ s) = l # lines_of s"
proof -
  have "l = butlast l @ [last l]" using assms by (simp add: complete_line_def)
  then show ?thesis
    using lines_of_line [of "butlast l" "last l" s] assms
    by (metis append.assoc append_Cons append_Nil complete_line_def)
qed

lemma lines_of_concat:
  "\<forall>l \<in> set ls. complete_line l \<Longrightarrow> lines_of (concat ls @ s) = ls @ lines_of s"
  by (induction ls) (auto simp: lines_of_complete)

lemma concat_lines_of: "concat (lines_of s) = s"
  by (induction s) (auto split: list.splits)


section \<open>Refinement\<close>

text \<open>
  The file behind the encoder, as far as the writers rely on it: \<open>holds es s\<close> says that the
  records \<open>es\<close> are in the file; encoding a record adds it at the end, and the clock and closing
  the file leave the records alone.
\<close>

locale log_file =
  fixes L :: "'w log_lib" and holds :: "jsonLogEntry list \<Rightarrow> 'w \<Rightarrow> bool"
  assumes now: "holds es s \<Longrightarrow> holds es (snd (lg_Now L s))"
    and encode: "holds es s \<Longrightarrow> fst (lg_Encode L e s) = None \<and> holds (es @ [e]) (snd (lg_Encode L e s))"
    and close_file: "holds es s \<Longrightarrow> fst (lg_CloseFile L s) = None \<and> holds es (snd (lg_CloseFile L s))"
begin

lemma encodeLocked_holds:
  assumes "holds es s"
  obtains t s' where "encodeLocked L stream line s = (None, s')" "holds (es @ [\<lparr>jl_Log = line, jl_Stream = stream, jl_Time = t\<rparr>]) s'"
proof -
  obtain t s1 where n: "lg_Now L s = (t, s1)" by fastforce
  with now [OF assms] have "holds es s1" by simp
  from encode [OF this, of "\<lparr>jl_Log = line, jl_Stream = stream, jl_Time = t\<rparr>"] n that show ?thesis
    by (cases "lg_Encode L \<lparr>jl_Log = line, jl_Stream = stream, jl_Time = t\<rparr> s1") (simp add: encodeLocked_def)
qed

lemma write_loop_holds:
  assumes "holds es s"
  obtains new rest s' where "write_loop L stream buf s = (None, rest, s')" "holds (es @ new) s'"
    "\<forall>e \<in> set new. jl_Stream e = stream \<and> complete_line (jl_Log e)" "concat (map jl_Log new) @ rest = buf"
    "\<forall>c \<in> set rest. \<not> is_newline c"
proof -
  have "\<exists>new rest s'. write_loop L stream buf s = (None, rest, s') \<and> holds (es @ new) s' \<and>
    (\<forall>e \<in> set new. jl_Stream e = stream \<and> complete_line (jl_Log e)) \<and> concat (map jl_Log new) @ rest = buf \<and>
    (\<forall>c \<in> set rest. \<not> is_newline c)"
    using assms
  proof (induction "length buf" arbitrary: buf es s rule: less_induct)
    case less
    show ?case
    proof (cases "find_index is_newline buf")
      case None
      then have "write_loop L stream buf s = (None, buf, s)" by (simp add: write_loop.simps [of L stream buf])
      with less.prems None show ?thesis 
        by (intro exI [of _ "[]"] exI [of _ buf] exI [of _ s]) (auto simp: find_index_None_iff)
    next
      case (Some i)
      then have i: "i < length buf" "is_newline (buf ! i)" "\<forall>j < i. \<not> is_newline (buf ! j)"
        by (auto simp: find_index_Some_iff)
      let ?l = "take (i + 1) buf"
      obtain t s1 where e: "encodeLocked L stream ?l s = (None, s1)"
        "holds (es @ [\<lparr>jl_Log = ?l, jl_Stream = stream, jl_Time = t\<rparr>]) s1"
        using encodeLocked_holds [OF less.prems] .
      have "?l = take i buf @ [buf ! i]" using i(1) by (simp add: take_Suc_conv_app_nth)
      then have line: "complete_line ?l"
        using i by (auto simp: complete_line_def in_set_conv_nth)
      obtain new rest s' where r: "write_loop L stream (drop (i + 1) buf) s1 = (None, rest, s')"
        "holds ((es @ [\<lparr>jl_Log = ?l, jl_Stream = stream, jl_Time = t\<rparr>]) @ new) s'"
        "\<forall>e \<in> set new. jl_Stream e = stream \<and> complete_line (jl_Log e)" "concat (map jl_Log new) @ rest = drop (i + 1) buf"
        "\<forall>c \<in> set rest. \<not> is_newline c"
      proof -
        have "length (drop (i + 1) buf) < length buf" using i(1) by simp
        from less.hyps [OF this e(2)] that show ?thesis by blast
      qed
      have "write_loop L stream buf s = (None, rest, s')"
        using Some e(1) r(1) by (simp add: write_loop.simps [of L stream buf])
      moreover have "concat (map jl_Log (\<lparr>jl_Log = ?l, jl_Stream = stream, jl_Time = t\<rparr> # new)) @ rest = buf"
        using r(4) by simp
      moreover have "\<forall>e \<in> set (\<lparr>jl_Log = ?l, jl_Stream = stream, jl_Time = t\<rparr> # new). jl_Stream e = stream \<and> complete_line (jl_Log e)"
        using r(3) line by simp
      moreover have "holds (es @ \<lparr>jl_Log = ?l, jl_Stream = stream, jl_Time = t\<rparr> # new) s'" using r(2) by simp
      ultimately show ?thesis using r(5) by blast
    qed
  qed
  then show ?thesis using that by blast
qed

text \<open>A write implements the write of the specification: a functional refinement along
  \<open>text_of\<close> that keeps \<open>log_ok\<close>.\<close>

lemma log_Write_refines:
  assumes "holds es s" and "log_ok p es"
  obtains w es' s' where "log_Write L (writer x p) d s = ((int (length d), None), w, s')" "holds es' s'"
    "log_ok (set_writer x w p) es'" "text_of (set_writer x w p) es' = spec_write (x, d) (text_of p es)"
proof (cases "d = []")
  case True
  have "set_writer x (writer x p) p = p" by (cases x) simp_all
  with True assms show ?thesis
    by (intro that [of "writer x p" s es]) (simp_all add: log_Write_def spec_write_def)
next
  case False
  let ?w = "writer x p"
  obtain new rest s' where w: "write_loop L (jw_stream ?w) (jw_buf ?w @ d) s = (None, rest, s')" "holds (es @ new) s'"
    "\<forall>e \<in> set new. jl_Stream e = jw_stream ?w \<and> complete_line (jl_Log e)" "concat (map jl_Log new) @ rest = jw_buf ?w @ d"
    "\<forall>c \<in> set rest. \<not> is_newline c"
    using write_loop_holds [OF assms(1)] .
  have name: "jw_stream ?w = stream_name x" using assms(2) by (simp add: log_ok_def)
  have own: "filter (\<lambda>e. jl_Stream e = stream_name x) new = new"
    using w(3) name by (simp add: filter_id_conv)
  have other: "filter (\<lambda>e. jl_Stream e = stream_name y) new = []" if "y \<noteq> x" for y
    using w(3) name that by (cases x; cases y) (auto simp: filter_empty_conv)
  have logs: "stream_log y (es @ new) = stream_log y es @ (if y = x then map jl_Log new else [])" for y
    using own other by (simp add: stream_log_def)
  have wr: "writer y (set_writer x (?w\<lparr>jw_buf := rest\<rparr>) p) = (if y = x then ?w\<lparr>jw_buf := rest\<rparr> else writer y p)" for y
    by (cases x; cases y) simp_all
  show ?thesis
  proof (rule that)
    show "log_Write L ?w d s = ((int (length d), None), ?w\<lparr>jw_buf := rest\<rparr>, s')"
      using False w(1) by (simp add: log_Write_def)
    show "holds (es @ new) s'" by (rule w(2))
    show "log_ok (set_writer x (?w\<lparr>jw_buf := rest\<rparr>) p) (es @ new)"
      unfolding log_ok_def logs wr
    proof
      fix y
      have "jw_stream (writer y p) = stream_name y \<and> (\<forall>c \<in> set (jw_buf (writer y p)). \<not> is_newline c) \<and>
          (\<forall>l \<in> set (stream_log y es). complete_line l)"
        using assms(2) unfolding log_ok_def by blast
      with w(3,5) show "jw_stream (if y = x then ?w\<lparr>jw_buf := rest\<rparr> else writer y p) = stream_name y \<and>
          (\<forall>c \<in> set (jw_buf (if y = x then ?w\<lparr>jw_buf := rest\<rparr> else writer y p)). \<not> is_newline c) \<and>
          (\<forall>l \<in> set (stream_log y es @ (if y = x then map jl_Log new else [])). complete_line l)"
        by (cases "y = x") auto
    qed
    show "text_of (set_writer x (?w\<lparr>jw_buf := rest\<rparr>) p) (es @ new) = spec_write (x, d) (text_of p es)"
      using w(4) unfolding text_of_def logs wr spec_write_def by (simp add: fun_eq_iff)
  qed
qed

lemma log_writes_refine:
  assumes "holds es s" and "log_ok p es"
  shows "\<exists>p' es' s'. log_writes L ops p s = (map (\<lambda>op. (int (length (snd op)), None)) ops, p', s') \<and> holds es' s' \<and>
    log_ok p' es' \<and> text_of p' es' = spec_writes ops (text_of p es) \<and> jp_open p' = jp_open p"
  using assms
proof (induction ops arbitrary: es s p)
  case Nil
  then show ?case by (auto simp: spec_writes_def)
next
  case (Cons op ops)
  obtain x d where op: "op = (x, d)" by fastforce
  obtain w es1 s1 where w: "log_Write L (writer x p) d s = ((int (length d), None), w, s1)" "holds es1 s1"
    "log_ok (set_writer x w p) es1" "text_of (set_writer x w p) es1 = spec_write (x, d) (text_of p es)"
    using log_Write_refines [OF Cons.prems] .
  moreover have "jp_open (set_writer x w p) = jp_open p" by (cases x) simp_all
  ultimately show ?case
    using Cons.IH [OF w(2,3)] by (auto simp: op spec_writes_def)
qed

lemma log_flush_refines:
  assumes "holds es s" and "jw_stream w = stream_name x"
  obtains es' s' where "log_flush L w s = (None, w\<lparr>jw_buf := []\<rparr>, s')" "holds es' s'"
    "stream_log x es' = stream_log x es @ (if jw_buf w = [] then [] else [jw_buf w])"
    "\<forall>y. y \<noteq> x \<longrightarrow> stream_log y es' = stream_log y es"
proof (cases "jw_buf w = []")
  case True
  then show ?thesis using assms by (intro that [of s es]) (simp_all add: log_flush_def)
next
  case False
  obtain t s' where e: "encodeLocked L (jw_stream w) (jw_buf w) s = (None, s')"
    "holds (es @ [\<lparr>jl_Log = jw_buf w, jl_Stream = jw_stream w, jl_Time = t\<rparr>]) s'"
    using encodeLocked_holds [OF assms(1)] .
  have names: "stream_name x = stream_name y \<longleftrightarrow> y = x" for y by (cases x; cases y) simp_all
  show ?thesis
  proof (rule that [OF _ e(2)])
    show "log_flush L w s = (None, w\<lparr>jw_buf := []\<rparr>, s')" using False e(1) by (simp add: log_flush_def)
    show "stream_log x (es @ [\<lparr>jl_Log = jw_buf w, jl_Stream = jw_stream w, jl_Time = t\<rparr>]) =
        stream_log x es @ (if jw_buf w = [] then [] else [jw_buf w])"
      using False assms(2) by (simp add: stream_log_def)
    show "\<forall>y. y \<noteq> x \<longrightarrow> stream_log y (es @ [\<lparr>jl_Log = jw_buf w, jl_Stream = jw_stream w, jl_Time = t\<rparr>]) = stream_log y es"
      by (simp add: stream_log_def assms(2) names)
  qed
qed

text \<open>After closing, the records of each stream are the lines of what it has received.\<close>

lemma log_Close_refines:
  assumes "holds es s" and "log_ok p es" and "jp_open p"
  shows "\<exists>p' es' s'. log_Close L p s = (None, p', s') \<and> holds es' s' \<and> \<not> jp_open p' \<and>
    (\<forall>x. stream_log x es' = lines_of (text_of p es x))"
proof -
  have names: "jw_stream (jp_Stdout p) = stream_name Out" "jw_stream (jp_Stderr p) = stream_name Err"
    using assms(2) by (auto simp: log_ok_def dest: spec [of _ Out] spec [of _ Err])
  obtain es1 s1 where f1: "log_flush L (jp_Stdout p) s = (None, jp_Stdout p\<lparr>jw_buf := []\<rparr>, s1)" "holds es1 s1"
    "stream_log Out es1 = stream_log Out es @ (if jw_buf (jp_Stdout p) = [] then [] else [jw_buf (jp_Stdout p)])"
    "\<forall>y. y \<noteq> Out \<longrightarrow> stream_log y es1 = stream_log y es"
    by (rule log_flush_refines [OF assms(1) names(1)]) blast
  obtain es2 s2 where f2: "log_flush L (jp_Stderr p) s1 = (None, jp_Stderr p\<lparr>jw_buf := []\<rparr>, s2)" "holds es2 s2"
    "stream_log Err es2 = stream_log Err es1 @ (if jw_buf (jp_Stderr p) = [] then [] else [jw_buf (jp_Stderr p)])"
    "\<forall>y. y \<noteq> Err \<longrightarrow> stream_log y es2 = stream_log y es1"
    by (rule log_flush_refines [OF f1(2) names(2)]) blast
  obtain s3 where c: "lg_CloseFile L s2 = (None, s3)" "holds es2 s3"
    using close_file [OF f2(2)] by (cases "lg_CloseFile L s2") simp
  have "stream_log x es2 = stream_log x es @ (if jw_buf (writer x p) = [] then [] else [jw_buf (writer x p)])" for x
    using f1(3,4) f2(3,4) by (cases x) simp_all
  moreover have "lines_of (text_of p es x) = stream_log x es @ lines_of (jw_buf (writer x p))" for x
    using assms(2) by (simp add: text_of_def lines_of_concat log_ok_def)
  moreover have "lines_of (jw_buf (writer x p)) = (if jw_buf (writer x p) = [] then [] else [jw_buf (writer x p)])" for x
    using assms(2) lines_of_plain [of "jw_buf (writer x p)"] by (simp add: log_ok_def)
  ultimately have log: "\<forall>x. stream_log x es2 = lines_of (text_of p es x)" by simp
  let ?p = "\<lparr>jp_Stdout = jp_Stdout p\<lparr>jw_buf := []\<rparr>, jp_Stderr = jp_Stderr p\<lparr>jw_buf := []\<rparr>, jp_open = False\<rparr>"
  have "log_Close L p s =
 (None, ?p, s3)"
    using assms(3) f1(1) f2(1) c(1) by (simp add: log_Close_def)
  moreover have "\<not> jp_open ?p" by simp
  ultimately show ?thesis using c(2) log by blast
qed

end

text \<open>The file with the lines \<open>json.Encoder\<close> writes, with a clock before it. The text of an
  instant is a parameter.\<close>

definition json_line :: "(time \<Rightarrow> string) \<Rightarrow> jsonLogEntry \<Rightarrow> string" where
  "json_line fmt e = json_print (JObj
     ((if jl_Log e = [] then [] else [(''log'', JStr (jl_Log e))]) @
      (if jl_Stream e = [] then [] else [(''stream'', JStr (jl_Stream e))]) @
      [(''time'', JStr (fmt (jl_Time e)))])) @ [CHR 0x0A]"

definition json_file :: "(time \<Rightarrow> string) \<Rightarrow> (time \<times> string) log_lib" where
  "json_file fmt = \<lparr>lg_Now = (\<lambda>(t, c). (t, (t + 1, c))), lg_Encode = (\<lambda>e (t, c). (None, (t, c @ json_line fmt e))),
     lg_CloseFile = (\<lambda>s. (None, s))\<rparr>"

definition json_holds :: "(time \<Rightarrow> string) \<Rightarrow> string \<Rightarrow> jsonLogEntry list \<Rightarrow> time \<times> string \<Rightarrow> bool" where
  "json_holds fmt before es s \<longleftrightarrow> snd s = before @ concat (map (json_line fmt) es)"

interpretation json_file: log_file "json_file fmt" "json_holds fmt before" for fmt before
  by unfold_locales (auto simp: json_file_def json_holds_def split: prod.splits)

text \<open>C28. Whatever pieces the output of a container arrives in and however its two streams
  interleave, every write is accepted in full, and once the log is closed the records of each stream
  are the lines of its text, in order and with nothing lost.\<close>

theorem json_log_refines:
  assumes "log_file L holds" and "holds [] s"
    and "log_writes L ops newJSONLogPair s = (rs, p, s1)" and "log_Close L p s1 = (e, p', s2)"
  shows "rs = map (\<lambda>op. (int (length (snd op)), None)) ops \<and> e = None \<and>
    (\<exists>es. holds es s2 \<and> (\<forall>x. stream_log x es = lines_of (spec_writes ops (\<lambda>x. []) x)))"
proof -
  have buf: "writer x newJSONLogPair = \<lparr>jw_stream = stream_name x, jw_buf = []\<rparr>" for x
    by (cases x) (simp_all add: newJSONLogPair_def)
  have ok: "log_ok newJSONLogPair []" by (simp add: log_ok_def buf stream_log_def)
  have init: "text_of newJSONLogPair [] = (\<lambda>x. [])" by (simp add: text_of_def buf stream_log_def fun_eq_iff)
  obtain p1 es1 t1 where w: "log_writes L ops newJSONLogPair s = (map (\<lambda>op. (int (length (snd op)), None)) ops, p1, t1)"
    "holds es1 t1" "log_ok p1 es1" "text_of p1 es1 = spec_writes ops (\<lambda>x. [])" "jp_open p1 = jp_open newJSONLogPair"
    using log_file.log_writes_refine [OF assms(1,2) ok, of ops] by (auto simp: init)
  then have eq: "rs = map (\<lambda>op. (int (length (snd op)), None)) ops" "p = p1" "s1 = t1" using assms(3) by simp_all
  have "jp_open p1" using w(5) by (simp add: newJSONLogPair_def)
  then show ?thesis
    using log_file.log_Close_refines [OF assms(1) w(2,3)] w(4) eq assms(4) by auto
qed

theorem json_log_refines_witness:
  "\<exists>es. snd (snd (snd (case log_writes (json_file (\<lambda>t. [])) [(Out, ''ab''), (Err, ''x''), (Out, ''c'' @ [CHR 0x0A] @ ''d'')]
        newJSONLogPair (0, ''old'') of (rs, p, s1) \<Rightarrow> log_Close (json_file (\<lambda>t. [])) p s1))) =
      ''old'' @ concat (map (json_line (\<lambda>t. [])) es) \<and>
    stream_log Out es = [''abc'' @ [CHR 0x0A], ''d''] \<and> stream_log Err es = [''x'']"
proof -
  let ?ops = "[(Out, ''ab''), (Err, ''x''), (Out, ''c'' @ [CHR 0x0A] @ ''d'')]" and ?L = "json_file (\<lambda>t. [])"
  obtain rs p s1 e p' s2 where w: "log_writes ?L ?ops newJSONLogPair (0, ''old'') = (rs, p, s1)" "log_Close ?L p s1 = (e, p', s2)"
    by (metis prod_cases3)
  have "json_holds (\<lambda>t. []) ''old'' [] (0, ''old'')" by (simp add: json_holds_def)
  from json_log_refines [OF json_file.log_file_axioms this w]
  obtain es where "json_holds (\<lambda>t. []) ''old'' es s2" "\<forall>x. stream_log x es = lines_of (spec_writes ?ops (\<lambda>x. []) x)"
    by blast
  then show ?thesis
    unfolding w prod.case json_holds_def
    by (intro exI [of _ es]) (simp add: w(2) spec_writes_def spec_write_def is_newline_def)
qed

text \<open>A record the encoder refuses is dropped, the write still counts as complete and the rest stays
  in the buffer.\<close>

lemma failed_encode_drops_record:
  assumes "jw_buf w = []" and "encodeLocked L (jw_stream w) (l @ [CHR 0x0A]) s = (Some e, s1)"
    and "\<forall>c \<in> set l. \<not> is_newline c"
  shows "log_Write L w (l @ CHR 0x0A # rest) s = ((int (length l) + 1 + int (length rest), Some e), w\<lparr>jw_buf := rest\<rparr>, s1)"
proof -
  have "find_index is_newline (l @ CHR 0x0A # rest) = Some (length l)"
    using assms(3) by (simp add: find_index_append find_index_None_iff [THEN iffD2] is_newline_def)
  then have "write_loop L (jw_stream w) (l @ CHR 0x0A # rest) s = (Some e, rest, s1)"
    using assms(2) by (simp add: write_loop.simps [of L "jw_stream w"])
  then show ?thesis by (simp add: log_Write_def assms(1))
qed

end
