(* ===== verification/Agent_Runtime.thy ===== *)
theory Agent_Runtime
  imports Agent Net_Text
begin

text \<open>
  The container runtimes of the agent, \<open>src/tink/agent/internal/runtime\<close>: \<open>docker\<close>,
  \<open>containerd\<close> with its mounts, DNS files and log directories, and \<open>kubernetes\<close>. The file
  system and the client of each runtime are records of operations on an abstract world; a deferred
  call runs after the body it follows. Log lines are left out, and so are the pumps that copy
  container output to the log of the agent.
\<close>


section \<open>Files\<close>

record 'w fs_lib =
  fs_Abs :: "string \<Rightarrow> 'w \<Rightarrow> (gerr + string) \<times> 'w"
  fs_Stat :: "string \<Rightarrow> 'w \<Rightarrow> gerr option \<times> 'w"
  fs_MkdirAll :: "string \<Rightarrow> 'w \<Rightarrow> gerr option \<times> 'w"
  fs_MkdirTemp :: "string \<Rightarrow> 'w \<Rightarrow> (gerr + string) \<times> 'w"
  fs_ReadFile :: "string \<Rightarrow> 'w \<Rightarrow> (gerr + string) \<times> 'w"
  fs_WriteFile :: "string \<Rightarrow> string \<Rightarrow> 'w \<Rightarrow> gerr option \<times> 'w"
  fs_RemoveAll :: "string \<Rightarrow> 'w \<Rightarrow> gerr option \<times> 'w"
  fs_EvalSymlinks :: "string \<Rightarrow> 'w \<Rightarrow> (gerr + string) \<times> 'w"
  fs_Hostname :: "'w \<Rightarrow> (gerr + string) \<times> 'w"
  fs_Quote :: "string \<Rightarrow> string"
  fs_Sha256Hex :: "string \<Rightarrow> string"

definition fs_ErrNotExist :: gerr where
  "fs_ErrNotExist = NewError ''file does not exist''"

definition IsAbs :: "string \<Rightarrow> bool" where
  "IsAbs p = has_prefix ''/'' p"

text \<open>The answer of a call, with its error wrapped.\<close>

definition wrap_sum :: "string \<Rightarrow> (gerr + 'a) \<times> 'w \<Rightarrow> (gerr + 'a) \<times> 'w" where
  "wrap_sum t r = (map_sum (errorf t) id (fst r), snd r)"

definition wrap_opt :: "string \<Rightarrow> gerr option \<times> 'w \<Rightarrow> gerr option \<times> 'w" where
  "wrap_opt t r = (map_option (errorf t) (fst r), snd r)"


section \<open>Mounts\<close>

record Mount =
  mt_Type :: string
  mt_Source :: string
  mt_Destination :: string
  mt_Options :: "string list"

text \<open>\<open>strings.SplitN(volume, ":", 3)\<close>.\<close>

definition volume_parts :: "string \<Rightarrow> string list" where
  "volume_parts v =
     (case cut_char CHR '':'' v of (a, r, found) \<Rightarrow>
        if \<not> found then [v]
        else (case cut_char CHR '':'' r of (b, opts, found') \<Rightarrow> if found' then [a, b, opts] else [a, r]))"

text \<open>The loop over the options: those passed through, and the last of \<open>ro\<close> and \<open>rw\<close>.\<close>

fun volume_options :: "string list \<Rightarrow> string list \<Rightarrow> string \<Rightarrow> string list \<times> string" where
  "volume_options [] opts rwMode = (opts, rwMode)"
| "volume_options (opt # os) opts rwMode =
     (let trimmed = trim_space opt in
      if trimmed = ''ro'' then volume_options os opts ''ro''
      else if trimmed = ''rw'' then volume_options os opts ''rw''
      else if trimmed \<noteq> [] then volume_options os (opts @ [trimmed]) rwMode
      else volume_options os opts rwMode)"

definition parseVolume :: "string \<Rightarrow> Mount option" where
  "parseVolume volume =
     (let parts = volume_parts volume in
      if length parts < 2 then None
      else
        (let src = parts ! 0; dest = parts ! 1 in
         if dest = [] \<or> \<not> IsAbs dest then None
         else if \<not> IsAbs src \<and> \<not> has_prefix ''.'' src then None
         else
           (let options =
              (if 3 \<le> length parts then
                 (case volume_options (split_on CHR '','' (parts ! 2)) [''rbind''] [] of
                    (opts, rwMode) \<Rightarrow> opts @ [if rwMode = [] then ''rw'' else rwMode])
               else [''rbind'', ''rw''])
            in Some \<lparr>mt_Type = ''bind'', mt_Source = src, mt_Destination = dest, mt_Options = options\<rparr>)))"

definition ensureBindMountSource :: "'w fs_lib \<Rightarrow> string \<Rightarrow> 'w \<Rightarrow> (gerr + string) \<times> 'w" where
  "ensureBindMountSource L src0 w =
     (case (if IsAbs src0 then (Inr src0, w)
            else wrap_sum (''failed to resolve absolute path for '' @ fs_Quote L src0 @ '': '') (fs_Abs L src0 w)) of
        (Inl e, w1) \<Rightarrow> (Inl e, w1)
      | (Inr src, w1) \<Rightarrow>
          (case fs_Stat L src w1 of
             (None, w2) \<Rightarrow> (Inr src, w2)
           | (Some e, w2) \<Rightarrow>
               if errors_Is fs_ErrNotExist e then
                 (case wrap_opt (''failed to create bind mount source directory '' @ fs_Quote L src @ '': '') (fs_MkdirAll L src w2) of
                    (Some e', w3) \<Rightarrow> (Inl e', w3)
                  | (None, w3) \<Rightarrow> (Inr src, w3))
               else (Inl (errorf (''failed to stat '' @ fs_Quote L src @ '': '') e), w2)))"

fun parseVolumes :: "'w fs_lib \<Rightarrow> string list \<Rightarrow> 'w \<Rightarrow> Mount list \<times> 'w" where
  "parseVolumes L [] w = ([], w)"
| "parseVolumes L (v # vs) w =
     (case parseVolume v of
        None \<Rightarrow> parseVolumes L vs w
      | Some m \<Rightarrow>
          (case ensureBindMountSource L (mt_Source m) w of
             (Inl e, w1) \<Rightarrow> parseVolumes L vs w1
           | (Inr src, w1) \<Rightarrow>
               (case parseVolumes L vs w1 of (ms, w2) \<Rightarrow> (m\<lparr>mt_Source := src\<rparr> # ms, w2))))"


section \<open>DNS files\<close>

definition resolvConfPath :: string where
  "resolvConfPath = ''/etc/resolv.conf''"

definition systemdResolvedPath :: string where
  "systemdResolvedPath = ''/run/systemd/resolve/resolv.conf''"

definition fallbackNameservers :: "string list" where
  "fallbackNameservers = [''8.8.8.8'', ''8.8.4.4'', ''2001:4860:4860::8888'', ''2001:4860:4860::8844'']"

definition truncateHostname :: "string \<Rightarrow> string" where
  "truncateHostname i = (if 12 < length i then take 12 i else i)"

text \<open>\<open>bufio.Scanner\<close> with the default split function: a line loses one carriage return at its
  end, and a line that does not fit the buffer of 64 KiB ends the scan.\<close>

definition drop_cr :: "string \<Rightarrow> string" where
  "drop_cr l = (if has_suffix [CHR 0x0D] l then butlast l else l)"

definition scan_lines :: "string \<Rightarrow> string list" where
  "scan_lines s =
     (let ls = split_on CHR 0x0A s; ls' = (if last ls = [] then butlast ls else ls) in
      map drop_cr (takeWhile (\<lambda>l. length l < 65536) ls'))"

type_synonym resolv = "string list \<times> string list \<times> string list"

definition resolv_line :: "string \<Rightarrow> resolv \<Rightarrow> resolv" where
  "resolv_line raw r =
     (let line = trim_space raw; fs = fields_acc [] line in
      if line = [] \<or> has_prefix ''#'' line \<or> has_prefix '';'' line \<or> length fs < 2 then r
      else (case r of (ns, search, opts) \<Rightarrow>
        if fs ! 0 = ''nameserver'' then (ns @ [fs ! 1], search, opts)
        else if fs ! 0 = ''search'' then (ns, search @ tl fs, opts)
        else if fs ! 0 = ''options'' then (ns, search, opts @ tl fs)
        else r))"

definition parseResolvConf :: "string \<Rightarrow> resolv" where
  "parseResolvConf content = fold resolv_line (scan_lines content) ([], [], [])"

definition parseNameservers :: "string \<Rightarrow> string list" where
  "parseNameservers content = fst (parseResolvConf content)"

definition isLocalhost :: "string \<Rightarrow> bool" where
  "isLocalhost ip = (case ParseIP ip of None \<Rightarrow> False | Some b \<Rightarrow> IP_IsLoopback b)"

definition text_lines :: "string list \<Rightarrow> string" where
  "text_lines ls = concat (map (\<lambda>l. l @ [CHR 0x0A]) ls)"

definition resolv_text :: "resolv \<Rightarrow> string" where
  "resolv_text r =
     (case r of (ns, search, opts) \<Rightarrow>
        text_lines ([''# Generated by tink-agent for container DNS''] @
          (if search \<noteq> [] then [''search '' @ join_str '' '' search] else []) @
          map (\<lambda>n. ''nameserver '' @ n) ns @
          (if opts \<noteq> [] then [''options '' @ join_str '' '' opts] else [])))"

definition writeResolvConf :: "'w fs_lib \<Rightarrow> string \<Rightarrow> resolv \<Rightarrow> 'w \<Rightarrow> gerr option \<times> 'w" where
  "writeResolvConf L path r w = fs_WriteFile L path (resolv_text r) w"

definition reachable_nameservers :: "string list \<Rightarrow> string list" where
  "reachable_nameservers ns =
     (let filtered = filter (\<lambda>n. \<not> isLocalhost n) ns in
      if filtered = [] then fallbackNameservers else filtered)"

definition buildResolvConf :: "'w fs_lib \<Rightarrow> string \<Rightarrow> bool \<Rightarrow> 'w \<Rightarrow> gerr option \<times> 'w" where
  "buildResolvConf L dst allowLocalhostDNS w =
     (case (if allowLocalhostDNS then (resolvConfPath, w)
            else
              (case fs_ReadFile L resolvConfPath w of
                 (Inl e, w1) \<Rightarrow> (resolvConfPath, w1)
               | (Inr content, w1) \<Rightarrow>
                   if ''127.0.0.53'' \<in> set (parseNameservers content) then
                     (case fs_Stat L systemdResolvedPath w1 of
                        (None, w2) \<Rightarrow> (systemdResolvedPath, w2)
                      | (Some e, w2) \<Rightarrow> (resolvConfPath, w2))
                   else (resolvConfPath, w1))) of
        (hostResolvConf, w1) \<Rightarrow>
          (case fs_ReadFile L hostResolvConf w1 of
             (Inl e, w2) \<Rightarrow> writeResolvConf L dst (fallbackNameservers, [], []) w2
           | (Inr content, w2) \<Rightarrow>
               (case parseResolvConf content of (ns, search, opts) \<Rightarrow>
                  writeResolvConf L dst (if allowLocalhostDNS then ns else reachable_nameservers ns, search, opts) w2)))"

definition tab :: string where
  "tab = [CHR 0x09]"

definition hosts_text :: "string \<Rightarrow> string" where
  "hosts_text hostname =
     text_lines [''# Generated by tink-agent'', ''127.0.0.1'' @ tab @ ''localhost'',
       ''::1'' @ tab @ tab @ ''localhost ip6-localhost ip6-loopback'', ''fe00::0'' @ tab @ tab @ ''ip6-localnet'',
       ''ff00::0'' @ tab @ tab @ ''ip6-mcastprefix'', ''ff02::1'' @ tab @ tab @ ''ip6-allnodes'',
       ''ff02::2'' @ tab @ tab @ ''ip6-allrouters'', ''127.0.0.1'' @ tab @ hostname, ''::1'' @ tab @ tab @ hostname]"

definition buildHosts :: "'w fs_lib \<Rightarrow> string \<Rightarrow> string \<Rightarrow> 'w \<Rightarrow> gerr option \<times> 'w" where
  "buildHosts L dst hostname w = fs_WriteFile L dst (hosts_text hostname) w"

record dnsFiles =
  df_dir :: string
  df_resolvConf :: string
  df_hosts :: string
  df_hostname :: string

definition dns_cleanup :: "'w fs_lib \<Rightarrow> dnsFiles \<Rightarrow> 'w \<Rightarrow> gerr option \<times> 'w" where
  "dns_cleanup L d w = (if df_dir d = [] then (None, w) else fs_RemoveAll L (df_dir d) w)"

text \<open>Remove the files and return the error.\<close>

definition dns_abort :: "'w fs_lib \<Rightarrow> string \<Rightarrow> string \<Rightarrow> gerr \<Rightarrow> 'w \<Rightarrow> (gerr + dnsFiles) \<times> 'w" where
  "dns_abort L dir t e w = (Inl (errorf t e), snd (if dir = [] then (None, w) else fs_RemoveAll L dir w))"

definition prepareDNSFiles :: "'w fs_lib \<Rightarrow> bool \<Rightarrow> 'w \<Rightarrow> (gerr + dnsFiles) \<times> 'w" where
  "prepareDNSFiles L allowLocalhostDNS w =
     (case fs_MkdirTemp L ''tink-dns-'' w of
        (Inl e, w1) \<Rightarrow> (Inl (errorf ''failed to create DNS temp dir: '' e), w1)
      | (Inr dir, w1) \<Rightarrow>
          (let df = \<lparr>df_dir = dir, df_resolvConf = path_Join [dir, ''resolv.conf''],
                     df_hosts = path_Join [dir, ''hosts''], df_hostname = path_Join [dir, ''hostname'']\<rparr> in
           case buildResolvConf L (df_resolvConf df) allowLocalhostDNS w1 of
             (Some e, w2) \<Rightarrow> dns_abort L dir ''failed to build resolv.conf: '' e w2
           | (None, w2) \<Rightarrow>
               (case fs_WriteFile L (df_hosts df) [] w2 of
                  (Some e, w3) \<Rightarrow> dns_abort L dir ''failed to create hosts placeholder: '' e w3
                | (None, w3) \<Rightarrow>
                    (case fs_WriteFile L (df_hostname df) [] w3 of
                       (Some e, w4) \<Rightarrow> dns_abort L dir ''failed to create hostname placeholder: '' e w4
                     | (None, w4) \<Rightarrow> (Inr df, w4)))))"

definition write_hostname :: "'w fs_lib \<Rightarrow> dnsFiles \<Rightarrow> string \<Rightarrow> gerr option \<times> 'w \<Rightarrow> gerr option \<times> 'w" where
  "write_hostname L d name r =
     (case r of
        (Some e, w) \<Rightarrow> (Some e, w)
      | (None, w) \<Rightarrow> wrap_opt ''failed to write hostname: '' (fs_WriteFile L (df_hostname d) (name @ [CHR 0x0A]) w))"

definition setHostnameHost :: "'w fs_lib \<Rightarrow> dnsFiles \<Rightarrow> string \<Rightarrow> 'w \<Rightarrow> gerr option \<times> 'w" where
  "setHostnameHost L d name w =
     write_hostname L d name
       (case fs_ReadFile L ''/etc/hosts'' w of
          (Inl e, w1) \<Rightarrow> wrap_opt ''failed to write hosts: '' (buildHosts L (df_hosts d) name w1)
        | (Inr c, w1) \<Rightarrow> wrap_opt ''failed to copy host /etc/hosts: '' (fs_WriteFile L (df_hosts d) c w1))"

definition setHostnameIsolated :: "'w fs_lib \<Rightarrow> dnsFiles \<Rightarrow> string \<Rightarrow> 'w \<Rightarrow> gerr option \<times> 'w" where
  "setHostnameIsolated L d name w =
     write_hostname L d (truncateHostname name)
       (wrap_opt ''failed to write hosts: '' (buildHosts L (df_hosts d) (truncateHostname name) w))"

definition setHostname :: "'w fs_lib \<Rightarrow> dnsFiles \<Rightarrow> string \<Rightarrow> bool \<Rightarrow> 'w \<Rightarrow> gerr option \<times> 'w" where
  "setHostname L d name useHostNetwork w =
     (if useHostNetwork then setHostnameHost L d name w else setHostnameIsolated L d name w)"

definition bind_mount :: "string \<Rightarrow> string \<Rightarrow> Mount" where
  "bind_mount src dest = \<lparr>mt_Type = ''bind'', mt_Source = src, mt_Destination = dest, mt_Options = [''bind'', ''rprivate'', ''rw'']\<rparr>"

definition dnsSpecOpts :: "dnsFiles \<Rightarrow> Mount list" where
  "dnsSpecOpts df =
     [bind_mount (df_resolvConf df) ''/etc/resolv.conf'', bind_mount (df_hosts df) ''/etc/hosts'',
      bind_mount (df_hostname df) ''/etc/hostname'']"


section \<open>Log directories\<close>

definition defaultDataRoot :: string where
  "defaultDataRoot = ''/var/lib/nerdctl''"

definition addrHash :: "'w fs_lib \<Rightarrow> string \<Rightarrow> 'w \<Rightarrow> (gerr + string) \<times> 'w" where
  "addrHash L address w =
     (let addr = trim_prefix ''unix://'' address in
      case fs_EvalSymlinks L addr w of
        (Inl e, w1) \<Rightarrow> (Inl (errorf (''eval symlinks for '' @ fs_Quote L addr @ '': '') e), w1)
      | (Inr resolved, w1) \<Rightarrow> (Inr (take 8 (fs_Sha256Hex L resolved)), w1))"

definition dataStoreDir :: "'w fs_lib \<Rightarrow> string \<Rightarrow> string \<Rightarrow> 'w \<Rightarrow> (gerr + string) \<times> 'w" where
  "dataStoreDir L dataRoot0 address w =
     (let dataRoot = (if dataRoot0 = [] then defaultDataRoot else dataRoot0) in
      case fs_MkdirAll L dataRoot w of
        (Some e, w1) \<Rightarrow> (Inl (errorf (''create data root '' @ fs_Quote L dataRoot @ '': '') e), w1)
      | (None, w1) \<Rightarrow>
          (case addrHash L address w1 of
             (Inl e, w2) \<Rightarrow> (Inl e, w2)
           | (Inr suffix, w2) \<Rightarrow>
               (let dir = path_Join [dataRoot, suffix] in
                case fs_MkdirAll L dir w2 of
                  (Some e, w3) \<Rightarrow> (Inl (errorf (''create data store '' @ fs_Quote L dir @ '': '') e), w3)
                | (None, w3) \<Rightarrow> (Inr dir, w3))))"

definition containerLogDir :: "string \<Rightarrow> string \<Rightarrow> string \<Rightarrow> string" where
  "containerLogDir dataStore namespace i = path_Join [dataStore, ''containers'', namespace, i]"

definition containerLogFile :: "string \<Rightarrow> string \<Rightarrow> string \<Rightarrow> string" where
  "containerLogFile dataStore namespace i = path_Join [containerLogDir dataStore namespace i, i @ ''-json.log'']"

definition log_config_json :: "string \<Rightarrow> string" where
  "log_config_json address =
     json_print (JObj [(''driver'', JStr ''json-file''),
       (''address'', JStr (if contains_str ''://'' address then address else ''unix://'' @ address))])"

definition writeLogConfig :: "'w fs_lib \<Rightarrow> string \<Rightarrow> string \<Rightarrow> 'w \<Rightarrow> gerr option \<times> 'w" where
  "writeLogConfig L dir address w =
     (case fs_MkdirAll L dir w of
        (Some e, w1) \<Rightarrow> (Some (errorf (''create log dir '' @ fs_Quote L dir @ '': '') e), w1)
      | (None, w1) \<Rightarrow>
          (let path = path_Join [dir, ''log-config.json''] in
           wrap_opt (''write '' @ fs_Quote L path @ '': '') (fs_WriteFile L path (log_config_json address) w1)))"


section \<open>containerd\<close>

text \<open>The options of the container specification, in the order they are applied.\<close>

datatype spec_opt =
    WithImageConfig string
  | WithPrivileged
  | WithAllDevicesAllowed
  | WithHostDevices
  | WithEnv "string list"
  | WithProcessArgs "string list"
  | WithEntrypointOverride string string
  | WithImageConfigArgs string "string list"
  | WithMounts "Mount list"
  | WithHostNamespace string
  | WithHostname string

record new_container =
  nt_ID :: string
  nt_SnapshotID :: string
  nt_Image :: string
  nt_Spec :: "spec_opt list"
  nt_Labels :: "(string \<times> string) list"

datatype task_end = TaskExited nat "gerr option" | TaskCtxDone gerr

record 'w ctd_lib = "'w fs_lib" +
  cl_Resolve :: "string \<Rightarrow> string option"
  cl_GetImage :: "string \<Rightarrow> 'w \<Rightarrow> (gerr + string) \<times> 'w"
  cl_Pull :: "string \<Rightarrow> 'w \<Rightarrow> (gerr + string) \<times> 'w"
  cl_Retry :: "('w \<Rightarrow> (gerr + string) \<times> 'w) \<Rightarrow> 'w \<Rightarrow> (gerr + string) \<times> 'w"
  cl_RandomID :: "'w \<Rightarrow> (gerr + string) \<times> 'w"
  cl_NewContainer :: "new_container \<Rightarrow> 'w \<Rightarrow> gerr option \<times> 'w"
  cl_DeleteContainer :: "string \<Rightarrow> 'w \<Rightarrow> gerr option \<times> 'w"
  cl_OpenLog :: "string \<Rightarrow> 'w \<Rightarrow> gerr option \<times> 'w"
  cl_CloseLog :: "'w \<Rightarrow> gerr option \<times> 'w"
  cl_NewTask :: "string \<Rightarrow> 'w \<Rightarrow> (gerr + nat) \<times> 'w"            \<comment> \<open>the process id\<close>
  cl_DeleteTask :: "string \<Rightarrow> 'w \<Rightarrow> gerr option \<times> 'w"
  cl_CNISetup :: "string \<Rightarrow> string \<Rightarrow> 'w \<Rightarrow> gerr option \<times> 'w"
  cl_CNIRemove :: "string \<Rightarrow> string \<Rightarrow> 'w \<Rightarrow> gerr option \<times> 'w"
  cl_Wait :: "'w \<Rightarrow> gerr option \<times> 'w"
  cl_Start :: "'w \<Rightarrow> gerr option \<times> 'w"
  cl_Select :: "'w \<Rightarrow> task_end \<times> 'w"                            \<comment> \<open>exit or end of the context\<close>
  cl_Kill :: "'w \<Rightarrow> gerr option \<times> 'w"
  cl_Drain :: "'w \<Rightarrow> 'w"

record ctd_Config =
  cc_Namespace :: string
  cc_SocketPath :: string
  cc_CNI :: bool                      \<comment> \<open>\<open>CNI\<close> is not nil\<close>
  cc_DataRoot :: string

definition generateID :: "'w ctd_lib \<Rightarrow> 'w \<Rightarrow> (gerr + string) \<times> 'w" where
  "generateID L w = wrap_sum ''failed to generate random ID: '' (cl_RandomID L w)"

text \<open>The specification before the mounts and after them.\<close>

definition process_opts :: "string \<Rightarrow> spec_Action \<Rightarrow> spec_opt list" where
  "process_opts img a =
     [WithImageConfig img, WithPrivileged, WithAllDevicesAllowed, WithHostDevices, WithEnv (ParseEnv (sa_Env a))] @
     (if sa_Cmd a \<noteq> [] \<and> sa_Args a \<noteq> [] then [WithProcessArgs (sa_Cmd a # sa_Args a)]
      else if sa_Cmd a \<noteq> [] then [WithEntrypointOverride img (sa_Cmd a)]
      else if sa_Args a \<noteq> [] then [WithImageConfigArgs img (sa_Args a)]
      else [])"

definition namespace_opts :: "spec_Action \<Rightarrow> bool \<Rightarrow> dnsFiles \<Rightarrow> spec_opt list" where
  "namespace_opts a useHostNetwork df =
     (if sn_PID (sa_Namespaces a) = ''host'' then [WithHostNamespace ''pid''] else []) @
     (if useHostNetwork then [WithHostNamespace ''network''] else []) @ map (\<lambda>m. WithMounts [m]) (dnsSpecOpts df)"

text \<open>The arguments \<open>withEntrypointOverride\<close> gives the process: the command of the action before
  the one of the image.\<close>

definition entrypoint_override :: "string \<Rightarrow> gerr + string list \<Rightarrow> gerr + string list" where
  "entrypoint_override cmd image_cmd = map_sum id (\<lambda>c. cmd # c) image_cmd"

definition createContainer ::
  "'w ctd_lib \<Rightarrow> ctd_Config \<Rightarrow> string \<Rightarrow> spec_Action \<Rightarrow> bool \<Rightarrow> dnsFiles \<Rightarrow> string \<Rightarrow> 'w \<Rightarrow> (gerr + string \<times> string) \<times> 'w" where
  "createContainer L c img a useHostNetwork df dataStore w =
     (case (if sa_Volumes a = [] then ([], w) else parseVolumes (fs_lib.truncate L) (sa_Volumes a) w) of
        (mounts, w1) \<Rightarrow>
          (case generateID L w1 of
             (Inl e, w2) \<Rightarrow> (Inl (errorf ''failed to generate container ID: '' e), w2)
           | (Inr containerID, w2) \<Rightarrow>
               (case (if useHostNetwork then fs_Hostname L w2 else (Inl (NewError []), w2)) of
                  (h, w3) \<Rightarrow>
                    (let displayName = ParseName (sa_ID a) (sa_Name a);
                         hostname = (case h of Inl e \<Rightarrow> truncateHostname containerID | Inr n \<Rightarrow> n);
                         logFile = containerLogFile dataStore (cc_Namespace c) containerID;
                         nc = \<lparr>nt_ID = containerID, nt_SnapshotID = displayName @ ''-'' @ take 8 containerID, nt_Image = img,
                               nt_Spec = process_opts img a @ (if mounts = [] then [] else [WithMounts mounts]) @
                                 namespace_opts a useHostNetwork df @ [WithHostname hostname],
                               nt_Labels = [(''nerdctl/namespace'', cc_Namespace c), (''nerdctl/name'', displayName),
                                 (''nerdctl/extraHosts'', ''[]''), (''nerdctl/hostname'', hostname),
                                 (''nerdctl/log-uri'', ''json-file://'' @ logFile),
                                 (''nerdctl/state-dir'', containerLogDir dataStore (cc_Namespace c) containerID)]\<rparr>
                     in case cl_NewContainer L nc w3 of
                          (Some e, w4) \<Rightarrow> (Inl e, w4)
                        | (None, w4) \<Rightarrow> (Inr (containerID, hostname), w4)))))"

text \<open>The rest of \<open>Execute\<close> once the task exists: the network, the start and the end of the task.\<close>

definition run_task :: "'w ctd_lib \<Rightarrow> string \<Rightarrow> 'w \<Rightarrow> gerr option \<times> 'w" where
  "run_task L containerID w =
     (case cl_Wait L w of
        (Some e, w1) \<Rightarrow> (Some (errorf ''error waiting on task: '' e), w1)
      | (None, w1) \<Rightarrow>
          (case cl_Start L w1 of
             (Some e, w2) \<Rightarrow> (Some (errorf ''error starting task: '' e), snd (cl_DeleteTask L containerID w2))
           | (None, w2) \<Rightarrow>
               (case cl_Select L w2 of
                  (TaskExited code err, w3) \<Rightarrow>
                    (if code = 0 then None
                     else Some (let t = ''task exited with non-zero code: '' @ string_of_nat code @ '', error: '' in
                                case err of Some e \<Rightarrow> errorf t e | None \<Rightarrow> NewError (t @ ''%!w(<nil>)'')), w3)
                | (TaskCtxDone e, w3) \<Rightarrow>
                    (Some (errorf ''context cancelled while waiting for task: '' e), cl_Drain L (snd (cl_Kill L w3))))))"

definition run_networked :: "'w ctd_lib \<Rightarrow> ctd_Config \<Rightarrow> string \<Rightarrow> bool \<Rightarrow> nat \<Rightarrow> 'w \<Rightarrow> gerr option \<times> 'w" where
  "run_networked L c containerID useHostNetwork pid w =
     (if \<not> useHostNetwork \<and> cc_CNI c then
        (let netns = ''/proc/'' @ string_of_nat pid @ ''/ns/net'' in
         case run_task L containerID (snd (cl_CNISetup L containerID netns w)) of
           (r, w1) \<Rightarrow> (r, snd (cl_CNIRemove L containerID netns w1)))
      else run_task L containerID w)"

text \<open>Deleting the task and closing the log, deferred once the task exists.\<close>

definition end_task :: "'w ctd_lib \<Rightarrow> string \<Rightarrow> 'w \<Rightarrow> 'w" where
  "end_task L containerID w = snd (cl_CloseLog L (snd (cl_DeleteTask L containerID w)))"

definition run_logged :: "'w ctd_lib \<Rightarrow> ctd_Config \<Rightarrow> string \<Rightarrow> bool \<Rightarrow> 'w \<Rightarrow> gerr option \<times> 'w" where
  "run_logged L c containerID useHostNetwork w =
     (case cl_NewTask L containerID w of
        (Inl e, w1) \<Rightarrow> (Some (errorf ''error creating task: '' e), snd (cl_CloseLog L w1))
      | (Inr pid, w1) \<Rightarrow>
          (case run_networked L c containerID useHostNetwork pid w1 of (r, w2) \<Rightarrow> (r, end_task L containerID w2)))"

text \<open>From the new container to the end; the container and its log directory go on success and
  stay for inspection otherwise.\<close>

definition run_container :: "'w ctd_lib \<Rightarrow> ctd_Config \<Rightarrow> string \<Rightarrow> string \<Rightarrow> bool \<Rightarrow> 'w \<Rightarrow> gerr option \<times> 'w" where
  "run_container L c dataStore containerID useHostNetwork w =
     (let logDir = containerLogDir dataStore (cc_Namespace c) containerID in
      case writeLogConfig (fs_lib.truncate L) logDir (cc_SocketPath c) w of
        (Some e, w1) \<Rightarrow> (Some (errorf ''failed to write log-config.json: '' e), w1)
      | (None, w1) \<Rightarrow>
          (case cl_OpenLog L (containerLogFile dataStore (cc_Namespace c) containerID) w1 of
             (Some e, w2) \<Rightarrow> (Some (errorf ''failed to open container log file: '' e), w2)
           | (None, w2) \<Rightarrow>
               (case run_logged L c containerID useHostNetwork w2 of
                  (None, w3) \<Rightarrow> (None, snd (fs_RemoveAll L logDir w3))
                | (Some e, w3) \<Rightarrow> (Some e, w3))))"

definition with_container :: "'w ctd_lib \<Rightarrow> ctd_Config \<Rightarrow> string \<Rightarrow> spec_Action \<Rightarrow> dnsFiles \<Rightarrow> 'w \<Rightarrow> gerr option \<times> 'w" where
  "with_container L c img a df w =
     (let useHostNetwork = (sn_Network (sa_Namespaces a) = ''host'') in
      case dataStoreDir (fs_lib.truncate L) (cc_DataRoot c) (cc_SocketPath c) w of
        (Inl e, w1) \<Rightarrow> (Some (errorf ''failed to compute data store: '' e), w1)
      | (Inr dataStore, w1) \<Rightarrow>
          (case createContainer L c img a useHostNetwork df dataStore w1 of
             (Inl e, w2) \<Rightarrow> (Some (errorf ''error creating container: '' e), w2)
           | (Inr (containerID, hostname), w2) \<Rightarrow>
               (case run_container L c dataStore containerID useHostNetwork
                       (snd (setHostname (fs_lib.truncate L) df hostname useHostNetwork w2)) of
                  (None, w3) \<Rightarrow> (None, snd (cl_DeleteContainer L containerID w3))
                | (Some e, w3) \<Rightarrow> (Some e, w3))))"

definition get_image :: "'w ctd_lib \<Rightarrow> string \<Rightarrow> 'w \<Rightarrow> (gerr + string) \<times> 'w" where
  "get_image L image0 w =
     (let imageName = (case cl_Resolve L image0 of Some n \<Rightarrow> n | None \<Rightarrow> image0) in
      case cl_GetImage L imageName w of
        (Inr img, w1) \<Rightarrow> (Inr img, w1)
      | (Inl e, w1) \<Rightarrow> cl_Retry L (\<lambda>w. wrap_sum ''error pulling image: '' (cl_Pull L imageName w)) w1)"

definition containerd_Execute :: "'w ctd_lib \<Rightarrow> ctd_Config \<Rightarrow> spec_Action \<Rightarrow> 'w \<Rightarrow> gerr option \<times> 'w" where
  "containerd_Execute L c a w =
     (case get_image L (sa_Image a) w of
        (Inl e, w1) \<Rightarrow> (Some e, w1)
      | (Inr img, w1) \<Rightarrow>
          (case prepareDNSFiles (fs_lib.truncate L) (sn_Network (sa_Namespaces a) = ''host'') w1 of
             (Inl e, w2) \<Rightarrow> (Some (errorf ''failed to build DNS files: '' e), w2)
           | (Inr df, w2) \<Rightarrow>
               (case with_container L c img a df w2 of
                  (r, w3) \<Rightarrow> (r, snd (dns_cleanup (fs_lib.truncate L) df w3)))))"


section \<open>Docker\<close>

record docker_create =
  dc_Image :: string
  dc_Env :: "string list"
  dc_Entrypoint :: "string list"
  dc_Cmd :: "string list"
  dc_Binds :: "string list"
  dc_Privileged :: bool
  dc_PidMode :: string
  dc_NetworkMode :: string
  dc_Name :: string

datatype docker_end = ContainerExited int | WaitFailed gerr | CtxDone gerr

record 'w docker_lib =
  dk_ImageDomain :: "string \<Rightarrow> string option"                  \<comment> \<open>domain of a normalized reference\<close>
  dk_NFC :: "string \<Rightarrow> string"
  dk_EncodeAuth :: "gerr + string"
  dk_ImagePull :: "string \<Rightarrow> string \<Rightarrow> 'w \<Rightarrow> gerr option \<times> 'w"
  dk_ReadPull :: "'w \<Rightarrow> gerr option \<times> 'w"
  dk_ImageInspect :: "string \<Rightarrow> 'w \<Rightarrow> gerr option \<times> 'w"
  dk_Retry :: "('w \<Rightarrow> gerr option \<times> 'w) \<Rightarrow> 'w \<Rightarrow> gerr option \<times> 'w"
  dk_Create :: "docker_create \<Rightarrow> 'w \<Rightarrow> (gerr + string) \<times> 'w"
  dk_Remove :: "string \<Rightarrow> 'w \<Rightarrow> gerr option \<times> 'w"
  dk_Wait :: "string \<Rightarrow> 'w \<Rightarrow> 'w"
  dk_Start :: "string \<Rightarrow> 'w \<Rightarrow> gerr option \<times> 'w"
  dk_Attach :: "string \<Rightarrow> 'w \<Rightarrow> gerr option \<times> 'w"
  dk_CloseAttach :: "'w \<Rightarrow> 'w"
  dk_Select :: "'w \<Rightarrow> docker_end \<times> 'w"
  dk_Stop :: "string \<Rightarrow> 'w \<Rightarrow> gerr option \<times> 'w"

definition useAuth :: "'w docker_lib \<Rightarrow> string \<Rightarrow> string \<Rightarrow> bool" where
  "useAuth L imageRef registryHost =
     (if registryHost = [] then False
      else (case dk_ImageDomain L imageRef of
              None \<Rightarrow> False
            | Some imageHost \<Rightarrow> dk_NFC L imageHost = dk_NFC L registryHost))"

text \<open>\<open>registry\<close> is the server address of the configured credentials.\<close>

definition pullImage :: "'w docker_lib \<Rightarrow> string option \<Rightarrow> string \<Rightarrow> 'w \<Rightarrow> gerr option \<times> 'w" where
  "pullImage L registry imageRef w =
     (case (case registry of
              Some host \<Rightarrow> if useAuth L imageRef host then dk_EncodeAuth L else Inr []
            | None \<Rightarrow> Inr []) of
        Inl e \<Rightarrow> (Some (errorf ''unable to encode auth config: '' e), w)
      | Inr auth \<Rightarrow>
          (case dk_ImagePull L imageRef auth w of
             (Some e, w1) \<Rightarrow>
               (case dk_ImageInspect L imageRef w1 of
                  (None, w2) \<Rightarrow> (None, w2)
                | (Some e', w2) \<Rightarrow> (Some (errorf ''docker: '' e), w2))
           | (None, w1) \<Rightarrow> wrap_opt ''docker: '' (dk_ReadPull L w1)))"

definition docker_config :: "spec_Action \<Rightarrow> docker_create" where
  "docker_config a =
     \<lparr>dc_Image = sa_Image a, dc_Env = ParseEnv (sa_Env a), dc_Entrypoint = (if sa_Cmd a = [] then [] else [sa_Cmd a]),
      dc_Cmd = sa_Args a, dc_Binds = sa_Volumes a, dc_Privileged = True, dc_PidMode = sn_PID (sa_Namespaces a),
      dc_NetworkMode = sn_Network (sa_Namespaces a), dc_Name = ParseName (sa_ID a) (sa_Name a)\<rparr>"

definition docker_run :: "'w docker_lib \<Rightarrow> string \<Rightarrow> 'w \<Rightarrow> gerr option \<times> 'w" where
  "docker_run L i w =
     (case dk_Start L i (dk_Wait L i w) of
        (Some e, w1) \<Rightarrow> (Some (errorf ''error starting container: '' e), w1)
      | (None, w1) \<Rightarrow>
          (case dk_Attach L i w1 of
             (Some e, w2) \<Rightarrow> (Some (errorf ''error attaching to container: '' e), w2)
           | (None, w2) \<Rightarrow>
               (case dk_Select L w2 of
                  (ContainerExited code, w3) \<Rightarrow>
                    (if code = 0 then None else Some (NewError ''got non 0 exit status, see the logs for more information''),
                     dk_CloseAttach L w3)
                | (WaitFailed e, w3) \<Rightarrow> (Some (errorf ''error while waiting for container: '' e), dk_CloseAttach L w3)
                | (CtxDone e, w3) \<Rightarrow> (Some (errorf ''context error: '' e), dk_CloseAttach L (snd (dk_Stop L i w3))))))"

definition docker_Execute :: "'w docker_lib \<Rightarrow> string option \<Rightarrow> spec_Action \<Rightarrow> 'w \<Rightarrow> gerr option \<times> 'w" where
  "docker_Execute L registry a w =
     (case dk_Retry L (pullImage L registry (sa_Image a)) w of
        (Some e, w1) \<Rightarrow> (Some e, w1)
      | (None, w1) \<Rightarrow>
          (case dk_Create L (docker_config a) w1 of
             (Inl e, w2) \<Rightarrow> (Some (errorf ''error creating container: '' e), w2)
           | (Inr i, w2) \<Rightarrow> (case docker_run L i w2 of (r, w3) \<Rightarrow> (r, snd (dk_Remove L i w3)))))"


section \<open>Kubernetes\<close>

record k8s_Job =
  kj_Name :: string
  kj_Namespace :: string
  kj_Labels :: "(string \<times> string) list"
  kj_BackoffLimit :: int
  kj_ActiveDeadlineSeconds :: "int option"
  kj_Image :: string
  kj_Env :: "(string \<times> string) list"
  kj_Command :: "string list"
  kj_Args :: "string list"
  kj_ServiceAccountName :: string
  kj_AutomountToken :: bool

record terminated =
  tm_ExitCode :: int
  tm_Reason :: string

datatype pod_phase = PodPending | PodRunning | PodSucceeded | PodFailed | PodUnknown

record Pod =
  pod_Name :: string
  pod_Phase :: pod_phase
  pod_Statuses :: "(string \<times> terminated option) list"    \<comment> \<open>container name and its state if terminated\<close>

text \<open>What the select of the watch loop takes: the end of the context, the end of the channel, an
  error event, an object that is not a pod, or a pod.\<close>

datatype watch_event = WatchCtxDone gerr | WatchClosed | WatchError | WatchOther | WatchPod Pod

record 'w k8s_lib =
  kb_CreateJob :: "k8s_Job \<Rightarrow> 'w \<Rightarrow> (gerr + k8s_Job) \<times> 'w"
  kb_GetJob :: "string \<Rightarrow> 'w \<Rightarrow> (gerr + k8s_Job) \<times> 'w"
  kb_DeleteJob :: "string \<Rightarrow> 'w \<Rightarrow> gerr option \<times> 'w"
  kb_Poll :: "('w \<Rightarrow> (gerr + bool) \<times> 'w) \<Rightarrow> 'w \<Rightarrow> gerr option \<times> 'w"
  kb_ListPods :: "string \<Rightarrow> 'w \<Rightarrow> (gerr + Pod list \<times> string) \<times> 'w"
  kb_Watch :: "string \<Rightarrow> string \<Rightarrow> 'w \<Rightarrow> gerr option \<times> 'w"
  kb_NextEvent :: "'w \<Rightarrow> watch_event \<times> 'w"
  kb_StopWatch :: "'w \<Rightarrow> 'w"
  kb_Backoff :: "'w \<Rightarrow> gerr option \<times> 'w"                     \<comment> \<open>the pause, or the end of the context\<close>
  kb_StreamLogs :: "string \<Rightarrow> 'w \<Rightarrow> 'w"
  kb_phase_text :: "pod_phase \<Rightarrow> string"

record k8s_Config =
  kc_Namespace :: string
  kc_ServiceAccountName :: string

definition actionIDLabel :: string where
  "actionIDLabel = ''tinkerbell.org/action-id''"

definition pod_selector :: "string \<Rightarrow> string" where
  "pod_selector actionID = actionIDLabel @ ''='' @ actionID"

definition actionContainerName :: string where
  "actionContainerName = ''action''"

definition convEnv :: "spec_Env list \<Rightarrow> (string \<times> string) list" where
  "convEnv envs = map (\<lambda>e. (se_Key e, se_Value e)) envs"

definition activeDeadlineSeconds :: "spec_Action \<Rightarrow> int option" where
  "activeDeadlineSeconds a = (if sa_TimeoutSeconds a \<le> 0 then None else Some (sa_TimeoutSeconds a))"

definition job_char :: "char \<Rightarrow> bool" where
  "job_char c \<longleftrightarrow> is_lower c \<or> is_digit c \<or> c = CHR ''-''"

text \<open>\<open>strings.ToLower\<close> has lowered the ASCII letters; of the other characters only the Kelvin sign
  and the capital I with a dot become ASCII letters, so each of the rest, of whatever length,
  becomes one hyphen.\<close>

definition job_rune :: "string \<Rightarrow> char" where
  "job_rune s =
     (if has_prefix [CHR 0xE2, CHR 0x84, CHR 0xAA] s then CHR ''k''
      else if has_prefix [CHR 0xC4, CHR 0xB0] s then CHR ''i''
      else CHR ''-'')"

function replace_job_chars :: "string \<Rightarrow> string" where
  "replace_job_chars s =
     (case s of
        [] \<Rightarrow> []
      | c # s' \<Rightarrow>
          if job_char c then c # replace_job_chars s'
          else job_rune s # replace_job_chars (drop (if c < CHR 0x80 then 1 else max 1 (rune_len s)) s))"
  by pat_completeness auto

termination
  by (relation "measure length") auto

declare replace_job_chars.simps [simp del]

definition jobName :: "string \<Rightarrow> string \<Rightarrow> string" where
  "jobName actionID name =
     (let b1 = trim_hyphens (replace_job_chars (to_lower (''tinkerbell-'' @ name @ ''-'' @ actionID)));
          b2 = (if 63 < length b1 then trim_hyphens (take 63 b1) else b1)
      in if b2 = [] then ''tinkerbell-action'' else b2)"

definition jobFor :: "k8s_Config \<Rightarrow> spec_Action \<Rightarrow> gerr + k8s_Job" where
  "jobFor c a =
     (if sn_PID (sa_Namespaces a) \<noteq> [] \<or> sn_Network (sa_Namespaces a) \<noteq> [] then
        Inl (NewError ''kubernetes runtime: host PID/network namespaces are not supported'')
      else if sa_Volumes a \<noteq> [] then Inl (NewError ''kubernetes runtime: volumes are not supported'')
      else Inr \<lparr>kj_Name = jobName (sa_ID a) (sa_Name a), kj_Namespace = kc_Namespace c,
                kj_Labels = [(actionIDLabel, sa_ID a)], kj_BackoffLimit = 0,
                kj_ActiveDeadlineSeconds = activeDeadlineSeconds a, kj_Image = sa_Image a, kj_Env = convEnv (sa_Env a),
                kj_Command = (if sa_Cmd a \<noteq> [] then [sa_Cmd a] else []), kj_Args = sa_Args a,
                kj_ServiceAccountName = kc_ServiceAccountName c, kj_AutomountToken = False\<rparr>)"

definition adoptExistingJob :: "'w k8s_lib \<Rightarrow> string \<Rightarrow> string \<Rightarrow> gerr \<Rightarrow> 'w \<Rightarrow> (gerr + k8s_Job) \<times> 'w" where
  "adoptExistingJob L name actionID createErr w =
     (case kb_GetJob L name w of
        (Inl e, w1) \<Rightarrow> (Inl createErr, w1)
      | (Inr existing, w1) \<Rightarrow>
          if (case map_of (kj_Labels existing) actionIDLabel of None \<Rightarrow> [] | Some v \<Rightarrow> v) \<noteq> actionID then (Inl createErr, w1)
          else (Inr existing, w1))"

definition job_gone :: "'w k8s_lib \<Rightarrow> string \<Rightarrow> 'w \<Rightarrow> (gerr + bool) \<times> 'w" where
  "job_gone L name w =
     (case kb_GetJob L name w of
        (Inr j, w1) \<Rightarrow> (Inr False, w1)
      | (Inl e, w1) \<Rightarrow> if IsNotFound e then (Inr True, w1) else (Inl e, w1))"

definition deleteJob :: "'w k8s_lib \<Rightarrow> string \<Rightarrow> 'w \<Rightarrow> 'w" where
  "deleteJob L name w =
     (case kb_DeleteJob L name w of
        (Some e, w1) \<Rightarrow> if \<not> IsNotFound e then w1 else snd (kb_Poll L (job_gone L name) w1)
      | (None, w1) \<Rightarrow> snd (kb_Poll L (job_gone L name) w1))"

fun actionContainerStatus :: "(string \<times> terminated option) list \<Rightarrow> terminated option" where
  "actionContainerStatus [] = None"
| "actionContainerStatus ((n, t) # cs) = (if n = actionContainerName then t else actionContainerStatus cs)"

definition podTerminated :: "Pod \<Rightarrow> bool" where
  "podTerminated pod \<longleftrightarrow>
     pod_Phase pod = PodFailed \<or> pod_Phase pod = PodSucceeded \<or> actionContainerStatus (pod_Statuses pod) \<noteq> None"

definition exitError :: "'w k8s_lib \<Rightarrow> Pod \<Rightarrow> gerr option" where
  "exitError L pod =
     (case actionContainerStatus (pod_Statuses pod) of
        Some t \<Rightarrow>
          if tm_ExitCode t = 0 then None
          else Some (NewError (''kubernetes: container exited '' @ string_of_int (tm_ExitCode t) @ '': '' @ tm_Reason t))
      | None \<Rightarrow>
          Some (NewError (''kubernetes: pod '' @ pod_Name pod @ '' ended in phase '' @ kb_phase_text L (pod_Phase pod) @
            '' with no terminated container status'')))"

text \<open>The loops may run for ever: not returning is \<open>None\<close>. A watch ends with a pod, with \<open>Inr None\<close>
  when it has to be established again, or with an error.\<close>

partial_function (option) watch_loop :: "'w k8s_lib \<Rightarrow> 'w \<Rightarrow> ((gerr + Pod option) \<times> 'w) option" where
  "watch_loop L w =
     (case kb_NextEvent L w of
        (WatchCtxDone e, w1) \<Rightarrow> Some (Inl e, w1)
      | (WatchClosed, w1) \<Rightarrow> Some (Inr None, w1)
      | (WatchError, w1) \<Rightarrow> Some (Inr None, w1)
      | (WatchOther, w1) \<Rightarrow> watch_loop L w1
      | (WatchPod pod, w1) \<Rightarrow> if podTerminated pod then Some (Inr (Some pod), w1) else watch_loop L w1)"

definition watchForTerminatedPod ::
  "'w k8s_lib \<Rightarrow> string \<Rightarrow> string \<Rightarrow> 'w \<Rightarrow> ((gerr + Pod option) \<times> 'w) option" where
  "watchForTerminatedPod L selector rv w =
     (case kb_Watch L selector rv w of
        (Some e, w1) \<Rightarrow> Some (Inl (errorf ''kubernetes: watching pods: '' e), w1)
      | (None, w1) \<Rightarrow> map_option (\<lambda>(r, w2). (r, kb_StopWatch L w2)) (watch_loop L w1))"

partial_function (option) waitForPod :: "'w k8s_lib \<Rightarrow> string \<Rightarrow> 'w \<Rightarrow> ((gerr + Pod) \<times> 'w) option" where
  "waitForPod L actionID w =
     (case kb_ListPods L (pod_selector actionID) w of
        (Inl e, w1) \<Rightarrow> Some (Inl (errorf ''kubernetes: listing pods: '' e), w1)
      | (Inr (items, rv), w1) \<Rightarrow>
          (case find podTerminated items of
             Some pod \<Rightarrow> Some (Inr pod, w1)
           | None \<Rightarrow>
               Option.bind (watchForTerminatedPod L (pod_selector actionID) rv w1)
                 (\<lambda>r. case r of
                    (Inl e, w2) \<Rightarrow> Some (Inl e, w2)
                  | (Inr (Some pod), w2) \<Rightarrow> Some (Inr pod, w2)
                  | (Inr None, w2) \<Rightarrow>
                      (case kb_Backoff L w2 of
                         (Some e, w3) \<Rightarrow> Some (Inl e, w3)
                       | (None, w3) \<Rightarrow> waitForPod L actionID w3))))"

definition create_or_adopt :: "'w k8s_lib \<Rightarrow> k8s_Job \<Rightarrow> string \<Rightarrow> 'w \<Rightarrow> (gerr + k8s_Job) \<times> 'w" where
  "create_or_adopt L job actionID w =
     (case kb_CreateJob L job w of
        (Inr j, w1) \<Rightarrow> (Inr j, w1)
      | (Inl e, w1) \<Rightarrow>
          if IsAlreadyExists e then adoptExistingJob L (kj_Name job) actionID e w1 else (Inl e, w1))"

definition kubernetes_Execute :: "'w k8s_lib \<Rightarrow> k8s_Config \<Rightarrow> spec_Action \<Rightarrow> 'w \<Rightarrow> (gerr option \<times> 'w) option" where
  "kubernetes_Execute L c a w =
     (case jobFor c a of
        Inl e \<Rightarrow> Some (Some e, w)
      | Inr job \<Rightarrow>
          (case create_or_adopt L job (sa_ID a) w of
             (Inl e, w1) \<Rightarrow> Some (Some (errorf ''kubernetes: creating job: '' e), w1)
           | (Inr created, w1) \<Rightarrow>
               map_option (\<lambda>(r, w2).
                   (case r of
                      Inl e \<Rightarrow> (Some e, deleteJob L (kj_Name created) w2)
                    | Inr pod \<Rightarrow> (exitError L pod, deleteJob L (kj_Name created) (kb_StreamLogs L (pod_Name pod) w2))))
                 (waitForPod L (sa_ID a) w1)))"

end
