(* ===== verification/Agent_Runtime_Props.thy ===== *)
theory Agent_Runtime_Props
  imports Agent_Runtime
begin

text \<open>
  What the runtimes guarantee: an action succeeds only when its own container has exited with
  zero, and what was created for it is removed again, or kept where the source keeps it for
  inspection.
\<close>


section \<open>DNS files\<close>

text \<open>A container in a network of its own gets the nameservers of the host that are not on its
  loopback interface, which it could not reach, or the public ones if there are none.\<close>

lemma buildResolvConf_isolated:
  "\<exists>w1 ns search opts. buildResolvConf L dst False w = fs_WriteFile L dst (resolv_text (ns, search, opts)) w1 \<and>
    (ns = fallbackNameservers \<or> ns \<noteq> [] \<and> (\<forall>n \<in> set ns. \<not> isLocalhost n))"
proof -
  obtain h w1 where h: "buildResolvConf L dst False w = (case fs_ReadFile L h w1 of
      (Inl e, w2) \<Rightarrow> writeResolvConf L dst (fallbackNameservers, [], []) w2
    | (Inr content, w2) \<Rightarrow> (case parseResolvConf content of (ns, search, opts) \<Rightarrow>
        writeResolvConf L dst (reachable_nameservers ns, search, opts) w2))"
    unfolding buildResolvConf_def if_False case_prod_beta by blast
  have ok: "reachable_nameservers ns = fallbackNameservers \<or>
      reachable_nameservers ns \<noteq> [] \<and> (\<forall>n \<in> set (reachable_nameservers ns). \<not> isLocalhost n)" for ns
    by (simp add: reachable_nameservers_def Let_def)
  obtain r w2 where r: "fs_ReadFile L h w1 = (r, w2)" by fastforce
  show ?thesis
  proof (cases r)
    case (Inl e)
    then show ?thesis unfolding h r writeResolvConf_def by auto
  next
    case (Inr content)
    obtain ns search opts where "parseResolvConf content = (ns, search, opts)" by (metis prod_cases3)
    then have "buildResolvConf L dst False w = fs_WriteFile L dst (resolv_text (reachable_nameservers ns, search, opts)) w2"
      using Inr by (simp add: h r writeResolvConf_def)
    with ok [of ns] show ?thesis by blast
  qed
qed


section \<open>Docker\<close>

text \<open>A container that was created is removed at the end, whatever happened, and an action succeeds
  only when its container has exited with 0.\<close>

lemma docker_Execute_outcome:
  assumes "docker_Execute L registry a w = (r, w')"
  shows "(dk_Retry L (pullImage L registry (sa_Image a)) w = (r, w') \<and> r \<noteq> None) \<or>
    (\<exists>w1 e. dk_Create L (docker_config a) w1 = (Inl e, w') \<and> r \<noteq> None) \<or>
    (\<exists>w1 i w2 w3. dk_Create L (docker_config a) w1 = (Inr i, w2) \<and> docker_run L i w2 = (r, w3) \<and> w' = snd (dk_Remove L i w3))"
proof -
  obtain p w1 where p: "dk_Retry L (pullImage L registry (sa_Image a)) w = (p, w1)" by fastforce
  obtain q w2 where q: "dk_Create L (docker_config a) w1 = (q, w2)" by fastforce
  show ?thesis
  proof (cases p)
    case (Some e)
    then show ?thesis using assms p by (auto simp: docker_Execute_def)
  next
    case None
    show ?thesis
    proof (cases q)
      case (Inl e)
      with None q show ?thesis using assms p by (auto simp: docker_Execute_def)
    next
      case (Inr i)
      obtain r' w3 where run: "docker_run L i w2 = (r', w3)" by fastforce
      then have "r = r'" "w' = snd (dk_Remove L i w3)" using assms p None q Inr by (simp_all add: docker_Execute_def)
      with q Inr run show ?thesis by blast
    qed
  qed
qed

lemma docker_run_success:
  assumes "docker_run L i w = (None, w')"
  shows "\<exists>w1 w2. dk_Select L w1 = (ContainerExited 0, w2) \<and> w' = dk_CloseAttach L w2"
proof -
  obtain s w1 where s: "dk_Start L i (dk_Wait L i w) = (s, w1)" by fastforce
  obtain t w2 where t: "dk_Attach L i w1 = (t, w2)" by fastforce
  obtain d w3 where d: "dk_Select L w2 = (d, w3)" by fastforce
  have "s = None" using assms s by (cases s) (simp_all add: docker_run_def)
  moreover from this have "t = None" using assms s t by (cases t) (simp_all add: docker_run_def)
  ultimately show ?thesis using assms s t d by (cases d) (auto simp: docker_run_def split: if_splits)
qed


section \<open>Kubernetes\<close>

text \<open>A job name is a DNS label.\<close>

lemma job_char_rune: "job_char (job_rune s)"
  by (simp add: job_rune_def job_char_def is_lower_def)

lemma replace_job_chars_ok: "\<forall>c \<in> set (replace_job_chars s). job_char c"
proof (induction s rule: replace_job_chars.induct)
  case (1 s)
  show ?case
  proof (cases s)
    case Nil
    then show ?thesis by (simp add: replace_job_chars.simps [of "[]"])
  next
    case (Cons c s')
    show ?thesis
      unfolding replace_job_chars.simps [of s] using 1(1) [OF Cons] 1(2) [OF Cons] job_char_rune Cons
      by (cases "job_char c") simp_all
  qed
qed

lemma set_trim_hyphens: "set (trim_hyphens s) \<subseteq> set s"
  unfolding trim_hyphens_def by (auto dest!: set_dropWhileD)

lemma trim_hyphens_ends:
  assumes "trim_hyphens s \<noteq> []"
  shows "hd (trim_hyphens s) \<noteq> hyphen" "last (trim_hyphens s) \<noteq> hyphen"
proof -
  define t where "t = dropWhile (\<lambda>c. c = hyphen) s"
  define d where "d = dropWhile (\<lambda>c. c = hyphen) (rev t)"
  have d: "trim_hyphens s = rev d" by (simp add: trim_hyphens_def d_def t_def)
  with assms have ne: "d \<noteq> []" by simp
  show "last (trim_hyphens s) \<noteq> hyphen"
    using hd_dropWhile [of "\<lambda>c. c = hyphen" "rev t"] ne unfolding d d_def [symmetric] by (simp add: last_rev)
  obtain p where "rev t = p @ d" unfolding d_def by (metis takeWhile_dropWhile_id)
  then have t: "t = rev d @ rev p" by (metis rev_append rev_rev_ident)
  with ne have "t \<noteq> []" "hd t = hd (rev d)" by simp_all
  then show "hd (trim_hyphens s) \<noteq> hyphen"
    using hd_dropWhile [of "\<lambda>c. c = hyphen" s] unfolding d t_def [symmetric] by simp
qed

lemma length_trim_hyphens: "length (trim_hyphens s) \<le> length s"
  unfolding trim_hyphens_def length_rev by (rule le_trans [OF length_dropWhile_le]) (simp add: length_dropWhile_le)

lemma jobName_dns_label:
  "jobName i n \<noteq> [] \<and> length (jobName i n) \<le> 63 \<and> (\<forall>c \<in> set (jobName i n). job_char c) \<and>
    hd (jobName i n) \<noteq> CHR ''-'' \<and> last (jobName i n) \<noteq> CHR ''-''"
proof -
  define b0 where "b0 = replace_job_chars (to_lower (''tinkerbell-'' @ n @ ''-'' @ i))"
  define b1 where "b1 = trim_hyphens b0"
  define b2 where "b2 = (if 63 < length b1 then trim_hyphens (take 63 b1) else b1)"
  have j: "jobName i n = (if b2 = [] then ''tinkerbell-action'' else b2)"
    by (simp add: jobName_def b0_def b1_def b2_def Let_def)
  have "set b1 \<subseteq> set b0" unfolding b1_def by (rule set_trim_hyphens)
  moreover have "set b2 \<subseteq> set b1" using set_trim_hyphens [of "take 63 b1"] set_take_subset [of 63 b1] by (auto simp: b2_def)
  ultimately have chars: "\<forall>c \<in> set b2. job_char c" using replace_job_chars_ok unfolding b0_def by blast
  have len: "length b2 \<le> 63" using length_trim_hyphens [of "take 63 b1"] by (auto simp: b2_def)
  have ends: "b2 \<noteq> [] \<Longrightarrow> hd b2 \<noteq> CHR ''-'' \<and> last b2 \<noteq> CHR ''-''"
    using trim_hyphens_ends unfolding b2_def b1_def by (auto split: if_splits)
  show ?thesis
  proof (cases "b2 = []")
    case True
    then show ?thesis by (simp add: j job_char_def is_lower_def)
  next
    case False
    then show ?thesis unfolding j using chars len ends by simp
  qed
qed

text \<open>The context of an action has a deadline: only so many events are seen before the watch reports
  its end. \<open>left w\<close> bounds their number.\<close>

definition context_ends :: "'w k8s_lib \<Rightarrow> ('w \<Rightarrow> nat) \<Rightarrow> bool" where
  "context_ends L left \<longleftrightarrow>
     (\<forall>s w. left (snd (kb_ListPods L s w)) \<le> left w) \<and> (\<forall>s rv w. left (snd (kb_Watch L s rv w)) \<le> left w) \<and>
     (\<forall>w. left (kb_StopWatch L w) \<le> left w) \<and> (\<forall>w. left (snd (kb_Backoff L w)) \<le> left w) \<and>
     (\<forall>w. (\<exists>e. fst (kb_NextEvent L w) = WatchCtxDone e) \<or> left (snd (kb_NextEvent L w)) < left w)"

lemma context_endsD:
  assumes "context_ends L left"
  shows "kb_ListPods L s w = (l, w1) \<Longrightarrow> left w1 \<le> left w" "kb_Watch L s rv w = (e, w1) \<Longrightarrow> left w1 \<le> left w"
    "left (kb_StopWatch L w) \<le> left w" "kb_Backoff L w = (e, w1) \<Longrightarrow> left w1 \<le> left w"
    "kb_NextEvent L w = (ev, w1) \<Longrightarrow> (\<exists>err. ev = WatchCtxDone err) \<or> left w1 < left w"
  using assms unfolding context_ends_def by (metis fst_conv snd_conv)+

lemma watch_loop_returns:
  assumes "context_ends L left"
  shows "\<exists>y. watch_loop L w = Some y \<and> (fst y = Inr None \<longrightarrow> left (snd y) < left w)"
proof (induction "left w" arbitrary: w rule: less_induct)
  case less
  obtain ev w1 where ev: "kb_NextEvent L w = (ev, w1)" by fastforce
  from context_endsD(5) [OF assms ev] show ?case
  proof
    assume "\<exists>err. ev = WatchCtxDone err"
    then show ?thesis by (auto simp: watch_loop.simps [of L w] ev)
  next
    assume lt: "left w1 < left w"
    from less [OF lt] obtain r w2 where "watch_loop L w1 = Some (r, w2)" "r = Inr None \<longrightarrow> left w2 < left w1" by auto
    with lt show ?thesis by (cases ev) (auto simp: watch_loop.simps [of L w] ev)
  qed
qed

lemma watchForTerminatedPod_returns:
  assumes "context_ends L left"
  shows "\<exists>y. watchForTerminatedPod L s rv w = Some y \<and> (fst y = Inr None \<longrightarrow> left (snd y) < left w)"
proof -
  obtain e w1 where e: "kb_Watch L s rv w = (e, w1)" by fastforce
  obtain r w2 where "watch_loop L w1 = Some (r, w2)" "r = Inr None \<longrightarrow> left w2 < left w1"
    using watch_loop_returns [OF assms, of w1] by auto
  then show ?thesis
    using e context_endsD(2) [OF assms e] context_endsD(3) [OF assms, of w2]
    by (cases e) (auto simp: watchForTerminatedPod_def)
qed

lemma waitForPod_returns:
  assumes "context_ends L left"
  shows "\<exists>y. waitForPod L actionID w = Some y"
proof (induction "left w" arbitrary: w rule: less_induct)
  case less
  let ?s = "pod_selector actionID"
  obtain l w1 where l: "kb_ListPods L ?s w = (l, w1)" by fastforce
  show ?case
  proof (cases l)
    case (Inl e)
    then show ?thesis by (simp add: waitForPod.simps [of L actionID w] l)
  next
    case (Inr ir)
    obtain items rv where ir: "ir = (items, rv)" by fastforce
    obtain q w2 where w: "watchForTerminatedPod L ?s rv w1 = Some (q, w2)" "q = Inr None \<longrightarrow> left w2 < left w1"
      using watchForTerminatedPod_returns [OF assms, of ?s rv w1] by auto
    obtain b w3 where b: "kb_Backoff L w2 = (b, w3)" by fastforce
    note le = context_endsD(1) [OF assms l] context_endsD(4) [OF assms b]
    consider p where "find podTerminated items = Some p" | e where "q = Inl e" | pod where "q = Inr (Some pod)"
      | e where "q = Inr None" "b = Some e" | "q = Inr None" "b = None"
      by (metis obj_sumE option.exhaust)
    then show ?thesis
    proof cases
      case 5
      then have "left w3 < left w" using w(2) le by simp
      from less [OF this] 5 show ?thesis
        by (cases "find podTerminated items") (auto simp: waitForPod.simps [of L actionID w] l Inr ir w b)
    qed (cases "find podTerminated items"; simp add: waitForPod.simps [of L actionID w] l Inr ir w b)+
  qed
qed

text \<open>The pods the API server gives for a selector, from a list or a watch.\<close>

definition pods_from :: "'w k8s_lib \<Rightarrow> string \<Rightarrow> (Pod \<Rightarrow> bool) \<Rightarrow> bool" where
  "pods_from L selector P \<longleftrightarrow>
     (\<forall>w items rv w'. kb_ListPods L selector w = (Inr (items, rv), w') \<longrightarrow> (\<forall>p \<in> set items. P p)) \<and>
     (\<forall>w p w'. kb_NextEvent L w = (WatchPod p, w') \<longrightarrow> P p)"

lemma watch_loop_pod:
  assumes "watch_loop L w = Some y"
  shows "pods_from L selector P \<longrightarrow> fst y = Inr (Some pod) \<longrightarrow> podTerminated pod \<and> P pod"
proof (rule watch_loop.raw_induct [where P = "\<lambda>L w y. pods_from L selector P \<longrightarrow> fst y = Inr (Some pod) \<longrightarrow> podTerminated pod \<and> P pod", OF _ assms])
  fix f :: "'w k8s_lib \<Rightarrow> 'w \<Rightarrow> ((gerr + Pod option) \<times> 'w) option" and L w y
  assume 1: "\<And>L w y. f L w = Some y \<Longrightarrow> pods_from L selector P \<longrightarrow> fst y = Inr (Some pod) \<longrightarrow> podTerminated pod \<and> P pod"
    "(case kb_NextEvent L w of
        (WatchCtxDone e, w1) \<Rightarrow> Some (Inl e, w1)
      | (WatchClosed, w1) \<Rightarrow> Some (Inr None, w1)
      | (WatchError, w1) \<Rightarrow> Some (Inr None, w1)
      | (WatchOther, w1) \<Rightarrow> f L w1
      | (WatchPod pod, w1) \<Rightarrow> if podTerminated pod then Some (Inr (Some pod), w1) else f L w1) = Some y"
  obtain ev w1 where ev: "kb_NextEvent L w = (ev, w1)" by fastforce
  show "pods_from L selector P \<longrightarrow> fst y = Inr (Some pod) \<longrightarrow> podTerminated pod \<and> P pod"
  proof (cases ev)
    case (WatchPod p)
    have "pods_from L selector P \<Longrightarrow> P p" using ev unfolding WatchPod pods_from_def by blast
    with WatchPod show ?thesis using 1 ev by (cases "podTerminated p") auto
  qed (use 1 ev in auto)
qed

text \<open>What \<open>waitForPod\<close> does with the answer of a watch.\<close>

definition after_watch ::
  "('w k8s_lib \<Rightarrow> string \<Rightarrow> 'w \<Rightarrow> ((gerr + Pod) \<times> 'w) option) \<Rightarrow> 'w k8s_lib \<Rightarrow> string \<Rightarrow> (gerr + Pod option) \<times> 'w \<Rightarrow>
     ((gerr + Pod) \<times> 'w) option" where
  "after_watch f L actionID r =
     (case r of
        (Inl e, w2) \<Rightarrow> Some (Inl e, w2)
      | (Inr (Some pod), w2) \<Rightarrow> Some (Inr pod, w2)
      | (Inr None, w2) \<Rightarrow>
          (case kb_Backoff L w2 of
             (Some e, w3) \<Rightarrow> Some (Inl e, w3)
           | (None, w3) \<Rightarrow> f L actionID w3))"

lemma after_watch_pod:
  assumes "after_watch f L actionID r = Some y" and "fst y = Inr pod"
  shows "fst r = Inr (Some pod) \<or> (\<exists>w3. f L actionID w3 = Some y)"
proof (cases r)
  case (Pair q w2)
  show ?thesis
  proof (cases q)
    case (Inl e)
    then show ?thesis using assms Pair by (auto simp: after_watch_def)
  next
    case (Inr o1)
    show ?thesis
    proof (cases o1)
      case None
      obtain b w3 where "kb_Backoff L w2 = (b, w3)" by fastforce
      with None Inr Pair assms show ?thesis by (cases b) (auto simp: after_watch_def)
    next
      case (Some p)
      then show ?thesis using assms Pair Inr by (auto simp: after_watch_def)
    qed
  qed
qed

definition wait_body ::
  "('w k8s_lib \<Rightarrow> string \<Rightarrow> 'w \<Rightarrow> ((gerr + Pod) \<times> 'w) option) \<Rightarrow> 'w k8s_lib \<Rightarrow> string \<Rightarrow> 'w \<Rightarrow> ((gerr + Pod) \<times> 'w) option" where
  "wait_body f L actionID w =
     (case kb_ListPods L (pod_selector actionID) w of
        (Inl e, w1) \<Rightarrow> Some (Inl (errorf ''kubernetes: listing pods: '' e), w1)
      | (Inr (items, rv), w1) \<Rightarrow>
          (case find podTerminated items of
             Some pod \<Rightarrow> Some (Inr pod, w1)
           | None \<Rightarrow> Option.bind (watchForTerminatedPod L (pod_selector actionID) rv w1) (after_watch f L actionID)))"

lemma watchForTerminatedPod_pod:
  assumes "watchForTerminatedPod L s rv w = Some r" and "fst r = Inr (Some pod)" and "pods_from L s P"
  shows "podTerminated pod \<and> P pod"
proof -
  obtain e w1 where e: "kb_Watch L s rv w = (e, w1)" by fastforce
  have "e = None" using assms(1,2) e by (cases e) (auto simp: watchForTerminatedPod_def)
  then obtain z where z: "watch_loop L w1 = Some z" "r = (fst z, kb_StopWatch L (snd z))"
    using assms(1) e by (auto simp: watchForTerminatedPod_def case_prod_beta)
  then show ?thesis using watch_loop_pod [OF z(1), of s P pod] assms(2,3) by simp
qed

lemma wait_body_pod:
  assumes "wait_body f L actionID w = Some y" and "fst y = Inr pod" and pods: "pods_from L (pod_selector actionID) P"
  shows "podTerminated pod \<and> P pod \<or> (\<exists>w3. f L actionID w3 = Some y)"
proof -
  obtain l w1 where l: "kb_ListPods L (pod_selector actionID) w = (l, w1)" by fastforce
  obtain items rv where i: "l = Inr (items, rv)"
  proof (cases l)
    case (Inl e)
    then show thesis using assms(1,2) l by (auto simp: wait_body_def)
  qed (use that in fastforce)
  have items: "P p" if "p \<in> set items" for p using pods l that unfolding i pods_from_def by blast
  show ?thesis
  proof (cases "find podTerminated items")
    case (Some p)
    then have "p \<in> set items" "podTerminated p" by (auto simp: find_Some_iff)
    moreover have "p = pod" using assms(1,2) l i Some by (auto simp: wait_body_def)
    ultimately show ?thesis using items by blast
  next
    case None
    then obtain r where r: "watchForTerminatedPod L (pod_selector actionID) rv w1 = Some r" "after_watch f L actionID r = Some y"
      using assms(1) l i by (auto simp: wait_body_def bind_eq_Some_conv)
    from after_watch_pod [OF r(2) assms(2)] watchForTerminatedPod_pod [OF r(1) _ pods] show ?thesis by blast
  qed
qed

lemma waitForPod_pod:
  assumes "waitForPod L actionID w = Some y"
  shows "pods_from L (pod_selector actionID) P \<longrightarrow> fst y = Inr pod \<longrightarrow> podTerminated pod \<and> P pod"
proof (rule waitForPod.raw_induct [where P = "\<lambda>L actionID w y. pods_from L (pod_selector actionID) P \<longrightarrow>
    fst y = Inr pod \<longrightarrow> podTerminated pod \<and> P pod", OF _ assms], intro impI, goal_cases)
  case (1 f L actionID w y)
  have "wait_body f L actionID w = Some y" unfolding wait_body_def after_watch_def [abs_def] by (rule 1(2))
  from wait_body_pod [OF this 1(4,3)] 1(1,3,4) show ?case by blast
qed

lemma adoptExistingJob_own:
  assumes "adoptExistingJob L name actionID e w = (Inr j, w1)"
  shows "(case map_of (kj_Labels j) actionIDLabel of None \<Rightarrow> [] | Some v \<Rightarrow> v) = actionID"
proof (cases "kb_GetJob L name w")
  case (Pair r w2)
  then show ?thesis using assms unfolding adoptExistingJob_def by (cases r) (simp_all split: if_splits)
qed

lemma create_or_adopt_own:
  assumes "create_or_adopt L job actionID w = (Inr j, w1)"
  shows "(\<exists>w0. kb_CreateJob L job w = (Inr j, w0)) \<or>
    (case map_of (kj_Labels j) actionIDLabel of None \<Rightarrow> [] | Some v \<Rightarrow> v) = actionID"
proof (cases "kb_CreateJob L job w")
  case (Pair r w2)
  then show ?thesis
    using assms adoptExistingJob_own unfolding create_or_adopt_def by (cases r) (fastforce split: if_splits)+
qed

lemma exitError_None:
  assumes "exitError L pod = None"
  shows "\<exists>t. actionContainerStatus (pod_Statuses pod) = Some t \<and> tm_ExitCode t = 0"
  using assms unfolding exitError_def by (simp split: option.splits if_splits)


text \<open>A cluster with one finished pod.\<close>

definition ex_pod :: Pod where
  "ex_pod = \<lparr>pod_Name = ''p'', pod_Phase = PodSucceeded,
     pod_Statuses = [(''sidecar'', Some \<lparr>tm_ExitCode = 1, tm_Reason = []\<rparr>), (''action'', Some \<lparr>tm_ExitCode = 0, tm_Reason = []\<rparr>)]\<rparr>"

definition ex_cluster :: "string list k8s_lib" where
  "ex_cluster = \<lparr>kb_CreateJob = (\<lambda>j w. (Inr j, w @ [''create''])), kb_GetJob = (\<lambda>n w. (Inl (ApiError ReasonNotFound []), w)),
     kb_DeleteJob = (\<lambda>n w. (None, w @ [''delete''])), kb_Poll = (\<lambda>f w. (None, snd (f w))),
     kb_ListPods = (\<lambda>s w. (Inr ([ex_pod], []), w)), kb_Watch = (\<lambda>s rv w. (None, w)), kb_NextEvent = (\<lambda>w. (WatchCtxDone (NewError ''deadline''), w)),
     kb_StopWatch = id, kb_Backoff = (\<lambda>w. (None, w)), kb_StreamLogs = (\<lambda>n w. w @ [''logs'']), kb_phase_text = (\<lambda>p. [])\<rparr>"

definition ex_job_action :: spec_Action where
  "ex_job_action = \<lparr>sa_AgentID = [], sa_TaskID = [], sa_WorkflowID = [], sa_ID = ''id'', sa_Name = ''n'', sa_Image = ''img'', sa_Cmd = [],
     sa_Args = [], sa_Env = [], sa_Volumes = [], sa_Namespaces = \<lparr>sn_Network = [], sn_PID = []\<rparr>, sa_Retries = 0, sa_TimeoutSeconds = 0,
     sa_ExecutionStart = 0, sa_ExecutionStop = 0, sa_ExecutionDuration = []\<rparr>"


end
