(* ===== verification/Spec2Isabelle.thy ===== *)
theory Spec2Isabelle
  imports Controller_Props Kube_Name Json Backend Workflow_Run Rufio_Props Rufio_Inventory Smee_Props Smee_Iso
    Smee_Syslog_Props Smee_Ipxe_Props Http_Shared Flags Tootles_Props Agent_Log Agent_Runtime_Props
begin

text \<open>
  A verification development of Tinkerbell, the bare-metal provisioner. All paths below are under
  \<open>src\<close>.

  \<^bold>\<open>The program.\<close> A user stores \<open>Hardware\<close>, \<open>Template\<close> and \<open>Workflow\<close> objects. The workflow
  controller (\<open>tink/controller\<close>) renders the template, prepares the machine, follows the workflow and
  cleans up. It lets a machine boot from the network by setting \<open>AllowPXE\<close> on its \<open>Hardware\<close> and by
  creating BMC jobs, which Rufio (\<open>rufio\<close>) carries out task by task. Smee (\<open>smee\<close>) answers the DHCP
  and iPXE requests of the booting machine from its \<open>Hardware\<close> object, serves ISO images with patched
  kernel parameters and receives syslog messages. The agent (\<open>tink/agent\<close>) that then runs on the machine
  asks the Tink server (\<open>tink/server\<close>) for actions, runs each as a container and reports the outcome.
  Tootles (\<open>tootles\<close>) serves metadata to the installed machine. The services read their objects through
  the backends of \<open>pkg/backend\<close>.

  \<^bold>\<open>How code becomes definitions.\<close> A definition has the name of the Go function it translates, a record
  the fields of the Go struct, prefixed. A pointer is an option, a slice a list, a Go \<open>string\<close> a list of
  bytes (\<open>string\<close>), a byte slice of a packet or a file a list of 8-bit words, a \<open>uint32\<close> a 32-bit word;
  an integer for which the sources cannot overflow is an \<open>int\<close>. A Go map is a list of pairs or a
  function to options. An error is a value of \<open>gerr\<close>, which
  keeps what the sources ask of an error: its API reason, its gRPC code, what it wraps, and whether it
  stands for a panic. A function that may fail returns \<open>gerr + 'a\<close>; one that acts on the outside takes
  and returns a world \<open>'w\<close>.
  Code outside the repository is never made up: API clients, the BMC library, containers, the packet codec,
  template execution, YAML, image references, event patterns, retry loops, clocks and random numbers
  are operations of a record that the definitions take as an argument. What a theorem needs of them is
  a hypothesis in its statement, and its witness gives a concrete instance. The parts of the
  Go standard library that the sources call (\<open>strings\<close>, \<open>net\<close>, \<open>net/netip\<close>, \<open>net/url\<close>, \<open>path\<close>,
  \<open>encoding/json\<close>, \<open>hash/fnv\<close>, floating point numbers) are modelled.

  \<^bold>\<open>Shared theories.\<close>
  \<^item> \<open>Prelude\<close>: strings, errors, maps, numbers as text, and the lemmas on lists and words.
  \<^item> \<open>Net\<close>, \<open>Net_Text\<close>: parsing and printing of addresses, prefixes, hardware addresses and URLs.
  \<^item> \<open>Float64\<close>: double precision numbers with rounding to 53 bits.
  \<^item> \<open>Kube_Meta\<close>, \<open>Conditions\<close>: object metadata, reconcile results, and the locale \<open>condition_list\<close> with
    the contract of \<open>SetCondition\<close> and \<open>HasCondition\<close>.
  \<^item> \<open>Api_Bmc\<close>, \<open>Api_Hardware\<close>, \<open>Api_Workflow\<close>: the API types of \<open>api/v1alpha1\<close>. Jobs, tasks, machines and
    workflows interpret \<open>condition_list\<close>.
  \<^item> \<open>Attributes\<close>, \<open>Json\<close>: what an agent reports of its machine, in the three forms it travels in.
  \<^item> \<open>Backend\<close>: the filters and updates of \<open>pkg/backend\<close>. The locale \<open>single_lookup\<close> says that a lookup
    returns the only candidate or says why not; the file and the Kubernetes backend interpret it.
  \<^item> \<open>Http_Shared\<close>, \<open>Flags\<close>: \<open>pkg/xff\<close>, \<open>pkg/http\<close>, \<open>pkg/flag\<close> and \<open>pkg/journal\<close>.

  \<^bold>\<open>Component theories\<close> and what their lemmas show.
  \<^item> \<open>Template\<close> (\<open>tink/controller/internal/workflow\<close>, template files): rendering writes at most the byte
    limit, the validator accepts exactly the valid templates, and conversion to a status keeps order and
    gives fresh identifiers.
  \<^item> \<open>Controller_Job\<close>, \<open>Controller\<close>, \<open>Controller_Props\<close> (same directory, \<open>job.go\<close>, \<open>hardware.go\<close>, \<open>pre.go\<close>,
    \<open>post.go\<close>, \<open>reconciler.go\<close>): one step relates only the states the design allows, each boot mode
    does its work in order, the record of a boot job never runs ahead of the job, and the \<open>AllowPXE\<close> toggle
    survives write conflicts within its budget.
  \<^item> \<open>Kube_Name\<close>, \<open>Server\<close>, \<open>Server_Props\<close> (\<open>tink/server/internal/grpc\<close>): only the due action of the
    agent's own task is handed out, a report changes only the reported action, enrollment takes the
    best rule set, discovery creates an object once.
  \<^item> \<open>Agent\<close>, \<open>Agent_Props\<close> (\<open>tink/agent\<close>): order of reports, number of attempts, and the environment of a
    container. \<open>Agent_Log\<close> (\<open>internal/runtime/containerd/jsonlog.go\<close>): the log refines the text of each
    stream, stated over the locale \<open>log_file\<close>. \<open>Agent_Runtime\<close>, \<open>Agent_Runtime_Props\<close> (\<open>internal/runtime\<close>):
    the containerd, Docker and Kubernetes runtimes; a Job is always removed again, and success means that
    the container of the action itself exited with 0.
  \<^item> \<open>Workflow_Run\<close>: agent and server together finish every workflow, each action run once and in order.
  \<^item> \<open>Rufio_Device\<close>, \<open>Rufio\<close>, \<open>Rufio_Machine\<close>, \<open>Rufio_Inventory\<close>, \<open>Rufio_Props\<close> (\<open>rufio/internal/controller\<close>):
    the tasks of a job run one after the other under any interleaving of the reconcilers, as a step
    relation with an invariant; the window and the effect of an inventory refresh.
  \<^item> \<open>Smee_Data\<close>, \<open>Smee_Dhcp\<close>, \<open>Smee_Handler\<close>, \<open>Smee_Props\<close> (\<open>smee/internal/dhcp\<close>): the reservation of a
    client, what a reply contains, and that network boot follows the \<open>AllowPXE\<close> flag of the controller.
  \<^item> \<open>Smee_Ipxe\<close>, \<open>Smee_Ipxe_Props\<close> (\<open>smee/internal/ipxe\<close>): patching of binaries, routing, boot scripts.
  \<^item> \<open>Smee_Iso\<close> (\<open>smee/internal/iso\<close>): the served image is the source image with the placeholder replaced,
    and redirects end.
  \<^item> \<open>Smee_Syslog\<close>, \<open>Smee_Syslog_Props\<close> (\<open>smee/internal/syslog\<close>): the parser, and the goroutines of the
    receiver as a step relation in which every datagram is logged once.
  \<^item> \<open>Tootles\<close>, \<open>Tootles_Props\<close> (\<open>tootles\<close>): the tree of listings, and the answer of every endpoint. The locale
    \<open>instance_lookup\<close> extends \<open>single_lookup\<close>.

  \<^bold>\<open>Bounds.\<close> Recursion is structural or has a termination proof, except for the two loops that wait for a
  pod: these may run for ever and are partial functions, and \<open>context_ends\<close>, the deadline of the action,
  makes them return. The agent's endless loop is \<open>agent_run n\<close>, its first \<open>n\<close> iterations;
  \<open>workflow_completes\<close> says how many are enough. Redirects stop at the limit of ten in the source. The
  exponent of \<open>Float64\<close> is unbounded, as durations and their jitter are far from the limits of the format.

  \<^bold>\<open>Not modelled.\<close> Opening sockets and files, starting processes and HTTP servers, logging, metrics and
  traces, which do not affect results (among them the telemetry encoders of \<open>dhcp/otel\<close>); the wiring of the
  command line (\<open>cmd\<close>), the embedded API server (\<open>apiserver\<close>) and the CRD installation (\<open>crd\<close>); generated code;
  \<open>smee/internal/iso/internal/reverseproxy.go\<close>, a copy of the standard library's; the web interface
  (\<open>ui\<close>), which renders generated templates; SecondStar (\<open>secondstar\<close>), SSH sessions that pass bytes to
  \<open>ipmitool\<close>; the types of \<open>api/v1alpha2\<close>, which no component reads; and the NATS and file
  transports of the agent, which hand actions from one goroutine to another.
\<close>

end
